(* ===== verification/Auth_Prelude.thy ===== *)
theory Auth_Prelude imports Main "HOL-Library.Monad_Syntax" "HOL-Library.State_Monad" begin

text \<open>
  The vocabulary shared by every component theory.

  A Go method that touches state is a value of the library's state monad: it takes the
  world, returns its result and the new world. \<open>wp m Q s\<close> says that running \<open>m\<close> from \<open>s\<close>
  ends in a result and a world related by \<open>Q\<close>; the rules collected in \<open>wp_rules\<close> compute
  it over the program constructs, so that a proof about an operation is one call of the
  simplifier followed by the facts about the operations it calls. The collection
  \<open>io_defs\<close> holds the unfolding rules of small operations.

  Go's \<open>int64\<close> arithmetic is written out with \<open>i64\<close> and \<open>i32\<close>, the two's-complement
  truncations of \<open>int\<close>; a point in time is an \<open>int\<close> of nanoseconds since the Unix epoch and
  \<open>time_sub\<close> is \<open>time.Time.Sub\<close>, which saturates at the ends of \<open>time.Duration\<close>.
\<close>

named_theorems wp_rules \<open>weakest-precondition rules of the program constructs\<close>
named_theorems io_defs \<open>unfolding rules of small effectful operations\<close>

type_synonym ('w, 'a) io = "('w, 'a) state"

section \<open>A weakest-precondition calculus for the state monad\<close>

definition wp :: "('w, 'a) io \<Rightarrow> ('a \<Rightarrow> 'w \<Rightarrow> bool) \<Rightarrow> 'w \<Rightarrow> bool" where
  "wp m Q w = (case run_state m w of (a, w') \<Rightarrow> Q a w')"

lemma wp_iff: "wp m Q w \<longleftrightarrow> (\<forall>a w'. run_state m w = (a, w') \<longrightarrow> Q a w')"
  by (auto simp: wp_def split: prod.splits)

lemma wpI: "(\<And>a w'. run_state m w = (a, w') \<Longrightarrow> Q a w') \<Longrightarrow> wp m Q w"
  by (simp add: wp_iff)

lemma wpD: "wp m Q w \<Longrightarrow> run_state m w = (a, w') \<Longrightarrow> Q a w'"
  by (simp add: wp_iff)

lemma wp_mono: "wp m P w \<Longrightarrow> (\<And>a w'. P a w' \<Longrightarrow> Q a w') \<Longrightarrow> wp m Q w"
  by (simp add: wp_iff)

lemma wp_conj: "wp m P w \<Longrightarrow> wp m Q w \<Longrightarrow> wp m (\<lambda>a w'. P a w' \<and> Q a w') w"
  by (simp add: wp_iff)

lemma wp_return [wp_rules]: "wp (State_Monad.return a) Q = Q a"
  by (rule ext) (simp add: wp_def)

lemma wp_bind [wp_rules]: "wp (State_Monad.bind m f) Q = wp m (\<lambda>a. wp (f a) Q)"
  by (rule ext) (simp add: wp_def split: prod.splits)

lemma wp_get [wp_rules]: "wp State_Monad.get Q = (\<lambda>w. Q w w)"
  by (rule ext) (simp add: wp_def)

lemma wp_set [wp_rules]: "wp (State_Monad.set v) Q = (\<lambda>w. Q () v)"
  by (rule ext) (simp add: wp_def)

lemma wp_if [wp_rules]:
  "wp (if b then m else n) Q = (\<lambda>w. (b \<longrightarrow> wp m Q w) \<and> (\<not> b \<longrightarrow> wp n Q w))"
  by simp

lemma wp_case_option [wp_rules]:
  "wp (case x of None \<Rightarrow> m | Some y \<Rightarrow> f y) Q =
     (\<lambda>w. (x = None \<longrightarrow> wp m Q w) \<and> (\<forall>y. x = Some y \<longrightarrow> wp (f y) Q w))"
  by (cases x) simp_all

lemma wp_case_sum [wp_rules]:
  "wp (case x of Inl e \<Rightarrow> f e | Inr y \<Rightarrow> g y) Q =
     (\<lambda>w. (\<forall>e. x = Inl e \<longrightarrow> wp (f e) Q w) \<and> (\<forall>y. x = Inr y \<longrightarrow> wp (g y) Q w))"
  by (cases x) simp_all

lemma wp_case_prod [wp_rules]:
  "wp (case x of (a, b) \<Rightarrow> f a b) Q = wp (f (fst x) (snd x)) Q"
  by (cases x) simp

lemma wp_let [wp_rules]: "wp (let x = a in f x) Q = wp (f a) Q"
  by (simp add: Let_def)

lemma wp_any: "(\<And>a w'. Q a w') \<Longrightarrow> wp m Q w"
  by (simp add: wp_def split: prod.splits)

text \<open>
  The same rules for symbolic execution: \<open>intro wp_steps\<close> walks through a program and leaves one
  goal per path, with the branch conditions as premises.
\<close>

lemma wp_bindI: "wp m (\<lambda>a. wp (f a) Q) w \<Longrightarrow> wp (State_Monad.bind m f) Q w"
  by (simp add: wp_bind)

lemma wp_returnI: "Q a w \<Longrightarrow> wp (State_Monad.return a) Q w"
  by (simp add: wp_return)

lemma wp_ifI: "(b \<Longrightarrow> wp m Q w) \<Longrightarrow> (\<not> b \<Longrightarrow> wp n Q w) \<Longrightarrow> wp (if b then m else n) Q w"
  by simp

lemma wp_optionI:
  "(x = None \<Longrightarrow> wp m Q w) \<Longrightarrow> (\<And>y. x = Some y \<Longrightarrow> wp (f y) Q w) \<Longrightarrow> wp (case x of None \<Rightarrow> m | Some y \<Rightarrow> f y) Q w"
  by (cases x) simp_all

lemma wp_sumI:
  "(\<And>e. x = Inl e \<Longrightarrow> wp (f e) Q w) \<Longrightarrow> (\<And>y. x = Inr y \<Longrightarrow> wp (g y) Q w) \<Longrightarrow>
   wp (case x of Inl e \<Rightarrow> f e | Inr y \<Rightarrow> g y) Q w"
  by (cases x) simp_all

lemmas wp_steps = wp_bindI wp_returnI wp_ifI wp_optionI wp_sumI

lemma wp_True: "wp m (\<lambda>_ _. True) = (\<lambda>_. True)"
  by (rule ext) (simp add: wp_any)

text \<open>
  An invariant of an operation: \<open>keeps I m\<close> says that \<open>m\<close> never leaves \<open>I\<close>. The rules
  compose, so the invariant of a long handler follows from those of the calls it makes.
\<close>

definition keeps :: "('w \<Rightarrow> bool) \<Rightarrow> ('w, 'a) io \<Rightarrow> bool" where
  "keeps I m \<longleftrightarrow> (\<forall>w. I w \<longrightarrow> I (snd (run_state m w)))"

lemma keepsI: "(\<And>w. I w \<Longrightarrow> wp m (\<lambda>_. I) w) \<Longrightarrow> keeps I m"
  by (simp add: keeps_def wp_def case_prod_unfold)

lemma keepsD: "keeps I m \<Longrightarrow> I w \<Longrightarrow> wp m (\<lambda>_. I) w"
  by (simp add: keeps_def wp_def case_prod_unfold)

lemma keeps_run: "keeps I m \<Longrightarrow> I w \<Longrightarrow> run_state m w = (a, w') \<Longrightarrow> I w'"
  by (metis keeps_def snd_conv)

lemma keeps_wp: "keeps I m \<Longrightarrow> I w \<Longrightarrow> (\<And>a w'. I w' \<Longrightarrow> Q a w') \<Longrightarrow> wp m Q w"
  by (rule wp_mono, erule (1) keepsD) simp

lemma keeps_return [intro, simp]: "keeps I (State_Monad.return a)"
  by (simp add: keeps_def)

lemma keeps_bind [intro]:
  "keeps I m \<Longrightarrow> (\<And>a. keeps I (f a)) \<Longrightarrow> keeps I (State_Monad.bind m f)"
  by (simp add: keeps_def case_prod_unfold)

lemma keeps_if [intro]: "(b \<Longrightarrow> keeps I m) \<Longrightarrow> (\<not> b \<Longrightarrow> keeps I n) \<Longrightarrow> keeps I (if b then m else n)"
  by simp

lemma keeps_case_option [intro]:
  "keeps I m \<Longrightarrow> (\<And>y. keeps I (f y)) \<Longrightarrow> keeps I (case x of None \<Rightarrow> m | Some y \<Rightarrow> f y)"
  by (cases x) simp_all

lemma keeps_case_sum [intro]:
  "(\<And>e. keeps I (f e)) \<Longrightarrow> (\<And>y. keeps I (g y)) \<Longrightarrow> keeps I (case x of Inl e \<Rightarrow> f e | Inr y \<Rightarrow> g y)"
  by (cases x) simp_all

lemma keeps_case_prod [intro]:
  "(\<And>a b. keeps I (f a b)) \<Longrightarrow> keeps I (case x of (a, b) \<Rightarrow> f a b)"
  by (cases x) simp


text \<open>What a component that is not the cache leaves alone.\<close>

definition same :: "('w \<Rightarrow> 'v) \<Rightarrow> ('w, 'a) io \<Rightarrow> bool" where
  "same view m \<longleftrightarrow> (\<forall>w. view (snd (run_state m w)) = view w)"

lemma same_wp: "same view m \<Longrightarrow> (\<And>a w'. view w' = view w \<Longrightarrow> Q a w') \<Longrightarrow> wp m Q w"
  by (rule wpI) (metis same_def snd_conv)

lemma same_return [intro, simp]: "same view (State_Monad.return a)"
  by (simp add: same_def)

lemma same_bind [intro]: "same view m \<Longrightarrow> (\<And>a. same view (f a)) \<Longrightarrow> same view (State_Monad.bind m f)"
  by (simp add: same_def case_prod_unfold)

lemma same_if [intro]: "same view m \<Longrightarrow> same view n \<Longrightarrow> same view (if b then m else n)"
  by simp

lemma same_case_sum [intro]:
  "(\<And>e. same view (f e)) \<Longrightarrow> (\<And>y. same view (g y)) \<Longrightarrow> same view (case x of Inl e \<Rightarrow> f e | Inr y \<Rightarrow> g y)"
  by (cases x) simp_all

lemma same_keeps: "same view m \<Longrightarrow> keeps (\<lambda>w. P (view w)) m"
  by (simp add: same_def keeps_def)

section \<open>Fixed-width integers, durations and instants\<close>

definition i64 :: "int \<Rightarrow> int" where
  "i64 x = (x + 2 ^ 63) mod 2 ^ 64 - 2 ^ 63"

definition i32 :: "int \<Rightarrow> int" where
  "i32 x = (x + 2 ^ 31) mod 2 ^ 32 - 2 ^ 31"

lemma i64_id: "- (2 ^ 63) \<le> x \<Longrightarrow> x < 2 ^ 63 \<Longrightarrow> i64 x = x"
  by (simp add: i64_def)

lemma i32_id: "- (2 ^ 31) \<le> x \<Longrightarrow> x < 2 ^ 31 \<Longrightarrow> i32 x = x"
  by (simp add: i32_def)

lemma i64_range: "- (2 ^ 63) \<le> i64 x \<and> i64 x < 2 ^ 63"
  by (simp add: i64_def)

text \<open>Go's integer division truncates towards zero.\<close>

definition go_div :: "int \<Rightarrow> int \<Rightarrow> int" where
  "go_div a b = sgn a * sgn b * (\<bar>a\<bar> div \<bar>b\<bar>)"

lemma go_div_nonneg: "0 \<le> a \<Longrightarrow> 0 < b \<Longrightarrow> go_div a b = a div b"
  by (cases "a = 0") (simp_all add: go_div_def)

definition time_sub :: "int \<Rightarrow> int \<Rightarrow> int" where
  "time_sub t u = max (- (2 ^ 63)) (min (2 ^ 63 - 1) (t - u))"

lemma time_sub_exact: "\<bar>t - u\<bar> < 2 ^ 63 \<Longrightarrow> time_sub t u = t - u"
  by (simp add: time_sub_def)

lemma time_sub_pos_iff: "0 < time_sub t u \<longleftrightarrow> u < t"
  by (simp add: time_sub_def) linarith

definition second :: int where "second = 1000000000"
definition minute :: int where "minute = 60 * second"
definition hour :: int where "hour = 60 * minute"
definition millisecond :: int where "millisecond = 1000000"

lemmas duration_defs = hour_def minute_def second_def millisecond_def

section \<open>Strings\<close>

text \<open>\<open>strings.HasPrefix\<close>; a Go string is its bytes, so \<open>len\<close> is \<open>length\<close>.\<close>

definition has_prefix :: "string \<Rightarrow> string \<Rightarrow> bool" where
  "has_prefix s p \<longleftrightarrow> take (length p) s = p"

lemma has_prefix_append [simp]: "has_prefix (p @ s) p"
  by (simp add: has_prefix_def)

lemma has_prefixE: "has_prefix s p \<Longrightarrow> (\<And>r. s = p @ r \<Longrightarrow> thesis) \<Longrightarrow> thesis"
  unfolding has_prefix_def by (metis append_take_drop_id)

text \<open>Decimal numerals: \<open>strconv.Itoa\<close> and the digits \<open>strconv.Atoi\<close> reads.\<close>

definition digit :: "nat \<Rightarrow> char" where
  "digit n = char_of (48 + n)"

definition digit_val :: "char \<Rightarrow> nat" where
  "digit_val c = of_char c - 48"

definition is_digit :: "char \<Rightarrow> bool" where
  "is_digit c \<longleftrightarrow> (48::nat) \<le> of_char c \<and> (of_char c :: nat) \<le> 57"

fun show_nat :: "nat \<Rightarrow> string" where
  "show_nat n = (if n < 10 then [digit n] else show_nat (n div 10) @ [digit (n mod 10)])"

definition show_int :: "int \<Rightarrow> string" where
  "show_int i = (if i < 0 then CHR ''-'' # show_nat (nat (- i)) else show_nat (nat i))"

definition read_nat :: "string \<Rightarrow> nat option" where
  "read_nat s = (if s = [] \<or> \<not> list_all is_digit s then None
                 else Some (foldl (\<lambda>a c. 10 * a + digit_val c) 0 s))"

definition read_int :: "string \<Rightarrow> int option" where
  "read_int s =
     (case s of
        c # cs \<Rightarrow>
          (if c = CHR ''-'' then map_option (\<lambda>n. - int n) (read_nat cs)
           else if c = CHR ''+'' then map_option int (read_nat cs)
           else map_option int (read_nat s))
      | [] \<Rightarrow> None)"

declare show_nat.simps [simp del]

lemma digit_facts: "n < 10 \<Longrightarrow> is_digit (digit n) \<and> digit_val (digit n) = n"
  by (simp add: digit_def digit_val_def is_digit_def)

lemma show_nat_nonempty: "show_nat n \<noteq> []"
  by (subst show_nat.simps) simp

lemma show_nat_all_digits: "list_all is_digit (show_nat n)"
  by (induction n rule: show_nat.induct) (subst show_nat.simps, simp add: digit_facts)

lemmas show_nat_digits = conjI [OF show_nat_nonempty show_nat_all_digits]

lemma read_show_nat: "read_nat (show_nat n) = Some n"
proof -
  have "foldl (\<lambda>a c. 10 * a + digit_val c) 0 (show_nat n) = n"
    by (induction n rule: show_nat.induct) (subst show_nat.simps, simp add: digit_facts)
  then show ?thesis
    using show_nat_digits by (simp add: read_nat_def)
qed

lemma digit_not_sign: "is_digit c \<Longrightarrow> c \<noteq> CHR ''-'' \<and> c \<noteq> CHR ''+''"
  by (auto simp: is_digit_def)

lemma read_show_int: "read_int (show_int i) = Some i"
proof (cases "i < 0")
  case False
  obtain c cs where *: "show_nat (nat i) = c # cs"
    using show_nat_digits by (meson neq_Nil_conv)
  then have "is_digit c"
    using show_nat_all_digits [of "nat i"] by simp
  with False * read_show_nat [of "nat i"] digit_not_sign show ?thesis
    by (simp add: show_int_def read_int_def)
qed (simp add: show_int_def read_int_def read_show_nat)

end
