(* ===== verification/Go_Errors.thy ===== *)
theory Go_Errors imports Auth_Prelude begin

text \<open>
  Go error values and their inspection.

  A non-nil \<open>error\<close> is a tree: the leaves are the sentinel variables of the repository and
  of the libraries it matches on, \<open>Errorf\<close> is \<open>fmt.Errorf\<close> with the operands of its \<open>%w\<close>
  verbs (and \<open>errors.New\<close>, with none), and \<open>NetError\<close> is a value that implements
  \<open>net.Error\<close> with the given answers of \<open>Timeout\<close> and \<open>Temporary\<close>, around the errors it
  unwraps to. A result of type \<open>error\<close> is \<open>error option\<close> (\<open>nil\<close> is \<open>None\<close>) and a result
  pair \<open>(T, error)\<close> whose first component is the zero value on failure is \<open>error + T\<close>.
\<close>

datatype sentinel =
    ErrInvalidToken | ErrEmailConflict | ErrInvalidCredentials | ErrTokenRevoked
  | ErrSessionBlacklisted | ErrSessionNotFound
  | SessionErrNotFound
  | ErrRedisUnavailable
  | ErrDeviceTokenNotFound
  | KratosErrEmailConflict | KratosErrInvalidCredentials
  | RedisNil
  | ContextCanceled | ContextDeadlineExceeded
  | ECONNREFUSED | ECONNRESET | EPIPE
  | IoEOF | IoErrUnexpectedEOF
  | TypeAssertionPanic

datatype error =
    Sentinel sentinel
  | Errorf string "error list"
  | NetError bool bool "error list"

type_synonym 'a result = "error + 'a"

text \<open>\<open>if err != nil { return ..., err }\<close>: the first failure is the result.\<close>

definition res_bind :: "'a result \<Rightarrow> ('a \<Rightarrow> 'b result) \<Rightarrow> 'b result" where
  "res_bind r f = (case r of Inl e \<Rightarrow> Inl e | Inr a \<Rightarrow> f a)"

lemma res_bind_simps [simp]: "res_bind (Inl e) f = Inl e" "res_bind (Inr a) f = f a"
  by (simp_all add: res_bind_def)

lemma res_bind_Inr_iff: "res_bind r f = Inr b \<longleftrightarrow> (\<exists>a. r = Inr a \<and> f a = Inr b)"
  by (cases r) simp_all

text \<open>\<open>errors.Is\<close>: the tree is searched in pre-order.\<close>

fun errors_Is :: "error \<Rightarrow> sentinel \<Rightarrow> bool" where
  "errors_Is (Sentinel s) t = (s = t)"
| "errors_Is (Errorf _ es) t = list_ex (\<lambda>e. errors_Is e t) es"
| "errors_Is (NetError _ _ es) t = list_ex (\<lambda>e. errors_Is e t) es"

text \<open>
  \<open>errors.As\<close> with a \<open>net.Error\<close> target: the first tree node that implements the interface,
  as its answers of \<open>Timeout\<close> and \<open>Temporary\<close>. \<open>context.DeadlineExceeded\<close> implements it
  (both answers are true), and so does \<open>syscall.Errno\<close> (neither holds for the three the
  code names); the other sentinels are plain \<open>errors.New\<close> values.
\<close>

fun as_net_error :: "error \<Rightarrow> (bool \<times> bool) option"
  and as_net_errors :: "error list \<Rightarrow> (bool \<times> bool) option" where
  "as_net_error (Sentinel s) =
     (if s = ContextDeadlineExceeded then Some (True, True)
      else if s \<in> {ECONNREFUSED, ECONNRESET, EPIPE} then Some (False, False)
      else None)"
| "as_net_error (Errorf _ es) = as_net_errors es"
| "as_net_error (NetError t p _) = Some (t, p)"
| "as_net_errors [] = None"
| "as_net_errors (e # es) =
     (case as_net_error e of Some r \<Rightarrow> Some r | None \<Rightarrow> as_net_errors es)"

text \<open>\<open>resilience.IsInfraError\<close>: which errors count as a failure of Redis itself.\<close>

definition is_infra_error :: "error option \<Rightarrow> bool" where
  "is_infra_error err =
     (case err of
        None \<Rightarrow> False
      | Some e \<Rightarrow>
          if errors_Is e RedisNil then False
          else if errors_Is e ContextCanceled then False
          else if (case as_net_error e of Some (timeout, temporary) \<Rightarrow> timeout \<or> temporary
                   | None \<Rightarrow> False) then True
          else if errors_Is e ECONNREFUSED \<or> errors_Is e ECONNRESET \<or> errors_Is e EPIPE then True
          else if errors_Is e IoEOF \<or> errors_Is e IoErrUnexpectedEOF then True
          else if errors_Is e ContextDeadlineExceeded then True
          else False)"

lemma is_infra_None [simp]: "\<not> is_infra_error None"
  by (simp add: is_infra_error_def)

lemma is_infra_Sentinel:
  "is_infra_error (Some (Sentinel s)) \<longleftrightarrow>
     s \<in> {ContextDeadlineExceeded, ECONNREFUSED, ECONNRESET, EPIPE, IoEOF, IoErrUnexpectedEOF}"
  by (cases s) (simp_all add: is_infra_error_def)

text \<open>
  Wrapping with one \<open>%w\<close> changes no classification: every layer may add context to an
  error without changing what \<open>errors.Is\<close>, \<open>errors.As\<close> or the breaker see in it.
\<close>

lemma errors_Is_wrap [simp]: "errors_Is (Errorf m [e]) t = errors_Is e t"
  by simp

lemma as_net_error_wrap [simp]: "as_net_error (Errorf m [e]) = as_net_error e"
  by (simp split: option.splits)

lemma is_infra_wrap [simp]: "is_infra_error (Some (Errorf m [e])) = is_infra_error (Some e)"
  by (cases "as_net_error e") (simp_all add: is_infra_error_def)

lemma is_infra_not_Nil: "is_infra_error (Some e) \<Longrightarrow> \<not> errors_Is e RedisNil"
  by (auto simp: is_infra_error_def split: if_splits)

lemma is_infra_not_Canceled: "is_infra_error (Some e) \<Longrightarrow> \<not> errors_Is e ContextCanceled"
  by (auto simp: is_infra_error_def split: if_splits)

text \<open>
  An error made outside the repository: it carries none of the repository's own sentinels,
  nor \<open>redis.Nil\<close>.
\<close>

definition outside_sentinels :: "sentinel set" where
  "outside_sentinels = {ContextCanceled, ContextDeadlineExceeded, ECONNREFUSED, ECONNRESET, EPIPE, IoEOF, IoErrUnexpectedEOF}"

definition foreign_error :: "error \<Rightarrow> bool" where
  "foreign_error e \<longleftrightarrow> (\<forall>s. errors_Is e s \<longrightarrow> s \<in> outside_sentinels)"

lemma foreign_error_not [simp]:
  assumes "foreign_error e"
  shows "\<not> errors_Is e RedisNil" "\<not> errors_Is e SessionErrNotFound" "\<not> errors_Is e ErrRedisUnavailable"
    "\<not> errors_Is e ErrDeviceTokenNotFound" "\<not> errors_Is e ErrSessionNotFound" "\<not> errors_Is e ErrSessionBlacklisted"
    "\<not> errors_Is e TypeAssertionPanic" "\<not> errors_Is e ErrInvalidToken" "\<not> errors_Is e ErrTokenRevoked"
  using assms by (auto simp: foreign_error_def outside_sentinels_def)

lemma foreign_error_leaf [simp]: "foreign_error (Errorf m [])"
  by (simp add: foreign_error_def)

lemma foreign_error_wrap [simp]: "foreign_error (Errorf m [e]) = foreign_error e"
  by (simp add: foreign_error_def)

lemma foreign_error_sentinel [simp]: "foreign_error (Sentinel s) \<longleftrightarrow> s \<in> outside_sentinels"
  by (simp add: foreign_error_def)

text \<open>A failure that is an error made outside.\<close>

definition foreign_result :: "'a result \<Rightarrow> bool" where
  "foreign_result r \<longleftrightarrow> (\<forall>e. r = Inl e \<longrightarrow> foreign_error e)"

lemma foreign_result_simps [simp]: "foreign_result (Inl e) = foreign_error e" "foreign_result (Inr a)"
  by (simp_all add: foreign_result_def)

lemma foreign_res_bind: "foreign_result r \<Longrightarrow> (\<And>a. foreign_result (f a)) \<Longrightarrow> foreign_result (res_bind r f)"
  by (cases r) simp_all

end
