(* ===== verification/Process_State.thy ===== *)
theory Process_State imports Go_Errors begin

text \<open>
  The state of one server process and what it takes from its runtime.

  \<open>go_env\<close> names what the code obtains from outside: the clock, the wait of the polling
  loop, the two random sources and the time formatting. \<open>proc\<close> is the memory the process
  owns (the circuit breaker, the JWKS cache) next to \<open>pr_ext\<close>, the state of everything
  outside: Redis, Postgres, Hydra, Kratos, the in-process cache library, the clock. A call
  to the outside is a computation on \<open>pr_ext\<close> alone, lifted by \<open>ext\<close>, so it cannot touch
  the memory of the process.
\<close>

section \<open>The runtime\<close>

record 'x go_env =
  env_now :: "('x, int) io"
  env_wait :: "int \<Rightarrow> ('x, error option) io"
  env_int63n :: "int \<Rightarrow> ('x, int) io"
  env_rand :: "nat \<Rightarrow> ('x, nat list result) io"
  env_format :: "int \<Rightarrow> string"
  env_parse :: "string \<Rightarrow> int result"

text \<open>
  \<open>env_int63n n\<close> is \<open>rand.Int63n\<close>, documented to answer in the half-open interval from
  0 to \<open>n\<close> for positive \<open>n\<close>; \<open>env_rand n\<close> is a \<open>crypto/rand\<close> read of \<open>n\<close> bytes.
\<close>

definition int63n_ok :: "'x go_env \<Rightarrow> bool" where
  "int63n_ok E \<longleftrightarrow>
     (\<forall>n x. 0 < n \<longrightarrow> 0 \<le> fst (run_state (env_int63n E n) x) \<and> fst (run_state (env_int63n E n) x) < n)"

text \<open>Clock readings between 1970 and 2116: adding a backoff to one cannot overflow \<open>int64\<close>.\<close>

definition clock_reading :: "'x go_env \<Rightarrow> int \<Rightarrow> bool" where
  "clock_reading E t \<longleftrightarrow> (\<exists>x. fst (run_state (env_now E) x) = t)"

definition clock_ok :: "'x go_env \<Rightarrow> bool" where
  "clock_ok E \<longleftrightarrow>
     (\<forall>x. 0 \<le> fst (run_state (env_now E) x) \<and> fst (run_state (env_now E) x) < 2 ^ 62)"

lemma clock_readingI: "run_state (env_now E) x = (t, x') \<Longrightarrow> clock_reading E t"
  by (metis clock_reading_def fst_conv)

lemma clock_reading_ex: "\<exists>t. clock_reading E t"
  by (auto simp: clock_reading_def)

lemma clock_ok_bounds: "clock_ok E \<Longrightarrow> clock_reading E t \<Longrightarrow> 0 \<le> t \<and> t < 2 ^ 62"
  by (auto simp: clock_ok_def clock_reading_def)

definition rand_ok :: "'x go_env \<Rightarrow> bool" where
  "rand_ok E \<longleftrightarrow>
     (\<forall>n x bs. fst (run_state (env_rand E n) x) = Inr bs \<longrightarrow> length bs = n \<and> (\<forall>b\<in>set bs. b < 256))"

text \<open>\<open>time.RFC3339Nano\<close> has nanosecond resolution: parsing what was formatted gives the instant back.\<close>

definition time_codec_ok :: "'x go_env \<Rightarrow> bool" where
  "time_codec_ok E \<longleftrightarrow>
     (\<forall>t. env_parse E (env_format E t) = Inr t) \<and> (\<forall>s e. env_parse E s = Inl e \<longrightarrow> foreign_error e)"

text \<open>
  A runtime to evaluate examples in: the outside is its clock, waiting moves it, and the
  random sources always answer zero.
\<close>

definition sample_env :: "int go_env" where
  "sample_env = \<lparr>
     env_now = State (\<lambda>x. (max 0 (min x (2 ^ 62 - 1)), x)),
     env_wait = (\<lambda>d. State (\<lambda>x. (None, x + d))),
     env_int63n = (\<lambda>n. State_Monad.return 0),
     env_rand = (\<lambda>n. State_Monad.return (Inr (replicate n 0))),
     env_format = show_int,
     env_parse = (\<lambda>s. case read_int s of Some i \<Rightarrow> Inr i | None \<Rightarrow> Inl (Errorf ''parsing time'' []))\<rparr>"

lemma sample_env_ok: "int63n_ok sample_env" "clock_ok sample_env" "rand_ok sample_env" "time_codec_ok sample_env"
  by (auto simp: sample_env_def int63n_ok_def clock_ok_def rand_ok_def time_codec_ok_def read_show_int split: option.splits)

section \<open>Memory owned by the process\<close>

datatype cb_state = StateClosed | StateOpen | StateHalfOpen

datatype cb_event = StateChange cb_state cb_state | CaptureTripped | CaptureProbeFailed

text \<open>
  The fields of \<open>circuitBreaker\<close>. The two callbacks are optional: the flags say whether
  they are set, and \<open>cb_events\<close> records their calls, in order.
\<close>

record breaker =
  cb_state :: cb_state
  cb_failures :: int
  cb_probeInFlight :: int
  cb_nextProbeAt :: int
  cb_backoffNanos :: int
  cb_hasOnStateChange :: bool
  cb_hasCapture :: bool
  cb_events :: "cb_event list"

type_synonym rsa_key = "int \<times> int"

record jwks_cache =
  jc_keys :: "(string \<times> rsa_key) list"
  jc_fetchedAt :: int
  jc_previousKeys :: "(string \<times> rsa_key) list"
  jc_previousFetchedAt :: int
  jc_ttl :: int
  jc_gracePeriod :: int

record 'x proc =
  pr_breaker :: breaker
  pr_jwks :: jwks_cache
  pr_ext :: 'x

definition ext :: "('x, 'a) io \<Rightarrow> ('x proc, 'a) io" where
  "ext m = State (\<lambda>p. case run_state m (pr_ext p) of (a, x) \<Rightarrow> (a, p\<lparr>pr_ext := x\<rparr>))"

lemma run_state_ext [simp]:
  "run_state (ext m) p = (case run_state m (pr_ext p) of (a, x) \<Rightarrow> (a, p\<lparr>pr_ext := x\<rparr>))"
  by (simp add: ext_def)

lemma wp_ext [wp_rules]: "wp (ext m) Q = (\<lambda>p. wp m (\<lambda>a x. Q a (p\<lparr>pr_ext := x\<rparr>)) (pr_ext p))"
  by (rule HOL.ext) (simp add: wp_def split: prod.splits)

definition modify_breaker :: "(breaker \<Rightarrow> breaker) \<Rightarrow> ('x proc, unit) io" where
  "modify_breaker f = State (\<lambda>p. ((), p\<lparr>pr_breaker := f (pr_breaker p)\<rparr>))"

definition get_breaker :: "('x proc, breaker) io" where
  "get_breaker = State (\<lambda>p. (pr_breaker p, p))"

lemma run_modify_breaker [simp]:
  "run_state (modify_breaker f) p = ((), p\<lparr>pr_breaker := f (pr_breaker p)\<rparr>)"
  by (simp add: modify_breaker_def)

lemma run_get_breaker [simp]: "run_state get_breaker p = (pr_breaker p, p)"
  by (simp add: get_breaker_def)

lemma wp_modify_breaker [wp_rules]:
  "wp (modify_breaker f) Q p = Q () (p\<lparr>pr_breaker := f (pr_breaker p)\<rparr>)"
  by (simp add: wp_def)

lemma wp_get_breaker [wp_rules]: "wp get_breaker Q p = Q (pr_breaker p) p"
  by (simp add: wp_def)

text \<open>An operation that leaves the breaker alone, and one that only moves the outside.\<close>

lemma ext_breaker: "run_state (ext m) p = (a, p') \<Longrightarrow> pr_breaker p' = pr_breaker p"
  by (auto split: prod.splits)

lemma ext_jwks: "run_state (ext m) p = (a, p') \<Longrightarrow> pr_jwks p' = pr_jwks p"
  by (auto split: prod.splits)

end
