(* ===== verification/Interfaces.thy ===== *)
theory Interfaces imports Process_State begin

text \<open>
  The data that crosses component boundaries and the Go interfaces through which the
  components call each other.

  An interface value is a dictionary of its methods, a record of computations over the
  world \<open>'w\<close>; a decorator (\<open>Resilient...\<close>) is a function from dictionaries to a
  dictionary, and \<open>main.go\<close> composes them. Interfaces that only third-party code
  implements (the go-cache cache, the Redis client, the Postgres pool) are dictionaries as
  well, and remain parameters of every definition that uses them.
\<close>

section \<open>JSON\<close>

text \<open>
  A JSON document and the \<open>encoding/json\<close> text codec. The mapping between structs and
  documents, which the struct tags give, is written out where a struct is marshalled; the
  codec between documents and text is a parameter, \<open>json_codec_ok\<close> its documented law.
\<close>

datatype json =
    JNull
  | JBool bool
  | JNum int
  | JStr string
  | JArr "json list"
  | JObj "(string \<times> json) list"

record json_codec =
  js_encode :: "json \<Rightarrow> string"
  js_decode :: "string \<Rightarrow> json result"

definition json_codec_ok :: "json_codec \<Rightarrow> bool" where
  "json_codec_ok J \<longleftrightarrow>
     (\<forall>j. js_decode J (js_encode J j) = Inr j) \<and> (\<forall>t e. js_decode J t = Inl e \<longrightarrow> foreign_error e)"

text \<open>
  Decoding into a struct field of type string or bool: an absent key and \<open>null\<close> leave the
  zero value, another kind of value is an error. When a key occurs twice the last wins.
\<close>

definition js_field :: "string \<Rightarrow> (string \<times> json) list \<Rightarrow> json option" where
  "js_field k kvs = map_of (rev kvs) k"

definition unmarshal_string :: "string \<Rightarrow> (string \<times> json) list \<Rightarrow> string result" where
  "unmarshal_string k kvs =
     (case js_field k kvs of
        None \<Rightarrow> Inr [] | Some JNull \<Rightarrow> Inr [] | Some (JStr s) \<Rightarrow> Inr s
      | Some _ \<Rightarrow> Inl (Errorf ''json: cannot unmarshal into Go struct field of type string'' []))"

section \<open>Data\<close>

text \<open>\<open>session.BFFSession\<close>; a \<open>time.Time\<close> is its nanosecond instant.\<close>

record bff_session =
  bs_SessionID :: string
  bs_KratosID :: string
  bs_DeviceID :: string
  bs_KratosSessionID :: string
  bs_HydraAccessToken :: string
  bs_HydraRefreshToken :: string
  bs_AccessTokenExp :: int
  bs_CreatedAt :: int
  bs_ExpiresAt :: int

text \<open>\<open>domain.DeviceSession\<close>; the nullable columns are options.\<close>

record device_session =
  ds_ID :: int
  ds_KratosID :: string
  ds_DeviceID :: string
  ds_HydraJTI :: "string option"
  ds_IssuedAt :: int
  ds_LastUsedAt :: "int option"
  ds_Revoked :: bool
  ds_UserAgent :: "string option"
  ds_IP :: "string option"

text \<open>The Kafka events of \<open>internal/kafka/producer.go\<close>.\<close>

record access_log_event =
  al_Path :: string
  al_StatusCode :: int
  al_LatencyMs :: int
  al_UserID :: string
  al_Timestamp :: string

record auth_session_event =
  as_EventType :: string
  as_KratosID :: string
  as_IPAddress :: string
  as_UserAgent :: string
  as_HydraJTI :: string
  as_DeviceID :: string
  as_Timestamp :: string

record blacklist_sync_event =
  be_EventType :: string
  be_TargetType :: string
  be_TargetValue :: string
  be_Reason :: string
  be_ExpiresAt :: string
  be_Timestamp :: string

text \<open>\<open>hydra.TokenSet\<close>, \<open>hydra.IntrospectResult\<close>, \<open>hydra.AccessTokenClaims\<close>.\<close>

record token_set =
  ts_AccessToken :: string
  ts_RefreshToken :: string
  ts_IDToken :: string
  ts_TokenType :: string
  ts_ExpiresIn :: int

type_synonym ext_claims = "(string \<rightharpoonup> json) option"

record introspect_result =
  ir_Active :: bool
  ir_Subject :: string
  ir_Ext :: ext_claims
  ir_ClientID :: string
  ir_Exp :: int

record access_token_claims =
  cl_Subject :: string
  cl_Ext :: ext_claims
  cl_ClientID :: string
  cl_ID :: string
  cl_ExpiresAt :: "int option"

text \<open>\<open>kratos.Identity\<close> and \<open>kratos.IdentityFull\<close>: the traits are raw JSON text.\<close>

record identity =
  id_ID :: string
  id_Traits :: string

record identity_full = identity +
  id_Credentials :: "string \<rightharpoonup> string"

datatype blacklist_target_type = TargetTypeUser | TargetTypeJTI | TargetTypeServiceKey | TargetTypeOther string

fun target_type_string :: "blacklist_target_type \<Rightarrow> string" where
  "target_type_string TargetTypeUser = ''USER''"
| "target_type_string TargetTypeJTI = ''JTI''"
| "target_type_string TargetTypeServiceKey = ''SERVICE_KEY''"
| "target_type_string (TargetTypeOther s) = s"

record blacklist_entry =
  en_SessionID :: string
  en_ExpiresAt :: int

record global_blacklist_entry =
  ge_TargetType :: string
  ge_TargetValue :: string
  ge_Reason :: string
  ge_CreatedAt :: int

section \<open>Interfaces\<close>

record 'w circuit_breaker =
  cbi_Allow :: "('w, bool) io"
  cbi_RecordSuccess :: "('w, unit) io"
  cbi_RecordFailure :: "('w, unit) io"
  cbi_State :: "('w, cb_state) io"

text \<open>
  The in-process cache (\<open>github.com/patrickmn/go-cache\<close>), shared by the decorators: its
  values are the Go types they store. A duration of 0 is \<open>gocache.DefaultExpiration\<close>.
\<close>

datatype l1_val = VBool bool | VSession bff_session | VString string

record 'w l1_cache =
  l1_Get :: "string \<Rightarrow> ('w, l1_val option) io"
  l1_Set :: "string \<Rightarrow> l1_val \<Rightarrow> int \<Rightarrow> ('w, unit) io"
  l1_Delete :: "string \<Rightarrow> ('w, unit) io"

lemma wp_case_l1_val [wp_rules]:
  "wp (case v of VBool b \<Rightarrow> f b | VSession s \<Rightarrow> g s | VString t \<Rightarrow> h t) Q =
     (\<lambda>w. (\<forall>b. v = VBool b \<longrightarrow> wp (f b) Q w) \<and> (\<forall>s. v = VSession s \<longrightarrow> wp (g s) Q w) \<and>
          (\<forall>t. v = VString t \<longrightarrow> wp (h t) Q w))"
  by (cases v) simp_all

definition DefaultExpiration :: int where "DefaultExpiration = 0"

record 'w session_store =
  ss_Create :: "bff_session \<Rightarrow> ('w, error option) io"
  ss_Get :: "string \<Rightarrow> ('w, bff_session result) io"
  ss_Update :: "bff_session \<Rightarrow> ('w, error option) io"
  ss_Delete :: "string \<Rightarrow> ('w, error option) io"
  ss_GetAllForUser :: "string \<Rightarrow> ('w, bff_session list result) io"
  ss_DeleteAllForUser :: "string \<Rightarrow> ('w, string list result) io"
  ss_AcquireRefreshLock :: "string \<Rightarrow> int \<Rightarrow> ('w, bool result) io"
  ss_ReleaseRefreshLock :: "string \<Rightarrow> ('w, error option) io"

text \<open>\<open>IsBlacklisted\<close> answers a pair: on an error its first component is still significant.\<close>

record 'w blacklist =
  bl_Add :: "string \<Rightarrow> int \<Rightarrow> ('w, error option) io"
  bl_IsBlacklisted :: "string \<Rightarrow> ('w, bool \<times> error option) io"
  bl_AddBatch :: "string list \<Rightarrow> int \<Rightarrow> ('w, error option) io"

record 'w blacklist_pg =
  bp_IsBlacklisted :: "string \<Rightarrow> ('w, bool \<times> error option) io"
  bp_Add :: "string \<Rightarrow> int \<Rightarrow> ('w, error option) io"
  bp_DeleteExpired :: "('w, error option) io"
  bp_ListActive :: "('w, blacklist_entry list result) io"

record 'w redis_repo =
  rr_SaveLogin :: "string \<Rightarrow> string \<Rightarrow> string \<Rightarrow> int \<Rightarrow> ('w, error option) io"
  rr_GetDeviceRefreshToken :: "string \<Rightarrow> string \<Rightarrow> ('w, string result) io"
  rr_RotateRefreshToken :: "string \<Rightarrow> string \<Rightarrow> string \<Rightarrow> int \<Rightarrow> ('w, error option) io"
  rr_LogoutDevice :: "string \<Rightarrow> string \<Rightarrow> ('w, error option) io"
  rr_LogoutAll :: "string \<Rightarrow> ('w, error option) io"

record 'w device_session_repo =
  dr_SaveDeviceSession :: "device_session \<Rightarrow> ('w, error option) io"
  dr_UpdateLastUsedAt :: "string \<Rightarrow> string \<Rightarrow> ('w, error option) io"
  dr_RevokeDevice :: "string \<Rightarrow> string \<Rightarrow> ('w, error option) io"
  dr_RevokeAllDevices :: "string \<Rightarrow> ('w, error option) io"
  dr_GetDeviceSessions :: "string \<Rightarrow> ('w, device_session list result) io"
  dr_CountActiveDevices :: "string \<Rightarrow> ('w, int \<times> error option) io"

record 'w global_blacklist =
  gb_Add :: "blacklist_target_type \<Rightarrow> string \<Rightarrow> string \<Rightarrow> ('w, error option) io"
  gb_IsBlacklisted :: "blacklist_target_type \<Rightarrow> string \<Rightarrow> ('w, bool \<times> error option) io"
  gb_ListAll :: "('w, global_blacklist_entry list result) io"
  gb_Remove :: "blacklist_target_type \<Rightarrow> string \<Rightarrow> ('w, error option) io"

record 'w hydra_client =
  hy_IssueTokens :: "string \<Rightarrow> string \<Rightarrow> bool \<Rightarrow> ('w, token_set result) io"
  hy_RefreshToken :: "string \<Rightarrow> ('w, token_set result) io"
  hy_RevokeToken :: "string \<Rightarrow> ('w, error option) io"
  hy_RevokeAllForSubject :: "string \<Rightarrow> ('w, error option) io"
  hy_IntrospectToken :: "string \<Rightarrow> ('w, introspect_result result) io"
  hy_ValidateAccessToken :: "string \<Rightarrow> ('w, access_token_claims result) io"
  hy_ForceRefreshJWKS :: "('w, error option) io"

record 'w kratos_client =
  kr_GetIdentity :: "string \<Rightarrow> ('w, identity result) io"
  kr_GetIdentityByEmail :: "string \<Rightarrow> ('w, identity result) io"
  kr_DeleteSessions :: "string \<Rightarrow> ('w, error option) io"
  kr_CreateIdentity :: "string \<Rightarrow> ('w, string result) io"
  kr_GetSessionIDByToken :: "string \<Rightarrow> ('w, string result) io"
  kr_DeleteSession :: "string \<Rightarrow> ('w, error option) io"
  kr_GetIdentityFull :: "string \<Rightarrow> ('w, identity_full result) io"

record 'w event_publisher =
  pub_Publish :: "access_log_event \<Rightarrow> ('w, unit) io"
  pub_PublishAuthSession :: "auth_session_event \<Rightarrow> ('w, unit) io"
  pub_PublishBlacklistSync :: "blacklist_sync_event \<Rightarrow> ('w, unit) io"
  pub_Close :: "('w, error option) io"

section \<open>Small shared operations\<close>

text \<open>\<open>AccessTokenClaims.extString\<close> and the two \<open>DeviceID\<close> methods.\<close>

definition extString :: "ext_claims \<Rightarrow> string \<Rightarrow> string" where
  "extString e key =
     (case e of
        None \<Rightarrow> []
      | Some m \<Rightarrow> (case m key of Some (JStr v) \<Rightarrow> v | _ \<Rightarrow> []))"

definition claims_DeviceID :: "access_token_claims \<Rightarrow> string" where
  "claims_DeviceID c = extString (cl_Ext c) ''device_id''"

definition introspect_DeviceID :: "introspect_result \<Rightarrow> string" where
  "introspect_DeviceID r =
     (case ir_Ext r of
        None \<Rightarrow> []
      | Some m \<Rightarrow> (case m ''device_id'' of Some (JStr v) \<Rightarrow> v | _ \<Rightarrow> []))"

text \<open>
  \<open>Roles\<close> and \<open>Permissions\<close>. Claims come from \<open>encoding/json\<close>, whose arrays are
  \<open>[]interface{}\<close>, so the \<open>[]string\<close> case of the type switch does not arise; elements that
  are not strings are dropped.
\<close>

definition claims_strings :: "access_token_claims \<Rightarrow> string \<Rightarrow> string list" where
  "claims_strings c key =
     (case cl_Ext c of
        None \<Rightarrow> []
      | Some m \<Rightarrow>
          (case m key of
             Some (JArr vs) \<Rightarrow> List.map_filter (\<lambda>v. case v of JStr s \<Rightarrow> Some s | _ \<Rightarrow> None) vs
           | _ \<Rightarrow> []))"

definition claims_Roles :: "access_token_claims \<Rightarrow> string list" where
  "claims_Roles c = claims_strings c ''roles''"

definition claims_Permissions :: "access_token_claims \<Rightarrow> string list" where
  "claims_Permissions c = claims_strings c ''permissions''"

text \<open>\<open>time.Until\<close>.\<close>

definition time_until :: "'w go_env \<Rightarrow> int \<Rightarrow> ('w, int) io" where
  "time_until E t = do { now \<leftarrow> env_now E; State_Monad.return (time_sub t now) }"

lemma wp_time_until [wp_rules]:
  "wp (time_until E t) Q = wp (env_now E) (\<lambda>now. Q (time_sub t now))"
  by (simp add: time_until_def wp_rules)

definition derefStr :: "string option \<Rightarrow> string" where
  "derefStr s = (case s of None \<Rightarrow> [] | Some v \<Rightarrow> v)"

definition strPtrIfNonEmpty :: "string \<Rightarrow> string option" where
  "strPtrIfNonEmpty s = (if s = [] then None else Some s)"

lemma strPtr_derefStr: "derefStr (strPtrIfNonEmpty s) = s"
  by (simp add: strPtrIfNonEmpty_def derefStr_def)

text \<open>A runtime seen from the whole process: its calls reach only the outside.\<close>

definition ext_env :: "'x go_env \<Rightarrow> 'x proc go_env" where
  "ext_env E = \<lparr>env_now = ext (env_now E), env_wait = (\<lambda>d. ext (env_wait E d)),
     env_int63n = (\<lambda>n. ext (env_int63n E n)), env_rand = (\<lambda>n. ext (env_rand E n)),
     env_format = env_format E, env_parse = env_parse E\<rparr>"

end
