(* ===== verification/Redis_Model.thy ===== *)
theory Redis_Model imports Interfaces "HOL-Library.List_Lexorder" "HOL-Library.Char_ord" "HOL-Library.Product_Lexorder" begin

text \<open>
  Redis as the code sees it through go-redis.

  The client is a parameter: \<open>rc_do\<close> issues one command, \<open>rc_tx\<close> a \<open>TxPipeline\<close>, \<open>rc_pipe\<close> a
  \<open>Pipeline\<close>, and \<open>rc_eval\<close> a Lua script, whose body is a computation over the server's own
  state that reaches it with \<open>rc_call\<close> (\<open>redis.call\<close>). The commands are data. What Redis
  documents of them is \<open>redis_exec\<close>, which no definition of the model uses: it occurs only
  in the laws of the locale \<open>redis\<close>, under which the repositories are verified, and in the
  in-memory server that shows the laws can hold. A command that fails on the way may or may
  not have been executed.
\<close>

section \<open>Commands\<close>

text \<open>
  Durations are nanoseconds, as in Go; the constructors ending in \<open>Sec\<close> are the forms the
  Lua scripts use, in seconds.
\<close>

datatype redis_cmd =
    CSet string string int
  | CSetSec string string int
  | CSetNX string string int
  | CGet string
  | CDel string
  | CExists string
  | CExpire string int
  | CExpireSec string int
  | CTTL string
  | CSAdd string string
  | CSRem string string
  | CSMembers string
  | CZScore string string
  | CZCard string
  | CZRange string int int
  | CZRem string string
  | CZAdd string int string

datatype redis_reply = ROk | RBulk string | RInt int | RArr "string list"

record ('d, 'w) redis_client =
  rc_do :: "redis_cmd \<Rightarrow> ('w, redis_reply result) io"
  rc_tx :: "redis_cmd list \<Rightarrow> ('w, redis_reply result list \<times> error option) io"
  rc_pipe :: "redis_cmd list \<Rightarrow> ('w, redis_reply result list \<times> error option) io"
  rc_call :: "redis_cmd \<Rightarrow> ('d, redis_reply result) io"
  rc_eval :: "('d, redis_reply result) io \<Rightarrow> ('w, redis_reply result) io"

text \<open>The error of a command whose reply is not needed: \<open>cmd.Err()\<close>.\<close>

definition cmd_err :: "redis_reply result \<Rightarrow> error option" where
  "cmd_err r = (case r of Inl e \<Rightarrow> Some e | Inr _ \<Rightarrow> None)"

lemma cmd_err_simps [simp]: "cmd_err (Inl e) = Some e" "cmd_err (Inr x) = None"
  by (simp_all add: cmd_err_def)

text \<open>Typed readings of a reply (\<open>StringCmd\<close>, \<open>IntCmd\<close>, \<open>StringSliceCmd\<close>, \<open>BoolCmd\<close> results).\<close>

definition unexpected :: error where
  "unexpected = Errorf ''redis: unexpected reply'' []"

definition bulk_of :: "redis_reply result \<Rightarrow> string result" where
  "bulk_of r = (case r of Inl e \<Rightarrow> Inl e | Inr (RBulk s) \<Rightarrow> Inr s | Inr _ \<Rightarrow> Inl unexpected)"

definition int_of_reply :: "redis_reply result \<Rightarrow> int result" where
  "int_of_reply r = (case r of Inl e \<Rightarrow> Inl e | Inr (RInt n) \<Rightarrow> Inr n | Inr _ \<Rightarrow> Inl unexpected)"

definition arr_of :: "redis_reply result \<Rightarrow> string list result" where
  "arr_of r = (case r of Inl e \<Rightarrow> Inl e | Inr (RArr xs) \<Rightarrow> Inr xs | Inr _ \<Rightarrow> Inl unexpected)"

lemmas reply_defs = bulk_of_def int_of_reply_def arr_of_def

section \<open>What Redis documents\<close>

datatype redis_val = VStr string | VSet "string list" | VZSet "(int \<times> string) list"

text \<open>A key maps to its value and the instant at which it expires, if any.\<close>

type_synonym redis_db = "string \<rightharpoonup> (redis_val \<times> int option)"

definition live :: "int \<Rightarrow> int option \<Rightarrow> bool" where
  "live now dl = (case dl of None \<Rightarrow> True | Some t \<Rightarrow> now < t)"

definition db_get :: "int \<Rightarrow> redis_db \<Rightarrow> string \<Rightarrow> redis_val option" where
  "db_get now d k = (case d k of Some (v, dl) \<Rightarrow> if live now dl then Some v else None | None \<Rightarrow> None)"

definition db_deadline :: "int \<Rightarrow> redis_db \<Rightarrow> string \<Rightarrow> int option" where
  "db_deadline now d k = (case d k of Some (v, dl) \<Rightarrow> if live now dl then dl else None | None \<Rightarrow> None)"

text \<open>
  The expiry go-redis derives from a \<open>time.Duration\<close>: milliseconds for \<open>SET\<close>, with at least
  one, no expiry when it is not positive, except that -1 means \<open>KEEPTTL\<close>; whole seconds for
  \<open>EXPIRE\<close>, with at least one when it is positive.
\<close>

definition set_ttl :: "int \<Rightarrow> int" where
  "set_ttl dur = (if dur < millisecond then millisecond else dur div millisecond * millisecond)"

definition set_deadline :: "int \<Rightarrow> int \<Rightarrow> int option \<Rightarrow> int option" where
  "set_deadline now dur old =
     (if 0 < dur then Some (now + set_ttl dur) else if dur = -1 then old else None)"

definition expire_ttl :: "int \<Rightarrow> int" where
  "expire_ttl dur = (if 0 < dur \<and> dur < second then second else go_div dur second * second)"

definition wrongtype :: error where
  "wrongtype = Errorf ''WRONGTYPE Operation against a key holding the wrong kind of value'' []"

definition zset_range :: "(int \<times> string) list \<Rightarrow> int \<Rightarrow> int \<Rightarrow> string list" where
  "zset_range z start stop =
     (let n = int (length z);
          s = max 0 (if start < 0 then n + start else start);
          e = (if stop < 0 then n + stop else stop) in
      map snd (take (nat (e + 1 - s)) (drop (nat s) z)))"

text \<open>One command, executed at the server's instant \<open>now\<close>.\<close>

fun redis_exec :: "int \<Rightarrow> redis_cmd \<Rightarrow> redis_db \<Rightarrow> redis_reply result \<times> redis_db" where
  "redis_exec now (CSet k v dur) d =
     (Inr ROk, d(k \<mapsto> (VStr v, set_deadline now dur (db_deadline now d k))))"
| "redis_exec now (CSetSec k v secs) d =
     (if secs \<le> 0 then (Inl (Errorf ''ERR invalid expire time in 'set' command'' []), d)
      else (Inr ROk, d(k \<mapsto> (VStr v, Some (now + secs * second)))))"
| "redis_exec now (CSetNX k v dur) d =
     (if db_get now d k = None
      then (Inr (RInt 1), d(k \<mapsto> (VStr v, set_deadline now dur None)))
      else (Inr (RInt 0), d))"
| "redis_exec now (CGet k) d =
     (case db_get now d k of
        None \<Rightarrow> (Inl (Sentinel RedisNil), d)
      | Some (VStr s) \<Rightarrow> (Inr (RBulk s), d)
      | Some _ \<Rightarrow> (Inl wrongtype, d))"
| "redis_exec now (CDel k) d =
     (Inr (RInt (if db_get now d k = None then 0 else 1)), d(k := None))"
| "redis_exec now (CExists k) d =
     (Inr (RInt (if db_get now d k = None then 0 else 1)), d)"
| "redis_exec now (CExpire k dur) d =
     (case db_get now d k of
        None \<Rightarrow> (Inr (RInt 0), d)
      | Some v \<Rightarrow>
          (Inr (RInt 1), if expire_ttl dur \<le> 0 then d(k := None)
                         else d(k \<mapsto> (v, Some (now + expire_ttl dur)))))"
| "redis_exec now (CExpireSec k secs) d =
     (case db_get now d k of
        None \<Rightarrow> (Inr (RInt 0), d)
      | Some v \<Rightarrow>
          (Inr (RInt 1), if secs \<le> 0 then d(k := None) else d(k \<mapsto> (v, Some (now + secs * second)))))"
| "redis_exec now (CTTL k) d =
     (case db_get now d k of
        None \<Rightarrow> (Inr (RInt (-2)), d)
      | Some _ \<Rightarrow>
          (case db_deadline now d k of
             None \<Rightarrow> (Inr (RInt (-1)), d)
           | Some t \<Rightarrow> (Inr (RInt ((t - now + 500 * millisecond) div second)), d)))"
| "redis_exec now (CSAdd k m) d =
     (case db_get now d k of
        None \<Rightarrow> (Inr (RInt 1), d(k \<mapsto> (VSet [m], None)))
      | Some (VSet xs) \<Rightarrow>
          (if m \<in> set xs then (Inr (RInt 0), d)
           else (Inr (RInt 1), d(k \<mapsto> (VSet (xs @ [m]), db_deadline now d k))))
      | Some _ \<Rightarrow> (Inl wrongtype, d))"
| "redis_exec now (CSRem k m) d =
     (case db_get now d k of
        None \<Rightarrow> (Inr (RInt 0), d)
      | Some (VSet xs) \<Rightarrow>
          (if m \<in> set xs
           then (Inr (RInt 1),
             d(k := (case removeAll m xs of [] \<Rightarrow> None | ys \<Rightarrow> Some (VSet ys, db_deadline now d k))))
           else (Inr (RInt 0), d))
      | Some _ \<Rightarrow> (Inl wrongtype, d))"
| "redis_exec now (CSMembers k) d =
     (case db_get now d k of
        None \<Rightarrow> (Inr (RArr []), d)
      | Some (VSet xs) \<Rightarrow> (Inr (RArr xs), d)
      | Some _ \<Rightarrow> (Inl wrongtype, d))"
| "redis_exec now (CZScore k m) d =
     (case db_get now d k of
        None \<Rightarrow> (Inl (Sentinel RedisNil), d)
      | Some (VZSet z) \<Rightarrow>
          (case find (\<lambda>p. snd p = m) z of
             None \<Rightarrow> (Inl (Sentinel RedisNil), d)
           | Some p \<Rightarrow> (Inr (RInt (fst p)), d))
      | Some _ \<Rightarrow> (Inl wrongtype, d))"
| "redis_exec now (CZCard k) d =
     (case db_get now d k of
        None \<Rightarrow> (Inr (RInt 0), d)
      | Some (VZSet z) \<Rightarrow> (Inr (RInt (int (length z))), d)
      | Some _ \<Rightarrow> (Inl wrongtype, d))"
| "redis_exec now (CZRange k start stop) d =
     (case db_get now d k of
        None \<Rightarrow> (Inr (RArr []), d)
      | Some (VZSet z) \<Rightarrow> (Inr (RArr (zset_range z start stop)), d)
      | Some _ \<Rightarrow> (Inl wrongtype, d))"
| "redis_exec now (CZRem k m) d =
     (case db_get now d k of
        None \<Rightarrow> (Inr (RInt 0), d)
      | Some (VZSet z) \<Rightarrow>
          (if m \<in> snd ` set z
           then (Inr (RInt 1),
             d(k := (case filter (\<lambda>p. snd p \<noteq> m) z of [] \<Rightarrow> None | y \<Rightarrow> Some (VZSet y, db_deadline now d k))))
           else (Inr (RInt 0), d))
      | Some _ \<Rightarrow> (Inl wrongtype, d))"
| "redis_exec now (CZAdd k score m) d =
     (case db_get now d k of
        None \<Rightarrow> (Inr (RInt 1), d(k \<mapsto> (VZSet [(score, m)], None)))
      | Some (VZSet z) \<Rightarrow>
          (Inr (RInt (if m \<in> snd ` set z then 0 else 1)),
           d(k \<mapsto> (VZSet (insort (score, m) (filter (\<lambda>p. snd p \<noteq> m) z)), db_deadline now d k)))
      | Some _ \<Rightarrow> (Inl wrongtype, d))"

text \<open>A sequence of commands at one instant, and the error \<open>Exec\<close> reports: the first one.\<close>

fun redis_exec_all :: "int \<Rightarrow> redis_cmd list \<Rightarrow> redis_db \<Rightarrow> redis_reply result list \<times> redis_db" where
  "redis_exec_all now [] d = ([], d)"
| "redis_exec_all now (c # cs) d =
     (case redis_exec now c d of (r, d1) \<Rightarrow>
      case redis_exec_all now cs d1 of (rs, d2) \<Rightarrow> (r # rs, d2))"

fun first_error :: "redis_reply result list \<Rightarrow> error option" where
  "first_error [] = None"
| "first_error (Inl e # rs) = Some e"
| "first_error (Inr x # rs) = first_error rs"

text \<open>A reply that never came: an error of the connection.\<close>

definition lost :: "redis_reply result \<Rightarrow> bool" where
  "lost r \<longleftrightarrow> (\<exists>e. r = Inl e \<and> foreign_error e)"

definition redis_step :: "int \<Rightarrow> redis_cmd \<Rightarrow> redis_db \<Rightarrow> redis_reply result \<Rightarrow> redis_db \<Rightarrow> bool" where
  "redis_step now c d r d' \<longleftrightarrow>
     redis_exec now c d = (r, d') \<or> lost r \<and> (d' = d \<or> d' = snd (redis_exec now c d))"

definition redis_tx_step ::
    "int \<Rightarrow> redis_cmd list \<Rightarrow> redis_db \<Rightarrow> redis_reply result list \<times> error option \<Rightarrow> redis_db \<Rightarrow> bool" where
  "redis_tx_step now cs d r d' \<longleftrightarrow>
     (\<exists>rs. redis_exec_all now cs d = (rs, d') \<and> r = (rs, first_error rs)) \<or>
     (\<exists>e. foreign_error e \<and> r = (map (\<lambda>_. Inl e) cs, Some e) \<and>
        (d' = d \<or> d' = snd (redis_exec_all now cs d)))"

definition redis_pipe_step ::
    "int \<Rightarrow> redis_cmd list \<Rightarrow> redis_db \<Rightarrow> redis_reply result list \<times> error option \<Rightarrow> redis_db \<Rightarrow> bool" where
  "redis_pipe_step now cs d r d' \<longleftrightarrow>
     (\<exists>rs. redis_exec_all now cs d = (rs, d') \<and> r = (rs, first_error rs)) \<or>
     (\<exists>e n. foreign_error e \<and> r = (map (\<lambda>_. Inl e) cs, Some e) \<and>
        d' = snd (redis_exec_all now (take n cs) d))"

text \<open>\<open>redis.call\<close> inside a script: the server's clock stands still while it runs.\<close>

type_synonym redis_ctx = "int \<times> redis_db"

definition redis_call :: "redis_cmd \<Rightarrow> (redis_ctx, redis_reply result) io" where
  "redis_call c = State (\<lambda>s. case redis_exec (fst s) c (snd s) of (r, d') \<Rightarrow> (r, (fst s, d')))"

lemma run_redis_call [simp]:
  "run_state (redis_call c) (t, d) = (fst (redis_exec t c d), (t, snd (redis_exec t c d)))"
  by (simp add: redis_call_def split: prod.splits)

section \<open>The contract of a client\<close>

text \<open>
  \<open>rdb\<close> is the content of the server and \<open>rnow\<close> the instant of its clock, which does not go
  back.
\<close>

locale redis =
  fixes rc :: "(redis_ctx, 'w) redis_client"
    and rdb :: "'w \<Rightarrow> redis_db"
    and rnow :: "'w \<Rightarrow> int"
  assumes do_law: "wp (rc_do rc c) (\<lambda>r w'. redis_step (rnow w) c (rdb w) r (rdb w') \<and> rnow w \<le> rnow w') w"
    and tx_law: "wp (rc_tx rc cs) (\<lambda>r w'. redis_tx_step (rnow w) cs (rdb w) r (rdb w') \<and> rnow w \<le> rnow w') w"
    and pipe_law: "wp (rc_pipe rc cs) (\<lambda>r w'. redis_pipe_step (rnow w) cs (rdb w) r (rdb w') \<and> rnow w \<le> rnow w') w"
    and call_law: "rc_call rc = redis_call"
    and eval_law: "wp (rc_eval rc body) (\<lambda>r w'. rnow w \<le> rnow w' \<and>
        ((\<exists>s. run_state body (rnow w, rdb w) = (r, s) \<and> rdb w' = snd s) \<or>
         lost r \<and> (rdb w' = rdb w \<or> rdb w' = snd (snd (run_state body (rnow w, rdb w)))))) w"
begin

lemma do_wp:
  assumes "\<And>r w'. redis_step (rnow w) c (rdb w) r (rdb w') \<Longrightarrow> rnow w \<le> rnow w' \<Longrightarrow> Q r w'"
  shows "wp (rc_do rc c) Q w"
  using do_law by (rule wp_mono) (use assms in blast)

lemma tx_wp:
  assumes "\<And>r w'. redis_tx_step (rnow w) cs (rdb w) r (rdb w') \<Longrightarrow> rnow w \<le> rnow w' \<Longrightarrow> Q r w'"
  shows "wp (rc_tx rc cs) Q w"
  using tx_law by (rule wp_mono) (use assms in blast)

lemma pipe_wp:
  assumes "\<And>r w'. redis_pipe_step (rnow w) cs (rdb w) r (rdb w') \<Longrightarrow> rnow w \<le> rnow w' \<Longrightarrow> Q r w'"
  shows "wp (rc_pipe rc cs) Q w"
  using pipe_law by (rule wp_mono) (use assms in blast)

end

section \<open>Facts about the keyspace\<close>

lemma db_get_upd [simp]:
  "db_get now (d(k \<mapsto> (v, dl))) k' = (if k' = k then (if live now dl then Some v else None) else db_get now d k')"
  by (simp add: db_get_def)

lemma db_get_del [simp]: "db_get now (d(k := None)) k' = (if k' = k then None else db_get now d k')"
  by (simp add: db_get_def)

lemma live_mono: "live t dl \<Longrightarrow> t' \<le> t \<Longrightarrow> live t' dl"
  by (auto simp: live_def split: option.splits)

lemma set_ttl_pos: "0 < set_ttl dur"
proof (cases "dur < millisecond")
  case False
  then have "1 \<le> dur div millisecond"
    by (simp add: millisecond_def)
  with False show ?thesis by (simp add: set_ttl_def millisecond_def)
qed (simp add: set_ttl_def millisecond_def)

lemma set_ttl_le: "millisecond \<le> dur \<Longrightarrow> dur - millisecond < set_ttl dur \<and> set_ttl dur \<le> dur"
proof -
  assume "millisecond \<le> dur"
  then have "set_ttl dur = dur - dur mod millisecond"
    by (simp add: set_ttl_def minus_mod_eq_div_mult)
  moreover have "0 \<le> dur mod millisecond" "dur mod millisecond < millisecond"
    by (simp_all add: millisecond_def)
  ultimately show ?thesis by linarith
qed

lemma set_ttl_gt: "0 < dur \<Longrightarrow> dur - millisecond < set_ttl dur"
  using set_ttl_le [of dur] set_ttl_pos [of dur] by linarith

lemma set_deadline_late: "0 < dur \<Longrightarrow> \<exists>d. set_deadline now dur old = Some d \<and> now + dur - millisecond < d"
  using set_ttl_gt [of dur] by (simp add: set_deadline_def)

lemma redis_exec_all_append:
  "redis_exec_all now (cs @ cs') d =
     (case redis_exec_all now cs d of (rs, d1) \<Rightarrow>
      case redis_exec_all now cs' d1 of (rs', d2) \<Rightarrow> (rs @ rs', d2))"
  by (induction cs arbitrary: d) (simp_all add: case_prod_unfold)

lemma redis_exec_all_length: "length (fst (redis_exec_all now cs d)) = length cs"
  by (induction cs arbitrary: d) (simp_all add: case_prod_unfold)

text \<open>The keys a command may change; all others keep their value and deadline.\<close>

fun cmd_writes :: "redis_cmd \<Rightarrow> string set" where
  "cmd_writes (CSet k v dur) = {k}"
| "cmd_writes (CSetSec k v secs) = {k}"
| "cmd_writes (CSetNX k v dur) = {k}"
| "cmd_writes (CDel k) = {k}"
| "cmd_writes (CExpire k dur) = {k}"
| "cmd_writes (CExpireSec k secs) = {k}"
| "cmd_writes (CSAdd k m) = {k}"
| "cmd_writes (CSRem k m) = {k}"
| "cmd_writes (CZRem k m) = {k}"
| "cmd_writes (CZAdd k s m) = {k}"
| "cmd_writes _ = {}"

lemma redis_exec_frame: "k \<notin> cmd_writes c \<Longrightarrow> snd (redis_exec now c d) k = d k"
  by (cases c) (auto split: option.splits redis_val.splits list.splits)

lemma redis_exec_all_frame:
  "k \<notin> \<Union> (cmd_writes ` set cs) \<Longrightarrow> snd (redis_exec_all now cs d) k = d k"
proof (induction cs arbitrary: d)
  case (Cons c cs)
  then have "snd (redis_exec_all now cs (snd (redis_exec now c d))) k = snd (redis_exec now c d) k"
    by simp
  also have "\<dots> = d k"
    using Cons.prems by (intro redis_exec_frame) simp
  finally show ?case by (simp add: case_prod_unfold)
qed simp

lemma redis_step_frame: "redis_step now c d r d' \<Longrightarrow> k \<notin> cmd_writes c \<Longrightarrow> d' k = d k"
  unfolding redis_step_def using redis_exec_frame [of k c now d] by auto

lemma redis_tx_step_frame:
  "redis_tx_step now cs d r d' \<Longrightarrow> k \<notin> \<Union> (cmd_writes ` set cs) \<Longrightarrow> d' k = d k"
  unfolding redis_tx_step_def using redis_exec_all_frame [of k cs now d] by auto

lemma redis_pipe_step_frame:
  assumes "redis_pipe_step now cs d r d'" and "k \<notin> \<Union> (cmd_writes ` set cs)"
  shows "d' k = d k"
proof -
  have "k \<notin> \<Union> (cmd_writes ` set (take n cs))" for n
    using assms(2) in_set_takeD by fastforce
  with assms show ?thesis
    unfolding redis_pipe_step_def
    using redis_exec_all_frame [of k cs now d] redis_exec_all_frame [of k "take n cs" now d for n]
    by auto
qed

lemma first_error_None: "first_error rs = None \<longleftrightarrow> (\<forall>r\<in>set rs. \<exists>x. r = Inr x)"
  by (induction rs rule: first_error.induct) auto

text \<open>Readings of single commands, in the form the repositories need them.\<close>

lemma redis_step_Get:
  assumes "redis_step now (CGet k) d r d'"
  shows "d' = d \<and> (lost r \<or>
    r = (case db_get now d k of None \<Rightarrow> Inl (Sentinel RedisNil) | Some (VStr s) \<Rightarrow> Inr (RBulk s) | Some _ \<Rightarrow> Inl wrongtype))"
  using assms unfolding redis_step_def
  by (auto split: option.splits redis_val.splits)

lemma redis_step_ok:
  "redis_step now c d r d' \<Longrightarrow> r = Inr x \<Longrightarrow> redis_exec now c d = (Inr x, d')"
  by (auto simp: redis_step_def lost_def)

lemma redis_tx_step_ok:
  "redis_tx_step now cs d (rs, None) d' \<Longrightarrow> redis_exec_all now cs d = (rs, d') \<and> first_error rs = None"
  by (auto simp: redis_tx_step_def)

lemma redis_pipe_step_ok:
  "redis_pipe_step now cs d (rs, None) d' \<Longrightarrow> redis_exec_all now cs d = (rs, d') \<and> first_error rs = None"
  by (auto simp: redis_pipe_step_def)

lemma redis_exec_all_head:
  "redis_exec_all now (c # cs) d = (rs, d') \<Longrightarrow> k \<notin> \<Union> (cmd_writes ` set cs) \<Longrightarrow>
     d' k = snd (redis_exec now c d) k"
  using redis_exec_all_frame [of k cs now "snd (redis_exec now c d)"] by (auto simp: case_prod_unfold)

lemma db_get_later: "db_get t d k = None \<Longrightarrow> t \<le> t' \<Longrightarrow> db_get t' d k = None"
  using live_mono by (auto simp: db_get_def split: option.splits if_splits)

lemma foreign_wrongtype [simp]: "foreign_error wrongtype" "foreign_error unexpected"
  by (simp_all add: wrongtype_def unexpected_def)

text \<open>Whatever the reply, some prefix of the commands has been executed.\<close>

lemma redis_step_db: "redis_step now c d r d' \<Longrightarrow> d' = d \<or> d' = snd (redis_exec now c d)"
  by (auto simp: redis_step_def)

lemma redis_tx_step_db: "redis_tx_step now cs d r d' \<Longrightarrow> d' = d \<or> d' = snd (redis_exec_all now cs d)"
  by (auto simp: redis_tx_step_def)

lemma redis_pipe_step_db: "redis_pipe_step now cs d r d' \<Longrightarrow> \<exists>n. d' = snd (redis_exec_all now (take n cs) d)"
  unfolding redis_pipe_step_def by (metis order_refl snd_conv take_all)

end
