(* ===== verification/Call_Trace.thy ===== *)
theory Call_Trace imports Process_State Interfaces begin

text \<open>
  The services are functions of the dictionaries of the components they call. What they do is
  therefore the sequence of those calls with their answers, and \<open>recorded\<close> makes it
  observable: it turns any dictionary over a world \<open>'w\<close> into one over \<open>'w\<close> and a list of
  events that behaves the same on \<open>'w\<close> and appends an event per call. A statement about a
  service over recorded dictionaries holds for every implementation of them, whatever
  they answer.
\<close>

section \<open>Calls\<close>

datatype call =
    IssueTokens string string bool "token_set result"
  | RefreshToken string "token_set result"
  | RevokeToken string "error option"
  | RevokeAllForSubject string "error option"
  | IntrospectToken string "introspect_result result"
  | ValidateAccessToken string "access_token_claims result"
  | ForceRefreshJWKS "error option"
  | GetIdentity string "identity result"
  | GetIdentityByEmail string "identity result"
  | KratosDeleteSessions string "error option"
  | CreateIdentity string "string result"
  | GetSessionIDByToken string "string result"
  | KratosDeleteSession string "error option"
  | GetIdentityFull string "identity_full result"
  | SessionCreate bff_session "error option"
  | SessionGet string "bff_session result"
  | SessionUpdate bff_session "error option"
  | SessionDelete string "error option"
  | SessionGetAll string "bff_session list result"
  | SessionDeleteAll string "string list result"
  | AcquireLock string int "bool result"
  | ReleaseLock string "error option"
  | BlacklistAdd string int "error option"
  | BlacklistCheck string "bool \<times> error option"
  | BlacklistBatch "string list" int "error option"
  | SaveLogin string string string int "error option"
  | GetDeviceToken string string "string result"
  | RotateToken string string string int "error option"
  | LogoutDevice string string "error option"
  | LogoutAllDevices string "error option"
  | SaveDeviceSession device_session "error option"
  | UpdateLastUsedAt string string "error option"
  | RevokeDevice string string "error option"
  | RevokeAllDevices string "error option"
  | GetDeviceSessions string "device_session list result"
  | CountActiveDevices string "int \<times> error option"
  | GlobalAdd blacklist_target_type string string "error option"
  | GlobalCheck blacklist_target_type string "bool \<times> error option"
  | GlobalList "global_blacklist_entry list result"
  | GlobalRemove blacklist_target_type string "error option"
  | PublishAccess access_log_event
  | PublishAuthSession auth_session_event
  | PublishBlacklistSync blacklist_sync_event
  | PublisherClose "error option"

type_synonym 'w traced = "'w \<times> call list"

definition recorded :: "('a \<Rightarrow> 'e) \<Rightarrow> ('w, 'a) io \<Rightarrow> ('w \<times> 'e list, 'a) io" where
  "recorded ev m = State (\<lambda>(w, l). case run_state m w of (r, w') \<Rightarrow> (r, (w', l @ [ev r])))"

definition silent :: "('w, 'a) io \<Rightarrow> ('w \<times> 'e list, 'a) io" where
  "silent m = State (\<lambda>(w, l). case run_state m w of (r, w') \<Rightarrow> (r, (w', l)))"

lemma run_recorded: "run_state (recorded ev m) (w, l) = (case run_state m w of (r, w') \<Rightarrow> (r, (w', l @ [ev r])))"
  by (simp add: recorded_def)

lemma run_silent: "run_state (silent m) (w, l) = (case run_state m w of (r, w') \<Rightarrow> (r, (w', l)))"
  by (simp add: silent_def)

text \<open>A recorded call may answer anything; it leaves one event.\<close>

lemma recorded_wp: "(\<And>r w'. Q r (w', snd wl @ [ev r])) \<Longrightarrow> wp (recorded ev m) Q wl"
  by (cases wl) (auto intro!: wpI simp: run_recorded split: prod.splits)

lemma silent_wp: "(\<And>r w'. run_state m (fst wl) = (r, w') \<Longrightarrow> Q r (w', snd wl)) \<Longrightarrow> wp (silent m) Q wl"
  by (cases wl) (auto intro!: wpI simp: run_silent split: prod.splits)

section \<open>Recording dictionaries\<close>

definition rec_hydra :: "'w hydra_client \<Rightarrow> 'w traced hydra_client" where
  "rec_hydra h = \<lparr>
     hy_IssueTokens = (\<lambda>k d b. recorded (IssueTokens k d b) (hy_IssueTokens h k d b)),
     hy_RefreshToken = (\<lambda>t. recorded (RefreshToken t) (hy_RefreshToken h t)),
     hy_RevokeToken = (\<lambda>t. recorded (RevokeToken t) (hy_RevokeToken h t)),
     hy_RevokeAllForSubject = (\<lambda>k. recorded (RevokeAllForSubject k) (hy_RevokeAllForSubject h k)),
     hy_IntrospectToken = (\<lambda>t. recorded (IntrospectToken t) (hy_IntrospectToken h t)),
     hy_ValidateAccessToken = (\<lambda>t. recorded (ValidateAccessToken t) (hy_ValidateAccessToken h t)),
     hy_ForceRefreshJWKS = recorded ForceRefreshJWKS (hy_ForceRefreshJWKS h)\<rparr>"

definition rec_kratos :: "'w kratos_client \<Rightarrow> 'w traced kratos_client" where
  "rec_kratos c = \<lparr>
     kr_GetIdentity = (\<lambda>k. recorded (GetIdentity k) (kr_GetIdentity c k)),
     kr_GetIdentityByEmail = (\<lambda>e. recorded (GetIdentityByEmail e) (kr_GetIdentityByEmail c e)),
     kr_DeleteSessions = (\<lambda>k. recorded (KratosDeleteSessions k) (kr_DeleteSessions c k)),
     kr_CreateIdentity = (\<lambda>e. recorded (CreateIdentity e) (kr_CreateIdentity c e)),
     kr_GetSessionIDByToken = (\<lambda>t. recorded (GetSessionIDByToken t) (kr_GetSessionIDByToken c t)),
     kr_DeleteSession = (\<lambda>i. recorded (KratosDeleteSession i) (kr_DeleteSession c i)),
     kr_GetIdentityFull = (\<lambda>k. recorded (GetIdentityFull k) (kr_GetIdentityFull c k))\<rparr>"

definition rec_store :: "'w session_store \<Rightarrow> 'w traced session_store" where
  "rec_store s = \<lparr>
     ss_Create = (\<lambda>x. recorded (SessionCreate x) (ss_Create s x)),
     ss_Get = (\<lambda>i. recorded (SessionGet i) (ss_Get s i)),
     ss_Update = (\<lambda>x. recorded (SessionUpdate x) (ss_Update s x)),
     ss_Delete = (\<lambda>i. recorded (SessionDelete i) (ss_Delete s i)),
     ss_GetAllForUser = (\<lambda>k. recorded (SessionGetAll k) (ss_GetAllForUser s k)),
     ss_DeleteAllForUser = (\<lambda>k. recorded (SessionDeleteAll k) (ss_DeleteAllForUser s k)),
     ss_AcquireRefreshLock = (\<lambda>i t. recorded (AcquireLock i t) (ss_AcquireRefreshLock s i t)),
     ss_ReleaseRefreshLock = (\<lambda>i. recorded (ReleaseLock i) (ss_ReleaseRefreshLock s i))\<rparr>"

definition rec_blacklist :: "'w blacklist \<Rightarrow> 'w traced blacklist" where
  "rec_blacklist b = \<lparr>
     bl_Add = (\<lambda>i t. recorded (BlacklistAdd i t) (bl_Add b i t)),
     bl_IsBlacklisted = (\<lambda>i. recorded (BlacklistCheck i) (bl_IsBlacklisted b i)),
     bl_AddBatch = (\<lambda>is t. recorded (BlacklistBatch is t) (bl_AddBatch b is t))\<rparr>"

definition rec_repo :: "'w redis_repo \<Rightarrow> 'w traced redis_repo" where
  "rec_repo r = \<lparr>
     rr_SaveLogin = (\<lambda>k d t n. recorded (SaveLogin k d t n) (rr_SaveLogin r k d t n)),
     rr_GetDeviceRefreshToken = (\<lambda>k d. recorded (GetDeviceToken k d) (rr_GetDeviceRefreshToken r k d)),
     rr_RotateRefreshToken = (\<lambda>k d t n. recorded (RotateToken k d t n) (rr_RotateRefreshToken r k d t n)),
     rr_LogoutDevice = (\<lambda>k d. recorded (LogoutDevice k d) (rr_LogoutDevice r k d)),
     rr_LogoutAll = (\<lambda>k. recorded (LogoutAllDevices k) (rr_LogoutAll r k))\<rparr>"

definition rec_devices :: "'w device_session_repo \<Rightarrow> 'w traced device_session_repo" where
  "rec_devices r = \<lparr>
     dr_SaveDeviceSession = (\<lambda>s. recorded (SaveDeviceSession s) (dr_SaveDeviceSession r s)),
     dr_UpdateLastUsedAt = (\<lambda>k d. recorded (UpdateLastUsedAt k d) (dr_UpdateLastUsedAt r k d)),
     dr_RevokeDevice = (\<lambda>k d. recorded (RevokeDevice k d) (dr_RevokeDevice r k d)),
     dr_RevokeAllDevices = (\<lambda>k. recorded (RevokeAllDevices k) (dr_RevokeAllDevices r k)),
     dr_GetDeviceSessions = (\<lambda>k. recorded (GetDeviceSessions k) (dr_GetDeviceSessions r k)),
     dr_CountActiveDevices = (\<lambda>k. recorded (CountActiveDevices k) (dr_CountActiveDevices r k))\<rparr>"

definition rec_global :: "'w global_blacklist \<Rightarrow> 'w traced global_blacklist" where
  "rec_global g = \<lparr>
     gb_Add = (\<lambda>t v r. recorded (GlobalAdd t v r) (gb_Add g t v r)),
     gb_IsBlacklisted = (\<lambda>t v. recorded (GlobalCheck t v) (gb_IsBlacklisted g t v)),
     gb_ListAll = recorded GlobalList (gb_ListAll g),
     gb_Remove = (\<lambda>t v. recorded (GlobalRemove t v) (gb_Remove g t v))\<rparr>"

definition rec_publisher :: "'w event_publisher \<Rightarrow> 'w traced event_publisher" where
  "rec_publisher p = \<lparr>
     pub_Publish = (\<lambda>e. recorded (\<lambda>_. PublishAccess e) (pub_Publish p e)),
     pub_PublishAuthSession = (\<lambda>e. recorded (\<lambda>_. PublishAuthSession e) (pub_PublishAuthSession p e)),
     pub_PublishBlacklistSync = (\<lambda>e. recorded (\<lambda>_. PublishBlacklistSync e) (pub_PublishBlacklistSync p e)),
     pub_Close = recorded PublisherClose (pub_Close p)\<rparr>"

definition silent_env :: "'w go_env \<Rightarrow> ('w \<times> 'e list) go_env" where
  "silent_env E = \<lparr>env_now = silent (env_now E), env_wait = (\<lambda>d. silent (env_wait E d)),
     env_int63n = (\<lambda>n. silent (env_int63n E n)), env_rand = (\<lambda>n. silent (env_rand E n)),
     env_format = env_format E, env_parse = env_parse E\<rparr>"

lemmas recorders = rec_hydra_def rec_kratos_def rec_store_def rec_blacklist_def rec_repo_def rec_devices_def
  rec_global_def rec_publisher_def silent_env_def

end
