(* ===== verification/Telemetry.thy ===== *)
theory Telemetry imports Call_Trace begin

text \<open>
  What the program tells its operators: the collectors of \<open>internal/metrics/metrics.go\<close>,
  \<open>internal/resilience/metrics.go\<close> and \<open>internal/grpc/interceptor/prometheus.go\<close>, and the calls that count, time and log.

  A collector is the value the code hands to the Prometheus library: name, help, kind, label
  names and constant labels. The registry is the list of the collectors that were registered,
  and \<open>MustRegister\<close> panics (\<open>None\<close>) as the library documents it. A \<open>telemetry\<close> is the library
  seen from a request: increment a counter, observe a duration (kept in nanoseconds, where the
  code passes seconds as a float), print a log line. The instances are in the theories of the
  code that uses them.
\<close>

section \<open>Collectors\<close>

datatype collector_kind = CounterKind | HistogramKind | GaugeKind

record collector =
  co_Name :: string
  co_Help :: string
  co_Kind :: collector_kind
  co_Labels :: "string list"
  co_Const :: "(string \<times> string) list"

definition NewCounterVec :: "string \<Rightarrow> string \<Rightarrow> string list \<Rightarrow> collector" where
  "NewCounterVec name help labels = \<lparr>co_Name = name, co_Help = help, co_Kind = CounterKind, co_Labels = labels, co_Const = []\<rparr>"

definition NewHistogramVec :: "string \<Rightarrow> string \<Rightarrow> string list \<Rightarrow> collector" where
  "NewHistogramVec name help labels = \<lparr>co_Name = name, co_Help = help, co_Kind = HistogramKind, co_Labels = labels, co_Const = []\<rparr>"

definition NewCounter :: "string \<Rightarrow> string \<Rightarrow> collector" where
  "NewCounter name help = NewCounterVec name help []"

definition NewGauge :: "string \<Rightarrow> string \<Rightarrow> (string \<times> string) list \<Rightarrow> collector" where
  "NewGauge name help const = \<lparr>co_Name = name, co_Help = help, co_Kind = GaugeKind, co_Labels = [], co_Const = const\<rparr>"

lemmas collector_news = NewCounterVec_def NewHistogramVec_def NewCounter_def NewGauge_def

definition HTTPRequests :: collector where
  "HTTPRequests = NewCounterVec ''central_auth_http_requests_total'' ''Total HTTP requests by method, path, and status code.''
     [''method'', ''path'', ''status'']"

definition HTTPDuration :: collector where
  "HTTPDuration = NewHistogramVec ''central_auth_http_request_duration_seconds'' ''HTTP request latency by method and path.''
     [''method'', ''path'']"

definition AuthOps :: collector where
  "AuthOps = NewCounterVec ''central_auth_auth_operations_total''
     ''Total auth operations (login, refresh, logout) by operation and result.'' [''operation'', ''result'']"

definition RedisOps :: collector where
  "RedisOps = NewHistogramVec ''central_auth_redis_operation_duration_seconds'' ''Redis operation latency by operation name.''
     [''operation'']"

definition PostgresOps :: collector where
  "PostgresOps = NewHistogramVec ''central_auth_postgres_operation_duration_seconds''
     ''Postgres operation latency by operation name.'' [''operation'']"

definition OryOps :: collector where
  "OryOps = NewHistogramVec ''central_auth_ory_operation_duration_seconds''
     ''Ory Kratos/Hydra API call latency by operation name.'' [''operation'']"

definition BFFSessionsCreated :: collector where
  "BFFSessionsCreated = NewCounter ''central_auth_bff_sessions_created_total'' ''Total BFF sessions created (logins).''"

definition BFFSessionsDestroyed :: collector where
  "BFFSessionsDestroyed = NewCounter ''central_auth_bff_sessions_destroyed_total'' ''Total BFF sessions destroyed (logouts).''"

definition BFFBlacklistChecks :: collector where
  "BFFBlacklistChecks = NewCounterVec ''central_auth_bff_blacklist_checks_total''
     ''Total BFF blacklist checks by result (hit/miss).'' [''result'']"

definition BFFTokenRefreshes :: collector where
  "BFFTokenRefreshes = NewCounterVec ''central_auth_bff_token_refreshes_total''
     ''Total proactive Hydra token refreshes triggered by the BFF.'' [''result'']"

definition BFFJWKSDeprecatedKidUsed :: collector where
  "BFFJWKSDeprecatedKidUsed = NewCounter ''central_auth_bff_jwks_deprecated_kid_used_total''
     ''Times a JWT was validated with a key from the previous JWKS generation.''"

definition BFFCSRFRejected :: collector where
  "BFFCSRFRejected = NewCounter ''central_auth_bff_csrf_rejected_total'' ''Total requests rejected by the CSRF middleware.''"

definition KafkaEventsDropped :: collector where
  "KafkaEventsDropped = NewCounter ''central_auth_kafka_events_dropped_total''
     ''Total access-log events dropped due to full Kafka producer channel.''"

definition KafkaAuthSessionsPublished :: collector where
  "KafkaAuthSessionsPublished = NewCounter ''central_auth_kafka_auth_sessions_published_total''
     ''Total AuthSessionEvent messages successfully written to Kafka at login.''"

definition KafkaAuthSessionsDropped :: collector where
  "KafkaAuthSessionsDropped = NewCounter ''central_auth_kafka_auth_sessions_dropped_total''
     ''Total AuthSessionEvent messages dropped due to full auth producer channel.''"

definition KafkaConsumerErrors :: collector where
  "KafkaConsumerErrors = NewCounterVec ''central_auth_kafka_consumer_errors_total''
     ''Total Kafka consumer processing errors by operation.'' [''operation'']"

definition KafkaConsumerSkipped :: collector where
  "KafkaConsumerSkipped = NewCounter ''central_auth_kafka_consumer_skipped_total''
     ''Total non-auth-session messages skipped by the DeviceSessionConsumer.''"

definition KafkaConsumerLag :: collector where
  "KafkaConsumerLag = NewGauge ''central_auth_kafka_consumer_lag''
     ''Current Kafka consumer group lag (messages behind) for the device-session consumer.'' []"

text \<open>\<open>prometheus.BuildFQName\<close> joins namespace, subsystem and name.\<close>

definition BuildFQName :: "string \<Rightarrow> string \<Rightarrow> string \<Rightarrow> string" where
  "BuildFQName namespace subsystem name = namespace @ ''_'' @ subsystem @ ''_'' @ name"

definition grpcRequestsTotal :: collector where
  "grpcRequestsTotal = NewCounterVec (BuildFQName ''central_auth'' ''grpc'' ''requests_total'')
     ''Total number of gRPC requests by method and status code.'' [''method'', ''code'']"

definition grpcRequestDuration :: collector where
  "grpcRequestDuration = NewHistogramVec (BuildFQName ''central_auth'' ''grpc'' ''request_duration_seconds'')
     ''gRPC request latency histogram.'' [''method'']"

text \<open>\<open>internal/resilience/metrics.go\<close>.\<close>

definition CBState :: collector where
  "CBState = NewGauge ''central_auth_redis_circuit_breaker_state'' ''Redis circuit breaker state: 0=closed 1=open 2=half-open.'' []"

definition CBTripsTotal :: collector where
  "CBTripsTotal = NewCounter ''central_auth_redis_circuit_breaker_trips_total''
     ''Total number of times the Redis circuit breaker has tripped open.''"

definition L1CacheHits :: collector where
  "L1CacheHits = NewCounterVec ''central_auth_l1_cache_hits_total'' ''L1 in-process cache hits by store.'' [''store'']"

definition L1CacheMisses :: collector where
  "L1CacheMisses = NewCounterVec ''central_auth_l1_cache_misses_total'' ''L1 in-process cache misses by store.'' [''store'']"

definition PgFallbackTotal :: collector where
  "PgFallbackTotal = NewCounterVec ''central_auth_pg_fallback_total''
     ''PostgreSQL fallback queries by operation (used when Redis circuit is open).'' [''operation'']"

section \<open>The registry\<close>

text \<open>
  \<open>Registerer.Register\<close> refuses a collector that was registered before, that is one with the
  same name and the same values of its constant labels, and one that has the name but not the
  label names and the help text of another; \<open>MustRegister\<close> panics then.
\<close>

definition clashes :: "collector \<Rightarrow> collector \<Rightarrow> bool" where
  "clashes c d \<longleftrightarrow> co_Name d = co_Name c \<and>
     (map snd (co_Const d) = map snd (co_Const c) \<or> map fst (co_Const d) \<noteq> map fst (co_Const c) \<or> co_Labels d \<noteq> co_Labels c \<or>
      co_Help d \<noteq> co_Help c)"

fun MustRegister :: "collector list \<Rightarrow> collector list \<Rightarrow> collector list option" where
  "MustRegister [] reg = Some reg"
| "MustRegister (c # cs) reg = (if list_ex (clashes c) reg then None else MustRegister cs (reg @ [c]))"

text \<open>
  The package variables of the interceptors register themselves (\<open>promauto\<close>); \<open>metrics\<close> and
  \<open>resilience\<close> have an \<open>init\<close>. The collectors of the Go runtime are the library's.
\<close>

definition interceptor_collectors :: "collector list" where
  "interceptor_collectors = [grpcRequestsTotal, grpcRequestDuration]"

definition metrics_collectors :: "collector list" where
  "metrics_collectors =
     [HTTPRequests, HTTPDuration, AuthOps, RedisOps, PostgresOps, OryOps, BFFSessionsCreated, BFFSessionsDestroyed,
      BFFBlacklistChecks, BFFTokenRefreshes, BFFJWKSDeprecatedKidUsed, BFFCSRFRejected, KafkaEventsDropped,
      KafkaAuthSessionsPublished, KafkaAuthSessionsDropped, KafkaConsumerErrors, KafkaConsumerSkipped, KafkaConsumerLag]"

definition resilience_collectors :: "collector list" where
  "resilience_collectors = [CBState, CBTripsTotal, L1CacheHits, L1CacheMisses, PgFallbackTotal]"

definition package_collectors :: "collector list" where
  "package_collectors = interceptor_collectors @ metrics_collectors @ resilience_collectors"

definition RegisterPGXStats :: "string \<Rightarrow> collector list \<Rightarrow> collector list option" where
  "RegisterPGXStats dbName =
     MustRegister
       [NewGauge ''go_pgx_pool_connections_open'' ''The number of established connections both in use and idle.'' [(''db_name'', dbName)],
        NewGauge ''go_pgx_pool_connections_in_use'' ''The number of connections currently in use.'' [(''db_name'', dbName)],
        NewGauge ''go_pgx_pool_connections_idle'' ''The number of idle connections.'' [(''db_name'', dbName)]]"

text \<open>The registry of a started process: package initialisation in the order of the imports, then \<open>main\<close>.\<close>

definition started_registry :: "string list \<Rightarrow> collector list option" where
  "started_registry pools =
     fold (\<lambda>db reg. Option.bind reg (RegisterPGXStats db)) pools
       (Option.bind (Option.bind (MustRegister interceptor_collectors []) (MustRegister metrics_collectors)) (MustRegister resilience_collectors))"

lemmas collector_defs = HTTPRequests_def HTTPDuration_def AuthOps_def RedisOps_def PostgresOps_def OryOps_def BFFSessionsCreated_def
  BFFSessionsDestroyed_def BFFBlacklistChecks_def BFFTokenRefreshes_def BFFJWKSDeprecatedKidUsed_def BFFCSRFRejected_def
  KafkaEventsDropped_def KafkaAuthSessionsPublished_def KafkaAuthSessionsDropped_def KafkaConsumerErrors_def
  KafkaConsumerSkipped_def KafkaConsumerLag_def CBState_def CBTripsTotal_def L1CacheHits_def L1CacheMisses_def PgFallbackTotal_def grpcRequestsTotal_def grpcRequestDuration_def BuildFQName_def


text \<open>What \<open>main\<close> registers before the first pool, and the three gauges of a pool.\<close>

definition pgx_gauges :: "string \<Rightarrow> collector list" where
  "pgx_gauges db =
     map (\<lambda>(n, h). NewGauge n h [(''db_name'', db)])
       [(''go_pgx_pool_connections_open'', ''The number of established connections both in use and idle.''),
        (''go_pgx_pool_connections_in_use'', ''The number of connections currently in use.''),
        (''go_pgx_pool_connections_idle'', ''The number of idle connections.'')]"

lemma RegisterPGXStats_gauges: "RegisterPGXStats db = MustRegister (pgx_gauges db)"
  by (simp add: RegisterPGXStats_def pgx_gauges_def fun_eq_iff)

lemma init_succeeds: "Option.bind (Option.bind (MustRegister interceptor_collectors []) (MustRegister metrics_collectors)) (MustRegister resilience_collectors) =
    Some package_collectors"
  by code_simp

lemma gauges_fresh: "list_all (\<lambda>c. list_all (\<lambda>n. co_Name c \<noteq> n) (map co_Name (pgx_gauges []))) package_collectors"
  by code_simp

lemma pgx_names: "map co_Name (pgx_gauges db) = map co_Name (pgx_gauges [])"
  by (simp add: pgx_gauges_def NewGauge_def)

lemma clash_name: "clashes c d \<Longrightarrow> co_Name d = co_Name c"
  by (simp add: clashes_def)

lemma fresh_no_clash: "c \<in> set (pgx_gauges db) \<Longrightarrow> d \<in> set package_collectors \<Longrightarrow> clashes c d \<Longrightarrow> False"
proof -
  assume c: "c \<in> set (pgx_gauges db)" and d: "d \<in> set package_collectors" and "clashes c d"
  then have "co_Name d \<in> set (map co_Name (pgx_gauges []))"
    unfolding pgx_names [of db, symmetric] by (auto dest: clash_name)
  with d show False
    using gauges_fresh by (simp only: list_all_iff) blast
qed

lemma gauge_clash: "c \<in> set (pgx_gauges db) \<Longrightarrow> c' \<in> set (pgx_gauges db') \<Longrightarrow> clashes c c' \<longleftrightarrow> db = db' \<and> co_Name c = co_Name c'"
  by (auto simp: pgx_gauges_def clashes_def NewGauge_def)

lemma gauges_distinct: "distinct (map co_Name (pgx_gauges db))"
  by (simp add: pgx_gauges_def NewGauge_def)

lemma MustRegister_ok:
  "\<forall>c \<in> set cs. \<forall>d \<in> set reg. \<not> clashes c d \<Longrightarrow> distinct (map co_Name cs) \<Longrightarrow> MustRegister cs reg = Some (reg @ cs)"
proof (induction cs arbitrary: reg)
  case (Cons c cs)
  have "\<forall>c' \<in> set cs. \<forall>d \<in> set (reg @ [c]). \<not> clashes c' d"
    using Cons.prems clash_name by fastforce
  then show ?case
    using Cons.IH [of "reg @ [c]"] Cons.prems by (simp add: list_ex_iff)
qed simp

definition registry_of :: "string list \<Rightarrow> collector list" where
  "registry_of dbs = package_collectors @ concat (map pgx_gauges dbs)"

lemma register_pool: "RegisterPGXStats db (registry_of dbs) = (if db \<in> set dbs then None else Some (registry_of (dbs @ [db])))"
proof (cases "db \<in> set dbs")
  case True
  then have "list_ex (clashes (hd (pgx_gauges db))) (registry_of dbs)"
    using gauge_clash [of "hd (pgx_gauges db)" db "hd (pgx_gauges db)" db] by (fastforce simp: list_ex_iff pgx_gauges_def registry_of_def)
  with True show ?thesis
    by (simp add: RegisterPGXStats_gauges pgx_gauges_def)
next
  case False
  then have "MustRegister (pgx_gauges db) (registry_of dbs) = Some (registry_of dbs @ pgx_gauges db)"
    by (intro MustRegister_ok ballI gauges_distinct) (auto simp: registry_of_def gauge_clash dest: fresh_no_clash)
  with False show ?thesis
    by (simp add: RegisterPGXStats_gauges registry_of_def)
qed

lemma register_pools:
  "fold (\<lambda>db reg. Option.bind reg (RegisterPGXStats db)) pools (Some (registry_of dbs)) =
     (if distinct pools \<and> set pools \<inter> set dbs = {} then Some (registry_of (dbs @ pools)) else None)"
proof (induction pools arbitrary: dbs)
  case (Cons p pools)
  have stuck: "fold (\<lambda>db reg. Option.bind reg (RegisterPGXStats db)) ps None = None" for ps
    by (induction ps) simp_all
  show ?case
    using Cons.IH [of "dbs @ [p]"] by (auto simp: register_pool stuck)
qed simp

text \<open>
  The process starts with every collector registered, and a further pool can be registered as
  long as its name is new; the same name twice panics.
\<close>

lemma metrics_register:
  "started_registry pools = (if distinct pools then Some (package_collectors @ concat (map pgx_gauges pools)) else None)"
  unfolding started_registry_def init_succeeds using register_pools [of pools "[]"] by (simp add: registry_of_def)

section \<open>Telemetry\<close>

text \<open>\<open>tl_Code\<close> is the name of a status code (\<open>codes.Code.String\<close>); a line of the log is its fields and a latency.\<close>

record 'w telemetry =
  tl_Inc :: "collector \<Rightarrow> string list \<Rightarrow> ('w, unit) io"
  tl_Observe :: "collector \<Rightarrow> string list \<Rightarrow> int \<Rightarrow> ('w, unit) io"
  tl_Printf :: "string list \<Rightarrow> int \<Rightarrow> ('w, unit) io"
  tl_Code :: "int \<Rightarrow> string"

definition silent_telemetry :: "'w telemetry \<Rightarrow> ('w \<times> 'e list) telemetry" where
  "silent_telemetry T = \<lparr>tl_Inc = (\<lambda>c vs. silent (tl_Inc T c vs)), tl_Observe = (\<lambda>c vs d. silent (tl_Observe T c vs d)),
     tl_Printf = (\<lambda>s d. silent (tl_Printf T s d)), tl_Code = tl_Code T\<rparr>"

text \<open>A call that is timed: \<open>start := time.Now()\<close>, the call, \<open>Observe(time.Since(start))\<close>.\<close>

definition timed :: "'w go_env \<Rightarrow> 'w telemetry \<Rightarrow> collector \<Rightarrow> string \<Rightarrow> ('w, 'a) io \<Rightarrow> ('w, 'a) io" where
  "timed E T c operation call = do {
     start \<leftarrow> env_now E;
     r \<leftarrow> call;
     now \<leftarrow> env_now E;
     tl_Observe T c [operation] (time_sub now start);
     State_Monad.return r
   }"

text \<open>Telemetry that goes nowhere, and telemetry that is written down.\<close>

definition no_telemetry :: "(int \<Rightarrow> string) \<Rightarrow> 'w telemetry" where
  "no_telemetry code = \<lparr>tl_Inc = (\<lambda>_ _. State_Monad.return ()), tl_Observe = (\<lambda>_ _ _. State_Monad.return ()),
     tl_Printf = (\<lambda>_ _. State_Monad.return ()), tl_Code = code\<rparr>"

datatype observation = Counted collector "string list" | Observed collector "string list" int | Logged "string list" int

definition rec_telemetry :: "(int \<Rightarrow> string) \<Rightarrow> ('w \<times> observation list) telemetry" where
  "rec_telemetry code = \<lparr>tl_Inc = (\<lambda>c vs. recorded (\<lambda>_. Counted c vs) (State_Monad.return ())),
     tl_Observe = (\<lambda>c vs d. recorded (\<lambda>_. Observed c vs d) (State_Monad.return ())),
     tl_Printf = (\<lambda>s d. recorded (\<lambda>_. Logged s d) (State_Monad.return ())), tl_Code = code\<rparr>"

text \<open>
  \<open>WithLabelValues\<close> panics when it gets more or fewer values than the collector has labels; a
  collector that no registry holds is counted but never scraped.
\<close>

fun well_labelled :: "collector list \<Rightarrow> observation \<Rightarrow> bool" where
  "well_labelled reg (Counted c vs) \<longleftrightarrow> c \<in> set reg \<and> co_Kind c = CounterKind \<and> length vs = length (co_Labels c)"
| "well_labelled reg (Observed c vs d) \<longleftrightarrow> c \<in> set reg \<and> co_Kind c = HistogramKind \<and> length vs = length (co_Labels c)"
| "well_labelled reg (Logged s d) \<longleftrightarrow> True"

section \<open>Code that is observed\<close>

text \<open>Lifting a program to a recorded world commutes with the constructs of the program.\<close>

lemma silent_return [simp]: "silent (State_Monad.return a) = State_Monad.return a"
  by (rule state.expand) (simp add: silent_def State_Monad.return_def fun_eq_iff)

lemma silent_bind: "silent (State_Monad.bind m f) = State_Monad.bind (silent m) (\<lambda>a. silent (f a))"
  by (rule state.expand) (auto simp: silent_def State_Monad.bind_def fun_eq_iff split: prod.splits)

lemma silent_if: "silent (if b then m else n) = (if b then silent m else silent n)"
  by simp

lemma silent_option: "silent (case x of None \<Rightarrow> m | Some y \<Rightarrow> f y) = (case x of None \<Rightarrow> silent m | Some y \<Rightarrow> silent (f y))"
  by (cases x) simp_all

lemma silent_sum: "silent (case x of Inl e \<Rightarrow> f e | Inr y \<Rightarrow> g y) = (case x of Inl e \<Rightarrow> silent (f e) | Inr y \<Rightarrow> silent (g y))"
  by (cases x) simp_all

lemma silent_list: "silent (case x of [] \<Rightarrow> m | y # ys \<Rightarrow> f y ys) = (case x of [] \<Rightarrow> silent m | y # ys \<Rightarrow> silent (f y ys))"
  by (cases x) simp_all

lemmas silent_steps = silent_bind silent_if silent_option silent_sum silent_list

end
