(* ===== verification/Postgres_Repositories.thy ===== *)
theory Postgres_Repositories imports Telemetry begin

text \<open>
  \<open>internal/repository\<close>, the three Postgres repositories: \<open>device_session_repository.go\<close>,
  \<open>blacklist_pg_repository.go\<close> and \<open>global_blacklist_pg_repository.go\<close>.

  Each SQL statement of the source is a constructor with its parameters; \<open>pg_apply\<close> and
  \<open>pg_answer\<close> translate the statements to transformations and readings of the tables of
  \<open>scripts/schema.sql\<close>. The pool is a parameter, the contract \<open>postgres\<close> its law: a
  statement is executed and succeeds, or fails and may or may not have been executed. The
  driver stores timestamps with microsecond precision (\<open>pg_time\<close>).

  Proved: the upsert of a device session keeps the key unique, is idempotent, never moves
  \<open>last_used_at\<close> back, never loses a JTI and only a new JTI un-revokes; the blacklist upsert
  never shortens a revocation.
\<close>

section \<open>Tables\<close>

record pg_db =
  pg_device_sessions :: "device_session list"
  pg_next_id :: int
  pg_blacklisted :: "(string \<times> int) list"
  pg_blacklists :: "global_blacklist_entry list"

definition pg_time :: "int \<Rightarrow> int" where
  "pg_time t = t div 1000 * 1000"

lemma pg_time_idem [simp]: "pg_time (pg_time t) = pg_time t"
  by (simp add: pg_time_def)

lemma pg_time_mono: "s \<le> t \<Longrightarrow> pg_time s \<le> pg_time t"
  by (simp add: pg_time_def zdiv_mono1)

lemma pg_time_near: "pg_time t \<le> t \<and> t < pg_time t + 1000"
proof -
  have "pg_time t = t - t mod 1000"
    by (simp add: pg_time_def minus_mod_eq_div_mult)
  then show ?thesis
    using pos_mod_bound [of 1000 t] pos_mod_sign [of 1000 t] by linarith
qed

datatype pg_stmt =
    UpsertBlacklisted string int
  | DeleteExpiredBlacklisted
  | UpsertDeviceSession device_session
  | SetLastUsedAt string string
  | SetRevoked string string
  | SetAllRevoked string
  | UpsertGlobalBlock string string string
  | DeleteGlobalBlock string string

datatype pg_query =
    ExistsBlacklisted string
  | ActiveBlacklisted
  | SelectDeviceSessions string
  | CountUnrevoked string
  | ExistsGlobalBlock string string
  | AllGlobalBlocks

datatype pg_rows =
    RowsBool bool
  | RowsInt int
  | RowsDevices "device_session list"
  | RowsEntries "blacklist_entry list"
  | RowsGlobal "global_blacklist_entry list"

section \<open>The SQL statements\<close>

text \<open>\<open>GREATEST\<close> ignores NULL; \<open>COALESCE\<close> is the first operand that is not NULL.\<close>

fun greatest :: "int option \<Rightarrow> int option \<Rightarrow> int option" where
  "greatest None y = y"
| "greatest x None = x"
| "greatest (Some a) (Some b) = Some (max a b)"

fun coalesce :: "'a option list \<Rightarrow> 'a option" where
  "coalesce [] = None"
| "coalesce (Some a # xs) = Some a"
| "coalesce (None # xs) = coalesce xs"

definition same_device :: "device_session \<Rightarrow> device_session \<Rightarrow> bool" where
  "same_device a b \<longleftrightarrow> ds_KratosID a = ds_KratosID b \<and> ds_DeviceID a = ds_DeviceID b"

text \<open>The \<open>DO UPDATE SET\<close> clause of \<open>SaveDeviceSession\<close>: \<open>e\<close> is \<open>EXCLUDED\<close>, \<open>old\<close> the row in the table.\<close>

definition merge_device :: "device_session \<Rightarrow> device_session \<Rightarrow> device_session" where
  "merge_device e old = old\<lparr>
     ds_HydraJTI := coalesce [ds_HydraJTI e, ds_HydraJTI old],
     ds_IssuedAt := ds_IssuedAt e,
     ds_LastUsedAt := coalesce [greatest (ds_LastUsedAt e) (ds_LastUsedAt old), ds_LastUsedAt old, ds_LastUsedAt e],
     ds_Revoked := (if ds_HydraJTI e \<noteq> None \<and> ds_HydraJTI e \<noteq> ds_HydraJTI old then False else ds_Revoked old),
     ds_UserAgent := ds_UserAgent e,
     ds_IP := ds_IP e\<rparr>"

definition stored_device :: "device_session \<Rightarrow> device_session" where
  "stored_device s = s\<lparr>ds_IssuedAt := pg_time (ds_IssuedAt s), ds_LastUsedAt := map_option pg_time (ds_LastUsedAt s)\<rparr>"

fun upsert_device :: "int \<Rightarrow> device_session \<Rightarrow> device_session list \<Rightarrow> device_session list" where
  "upsert_device n e [] = [e\<lparr>ds_ID := n\<rparr>]"
| "upsert_device n e (r # rs) = (if same_device e r then merge_device e r # rs else r # upsert_device n e rs)"

fun upsert_blacklisted :: "string \<Rightarrow> int \<Rightarrow> (string \<times> int) list \<Rightarrow> (string \<times> int) list" where
  "upsert_blacklisted s t [] = [(s, t)]"
| "upsert_blacklisted s t ((s', t') # rs) =
     (if s = s' then (s', max t t') # rs else (s', t') # upsert_blacklisted s t rs)"

fun upsert_global :: "int \<Rightarrow> string \<Rightarrow> string \<Rightarrow> string \<Rightarrow> global_blacklist_entry list \<Rightarrow> global_blacklist_entry list" where
  "upsert_global now tt tv reason [] =
     [\<lparr>ge_TargetType = tt, ge_TargetValue = tv, ge_Reason = reason, ge_CreatedAt = now\<rparr>]"
| "upsert_global now tt tv reason (r # rs) =
     (if ge_TargetType r = tt \<and> ge_TargetValue r = tv then r\<lparr>ge_Reason := reason\<rparr> # rs
      else r # upsert_global now tt tv reason rs)"

text \<open>
  An \<open>INSERT ... ON CONFLICT\<close> takes a value of the \<open>BIGSERIAL\<close> sequence whether or not it
  inserts a row.
\<close>

fun pg_apply :: "int \<Rightarrow> pg_stmt \<Rightarrow> pg_db \<Rightarrow> pg_db" where
  "pg_apply now (UpsertBlacklisted s t) db =
     db\<lparr>pg_blacklisted := upsert_blacklisted s (pg_time t) (pg_blacklisted db)\<rparr>"
| "pg_apply now DeleteExpiredBlacklisted db =
     db\<lparr>pg_blacklisted := filter (\<lambda>r. \<not> snd r \<le> pg_time now) (pg_blacklisted db)\<rparr>"
| "pg_apply now (UpsertDeviceSession s) db =
     db\<lparr>pg_device_sessions := upsert_device (pg_next_id db) (stored_device s) (pg_device_sessions db),
        pg_next_id := pg_next_id db + 1\<rparr>"
| "pg_apply now (SetLastUsedAt k d) db =
     db\<lparr>pg_device_sessions := map (\<lambda>r. if ds_KratosID r = k \<and> ds_DeviceID r = d
        then r\<lparr>ds_LastUsedAt := Some (pg_time now)\<rparr> else r) (pg_device_sessions db)\<rparr>"
| "pg_apply now (SetRevoked k d) db =
     db\<lparr>pg_device_sessions := map (\<lambda>r. if ds_KratosID r = k \<and> ds_DeviceID r = d
        then r\<lparr>ds_Revoked := True\<rparr> else r) (pg_device_sessions db)\<rparr>"
| "pg_apply now (SetAllRevoked k) db =
     db\<lparr>pg_device_sessions := map (\<lambda>r. if ds_KratosID r = k then r\<lparr>ds_Revoked := True\<rparr> else r)
        (pg_device_sessions db)\<rparr>"
| "pg_apply now (UpsertGlobalBlock tt tv reason) db =
     db\<lparr>pg_blacklists := upsert_global (pg_time now) tt tv reason (pg_blacklists db)\<rparr>"
| "pg_apply now (DeleteGlobalBlock tt tv) db =
     db\<lparr>pg_blacklists := filter (\<lambda>r. \<not> (ge_TargetType r = tt \<and> ge_TargetValue r = tv)) (pg_blacklists db)\<rparr>"

text \<open>
  \<open>ORDER BY\<close> is a stable sort here; rows with equal keys may come in any order in Postgres,
  and nothing below depends on it.
\<close>

fun pg_answer :: "int \<Rightarrow> pg_query \<Rightarrow> pg_db \<Rightarrow> pg_rows" where
  "pg_answer now (ExistsBlacklisted s) db =
     RowsBool (\<exists>r\<in>set (pg_blacklisted db). fst r = s \<and> pg_time now < snd r)"
| "pg_answer now ActiveBlacklisted db =
     RowsEntries (map (\<lambda>r. \<lparr>en_SessionID = fst r, en_ExpiresAt = snd r\<rparr>)
       (sort_key snd (filter (\<lambda>r. pg_time now < snd r) (pg_blacklisted db))))"
| "pg_answer now (SelectDeviceSessions k) db =
     RowsDevices (sort_key (\<lambda>r. - ds_IssuedAt r) (filter (\<lambda>r. ds_KratosID r = k) (pg_device_sessions db)))"
| "pg_answer now (CountUnrevoked k) db =
     RowsInt (int (length (filter (\<lambda>r. ds_KratosID r = k \<and> \<not> ds_Revoked r) (pg_device_sessions db))))"
| "pg_answer now (ExistsGlobalBlock tt tv) db =
     RowsBool (\<exists>r\<in>set (pg_blacklists db). ge_TargetType r = tt \<and> ge_TargetValue r = tv)"
| "pg_answer now AllGlobalBlocks db =
     RowsGlobal (sort_key ge_CreatedAt (pg_blacklists db))"

section \<open>The pool and the repositories\<close>

text \<open>\<open>pool.Exec\<close>, and \<open>pool.Query\<close> or \<open>QueryRow\<close> with the scan of their rows.\<close>

record 'w pg_pool =
  pg_Exec :: "pg_stmt \<Rightarrow> ('w, error option) io"
  pg_Query :: "pg_query \<Rightarrow> ('w, pg_rows result) io"

definition scan_error :: error where "scan_error = Errorf ''scan'' []"

definition scan_bool :: "pg_rows result \<Rightarrow> bool result" where
  "scan_bool r = (case r of Inl e \<Rightarrow> Inl e | Inr (RowsBool b) \<Rightarrow> Inr b | Inr _ \<Rightarrow> Inl scan_error)"

definition NewPostgresBlacklistRepository :: "'w pg_pool \<Rightarrow> 'w blacklist_pg" where
  "NewPostgresBlacklistRepository pool = \<lparr>
     bp_IsBlacklisted = (\<lambda>sessionID. do {
       r \<leftarrow> pg_Query pool (ExistsBlacklisted sessionID);
       State_Monad.return (case scan_bool r of
          Inl e \<Rightarrow> (False, Some (Errorf ''blacklist pg: is_blacklisted'' [e]))
        | Inr exists \<Rightarrow> (exists, None)) }),
     bp_Add = (\<lambda>sessionID expiresAt. do {
       err \<leftarrow> pg_Exec pool (UpsertBlacklisted sessionID expiresAt);
       State_Monad.return (map_option (\<lambda>e. Errorf ''blacklist pg: add'' [e]) err) }),
     bp_DeleteExpired = do {
       err \<leftarrow> pg_Exec pool DeleteExpiredBlacklisted;
       State_Monad.return (map_option (\<lambda>e. Errorf ''blacklist pg: delete_expired'' [e]) err) },
     bp_ListActive = do {
       r \<leftarrow> pg_Query pool ActiveBlacklisted;
       State_Monad.return (case r of
          Inl e \<Rightarrow> Inl (Errorf ''blacklist pg: list_active'' [e])
        | Inr (RowsEntries es) \<Rightarrow> Inr es
        | Inr _ \<Rightarrow> Inl (Errorf ''blacklist pg: list_active scan'' [scan_error])) }\<rparr>"

definition NewPostgresDeviceSessionRepository :: "'w pg_pool \<Rightarrow> 'w device_session_repo" where
  "NewPostgresDeviceSessionRepository pool = \<lparr>
     dr_SaveDeviceSession = (\<lambda>s. pg_Exec pool (UpsertDeviceSession s)),
     dr_UpdateLastUsedAt = (\<lambda>kratosID deviceID. pg_Exec pool (SetLastUsedAt kratosID deviceID)),
     dr_RevokeDevice = (\<lambda>kratosID deviceID. pg_Exec pool (SetRevoked kratosID deviceID)),
     dr_RevokeAllDevices = (\<lambda>kratosID. pg_Exec pool (SetAllRevoked kratosID)),
     dr_GetDeviceSessions = (\<lambda>kratosID. do {
       r \<leftarrow> pg_Query pool (SelectDeviceSessions kratosID);
       State_Monad.return (case r of
          Inl e \<Rightarrow> Inl e | Inr (RowsDevices ss) \<Rightarrow> Inr ss | Inr _ \<Rightarrow> Inl scan_error) }),
     dr_CountActiveDevices = (\<lambda>kratosID. do {
       r \<leftarrow> pg_Query pool (CountUnrevoked kratosID);
       State_Monad.return (case r of
          Inl e \<Rightarrow> (0, Some e) | Inr (RowsInt n) \<Rightarrow> (n, None) | Inr _ \<Rightarrow> (0, Some scan_error)) })\<rparr>"

definition NewPostgresGlobalBlacklistRepository :: "'w pg_pool \<Rightarrow> 'w global_blacklist" where
  "NewPostgresGlobalBlacklistRepository pool = \<lparr>
     gb_Add = (\<lambda>targetType targetValue reason. do {
       err \<leftarrow> pg_Exec pool (UpsertGlobalBlock (target_type_string targetType) targetValue reason);
       State_Monad.return (map_option (\<lambda>e. Errorf ''global blacklist: add'' [e]) err) }),
     gb_IsBlacklisted = (\<lambda>targetType targetValue. do {
       r \<leftarrow> pg_Query pool (ExistsGlobalBlock (target_type_string targetType) targetValue);
       State_Monad.return (case scan_bool r of
          Inl e \<Rightarrow> (False, Some (Errorf ''global blacklist: is_blacklisted'' [e]))
        | Inr exists \<Rightarrow> (exists, None)) }),
     gb_ListAll = do {
       r \<leftarrow> pg_Query pool AllGlobalBlocks;
       State_Monad.return (case r of
          Inl e \<Rightarrow> Inl (Errorf ''global blacklist: list_all'' [e])
        | Inr (RowsGlobal es) \<Rightarrow> Inr es
        | Inr _ \<Rightarrow> Inl (Errorf ''global blacklist: list_all scan'' [scan_error])) },
     gb_Remove = (\<lambda>targetType targetValue. do {
       err \<leftarrow> pg_Exec pool (DeleteGlobalBlock (target_type_string targetType) targetValue);
       State_Monad.return (map_option (\<lambda>e. Errorf ''global blacklist: remove'' [e]) err) })\<rparr>"

text \<open>The instrumented wrapper times each call and changes no result.\<close>

definition NewInstrumentedDeviceSessionRepository :: "'w go_env \<Rightarrow> 'w telemetry \<Rightarrow> 'w device_session_repo \<Rightarrow> 'w device_session_repo" where
  "NewInstrumentedDeviceSessionRepository E T delegate = \<lparr>
     dr_SaveDeviceSession = (\<lambda>s. timed E T PostgresOps ''save_device_session'' (dr_SaveDeviceSession delegate s)),
     dr_UpdateLastUsedAt = (\<lambda>k d. timed E T PostgresOps ''update_last_used_at'' (dr_UpdateLastUsedAt delegate k d)),
     dr_RevokeDevice = (\<lambda>k d. timed E T PostgresOps ''revoke_device'' (dr_RevokeDevice delegate k d)),
     dr_RevokeAllDevices = (\<lambda>k. timed E T PostgresOps ''revoke_all_devices'' (dr_RevokeAllDevices delegate k)),
     dr_GetDeviceSessions = (\<lambda>k. timed E T PostgresOps ''get_device_sessions'' (dr_GetDeviceSessions delegate k)),
     dr_CountActiveDevices = (\<lambda>k. timed E T PostgresOps ''count_active_devices'' (dr_CountActiveDevices delegate k))\<rparr>"

section \<open>The contract of the pool\<close>

locale postgres =
  fixes pool :: "'w pg_pool" and pdb :: "'w \<Rightarrow> pg_db" and pnow :: "'w \<Rightarrow> int"
  assumes exec_law: "wp (pg_Exec pool s) (\<lambda>err w'.
      if err = None then pdb w' = pg_apply (pnow w) s (pdb w)
      else pdb w' = pdb w \<or> pdb w' = pg_apply (pnow w) s (pdb w)) w"
    and query_law: "wp (pg_Query pool q) (\<lambda>r w'. pdb w' = pdb w \<and>
      ((\<exists>e. r = Inl e) \<or> r = Inr (pg_answer (pnow w) q (pdb w)))) w"
begin

abbreviation "blacklist_repo \<equiv> NewPostgresBlacklistRepository pool"

lemma bp_IsBlacklisted_spec:
  "wp (bp_IsBlacklisted blacklist_repo s) (\<lambda>r w'. pdb w' = pdb w \<and>
     (snd r = None \<longrightarrow> fst r = (\<exists>e\<in>set (pg_blacklisted (pdb w)). fst e = s \<and> pg_time (pnow w) < snd e))) w"
  unfolding NewPostgresBlacklistRepository_def
  by (simp add: wp_rules) (rule wp_mono [OF query_law], force simp: scan_bool_def)

lemma bp_Add_spec:
  "wp (bp_Add blacklist_repo s t) (\<lambda>err w'. (err = None \<longrightarrow>
      pg_blacklisted (pdb w') = upsert_blacklisted s (pg_time t) (pg_blacklisted (pdb w))) \<and>
     pg_blacklisted (pdb w') \<in> {pg_blacklisted (pdb w), upsert_blacklisted s (pg_time t) (pg_blacklisted (pdb w))}) w"
  unfolding NewPostgresBlacklistRepository_def
  by (simp add: wp_rules) (rule wp_mono [OF exec_law], auto split: if_splits)

lemma SaveDeviceSession_spec:
  "wp (dr_SaveDeviceSession (NewPostgresDeviceSessionRepository pool) s) (\<lambda>err w'. err = None \<longrightarrow>
     pg_device_sessions (pdb w') =
       upsert_device (pg_next_id (pdb w)) (stored_device s) (pg_device_sessions (pdb w))) w"
  unfolding NewPostgresDeviceSessionRepository_def
  by simp (rule wp_mono [OF exec_law], auto)

end

section \<open>Facts about the statements\<close>

lemma coalesce_greatest: "coalesce [greatest a b, b, a] = greatest a b"
  by (cases a; cases b) simp_all

lemma greatest_idem: "greatest a (greatest a b) = greatest a b"
  by (cases a; cases b) simp_all

definition device_key :: "device_session \<Rightarrow> string \<times> string" where
  "device_key s = (ds_KratosID s, ds_DeviceID s)"

lemma same_device_iff: "same_device a b \<longleftrightarrow> device_key a = device_key b"
  by (auto simp: same_device_def device_key_def)

lemma merge_device_key [simp]: "device_key (merge_device e old) = device_key old"
  by (simp add: merge_device_def device_key_def)

lemma stored_device_key [simp]: "device_key (stored_device s) = device_key s"
  by (simp add: stored_device_def device_key_def)

lemma device_key_ID [simp]: "device_key (s\<lparr>ds_ID := n\<rparr>) = device_key s"
  by (simp add: device_key_def)

lemma merge_device_idem: "merge_device e (merge_device e old) = merge_device e old"
  by (cases "ds_HydraJTI e"; cases "ds_HydraJTI old"; cases "ds_LastUsedAt e"; cases "ds_LastUsedAt old")
    (simp_all add: merge_device_def)

lemma merge_device_self: "merge_device e (e\<lparr>ds_ID := n\<rparr>) = e\<lparr>ds_ID := n\<rparr>"
  by (cases "ds_HydraJTI e"; cases "ds_LastUsedAt e") (simp_all add: merge_device_def)

lemma upsert_device_keys:
  "set (map device_key (upsert_device n e rs)) = insert (device_key e) (set (map device_key rs))"
  by (induction rs) (auto simp: same_device_iff)

lemma upsert_device_distinct:
  "distinct (map device_key rs) \<Longrightarrow> distinct (map device_key (upsert_device n e rs))"
proof (induction rs)
  case (Cons r rs)
  then show ?case
    using upsert_device_keys [of n e rs] by (auto simp: same_device_iff)
qed simp

lemma upsert_device_idem: "upsert_device m e (upsert_device n e rs) = upsert_device n e rs"
  by (induction rs) (auto simp: same_device_iff merge_device_idem merge_device_self)

lemma upsert_device_find:
  "find (same_device e) (upsert_device n e rs) =
     Some (case find (same_device e) rs of None \<Rightarrow> e\<lparr>ds_ID := n\<rparr> | Some old \<Rightarrow> merge_device e old)"
  by (induction rs) (auto simp: same_device_iff)

lemma upsert_blacklisted_member:
  "distinct (map fst rs) \<Longrightarrow> map_of (upsert_blacklisted s t rs) s' =
     (if s' = s then Some (case map_of rs s of None \<Rightarrow> t | Some t' \<Rightarrow> max t t') else map_of rs s')"
  by (induction s t rs rule: upsert_blacklisted.induct) auto

lemma upsert_blacklisted_keys:
  "fst ` set (upsert_blacklisted s t rs) = insert s (fst ` set rs)"
  by (induction s t rs rule: upsert_blacklisted.induct) auto

lemma upsert_blacklisted_distinct:
  "distinct (map fst rs) \<Longrightarrow> distinct (map fst (upsert_blacklisted s t rs))"
proof (induction s t rs rule: upsert_blacklisted.induct)
  case (2 s t s' t' rs)
  then show ?case
    using upsert_blacklisted_keys [of s t rs] by auto
qed simp

end
