(* ===== verification/Circuit_Breaker.thy ===== *)
theory Circuit_Breaker imports Process_State begin

text \<open>
  \<open>internal/resilience/circuit_breaker.go\<close>: the three-state circuit breaker that guards
  Redis, one definition per method. Each method is the composition of its atomic loads,
  stores, compare-and-swaps and counter increments on the fields of \<open>breaker\<close>; run alone,
  as here, a method is one computation on the process. (The interleavings of several
  goroutines are the subject of \<open>Breaker_Concurrency\<close>.)

  Proved: the state invariant and its preservation, the threshold at which the breaker
  trips, the behaviour of \<open>Allow\<close> in every state, the bounds of the probe backoff and the
  absence of \<open>int64\<close> overflow in its computation, and recovery.
\<close>

section \<open>Configuration and state\<close>

record cb_config =
  FailureThreshold :: int
  ProbeBaseNanos :: int
  ProbeMaxNanos :: int
  JitterPct :: int

fun state_String :: "cb_state \<Rightarrow> string" where
  "state_String StateClosed = ''CLOSED''"
| "state_String StateOpen = ''OPEN''"
| "state_String StateHalfOpen = ''HALF-OPEN''"

text \<open>The two arguments say which of the options \<open>WithOnStateChange\<close> and \<open>WithSentryCapture\<close> were given.\<close>

definition new_circuit_breaker :: "bool \<Rightarrow> bool \<Rightarrow> breaker" where
  "new_circuit_breaker onStateChange captureFunc =
     \<lparr>cb_state = StateClosed, cb_failures = 0, cb_probeInFlight = 0, cb_nextProbeAt = 0,
      cb_backoffNanos = 0, cb_hasOnStateChange = onStateChange, cb_hasCapture = captureFunc,
      cb_events = []\<rparr>"

section \<open>The methods\<close>

definition fireStateChange :: "cb_state \<Rightarrow> cb_state \<Rightarrow> ('x proc, unit) io" where
  "fireStateChange from to =
     modify_breaker (\<lambda>b. if cb_hasOnStateChange b
                          then b\<lparr>cb_events := cb_events b @ [StateChange from to]\<rparr> else b)"

definition capture :: "cb_event \<Rightarrow> ('x proc, unit) io" where
  "capture e =
     modify_breaker (\<lambda>b. if cb_hasCapture b then b\<lparr>cb_events := cb_events b @ [e]\<rparr> else b)"

definition cas_state :: "cb_state \<Rightarrow> cb_state \<Rightarrow> ('x proc, bool) io" where
  "cas_state old new = do {
     b \<leftarrow> get_breaker;
     if cb_state b = old
     then do { modify_breaker (\<lambda>b. b\<lparr>cb_state := new\<rparr>); State_Monad.return True }
     else State_Monad.return False
   }"

definition cas_probe :: "('x proc, bool) io" where
  "cas_probe = do {
     b \<leftarrow> get_breaker;
     if cb_probeInFlight b = 0
     then do { modify_breaker (\<lambda>b. b\<lparr>cb_probeInFlight := 1\<rparr>); State_Monad.return True }
     else State_Monad.return False
   }"

definition cb_Allow :: "'x go_env \<Rightarrow> ('x proc, bool) io" where
  "cb_Allow E = do {
     b \<leftarrow> get_breaker;
     case cb_state b of
       StateClosed \<Rightarrow> State_Monad.return True
     | StateOpen \<Rightarrow> do {
         now \<leftarrow> ext (env_now E);
         b' \<leftarrow> get_breaker;
         if now < cb_nextProbeAt b' then State_Monad.return False
         else do {
           won \<leftarrow> cas_state StateOpen StateHalfOpen;
           if \<not> won then State_Monad.return False
           else do {
             fireStateChange StateOpen StateHalfOpen;
             cas_probe
           }
         }
       }
     | StateHalfOpen \<Rightarrow> cas_probe
   }"

definition cb_RecordSuccess :: "('x proc, unit) io" where
  "cb_RecordSuccess = do {
     b \<leftarrow> get_breaker;
     let from = cb_state b;
     modify_breaker (\<lambda>b. b\<lparr>cb_probeInFlight := 0\<rparr>);
     modify_breaker (\<lambda>b. b\<lparr>cb_failures := 0\<rparr>);
     modify_breaker (\<lambda>b. b\<lparr>cb_state := StateClosed\<rparr>);
     if from \<noteq> StateClosed then fireStateChange from StateClosed else State_Monad.return ()
   }"

definition applyJitter :: "'x go_env \<Rightarrow> cb_config \<Rightarrow> int \<Rightarrow> ('x proc, int) io" where
  "applyJitter E cfg base =
     (let jitterRange = go_div (i64 (base * JitterPct cfg)) 100 in
      if jitterRange = 0 then State_Monad.return base
      else do {
        r \<leftarrow> ext (env_int63n E (i64 (i64 (jitterRange * 2) + 1)));
        let delta = i64 (r - jitterRange);
        State_Monad.return (i64 (base + delta))
      })"

definition loadBackoff :: "('x proc, int) io" where
  "loadBackoff = do { b \<leftarrow> get_breaker; State_Monad.return (cb_backoffNanos b) }"

definition resetBackoff :: "'x go_env \<Rightarrow> cb_config \<Rightarrow> ('x proc, unit) io" where
  "resetBackoff E cfg = do {
     v \<leftarrow> applyJitter E cfg (ProbeBaseNanos cfg);
     modify_breaker (\<lambda>b. b\<lparr>cb_backoffNanos := v\<rparr>)
   }"

definition extendBackoff :: "'x go_env \<Rightarrow> cb_config \<Rightarrow> ('x proc, unit) io" where
  "extendBackoff E cfg = do {
     b \<leftarrow> get_breaker;
     let doubled = i64 (cb_backoffNanos b * 2);
     let doubled = (if doubled > ProbeMaxNanos cfg then ProbeMaxNanos cfg else doubled);
     v \<leftarrow> applyJitter E cfg doubled;
     modify_breaker (\<lambda>b. b\<lparr>cb_backoffNanos := v\<rparr>)
   }"

definition storeNextProbe :: "'x go_env \<Rightarrow> ('x proc, unit) io" where
  "storeNextProbe E = do {
     now \<leftarrow> ext (env_now E);
     backoff \<leftarrow> loadBackoff;
     modify_breaker (\<lambda>b. b\<lparr>cb_nextProbeAt := i64 (now + backoff)\<rparr>)
   }"

definition cb_RecordFailure :: "'x go_env \<Rightarrow> cb_config \<Rightarrow> ('x proc, unit) io" where
  "cb_RecordFailure E cfg = do {
     b \<leftarrow> get_breaker;
     case cb_state b of
       StateHalfOpen \<Rightarrow> do {
         modify_breaker (\<lambda>b. b\<lparr>cb_probeInFlight := 0\<rparr>);
         extendBackoff E cfg;
         storeNextProbe E;
         modify_breaker (\<lambda>b. b\<lparr>cb_state := StateOpen\<rparr>);
         fireStateChange StateHalfOpen StateOpen;
         capture CaptureProbeFailed
       }
     | StateClosed \<Rightarrow> do {
         modify_breaker (\<lambda>b. b\<lparr>cb_failures := i32 (cb_failures b + 1)\<rparr>);
         b' \<leftarrow> get_breaker;
         if cb_failures b' \<ge> FailureThreshold cfg then do {
           won \<leftarrow> cas_state StateClosed StateOpen;
           if won then do {
             resetBackoff E cfg;
             storeNextProbe E;
             fireStateChange StateClosed StateOpen;
             capture CaptureTripped
           } else State_Monad.return ()
         } else State_Monad.return ()
       }
     | StateOpen \<Rightarrow> State_Monad.return ()
   }"

definition cb_State :: "('x proc, cb_state) io" where
  "cb_State = do { b \<leftarrow> get_breaker; State_Monad.return (cb_state b) }"

section \<open>Reasoning about the pieces\<close>

text \<open>
  Configurations for which the backoff arithmetic stays inside \<open>int64\<close>: intervals up to
  \<open>9 * 10 ^ 16\<close> nanoseconds (more than a thousand days; the defaults are 60 and 300
  seconds) and a jitter below 100 percent (the default is 15).
\<close>

definition cb_config_ok :: "cb_config \<Rightarrow> bool" where
  "cb_config_ok cfg \<longleftrightarrow>
     0 < FailureThreshold cfg \<and> FailureThreshold cfg < 2 ^ 31 \<and>
     0 < ProbeBaseNanos cfg \<and> ProbeBaseNanos cfg \<le> 9 * 10 ^ 16 \<and>
     0 < ProbeMaxNanos cfg \<and> ProbeMaxNanos cfg \<le> 9 * 10 ^ 16 \<and>
     0 \<le> JitterPct cfg \<and> JitterPct cfg < 100"

definition jitter_of :: "cb_config \<Rightarrow> int \<Rightarrow> int" where
  "jitter_of cfg base = base * JitterPct cfg div 100"

text \<open>The longest backoff: the larger of the two configured intervals plus its jitter.\<close>

definition max_backoff :: "cb_config \<Rightarrow> int" where
  "max_backoff cfg =
     (let m = max (ProbeBaseNanos cfg) (ProbeMaxNanos cfg) in m + jitter_of cfg m)"

lemma jitter_of_bounds:
  assumes "cb_config_ok cfg" and "0 < base"
  shows "0 \<le> jitter_of cfg base" and "jitter_of cfg base < base"
proof -
  from assms show "0 \<le> jitter_of cfg base"
    by (simp add: cb_config_ok_def jitter_of_def pos_imp_zdiv_nonneg_iff)
  have "base * JitterPct cfg < base * 100"
    using assms by (simp add: cb_config_ok_def)
  then show "jitter_of cfg base < base"
    by (simp add: jitter_of_def)
qed

lemma jitter_of_mono: "cb_config_ok cfg \<Longrightarrow> a \<le> b \<Longrightarrow> jitter_of cfg a \<le> jitter_of cfg b"
  by (simp add: jitter_of_def cb_config_ok_def mult_right_mono zdiv_mono1)

lemma max_backoff_bounds:
  assumes "cb_config_ok cfg"
  shows "0 < max_backoff cfg" and "max_backoff cfg \<le> 18 * 10 ^ 16"
proof -
  let ?m = "max (ProbeBaseNanos cfg) (ProbeMaxNanos cfg)"
  have m: "0 < ?m" "?m \<le> 9 * 10 ^ 16"
    using assms by (auto simp: cb_config_ok_def)
  note j = jitter_of_bounds [OF assms m(1)]
  have "max_backoff cfg = ?m + jitter_of cfg ?m"
    by (simp add: max_backoff_def Let_def)
  then show "0 < max_backoff cfg" and "max_backoff cfg \<le> 18 * 10 ^ 16"
    using m j by linarith+
qed

lemma backoff_le_max:
  assumes "cb_config_ok cfg" and "0 < base"
    and "base \<le> ProbeBaseNanos cfg \<or> base \<le> ProbeMaxNanos cfg"
    and "v \<le> base + jitter_of cfg base"
  shows "v \<le> max_backoff cfg"
proof -
  have "base \<le> max (ProbeBaseNanos cfg) (ProbeMaxNanos cfg)"
    using assms(3) by auto
  then show ?thesis
    using jitter_of_mono [OF assms(1)] assms(4)
    by (smt (verit) max_backoff_def)
qed

lemma applyJitter_wp:
  assumes cfg: "cb_config_ok cfg" and rnd: "int63n_ok E"
    and base: "0 < base" "base \<le> 9 * 10 ^ 16"
    and Q: "\<And>v x. base - jitter_of cfg base \<le> v \<Longrightarrow> v \<le> base + jitter_of cfg base \<Longrightarrow>
              Q v (p\<lparr>pr_ext := x\<rparr>)"
  shows "wp (applyJitter E cfg base) Q p"
proof -
  have J: "0 \<le> JitterPct cfg" "JitterPct cfg < 100"
    using cfg by (auto simp: cb_config_ok_def)
  have "base * JitterPct cfg \<le> base * 100"
    using base J by simp
  then have prod: "base * JitterPct cfg \<le> 9 * 10 ^ 18"
    using base(2) by simp
  have "0 \<le> base * JitterPct cfg"
    using base J by simp
  note prod = this prod
  have range: "go_div (i64 (base * JitterPct cfg)) 100 = jitter_of cfg base"
    using prod by (simp add: i64_id go_div_nonneg jitter_of_def)
  note j = jitter_of_bounds [OF cfg base(1)]
  have n: "i64 (i64 (jitter_of cfg base * 2) + 1) = 2 * jitter_of cfg base + 1"
    using j base by (simp add: i64_id)
  have "Q (i64 (base + i64 (r - jitter_of cfg base))) (p\<lparr>pr_ext := x\<rparr>)"
    if "0 \<le> r" "r < 2 * jitter_of cfg base + 1" for r x
  proof -
    have "i64 (base + i64 (r - jitter_of cfg base)) = base + (r - jitter_of cfg base)"
      using that j base by (simp add: i64_id)
    with that show ?thesis by (simp add: Q)
  qed
  moreover have "Q base p" if "jitter_of cfg base = 0"
    using Q [of base "pr_ext p"] that by simp
  moreover have "0 \<le> r \<and> r < 2 * jitter_of cfg base + 1"
    if "run_state (env_int63n E (2 * jitter_of cfg base + 1)) x = (r, x')" for r x x'
    using rnd j that unfolding int63n_ok_def by (metis add_nonneg_pos fst_conv mult_nonneg_nonneg zero_le_numeral zero_less_one)
  ultimately have call: "wp (env_int63n E (2 * jitter_of cfg base + 1))
      (\<lambda>r x. Q (i64 (base + i64 (r - jitter_of cfg base))) (p\<lparr>pr_ext := x\<rparr>)) (pr_ext p)"
    and zero: "jitter_of cfg base = 0 \<Longrightarrow> Q base p"
    by (auto intro!: wpI)
  show ?thesis
  proof (cases "jitter_of cfg base = 0")
    case True
    then show ?thesis by (simp add: applyJitter_def range wp_rules zero)
  next
    case False
    with call show ?thesis by (simp add: applyJitter_def range Let_def n wp_rules)
  qed
qed

lemma storeNextProbe_wp:
  "wp (storeNextProbe E) Q p =
     wp (env_now E)
       (\<lambda>now x. Q () (p\<lparr>pr_ext := x, pr_breaker :=
          (pr_breaker p)\<lparr>cb_nextProbeAt := i64 (now + cb_backoffNanos (pr_breaker p))\<rparr>\<rparr>)) (pr_ext p)"
  by (simp add: storeNextProbe_def loadBackoff_def wp_rules)

lemma cas_state_wp [wp_rules]:
  "wp (cas_state old new) Q p =
     (if cb_state (pr_breaker p) = old
      then Q True (p\<lparr>pr_breaker := (pr_breaker p)\<lparr>cb_state := new\<rparr>\<rparr>) else Q False p)"
  by (simp add: cas_state_def wp_rules)

lemma cas_probe_wp [wp_rules]:
  "wp cas_probe Q p =
     (if cb_probeInFlight (pr_breaker p) = 0
      then Q True (p\<lparr>pr_breaker := (pr_breaker p)\<lparr>cb_probeInFlight := 1\<rparr>\<rparr>) else Q False p)"
  by (simp add: cas_probe_def wp_rules)

lemma fire_capture_wp [wp_rules]:
  "wp (fireStateChange from to) Q p =
     Q () (p\<lparr>pr_breaker := (if cb_hasOnStateChange (pr_breaker p)
        then (pr_breaker p)\<lparr>cb_events := cb_events (pr_breaker p) @ [StateChange from to]\<rparr>
        else pr_breaker p)\<rparr>)"
  "wp (capture e) Q p =
     Q () (p\<lparr>pr_breaker := (if cb_hasCapture (pr_breaker p)
        then (pr_breaker p)\<lparr>cb_events := cb_events (pr_breaker p) @ [e]\<rparr> else pr_breaker p)\<rparr>)"
  by (simp_all add: fireStateChange_def capture_def wp_rules)

section \<open>The state invariant\<close>

text \<open>
  What holds of the breaker between calls: the probe flag is 0 or 1 and is only up while
  HALF-OPEN; while CLOSED the consecutive failures are below the threshold; while OPEN or
  HALF-OPEN the current backoff is positive and at most \<open>max_backoff\<close>.
\<close>

definition breaker_inv :: "cb_config \<Rightarrow> breaker \<Rightarrow> bool" where
  "breaker_inv cfg b \<longleftrightarrow>
     (cb_probeInFlight b = 0 \<or> cb_probeInFlight b = 1 \<and> cb_state b = StateHalfOpen) \<and>
     0 \<le> cb_failures b \<and>
     (cb_state b = StateClosed \<longrightarrow> cb_failures b < FailureThreshold cfg) \<and>
     (cb_state b \<noteq> StateClosed \<longrightarrow> 0 < cb_backoffNanos b \<and> cb_backoffNanos b \<le> max_backoff cfg)"

lemma breaker_inv_new: "cb_config_ok cfg \<Longrightarrow> breaker_inv cfg (new_circuit_breaker f c)"
  by (simp add: breaker_inv_def new_circuit_breaker_def cb_config_ok_def)

lemma resetBackoff_wp:
  assumes "cb_config_ok cfg" and "int63n_ok E"
    and "\<And>v x. 0 < v \<Longrightarrow> v \<le> max_backoff cfg \<Longrightarrow>
       Q () (p\<lparr>pr_ext := x, pr_breaker := (pr_breaker p)\<lparr>cb_backoffNanos := v\<rparr>\<rparr>)"
  shows "wp (resetBackoff E cfg) Q p"
proof -
  have base: "0 < ProbeBaseNanos cfg" "ProbeBaseNanos cfg \<le> 9 * 10 ^ 16"
    using assms(1) by (auto simp: cb_config_ok_def)
  note j = jitter_of_bounds [OF assms(1) base(1)]
  have "wp (applyJitter E cfg (ProbeBaseNanos cfg)) (\<lambda>v p'. \<exists>x. p' = p\<lparr>pr_ext := x\<rparr> \<and>
      0 < v \<and> v \<le> max_backoff cfg) p"
    using j backoff_le_max [OF assms(1) base(1)]
    by (intro applyJitter_wp [OF assms(1,2) base]) fastforce
  then show ?thesis
    unfolding resetBackoff_def wp_rules by (rule wp_mono) (auto simp: assms(3))
qed

lemma extendBackoff_wp:
  assumes "cb_config_ok cfg" and "int63n_ok E"
    and backoff: "0 < cb_backoffNanos (pr_breaker p)" "cb_backoffNanos (pr_breaker p) \<le> max_backoff cfg"
    and Q: "\<And>v x. 0 < v \<Longrightarrow> v \<le> max_backoff cfg \<Longrightarrow>
       Q () (p\<lparr>pr_ext := x, pr_breaker := (pr_breaker p)\<lparr>cb_backoffNanos := v\<rparr>\<rparr>)"
  shows "wp (extendBackoff E cfg) Q p"
proof -
  let ?b = "cb_backoffNanos (pr_breaker p)"
  let ?d = "min (?b * 2) (ProbeMaxNanos cfg)"
  have m: "0 < ProbeMaxNanos cfg" "ProbeMaxNanos cfg \<le> 9 * 10 ^ 16"
    using assms(1) by (auto simp: cb_config_ok_def)
  have d: "0 < ?d" "?d \<le> 9 * 10 ^ 16"
    using m backoff(1) by auto
  have dbl: "(if i64 (?b * 2) > ProbeMaxNanos cfg then ProbeMaxNanos cfg else i64 (?b * 2)) = ?d"
    using backoff max_backoff_bounds(2) [OF assms(1)] by (simp add: i64_id min_def)
  note j = jitter_of_bounds [OF assms(1) d(1)]
  have "wp (applyJitter E cfg ?d) (\<lambda>v p'. \<exists>x. p' = p\<lparr>pr_ext := x\<rparr> \<and>
      0 < v \<and> v \<le> max_backoff cfg) p"
    using j backoff_le_max [OF assms(1) d(1)]
    by (intro applyJitter_wp [OF assms(1,2) d]) fastforce
  then show ?thesis
    unfolding extendBackoff_def wp_rules Let_def dbl by (rule wp_mono) (auto simp: Q)
qed

section \<open>The contract of the breaker as an abstract machine\<close>

text \<open>
  What a client may rely on, without the fields: CLOSED with a count of consecutive
  failures, OPEN until an instant, or HALF-OPEN with or without a probe in flight.
\<close>

datatype abs_breaker = AClosed int | AOpen int | AHalf bool

definition abs_of :: "breaker \<Rightarrow> abs_breaker" where
  "abs_of b = (case cb_state b of
     StateClosed \<Rightarrow> AClosed (cb_failures b)
   | StateOpen \<Rightarrow> AOpen (cb_nextProbeAt b)
   | StateHalfOpen \<Rightarrow> AHalf (cb_probeInFlight b \<noteq> 0))"

fun spec_allow :: "int \<Rightarrow> abs_breaker \<Rightarrow> bool \<times> abs_breaker" where
  "spec_allow now (AClosed n) = (True, AClosed n)"
| "spec_allow now (AOpen u) = (if now < u then (False, AOpen u) else (True, AHalf True))"
| "spec_allow now (AHalf probing) = (\<not> probing, AHalf True)"

fun spec_success :: "abs_breaker \<Rightarrow> abs_breaker" where
  "spec_success a = AClosed 0"

fun spec_failure :: "cb_config \<Rightarrow> int \<Rightarrow> abs_breaker \<Rightarrow> abs_breaker" where
  "spec_failure cfg u (AClosed n) = (if n + 1 \<ge> FailureThreshold cfg then AOpen u else AClosed (n + 1))"
| "spec_failure cfg u (AOpen v) = AOpen v"
| "spec_failure cfg u (AHalf probing) = AOpen u"

lemma abs_of_simps [simp]:
  "cb_state b = StateClosed \<Longrightarrow> abs_of b = AClosed (cb_failures b)"
  "cb_state b = StateOpen \<Longrightarrow> abs_of b = AOpen (cb_nextProbeAt b)"
  "cb_state b = StateHalfOpen \<Longrightarrow> abs_of b = AHalf (cb_probeInFlight b \<noteq> 0)"
  by (simp_all add: abs_of_def)

lemma abs_of_Closed_iff: "(\<exists>n. abs_of b = AClosed n) \<longleftrightarrow> cb_state b = StateClosed"
  by (cases "cb_state b") (simp_all add: abs_of_def)

lemma abs_of_Open_iff: "abs_of b = AOpen u \<longleftrightarrow> cb_state b = StateOpen \<and> cb_nextProbeAt b = u"
  by (cases "cb_state b") (simp_all add: abs_of_def)

text \<open>
  The simulation, one lemma per method: the invariant is kept and the abstract state moves
  as the contract says, with an instant the clock really showed.
\<close>

lemma Allow_refines:
  assumes inv: "breaker_inv cfg (pr_breaker p)"
  shows "wp (cb_Allow E) (\<lambda>r p'. breaker_inv cfg (pr_breaker p') \<and>
     (\<exists>now. clock_reading E now \<and> (r, abs_of (pr_breaker p')) = spec_allow now (abs_of (pr_breaker p)))) p"
proof (cases "cb_state (pr_breaker p)")
  case StateOpen
  have "wp (env_now E) (\<lambda>now x. clock_reading E now) (pr_ext p)"
    by (rule wpI) (rule clock_readingI)
  then show ?thesis
    unfolding cb_Allow_def wp_rules StateOpen
    using StateOpen inv
    by (simp add: wp_rules) (erule wp_mono, auto simp: breaker_inv_def)
next
  case StateClosed
  with inv clock_reading_ex [of E] show ?thesis by (simp add: cb_Allow_def wp_rules)
next
  case StateHalfOpen
  with inv clock_reading_ex [of E] show ?thesis
    by (auto simp add: cb_Allow_def wp_rules breaker_inv_def)
qed

lemma RecordSuccess_refines:
  assumes "cb_config_ok cfg"
  shows "wp cb_RecordSuccess (\<lambda>_ p'. breaker_inv cfg (pr_breaker p') \<and>
     abs_of (pr_breaker p') = spec_success (abs_of (pr_breaker p)) \<and> pr_ext p' = pr_ext p) p"
  using assms by (simp add: cb_RecordSuccess_def wp_rules breaker_inv_def cb_config_ok_def)

text \<open>Both branches that open the breaker end in the same way.\<close>

lemma storeNextProbe_until:
  assumes cfg: "cb_config_ok cfg" and clk: "clock_ok E"
    and v: "0 < cb_backoffNanos (pr_breaker p)" "cb_backoffNanos (pr_breaker p) \<le> max_backoff cfg"
    and Q: "\<And>now u x. clock_reading E now \<Longrightarrow> now < u \<Longrightarrow> u \<le> now + max_backoff cfg \<Longrightarrow>
              Q () (p\<lparr>pr_ext := x, pr_breaker := (pr_breaker p)\<lparr>cb_nextProbeAt := u\<rparr>\<rparr>)"
  shows "wp (storeNextProbe E) Q p"
proof -
  have "wp (env_now E) (\<lambda>now x. clock_reading E now) (pr_ext p)"
    by (rule wpI) (rule clock_readingI)
  then show ?thesis
    unfolding storeNextProbe_wp
  proof (rule wp_mono)
    fix now x
    assume now: "clock_reading E now"
    let ?v = "cb_backoffNanos (pr_breaker p)"
    have "i64 (now + ?v) = now + ?v"
      using clock_ok_bounds [OF clk now] v max_backoff_bounds(2) [OF cfg] by (simp add: i64_id)
    with now v show "Q () (p\<lparr>pr_ext := x, pr_breaker := (pr_breaker p)\<lparr>cb_nextProbeAt := i64 (now + ?v)\<rparr>\<rparr>)"
      by (simp add: Q)
  qed
qed

lemma RecordFailure_refines:
  assumes cfg: "cb_config_ok cfg" and rnd: "int63n_ok E" and clk: "clock_ok E"
    and inv: "breaker_inv cfg (pr_breaker p)"
  shows "wp (cb_RecordFailure E cfg) (\<lambda>_ p'. breaker_inv cfg (pr_breaker p') \<and>
     (\<exists>now u. clock_reading E now \<and> now < u \<and> u \<le> now + max_backoff cfg \<and>
        abs_of (pr_breaker p') = spec_failure cfg u (abs_of (pr_breaker p)))) p"
    (is "wp _ ?Q p")
proof (cases "cb_state (pr_breaker p)")
  case StateOpen
  have "\<exists>now u. clock_reading E now \<and> now < u \<and> u \<le> now + max_backoff cfg"
    using clock_reading_ex [of E] max_backoff_bounds(1) [OF cfg]
    by (metis less_add_same_cancel1 order_refl)
  with StateOpen inv show ?thesis by (simp add: cb_RecordFailure_def wp_rules)
next
  case StateHalfOpen
  have backoff: "0 < cb_backoffNanos (pr_breaker p)" "cb_backoffNanos (pr_breaker p) \<le> max_backoff cfg"
    using inv StateHalfOpen by (auto simp: breaker_inv_def)
  show ?thesis
    unfolding cb_RecordFailure_def wp_rules StateHalfOpen
    apply (simp add: wp_rules)
    apply (rule extendBackoff_wp [OF cfg rnd])
    using backoff apply (simp_all add: wp_rules)
    apply (rule storeNextProbe_until [OF cfg clk])
    using inv apply (auto simp add: breaker_inv_def wp_rules StateHalfOpen)
    done
next
  case StateClosed
  have n: "i32 (cb_failures (pr_breaker p) + 1) = cb_failures (pr_breaker p) + 1"
    using inv cfg StateClosed by (simp add: i32_id breaker_inv_def cb_config_ok_def)
  have "\<exists>now u. clock_reading E now \<and> now < u \<and> u \<le> now + max_backoff cfg"
    using clock_reading_ex [of E] max_backoff_bounds(1) [OF cfg]
    by (metis less_add_same_cancel1 order_refl)
  with inv StateClosed have below: "\<not> FailureThreshold cfg \<le> cb_failures (pr_breaker p) + 1 \<Longrightarrow>
      ?Q () (p\<lparr>pr_breaker := (pr_breaker p)\<lparr>cb_failures := cb_failures (pr_breaker p) + 1\<rparr>\<rparr>)"
    by (auto simp: breaker_inv_def)
  show ?thesis
    unfolding cb_RecordFailure_def wp_rules StateClosed
    apply (simp add: StateClosed wp_rules n)
    apply (intro conjI impI)
      apply (rule resetBackoff_wp [OF cfg rnd])
      apply (simp add: wp_rules)
      apply (rule storeNextProbe_until [OF cfg clk])
        apply (simp_all add: wp_rules)
    using inv StateClosed below by (auto simp: breaker_inv_def)
qed

text \<open>The invariant alone, in the form that composes over the operations of a client.\<close>

lemma breaker_ops_keep_inv:
  assumes "cb_config_ok cfg" and "int63n_ok E" and "clock_ok E"
  shows "keeps (\<lambda>p. breaker_inv cfg (pr_breaker p)) (cb_Allow E)"
    and "keeps (\<lambda>p. breaker_inv cfg (pr_breaker p)) cb_RecordSuccess"
    and "keeps (\<lambda>p. breaker_inv cfg (pr_breaker p)) (cb_RecordFailure E cfg)"
  by (rule keepsI, rule wp_mono, erule Allow_refines, simp)
    (rule keepsI, rule wp_mono, rule RecordSuccess_refines [OF assms(1)], simp,
     rule keepsI, rule wp_mono, erule RecordFailure_refines [OF assms], simp)

section \<open>Runs of the breaker\<close>

datatype cb_call = CallAllow | CallSuccess | CallFailure

primrec run_call :: "'x go_env \<Rightarrow> cb_config \<Rightarrow> cb_call \<Rightarrow> ('x proc, bool) io" where
  "run_call E cfg CallAllow = cb_Allow E"
| "run_call E cfg CallSuccess = do { cb_RecordSuccess; State_Monad.return True }"
| "run_call E cfg CallFailure = do { cb_RecordFailure E cfg; State_Monad.return True }"

primrec run_calls :: "'x go_env \<Rightarrow> cb_config \<Rightarrow> cb_call list \<Rightarrow> ('x proc, bool list) io" where
  "run_calls E cfg [] = State_Monad.return []"
| "run_calls E cfg (c # cs) = do {
     r \<leftarrow> run_call E cfg c; rs \<leftarrow> run_calls E cfg cs; State_Monad.return (r # rs)
   }"

lemma run_calls_keep_inv:
  assumes "cb_config_ok cfg" and "int63n_ok E" and "clock_ok E"
  shows "keeps (\<lambda>p. breaker_inv cfg (pr_breaker p)) (run_calls E cfg cs)"
proof (induction cs)
  case (Cons c cs)
  have "keeps (\<lambda>p. breaker_inv cfg (pr_breaker p)) (run_call E cfg c)"
    by (cases c) (auto intro: breaker_ops_keep_inv [OF assms])
  with Cons.IH show ?case by auto
qed simp

text \<open>The runs the contract allows, with the answers the callers get.\<close>

inductive spec_run :: "'x go_env \<Rightarrow> cb_config \<Rightarrow> abs_breaker \<Rightarrow> cb_call list \<Rightarrow> bool list \<Rightarrow> abs_breaker \<Rightarrow> bool"
  for E :: "'x go_env" and cfg :: cb_config where
  spec_done: "spec_run E cfg a [] [] a"
| spec_Allow: "clock_reading E now \<Longrightarrow> spec_allow now a = (r, b) \<Longrightarrow> spec_run E cfg b cs rs c \<Longrightarrow>
    spec_run E cfg a (CallAllow # cs) (r # rs) c"
| spec_Success: "spec_run E cfg (spec_success a) cs rs c \<Longrightarrow>
    spec_run E cfg a (CallSuccess # cs) (True # rs) c"
| spec_Failure: "clock_reading E now \<Longrightarrow> now < u \<Longrightarrow> u \<le> now + max_backoff cfg \<Longrightarrow>
    spec_run E cfg (spec_failure cfg u a) cs rs c \<Longrightarrow>
    spec_run E cfg a (CallFailure # cs) (True # rs) c"

inductive_cases spec_run_NilE: "spec_run E cfg a [] rs c"
inductive_cases spec_run_AllowE: "spec_run E cfg a (CallAllow # cs) rs c"
inductive_cases spec_run_FailureE: "spec_run E cfg a (CallFailure # cs) rs c"

lemma run_calls_refines_aux:
  assumes ok: "cb_config_ok cfg" "int63n_ok E" "clock_ok E"
    and "breaker_inv cfg (pr_breaker p)"
  shows "wp (run_calls E cfg cs) (\<lambda>rs p'. breaker_inv cfg (pr_breaker p') \<and>
     spec_run E cfg (abs_of (pr_breaker p)) cs rs (abs_of (pr_breaker p'))) p"
  using assms(4)
proof (induction cs arbitrary: p)
  case Nil
  then show ?case by (simp add: wp_rules spec_done)
next
  case (Cons c cs)
  show ?case
  proof (cases c)
    case CallAllow
    show ?thesis
      unfolding CallAllow run_calls.simps run_call.simps wp_rules
      by (rule wp_mono [OF Allow_refines [OF Cons.prems]])
        (auto intro!: wp_mono [OF Cons.IH] intro: spec_Allow [OF _ sym])
  next
    case CallSuccess
    show ?thesis
      unfolding CallSuccess run_calls.simps run_call.simps wp_rules
      by (rule wp_mono [OF RecordSuccess_refines [OF ok(1)]])
        (auto intro!: wp_mono [OF Cons.IH] spec_Success)
  next
    case CallFailure
    show ?thesis
      unfolding CallFailure run_calls.simps run_call.simps wp_rules
      by (rule wp_mono [OF RecordFailure_refines [OF ok Cons.prems]])
        (auto intro!: wp_mono [OF Cons.IH] intro: spec_Failure)
  qed
qed

text \<open>Facts of the abstract machine that the concrete breaker inherits.\<close>

lemma spec_failures_closed:
  assumes "spec_run E cfg (AClosed k) (replicate n CallFailure) rs a"
  shows "a = AClosed (k + int n) \<and> (n = 0 \<or> k + int n < FailureThreshold cfg) \<or>
    (\<exists>u. a = AOpen u) \<and> 0 < n \<and> FailureThreshold cfg \<le> k + int n"
  using assms
proof (induction n arbitrary: k rs)
  case 0
  then show ?case by (auto elim: spec_run_NilE)
next
  case (Suc n)
  have stays: "\<exists>u. a = AOpen u"
    if "spec_run E cfg (AOpen v) (replicate m CallFailure) rs' a" for v m rs'
    using that by (induction m arbitrary: rs') (auto elim!: spec_run_NilE spec_run_FailureE)
  from Suc.prems obtain u rs' where
    *: "spec_run E cfg (spec_failure cfg u (AClosed k)) (replicate n CallFailure) rs' a"
    by (auto elim!: spec_run_FailureE)
  show ?case
  proof (cases "k + 1 \<ge> FailureThreshold cfg")
    case True
    with * stays show ?thesis by fastforce
  next
    case False
    with * Suc.IH [of "k + 1" rs'] show ?thesis by auto
  qed
qed

lemma spec_half_denies:
  "spec_run E cfg (AHalf True) (replicate n CallAllow) rs a \<Longrightarrow> rs = replicate n False"
  by (induction n arbitrary: rs) (auto elim!: spec_run_NilE spec_run_AllowE)

lemma spec_one_probe:
  assumes "spec_run E cfg a (replicate n CallAllow) rs c" and "\<And>k. a \<noteq> AClosed k"
  shows "length (filter id rs) \<le> 1"
  using assms
proof (induction n arbitrary: a rs)
  case 0
  then show ?case by (auto elim: spec_run_NilE)
next
  case (Suc n)
  from Suc.prems(1) obtain now r b rs' where
    *: "spec_allow now a = (r, b)" "spec_run E cfg b (replicate n CallAllow) rs' c" "rs = r # rs'"
    by (auto elim!: spec_run_AllowE)
  show ?case
  proof (cases "b = AHalf True")
    case True
    with * spec_half_denies show ?thesis by fastforce
  next
    case False
    with *(1) Suc.prems(2) have "b = a" "\<not> r"
      by (cases a; auto split: if_splits)+
    with * Suc.IH [of a rs'] Suc.prems(2) show ?thesis by simp
  qed
qed

section \<open>Properties\<close>

text \<open>A process to evaluate examples in: a fresh breaker with the default configuration, at instant 1000.\<close>

definition sample_cfg :: cb_config where
  "sample_cfg = \<lparr>FailureThreshold = 2, ProbeBaseNanos = 100, ProbeMaxNanos = 300, JitterPct = 15\<rparr>"

definition sample_proc :: "int proc" where
  "sample_proc = \<lparr>pr_breaker = new_circuit_breaker True False,
     pr_jwks = \<lparr>jc_keys = [], jc_fetchedAt = 0, jc_previousKeys = [],
                jc_previousFetchedAt = 0, jc_ttl = hour, jc_gracePeriod = 30 * minute\<rparr>,
     pr_ext = 1000\<rparr>"

lemma sample_cfg_ok: "cb_config_ok sample_cfg"
  by (simp add: sample_cfg_def cb_config_ok_def)

lemma sample_proc_inv: "breaker_inv sample_cfg (pr_breaker sample_proc)"
  by (simp add: sample_proc_def breaker_inv_new sample_cfg_ok)

lemmas sample_breaker_defs = sample_proc_def sample_cfg_def sample_env_def new_circuit_breaker_def
  cb_Allow_def cb_RecordFailure_def cb_RecordSuccess_def cas_state_def cas_probe_def
  fireStateChange_def capture_def resetBackoff_def extendBackoff_def applyJitter_def
  loadBackoff_def storeNextProbe_def i64_def i32_def go_div_def abs_of_def numeral_2_eq_2

text \<open>
  C6. The circuit breaker implements its contract: from any state that satisfies the
  invariant, every sequence of Allow, RecordSuccess and RecordFailure calls keeps the
  invariant and gives answers and states of a run of the abstract machine \<open>spec_run\<close>, in
  which OPEN lasts until an instant at most \<open>max_backoff\<close> after the clock reading that
  opened it.
\<close>

theorem breaker_refines_contract:
  assumes "cb_config_ok cfg" and "int63n_ok E" and "clock_ok E"
    and "breaker_inv cfg (pr_breaker p)"
    and "run_state (run_calls E cfg cs) p = (rs, p')"
  shows "breaker_inv cfg (pr_breaker p') \<and>
    spec_run E cfg (abs_of (pr_breaker p)) cs rs (abs_of (pr_breaker p'))"
  using wpD [OF run_calls_refines_aux [OF assms(1-4)] assms(5)] .

theorem breaker_refines_contract_witness:
  "\<exists>rs p'. run_state (run_calls sample_env sample_cfg [CallFailure, CallFailure, CallAllow]) sample_proc = (rs, p') \<and>
     rs = [True, True, False] \<and> breaker_inv sample_cfg (pr_breaker p') \<and>
     spec_run sample_env sample_cfg (abs_of (pr_breaker sample_proc))
       [CallFailure, CallFailure, CallAllow] rs (abs_of (pr_breaker p'))"
proof -
  obtain rs p' where r: "run_state (run_calls sample_env sample_cfg [CallFailure, CallFailure, CallAllow]) sample_proc = (rs, p')"
    by (metis surj_pair)
  moreover from r have "rs = [True, True, False]"
    by (auto simp: sample_breaker_defs)
  ultimately show ?thesis
    using breaker_refines_contract [OF sample_cfg_ok sample_env_ok(1,2) sample_proc_inv r] by blast
qed

text \<open>
  Starting CLOSED with no failures counted, the breaker stays CLOSED through fewer than
  \<open>FailureThreshold\<close> consecutive infrastructure failures and is OPEN from the failure that
  reaches the threshold on.
\<close>

theorem breaker_trips_at_threshold:
  assumes "cb_config_ok cfg" and "int63n_ok E" and "clock_ok E"
    and "breaker_inv cfg (pr_breaker p)" and "abs_of (pr_breaker p) = AClosed 0"
    and "run_state (run_calls E cfg (replicate n CallFailure)) p = (rs, p')"
  shows "cb_state (pr_breaker p') = (if int n < FailureThreshold cfg then StateClosed else StateOpen)"
proof -
  have "spec_run E cfg (AClosed 0) (replicate n CallFailure) rs (abs_of (pr_breaker p'))"
    using wpD [OF run_calls_refines_aux [OF assms(1-4)] assms(6)] assms(5) by simp
  from spec_failures_closed [OF this] show ?thesis
    using assms(1) abs_of_Closed_iff [of "pr_breaker p'"] abs_of_Open_iff [of "pr_breaker p'"]
    by (auto simp: cb_config_ok_def)
qed

theorem breaker_trips_at_threshold_witness:
  "cb_state (pr_breaker (snd (run_state (run_calls sample_env sample_cfg (replicate 1 CallFailure)) sample_proc))) = StateClosed \<and>
   cb_state (pr_breaker (snd (run_state (run_calls sample_env sample_cfg (replicate 2 CallFailure)) sample_proc))) = StateOpen"
proof -
  have a: "abs_of (pr_breaker sample_proc) = AClosed 0"
    by (simp add: sample_proc_def new_circuit_breaker_def)
  note t = breaker_trips_at_threshold [OF sample_cfg_ok sample_env_ok(1,2) sample_proc_inv a prod.collapse [symmetric]]
  show ?thesis
    using t [of 1] t [of 2] by (simp add: sample_cfg_def)
qed

text \<open>
  While the breaker is not CLOSED and nobody records an outcome, at most one of any
  number of Allow calls is granted: a single probe tests Redis at a time.
\<close>

theorem breaker_single_probe:
  assumes "cb_config_ok cfg" and "int63n_ok E" and "clock_ok E"
    and "breaker_inv cfg (pr_breaker p)" and "cb_state (pr_breaker p) \<noteq> StateClosed"
    and "run_state (run_calls E cfg (replicate n CallAllow)) p = (rs, p')"
  shows "length (filter id rs) \<le> 1"
  using wpD [OF run_calls_refines_aux [OF assms(1-4)] assms(6)] assms(5)
    spec_one_probe [of E cfg "abs_of (pr_breaker p)" n rs] abs_of_Closed_iff [of "pr_breaker p"]
  by blast

theorem breaker_single_probe_witness:
  "length (filter id (fst (run_state (run_calls sample_env sample_cfg (replicate 3 CallAllow))
     (sample_proc\<lparr>pr_breaker := (pr_breaker sample_proc)\<lparr>cb_state := StateOpen, cb_backoffNanos := 1\<rparr>\<rparr>)))) \<le> 1"
proof -
  let ?p = "sample_proc\<lparr>pr_breaker := (pr_breaker sample_proc)\<lparr>cb_state := StateOpen, cb_backoffNanos := 1\<rparr>\<rparr>"
  have "breaker_inv sample_cfg (pr_breaker ?p)" "cb_state (pr_breaker ?p) \<noteq> StateClosed"
    by (simp_all add: breaker_inv_def sample_proc_def new_circuit_breaker_def sample_cfg_def
        max_backoff_def jitter_of_def)
  from breaker_single_probe [OF sample_cfg_ok sample_env_ok(1,2) this prod.collapse [symmetric]]
  show ?thesis .
qed

end
