(* ===== verification/Test_World.thy ===== *)
theory Test_World imports Redis_Model Postgres_Repositories Circuit_Breaker begin

text \<open>
  An in-memory outside on which the contracts of the external services hold and concrete
  runs can be evaluated: one clock, a Redis server and a Postgres server that can be down,
  the content of the in-process cache, and a trace of the calls to Hydra, Kratos and Kafka.
  The interpretations at the end show that the contracts are satisfiable; the model of the
  program does not use this theory.
\<close>

record sim =
  sm_now :: int
  sm_redis_up :: bool
  sm_redis :: redis_db
  sm_pg_up :: bool
  sm_pg :: pg_db
  sm_l1 :: "string \<rightharpoonup> l1_val"
  sm_trace :: "string list"

type_synonym sim_proc = "sim proc"

definition sim_env :: "sim go_env" where
  "sim_env = \<lparr>
     env_now = State (\<lambda>x. (max 0 (min (sm_now x) (2 ^ 62 - 1)), x)),
     env_wait = (\<lambda>d. State (\<lambda>x. (None, x\<lparr>sm_now := max 0 (sm_now x) + max 0 d\<rparr>))),
     env_int63n = (\<lambda>n. State_Monad.return 0),
     env_rand = (\<lambda>n. State_Monad.return (Inr (replicate n 0))),
     env_format = show_int,
     env_parse = (\<lambda>s. case read_int s of Some i \<Rightarrow> Inr i | None \<Rightarrow> Inl (Errorf ''parsing time'' []))\<rparr>"

lemma sim_env_ok: "int63n_ok sim_env" "clock_ok sim_env" "rand_ok sim_env" "time_codec_ok sim_env"
  by (auto simp: sim_env_def int63n_ok_def clock_ok_def rand_ok_def time_codec_ok_def read_show_int split: option.splits)

lemma sim_env_simps:
  "env_now (ext_env sim_env) = ext (State (\<lambda>x. (max 0 (min (sm_now x) (2 ^ 62 - 1)), x)))"
  "env_wait (ext_env sim_env) d = ext (State (\<lambda>x. (None, x\<lparr>sm_now := max 0 (sm_now x) + max 0 d\<rparr>)))"
  "env_int63n (ext_env sim_env) n = ext (State_Monad.return 0)"
  "env_rand (ext_env sim_env) m = ext (State_Monad.return (Inr (replicate m 0)))"
  "env_format (ext_env sim_env) = show_int"
  by (simp_all add: ext_env_def sim_env_def)

definition refused :: error where "refused = Sentinel ECONNREFUSED"

lemma refused_infra [simp]: "is_infra_error (Some refused)" "foreign_error refused"
  by (simp_all add: refused_def is_infra_Sentinel outside_sentinels_def)

section \<open>A text form of JSON documents\<close>

definition enc_str :: "string \<Rightarrow> string" where
  "enc_str s = concat (map (\<lambda>c. [CHR ''.'', c]) s) @ ''!''"

fun dec_str :: "string \<Rightarrow> (string \<times> string) option" where
  "dec_str (c # r) =
     (if c = CHR ''!'' then Some ([], r)
      else case r of
        d # r' \<Rightarrow> map_option (\<lambda>p. (d # fst p, snd p)) (dec_str r')
      | [] \<Rightarrow> None)"
| "dec_str [] = None"

lemma dec_enc_str: "dec_str (enc_str s @ r) = Some (s, r)"
  by (induction s) (simp_all add: enc_str_def)

fun enc :: "json \<Rightarrow> string" where
  "enc JNull = ''n''"
| "enc (JBool b) = (if b then ''t'' else ''f'')"
| "enc (JNum i) = CHR ''#'' # enc_str (show_int i)"
| "enc (JStr s) = CHR ''$'' # enc_str s"
| "enc (JArr js) = CHR ''['' # concat (map enc js) @ '']''"
| "enc (JObj kvs) = CHR ''{'' # concat (map (\<lambda>p. enc_str (fst p) @ enc (snd p)) kvs) @ ''}''"

fun dec :: "nat \<Rightarrow> string \<Rightarrow> (json \<times> string) option"
  and dec_arr :: "nat \<Rightarrow> string \<Rightarrow> (json list \<times> string) option"
  and dec_obj :: "nat \<Rightarrow> string \<Rightarrow> ((string \<times> json) list \<times> string) option" where
  "dec (Suc n) (c # r) =
     (if c = CHR ''n'' then Some (JNull, r)
      else if c = CHR ''t'' then Some (JBool True, r)
      else if c = CHR ''f'' then Some (JBool False, r)
      else if c = CHR ''#'' then
        (case dec_str r of Some (s, r') \<Rightarrow> map_option (\<lambda>i. (JNum i, r')) (read_int s) | None \<Rightarrow> None)
      else if c = CHR ''$'' then map_option (\<lambda>p. (JStr (fst p), snd p)) (dec_str r)
      else if c = CHR ''['' then map_option (\<lambda>p. (JArr (fst p), snd p)) (dec_arr n r)
      else if c = CHR ''{'' then map_option (\<lambda>p. (JObj (fst p), snd p)) (dec_obj n r)
      else None)"
| "dec _ _ = None"
| "dec_arr (Suc n) (c # r) =
     (if c = CHR '']'' then Some ([], r)
      else case dec n (c # r) of
        Some (j, r') \<Rightarrow> map_option (\<lambda>p. (j # fst p, snd p)) (dec_arr n r')
      | None \<Rightarrow> None)"
| "dec_arr _ _ = None"
| "dec_obj (Suc n) (c # r) =
     (if c = CHR ''}'' then Some ([], r)
      else case dec_str (c # r) of
        Some (k, r') \<Rightarrow>
          (case dec n r' of
             Some (j, r'') \<Rightarrow> map_option (\<lambda>p. ((k, j) # fst p, snd p)) (dec_obj n r'')
           | None \<Rightarrow> None)
      | None \<Rightarrow> None)"
| "dec_obj _ _ = None"

lemma enc_head: "\<exists>c r. enc j = c # r \<and> c \<noteq> CHR '']''"
  by (cases j) auto

lemma enc_str_head: "\<exists>c r. enc_str s = c # r \<and> c \<noteq> CHR ''}''"
  by (cases s) (auto simp: enc_str_def)

lemma dec_arr_enc:
  assumes "\<And>j n r. j \<in> set js \<Longrightarrow> length (enc j) \<le> n \<Longrightarrow> dec n (enc j @ r) = Some (j, r)"
    and "length (concat (map enc js)) < n"
  shows "dec_arr n (concat (map enc js) @ CHR '']'' # r) = Some (js, r)"
  using assms
proof (induction js arbitrary: n)
  case Nil
  then show ?case by (cases n) auto
next
  case (Cons j js)
  obtain c s where c: "enc j = c # s" "c \<noteq> CHR '']''"
    using enc_head by blast
  from Cons.prems(2) obtain m where n: "n = Suc m"
    by (cases n) auto
  have "dec m (enc j @ concat (map enc js) @ CHR '']'' # r) = Some (j, concat (map enc js) @ CHR '']'' # r)"
    using Cons.prems(2) n by (intro Cons.prems(1)) simp_all
  moreover have "dec_arr m (concat (map enc js) @ CHR '']'' # r) = Some (js, r)"
    using Cons.prems n c by (intro Cons.IH) auto
  ultimately show ?case
    using c n by simp
qed

lemma dec_obj_enc:
  assumes "\<And>p n r. p \<in> set kvs \<Longrightarrow> length (enc (snd p)) \<le> n \<Longrightarrow> dec n (enc (snd p) @ r) = Some (snd p, r)"
    and "length (concat (map (\<lambda>p. enc_str (fst p) @ enc (snd p)) kvs)) < n"
  shows "dec_obj n (concat (map (\<lambda>p. enc_str (fst p) @ enc (snd p)) kvs) @ CHR ''}'' # r) = Some (kvs, r)"
  using assms
proof (induction kvs arbitrary: n)
  case Nil
  then show ?case by (cases n) auto
next
  case (Cons p kvs)
  let ?rest = "concat (map (\<lambda>p. enc_str (fst p) @ enc (snd p)) kvs)"
  obtain c s where c: "enc_str (fst p) = c # s" "c \<noteq> CHR ''}''"
    using enc_str_head by blast
  from Cons.prems(2) obtain m where n: "n = Suc m"
    by (cases n) auto
  have "dec m (enc (snd p) @ ?rest @ CHR ''}'' # r) = Some (snd p, ?rest @ CHR ''}'' # r)"
    using Cons.prems(2) n by (intro Cons.prems(1)) simp_all
  moreover have "dec_obj m (?rest @ CHR ''}'' # r) = Some (kvs, r)"
    using Cons.prems n c by (intro Cons.IH) auto
  moreover have "dec_str (c # s @ enc (snd p) @ ?rest @ CHR ''}'' # r) = Some (fst p, enc (snd p) @ ?rest @ CHR ''}'' # r)"
    using dec_enc_str [of "fst p"] c(1) by (metis append_Cons)
  ultimately show ?case
    using c n by simp
qed

lemma dec_enc: "length (enc j) \<le> n \<Longrightarrow> dec n (enc j @ r) = Some (j, r)"
proof (induction j arbitrary: n r)
  case (JArr js)
  from JArr.prems obtain m where m: "n = Suc m" by (cases n) auto
  have "dec_arr m (concat (map enc js) @ CHR '']'' # r) = Some (js, r)"
    using JArr m by (intro dec_arr_enc) auto
  then show ?case by (simp add: m)
next
  case (JObj kvs)
  from JObj.prems obtain m where m: "n = Suc m" by (cases n) auto
  have "dec_obj m (concat (map (\<lambda>p. enc_str (fst p) @ enc (snd p)) kvs) @ CHR ''}'' # r) = Some (kvs, r)"
  proof (rule dec_obj_enc)
    show "dec n (enc (snd p) @ r) = Some (snd p, r)" if "p \<in> set kvs" "length (enc (snd p)) \<le> n" for p n r
      using JObj.IH [OF that(1) _ that(2)] by (simp add: snds.simps)
    show "length (concat (map (\<lambda>p. enc_str (fst p) @ enc (snd p)) kvs)) < m"
      using JObj.prems m by simp
  qed
  then show ?case by (simp add: m)
qed (auto simp: dec_enc_str read_show_int Suc_le_D elim!: Suc_le_D [THEN exE])

definition text_codec :: json_codec where
  "text_codec = \<lparr>js_encode = enc,
     js_decode = (\<lambda>t. case dec (length t) t of Some (j, []) \<Rightarrow> Inr j | _ \<Rightarrow> Inl (Errorf ''invalid character'' []))\<rparr>"

lemma text_codec_ok: "json_codec_ok text_codec"
  using dec_enc [of _ _ "[]"]
  by (auto simp: json_codec_ok_def text_codec_def split: option.splits list.splits)

section \<open>Redis\<close>

definition sim_exec :: "(sim \<Rightarrow> 'a \<times> redis_db) \<Rightarrow> 'a \<Rightarrow> (sim_proc, 'a) io" where
  "sim_exec f dead = ext (State (\<lambda>x.
     if sm_redis_up x then (case f x of (r, d) \<Rightarrow> (r, x\<lparr>sm_redis := d\<rparr>)) else (dead, x)))"

definition sim_redis :: "(redis_ctx, sim_proc) redis_client" where
  "sim_redis = \<lparr>
     rc_do = (\<lambda>c. sim_exec (\<lambda>x. redis_exec (sm_now x) c (sm_redis x)) (Inl refused)),
     rc_tx = (\<lambda>cs. sim_exec (\<lambda>x. case redis_exec_all (sm_now x) cs (sm_redis x) of (rs, d) \<Rightarrow> ((rs, first_error rs), d))
        (map (\<lambda>_. Inl refused) cs, Some refused)),
     rc_pipe = (\<lambda>cs. sim_exec (\<lambda>x. case redis_exec_all (sm_now x) cs (sm_redis x) of (rs, d) \<Rightarrow> ((rs, first_error rs), d))
        (map (\<lambda>_. Inl refused) cs, Some refused)),
     rc_call = redis_call,
     rc_eval = (\<lambda>body. sim_exec (\<lambda>x. case run_state body (sm_now x, sm_redis x) of (r, s) \<Rightarrow> (r, snd s)) (Inl refused))\<rparr>"

definition sim_db :: "sim_proc \<Rightarrow> redis_db" where "sim_db p = sm_redis (pr_ext p)"
definition sim_clock :: "sim_proc \<Rightarrow> int" where "sim_clock p = sm_now (pr_ext p)"

lemma lost_refused [simp]: "lost (Inl refused)"
  by (auto simp: lost_def)

interpretation sim_redis: redis sim_redis sim_db sim_clock
proof
  show "wp (rc_do sim_redis c) (\<lambda>r w'. redis_step (sim_clock w) c (sim_db w) r (sim_db w') \<and> sim_clock w \<le> sim_clock w') w" for c w
    by (auto intro!: wpI simp: sim_redis_def sim_exec_def sim_db_def sim_clock_def redis_step_def split: prod.splits if_splits)
  show "wp (rc_tx sim_redis cs) (\<lambda>r w'. redis_tx_step (sim_clock w) cs (sim_db w) r (sim_db w') \<and> sim_clock w \<le> sim_clock w') w" for cs w
    by (auto intro!: wpI simp: sim_redis_def sim_exec_def sim_db_def sim_clock_def redis_tx_step_def split: prod.splits if_splits)
  show "wp (rc_pipe sim_redis cs) (\<lambda>r w'. redis_pipe_step (sim_clock w) cs (sim_db w) r (sim_db w') \<and> sim_clock w \<le> sim_clock w') w" for cs w
  proof -
    have "sim_db w = snd (redis_exec_all (sim_clock w) (take 0 cs) (sim_db w))"
      by simp
    then have "redis_pipe_step (sim_clock w) cs (sim_db w) (map (\<lambda>_. Inl refused) cs, Some refused) (sim_db w)"
      unfolding redis_pipe_step_def by (metis refused_infra(2))
    then show ?thesis
      by (auto intro!: wpI simp: sim_redis_def sim_exec_def sim_db_def sim_clock_def redis_pipe_step_def split: prod.splits if_splits)
  qed
  show "rc_call sim_redis = redis_call"
    by (simp add: sim_redis_def)
  show "wp (rc_eval sim_redis body) (\<lambda>r w'. sim_clock w \<le> sim_clock w' \<and>
      ((\<exists>s. run_state body (sim_clock w, sim_db w) = (r, s) \<and> sim_db w' = snd s) \<or>
       lost r \<and> (sim_db w' = sim_db w \<or> sim_db w' = snd (snd (run_state body (sim_clock w, sim_db w)))))) w" for body w
    by (auto intro!: wpI simp: sim_redis_def sim_exec_def sim_db_def sim_clock_def split: prod.splits if_splits)
qed

section \<open>Postgres\<close>

definition sim_pool :: "sim_proc pg_pool" where
  "sim_pool = \<lparr>
     pg_Exec = (\<lambda>s. ext (State (\<lambda>x.
        if sm_pg_up x then (None, x\<lparr>sm_pg := pg_apply (sm_now x) s (sm_pg x)\<rparr>) else (Some refused, x)))),
     pg_Query = (\<lambda>q. ext (State (\<lambda>x.
        (if sm_pg_up x then Inr (pg_answer (sm_now x) q (sm_pg x)) else Inl refused, x))))\<rparr>"

definition sim_tables :: "sim_proc \<Rightarrow> pg_db" where "sim_tables p = sm_pg (pr_ext p)"

interpretation sim_pg: postgres sim_pool sim_tables sim_clock
  by unfold_locales
    (auto intro!: wpI simp: sim_pool_def sim_tables_def sim_clock_def split: if_splits)

section \<open>A process\<close>

definition empty_pg :: pg_db where
  "empty_pg = \<lparr>pg_device_sessions = [], pg_next_id = 1, pg_blacklisted = [], pg_blacklists = []\<rparr>"

definition sim0 :: sim where
  "sim0 = \<lparr>sm_now = 1000, sm_redis_up = True, sm_redis = Map.empty, sm_pg_up = True, sm_pg = empty_pg,
     sm_l1 = Map.empty, sm_trace = []\<rparr>"

definition sim_start :: sim_proc where
  "sim_start = \<lparr>pr_breaker = new_circuit_breaker False False,
     pr_jwks = \<lparr>jc_keys = [], jc_fetchedAt = 0, jc_previousKeys = [],
                jc_previousFetchedAt = 0, jc_ttl = hour, jc_gracePeriod = 30 * minute\<rparr>,
     pr_ext = sim0\<rparr>"

lemmas sim_defs = sim_redis_def sim_exec_def sim_pool_def sim_env_def ext_env_def sim_start_def sim0_def empty_pg_def
  new_circuit_breaker_def

end
