(* ===== verification/L1_Cache.thy ===== *)
theory L1_Cache imports Test_World begin

text \<open>
  The in-process cache that the three resilient decorators share.

  \<open>l1_cache\<close> is its contract: what is read under a key is the value last stored there; an
  entry may vanish at any time (expiry, eviction) and the cache touches nothing else of the
  world, which \<open>rest\<close> observes. Go asserts the dynamic type of the values it reads, so the
  three stores have to keep their keys apart: \<open>l1_typed\<close> is the invariant that a key of each
  store only ever holds that store's type.
\<close>

definition sessionL1Prefix :: string where "sessionL1Prefix = ''sess:''"

definition deviceTokenL1Key :: "string \<Rightarrow> string \<Rightarrow> string" where
  "deviceTokenL1Key kratosID deviceID = ''drt:'' @ kratosID @ '':'' @ deviceID"

locale l1_cache =
  fixes l1 :: "'w l1_cache" and content :: "'w \<Rightarrow> string \<Rightarrow> l1_val option" and rest :: "'w \<Rightarrow> 'v"
  assumes get_law: "wp (l1_Get l1 k) (\<lambda>r w'. content w' = content w \<and> rest w' = rest w \<and>
       (\<forall>v. r = Some v \<longrightarrow> content w k = Some v)) w"
    and set_law: "wp (l1_Set l1 k v d) (\<lambda>_ w'. content w' = (content w)(k \<mapsto> v) \<and> rest w' = rest w) w"
    and delete_law: "wp (l1_Delete l1 k) (\<lambda>_ w'. content w' = (content w)(k := None) \<and> rest w' = rest w) w"
begin

lemma get_wp:
  assumes "\<And>r w'. content w' = content w \<Longrightarrow> rest w' = rest w \<Longrightarrow>
     (\<And>v. r = Some v \<Longrightarrow> content w k = Some v) \<Longrightarrow> Q r w'"
  shows "wp (l1_Get l1 k) Q w"
  using get_law by (rule wp_mono) (use assms in blast)

lemma set_wp:
  assumes "\<And>w'. content w' = (content w)(k \<mapsto> v) \<Longrightarrow> rest w' = rest w \<Longrightarrow> Q () w'"
  shows "wp (l1_Set l1 k v d) Q w"
  using set_law by (rule wp_mono) (use assms in auto)

lemma delete_wp:
  assumes "\<And>w'. content w' = (content w)(k := None) \<Longrightarrow> rest w' = rest w \<Longrightarrow> Q () w'"
  shows "wp (l1_Delete l1 k) Q w"
  using delete_law by (rule wp_mono) (use assms in auto)

end

section \<open>Key spaces\<close>

text \<open>
  The blacklist stores the bare session identifier (or a \<open>device:\<close> or \<open>user:\<close> key) and the
  other two prefix their keys. Nothing in the decorators keeps the spaces apart: a session
  identifier that starts with one of the prefixes would collide.
\<close>

definition bare_key :: "string \<Rightarrow> bool" where
  "bare_key k \<longleftrightarrow> \<not> has_prefix k ''sess:'' \<and> \<not> has_prefix k ''drt:''"

definition l1_typed :: "(string \<Rightarrow> l1_val option) \<Rightarrow> bool" where
  "l1_typed c \<longleftrightarrow> (\<forall>k v. c k = Some v \<longrightarrow>
     (if has_prefix k ''sess:'' then \<exists>s. v = VSession s
      else if has_prefix k ''drt:'' then \<exists>s. v = VString s
      else \<exists>b. v = VBool b))"

lemma session_key_prefix [simp]: "has_prefix (sessionL1Prefix @ i) ''sess:''"
  by (simp add: sessionL1Prefix_def has_prefix_def)

lemma device_key_prefix [simp]:
  "has_prefix (deviceTokenL1Key k d) ''drt:''" "\<not> has_prefix (deviceTokenL1Key k d) ''sess:''"
  by (simp_all add: deviceTokenL1Key_def has_prefix_def)

lemma l1_typed_session: "l1_typed c \<Longrightarrow> c (sessionL1Prefix @ i) = Some v \<Longrightarrow> \<exists>s. v = VSession s"
  unfolding l1_typed_def by (metis session_key_prefix)

lemma l1_typed_device: "l1_typed c \<Longrightarrow> c (deviceTokenL1Key k d) = Some v \<Longrightarrow> \<exists>s. v = VString s"
  unfolding l1_typed_def by (metis device_key_prefix)

lemma l1_typed_bare: "l1_typed c \<Longrightarrow> bare_key k \<Longrightarrow> c k = Some v \<Longrightarrow> \<exists>b. v = VBool b"
  unfolding l1_typed_def bare_key_def by metis

lemma l1_typed_set_session: "l1_typed c \<Longrightarrow> l1_typed (c(sessionL1Prefix @ i \<mapsto> VSession s))"
  by (simp add: l1_typed_def)

lemma l1_typed_set_device: "l1_typed c \<Longrightarrow> l1_typed (c(deviceTokenL1Key k d \<mapsto> VString s))"
  by (simp add: l1_typed_def)

lemma l1_typed_set_bare: "l1_typed c \<Longrightarrow> bare_key k \<Longrightarrow> l1_typed (c(k \<mapsto> VBool b))"
  by (simp add: l1_typed_def bare_key_def)

lemma l1_typed_delete: "l1_typed c \<Longrightarrow> l1_typed (c(k := None))"
  by (simp add: l1_typed_def)

lemmas l1_typed_intros = l1_typed_set_session l1_typed_set_device l1_typed_set_bare l1_typed_delete

lemma session_device_keys_differ [simp]:
  "deviceTokenL1Key k d \<noteq> sessionL1Prefix @ i" "sessionL1Prefix @ i \<noteq> deviceTokenL1Key k d"
  by (simp_all add: deviceTokenL1Key_def sessionL1Prefix_def)

section \<open>An instance\<close>

definition sim_l1 :: "sim_proc l1_cache" where
  "sim_l1 = \<lparr>
     l1_Get = (\<lambda>k. ext (State (\<lambda>x. (sm_l1 x k, x)))),
     l1_Set = (\<lambda>k v d. ext (State (\<lambda>x. ((), x\<lparr>sm_l1 := (sm_l1 x)(k \<mapsto> v)\<rparr>)))),
     l1_Delete = (\<lambda>k. ext (State (\<lambda>x. ((), x\<lparr>sm_l1 := (sm_l1 x)(k := None)\<rparr>))))\<rparr>"

definition sim_content :: "sim_proc \<Rightarrow> string \<Rightarrow> l1_val option" where
  "sim_content p = sm_l1 (pr_ext p)"

text \<open>Everything but the cache.\<close>

definition sim_rest :: "sim_proc \<Rightarrow> sim_proc" where
  "sim_rest p = p\<lparr>pr_ext := (pr_ext p)\<lparr>sm_l1 := Map.empty\<rparr>\<rparr>"

interpretation sim_l1: l1_cache sim_l1 sim_content sim_rest
  by unfold_locales (auto intro!: wpI simp: sim_l1_def sim_content_def sim_rest_def)

section \<open>The breaker behind its interface\<close>

definition NewCircuitBreaker :: "'x go_env \<Rightarrow> cb_config \<Rightarrow> 'x proc circuit_breaker" where
  "NewCircuitBreaker E cfg = \<lparr>cbi_Allow = cb_Allow E, cbi_RecordSuccess = cb_RecordSuccess,
     cbi_RecordFailure = cb_RecordFailure E cfg, cbi_State = cb_State\<rparr>"

text \<open>The breaker's methods do not reach what \<open>view\<close> observes.\<close>

definition breaker_keeps :: "'w circuit_breaker \<Rightarrow> ('w \<Rightarrow> 'v) \<Rightarrow> bool" where
  "breaker_keeps cb view \<longleftrightarrow>
     (\<forall>w. wp (cbi_Allow cb) (\<lambda>_ w'. view w' = view w) w) \<and>
     (\<forall>w. wp (cbi_RecordSuccess cb) (\<lambda>_ w'. view w' = view w) w) \<and>
     (\<forall>w. wp (cbi_RecordFailure cb) (\<lambda>_ w'. view w' = view w) w) \<and>
     (\<forall>w. wp (cbi_State cb) (\<lambda>_ w'. view w' = view w) w)"

lemma breaker_keeps_wp:
  assumes "breaker_keeps cb view"
  shows "(\<And>b w'. view w' = view w \<Longrightarrow> Q b w') \<Longrightarrow> wp (cbi_Allow cb) Q w"
    and "(\<And>w'. view w' = view w \<Longrightarrow> R () w') \<Longrightarrow> wp (cbi_RecordSuccess cb) R w"
    and "(\<And>w'. view w' = view w \<Longrightarrow> R () w') \<Longrightarrow> wp (cbi_RecordFailure cb) R w"
    and "(\<And>s w'. view w' = view w \<Longrightarrow> S s w') \<Longrightarrow> wp (cbi_State cb) S w"
  using assms unfolding breaker_keeps_def by (auto elim!: allE [of _ w] elim!: wp_mono)

text \<open>
  The model's breaker keeps every view of the process that ignores the breaker itself and
  that the runtime keeps.
\<close>

lemma NewCircuitBreaker_keeps:
  assumes ign: "\<And>p b. view (p\<lparr>pr_breaker := b\<rparr>) = view p"
    and now: "\<And>p x t. run_state (env_now E) (pr_ext p) = (t, x) \<Longrightarrow> view (p\<lparr>pr_ext := x\<rparr>) = view p"
    and rnd: "\<And>p x n r. run_state (env_int63n E n) (pr_ext p) = (r, x) \<Longrightarrow> view (p\<lparr>pr_ext := x\<rparr>) = view p"
  shows "breaker_keeps (NewCircuitBreaker E cfg) view"
proof -
  let ?K = "\<lambda>v p. view p = v"
  have K1: "keeps (?K v) get_breaker" "keeps (?K v) (modify_breaker f)" for v f
    by (simp_all add: keeps_def ign)
  have K2: "keeps (?K v) (ext (env_now E))" "keeps (?K v) (ext (env_int63n E n))" for v n
    by (auto simp: keeps_def dest: now rnd split: prod.splits)
  have K3: "keeps (?K v) (fireStateChange f t)" "keeps (?K v) (capture e)" "keeps (?K v) (cas_state old new)"
      "keeps (?K v) cas_probe" "keeps (?K v) loadBackoff" for v f t e old new
    unfolding fireStateChange_def capture_def cas_state_def cas_probe_def loadBackoff_def
    by (auto intro!: K1 keeps_bind keeps_if)
  have K4: "keeps (?K v) (applyJitter E cfg b)" for v b
    unfolding applyJitter_def Let_def by (auto intro!: K2 keeps_bind keeps_if)
  have K5: "keeps (?K v) (resetBackoff E cfg)" "keeps (?K v) (extendBackoff E cfg)" "keeps (?K v) (storeNextProbe E)" for v
    unfolding resetBackoff_def extendBackoff_def storeNextProbe_def Let_def
    by (auto intro!: K1 K2 K3 K4 keeps_bind)
  have "keeps (?K v) (cb_Allow E)" "keeps (?K v) cb_RecordSuccess" "keeps (?K v) (cb_RecordFailure E cfg)" "keeps (?K v) cb_State" for v
    unfolding cb_Allow_def cb_RecordSuccess_def cb_RecordFailure_def cb_State_def Let_def
    by (auto intro!: K1 K2 K3 K4 K5 keeps_bind keeps_if split: cb_state.split)
  then show ?thesis
    unfolding breaker_keeps_def NewCircuitBreaker_def by (auto intro: keepsD)
qed


section \<open>What the runtime and a client leave alone\<close>

text \<open>The runtime's own calls do not reach what \<open>view\<close> observes.\<close>

definition env_keeps :: "'w go_env \<Rightarrow> ('w \<Rightarrow> 'v) \<Rightarrow> bool" where
  "env_keeps E view \<longleftrightarrow>
     (\<forall>w. view (snd (run_state (env_now E) w)) = view w) \<and>
     (\<forall>d w. view (snd (run_state (env_wait E d) w)) = view w) \<and>
     (\<forall>n w. view (snd (run_state (env_rand E n) w)) = view w)"

lemma env_keeps_now:
  assumes "env_keeps E view" and "\<And>t w'. view w' = view w \<Longrightarrow> Q t w'"
  shows "wp (env_now E) Q w"
  by (rule wpI) (metis assms env_keeps_def snd_conv)

lemma sim_env_keeps: "env_keeps (ext_env sim_env) sim_db"
  by (simp add: env_keeps_def ext_env_def sim_env_def sim_db_def)

text \<open>Reading the clock does not move the server's clock back.\<close>

definition env_forward :: "'w go_env \<Rightarrow> ('w \<Rightarrow> int) \<Rightarrow> bool" where
  "env_forward E rnow \<longleftrightarrow> (\<forall>w. rnow w \<le> rnow (snd (run_state (env_now E) w)))"

definition client_frame :: "('d, 'w) redis_client \<Rightarrow> ('w \<Rightarrow> 'v) \<Rightarrow> bool" where
  "client_frame rc view \<longleftrightarrow> (\<forall>c. same view (rc_do rc c)) \<and> (\<forall>cs. same view (rc_tx rc cs)) \<and>
     (\<forall>cs. same view (rc_pipe rc cs)) \<and> (\<forall>b. same view (rc_eval rc b))"

lemma sim_exec_same:
  assumes "\<And>p d. view (p\<lparr>pr_ext := (pr_ext p)\<lparr>sm_redis := d\<rparr>\<rparr>) = view p"
  shows "same view (sim_exec f dead)"
  using assms by (auto simp: same_def sim_exec_def split: prod.splits)

lemma sim_client_frame:
  assumes "\<And>p d. view (p\<lparr>pr_ext := (pr_ext p)\<lparr>sm_redis := d\<rparr>\<rparr>) = view p"
  shows "client_frame sim_redis view"
  by (simp add: client_frame_def sim_redis_def sim_exec_same [of view, OF assms])

lemma sim_breaker_keeps:
  assumes "\<And>p b. view (p\<lparr>pr_breaker := b\<rparr>) = view p"
  shows "breaker_keeps (NewCircuitBreaker sim_env cfg) view"
  by (rule NewCircuitBreaker_keeps) (auto simp: assms sim_env_def)

end
