(* ===== verification/Go_Encoding.thy ===== *)
theory Go_Encoding imports Go_Errors "HOL-Library.List_Lexorder" "HOL-Library.Char_ord" begin

text \<open>
  The text encodings of the Go standard library that the HTTP clients use: lower-case
  hexadecimal (\<open>fmt.Sprintf("%x")\<close>), unpadded base64url (\<open>base64.RawURLEncoding\<close>), query
  escaping and \<open>url.Values.Encode\<close>, \<open>url.URL.Query\<close> and the splitting functions of
  \<open>strings\<close>. Bytes are numbers below 256 and a Go string is a list of bytes. The round
  trips at the end of each section are what the clients rely on.
\<close>

section \<open>Hexadecimal\<close>

definition ldigits :: string where "ldigits = ''0123456789abcdef''"

definition hex_digit :: "nat \<Rightarrow> char" where "hex_digit n = ldigits ! n"

definition hex_byte :: "nat \<Rightarrow> string" where
  "hex_byte b = [hex_digit (b div 16), hex_digit (b mod 16)]"

definition hex_bytes :: "nat list \<Rightarrow> string" where
  "hex_bytes bs = concat (map hex_byte bs)"

lemma ldigits_facts: "length ldigits = 16" "distinct ldigits"
  by (simp_all add: ldigits_def)

lemma hex_digit_mem: "n < 16 \<Longrightarrow> hex_digit n \<in> set ldigits"
  by (simp add: hex_digit_def ldigits_facts)

lemma hex_digit_inject: "m < 16 \<Longrightarrow> n < 16 \<Longrightarrow> hex_digit m = hex_digit n \<longleftrightarrow> m = n"
  by (simp add: hex_digit_def nth_eq_iff_index_eq ldigits_facts)

lemma byte_nibbles: "(b::nat) < 256 \<Longrightarrow> b div 16 < 16 \<and> b mod 16 < 16"
  by auto

lemma hex_byte_inject: "a < 256 \<Longrightarrow> b < 256 \<Longrightarrow> hex_byte a = hex_byte b \<longleftrightarrow> a = b"
  using byte_nibbles [of a] byte_nibbles [of b]
  by (auto simp: hex_byte_def hex_digit_inject) (metis div_mod_decomp)

lemma hex_bytes_inject:
  "\<forall>b\<in>set xs. b < 256 \<Longrightarrow> \<forall>b\<in>set ys. b < 256 \<Longrightarrow> hex_bytes xs = hex_bytes ys \<longleftrightarrow> xs = ys"
  unfolding hex_bytes_def
proof (induction xs arbitrary: ys)
  case Nil
  then show ?case by (cases ys) (auto simp: hex_byte_def)
next
  case (Cons x xs)
  show ?case
  proof (cases ys)
    case (Cons y ys')
    have "length (hex_byte x) = length (hex_byte y)"
      by (simp add: hex_byte_def)
    with Cons Cons.prems Cons.IH [of ys'] show ?thesis
      by (simp add: hex_byte_inject)
  qed (auto simp: hex_byte_def)
qed

lemma hex_bytes_shape:
  "\<forall>b\<in>set bs. b < 256 \<Longrightarrow> length (hex_bytes bs) = 2 * length bs \<and> set (hex_bytes bs) \<subseteq> set ldigits"
  unfolding hex_bytes_def
proof (induction bs)
  case (Cons b bs)
  then show ?case
    using byte_nibbles [of b] by (auto simp: hex_byte_def hex_digit_mem)
qed simp

section \<open>Unpadded base64url\<close>

definition b64_alphabet :: string where
  "b64_alphabet = ''ABCDEFGHIJKLMNOPQRSTUVWXYZabcdefghijklmnopqrstuvwxyz0123456789-_''"

definition b64_char :: "nat \<Rightarrow> char" where "b64_char n = b64_alphabet ! n"

fun index_of :: "'a list \<Rightarrow> 'a \<Rightarrow> nat option" where
  "index_of [] x = None"
| "index_of (y # ys) x = (if x = y then Some 0 else map_option Suc (index_of ys x))"

definition b64_val :: "char \<Rightarrow> nat option" where "b64_val c = index_of b64_alphabet c"

fun b64_encode :: "nat list \<Rightarrow> string" where
  "b64_encode [] = []"
| "b64_encode [a] = [b64_char (a div 4), b64_char (a mod 4 * 16)]"
| "b64_encode [a, b] = [b64_char (a div 4), b64_char (a mod 4 * 16 + b div 16), b64_char (b mod 16 * 4)]"
| "b64_encode (a # b # c # r) =
     [b64_char (a div 4), b64_char (a mod 4 * 16 + b div 16), b64_char (b mod 16 * 4 + c div 64), b64_char (c mod 64)]
     @ b64_encode r"

text \<open>The trailing bits of the last quantum are not checked (the encoding is not \<open>Strict\<close>).\<close>

fun b64_quanta :: "nat list \<Rightarrow> nat list option" where
  "b64_quanta [] = Some []"
| "b64_quanta [a] = None"
| "b64_quanta [a, b] = Some [a * 4 + b div 16]"
| "b64_quanta [a, b, c] = Some [a * 4 + b div 16, b mod 16 * 16 + c div 4]"
| "b64_quanta (a # b # c # d # r) =
     map_option (\<lambda>t. [a * 4 + b div 16, b mod 16 * 16 + c div 4, c mod 4 * 64 + d] @ t) (b64_quanta r)"

text \<open>The decoder skips carriage returns and line feeds.\<close>

definition b64_decode :: "string \<Rightarrow> nat list result" where
  "b64_decode s =
     (case those (map b64_val (filter (\<lambda>c. c \<noteq> CHR 0x0A \<and> c \<noteq> CHR 0x0D) s)) of
        None \<Rightarrow> Inl (Errorf ''illegal base64 data'' [])
      | Some vs \<Rightarrow> (case b64_quanta vs of None \<Rightarrow> Inl (Errorf ''illegal base64 data'' []) | Some bs \<Rightarrow> Inr bs))"

lemma b64_alphabet_facts: "length b64_alphabet = 64" "distinct b64_alphabet"
  "CHR 0x0A \<notin> set b64_alphabet" "CHR 0x0D \<notin> set b64_alphabet"
  by (simp_all add: b64_alphabet_def)

lemma index_of_nth: "distinct xs \<Longrightarrow> n < length xs \<Longrightarrow> index_of xs (xs ! n) = Some n"
proof (induction xs arbitrary: n)
  case (Cons x xs)
  then show ?case by (cases n) (auto simp: nth_mem)
qed simp

lemma b64_val_char [simp]: "n < 64 \<Longrightarrow> b64_val (b64_char n) = Some n"
  by (simp add: b64_val_def b64_char_def index_of_nth b64_alphabet_facts)

lemma b64_char_mem [simp]: "n < 64 \<Longrightarrow> b64_char n \<in> set b64_alphabet"
  by (simp add: b64_char_def b64_alphabet_facts)

lemma b64_bounds:
  "(a::nat) < 256 \<Longrightarrow> a div 4 < 64" "(b::nat) < 256 \<Longrightarrow> a mod 4 * 16 + b div 16 < 64"
  "(c::nat) < 256 \<Longrightarrow> b mod 16 * 4 + c div 64 < 64" "(a::nat) mod 4 * 16 < 64" "(b::nat) mod 16 * 4 < 64"
  by auto

lemma radix_digit: "(y::nat) < k \<Longrightarrow> (x * k + y) div k = x" "(y::nat) < k \<Longrightarrow> (x * k + y) mod k = y"
  by simp_all

lemma b64_recombine:
  assumes "(a::nat) < 256" "(b::nat) < 256" "(c::nat) < 256"
  shows "a div 4 * 4 + (a mod 4 * 16 + b div 16) div 16 = a"
    "(a mod 4 * 16 + b div 16) mod 16 * 16 + (b mod 16 * 4 + c div 64) div 4 = b"
    "(b mod 16 * 4 + c div 64) mod 4 * 64 + c mod 64 = c"
    "a div 4 * 4 + a mod 4 * 16 div 16 = a"
    "(a mod 4 * 16 + b div 16) mod 16 * 16 + b mod 16 * 4 div 4 = b"
proof -
  have "b div 16 < 16" "c div 64 < 4"
    using assms by auto
  then show "a div 4 * 4 + (a mod 4 * 16 + b div 16) div 16 = a"
    "(a mod 4 * 16 + b div 16) mod 16 * 16 + (b mod 16 * 4 + c div 64) div 4 = b"
    "(b mod 16 * 4 + c div 64) mod 4 * 64 + c mod 64 = c"
    "a div 4 * 4 + a mod 4 * 16 div 16 = a"
    "(a mod 4 * 16 + b div 16) mod 16 * 16 + b mod 16 * 4 div 4 = b"
    by (simp_all only: radix_digit div_mult_mod_eq) simp_all
qed

lemma b64_quanta_encoded:
  assumes "a < 256" "b < 256" "c < 256"
  shows "b64_quanta (a div 4 # (a mod 4 * 16 + b div 16) # (b mod 16 * 4 + c div 64) # c mod 64 # vs) =
      map_option (\<lambda>t. a # b # c # t) (b64_quanta vs)"
    "b64_quanta [a div 4, a mod 4 * 16] = Some [a]"
    "b64_quanta [a div 4, a mod 4 * 16 + b div 16, b mod 16 * 4] = Some [a, b]"
  by (simp_all only: b64_quanta.simps b64_recombine [OF assms] append.simps) (simp_all add: fun_eq_iff comp_def cong: option.map_cong)

lemma b64_encode_chars: "\<forall>b\<in>set bs. b < 256 \<Longrightarrow> set (b64_encode bs) \<subseteq> set b64_alphabet"
  by (induction bs rule: b64_encode.induct) (simp_all add: b64_bounds)

lemma b64_encode_length: "length (b64_encode bs) = (4 * length bs + 2) div 3"
  by (induction bs rule: b64_encode.induct) simp_all

lemma b64_encode_vals:
  "\<forall>b\<in>set bs. b < 256 \<Longrightarrow> \<exists>vs. those (map b64_val (b64_encode bs)) = Some vs \<and> b64_quanta vs = Some bs"
proof (induction bs rule: b64_encode.induct)
  case (4 a b c r)
  then obtain vs where "those (map b64_val (b64_encode r)) = Some vs" "b64_quanta vs = Some r"
    by auto
  with "4.prems" show ?case
    by (simp add: b64_bounds b64_quanta_encoded del: b64_quanta.simps)
qed (simp_all add: b64_bounds b64_quanta_encoded [where c = 0 and b = 0] b64_quanta_encoded [where c = 0]
  del: b64_quanta.simps(2-))

theorem b64_roundtrip: "\<forall>b\<in>set bs. b < 256 \<Longrightarrow> b64_decode (b64_encode bs) = Inr bs"
proof -
  assume b: "\<forall>b\<in>set bs. b < 256"
  have "filter (\<lambda>c. c \<noteq> CHR 0x0A \<and> c \<noteq> CHR 0x0D) (b64_encode bs) = b64_encode bs"
    by (rule filter_True) (use b64_encode_chars [OF b] b64_alphabet_facts(3,4) in auto)
  with b64_encode_vals [OF b] show ?thesis
    by (auto simp: b64_decode_def)
qed

text \<open>\<open>big.Int.SetBytes\<close>: unsigned, big-endian.\<close>

definition set_bytes :: "nat list \<Rightarrow> int" where
  "set_bytes bs = foldl (\<lambda>a b. 256 * a + int b) 0 bs"

section \<open>Splitting\<close>

text \<open>\<open>strings.Split\<close> on one byte and \<open>strings.Cut\<close>.\<close>

fun split_on :: "char \<Rightarrow> string \<Rightarrow> string list" where
  "split_on c [] = [[]]"
| "split_on c (x # xs) =
     (if x = c then [] # split_on c xs
      else case split_on c xs of p # ps \<Rightarrow> (x # p) # ps | [] \<Rightarrow> [[x]])"

definition cut_on :: "char \<Rightarrow> string \<Rightarrow> string \<times> string" where
  "cut_on c s = (takeWhile (\<lambda>x. x \<noteq> c) s, tl (dropWhile (\<lambda>x. x \<noteq> c) s))"

fun join_with :: "char \<Rightarrow> string list \<Rightarrow> string" where
  "join_with c [] = []"
| "join_with c [p] = p"
| "join_with c (p # ps) = p @ c # join_with c ps"

lemma split_on_nonempty [simp]: "split_on c s \<noteq> []"
  by (induction s) (auto split: list.splits)

lemma split_on_append: "c \<notin> set p \<Longrightarrow> split_on c (p @ c # r) = p # split_on c r"
  by (induction p) (auto split: list.splits)

lemma split_on_plain: "c \<notin> set p \<Longrightarrow> split_on c p = [p]"
  by (induction p) auto

lemma split_on_join: "ps \<noteq> [] \<Longrightarrow> \<forall>p\<in>set ps. c \<notin> set p \<Longrightarrow> split_on c (join_with c ps) = ps"
  by (induction c ps rule: join_with.induct) (simp_all add: split_on_append split_on_plain)

lemma cut_on_append [simp]: "c \<notin> set p \<Longrightarrow> cut_on c (p @ c # r) = (p, r)"
  unfolding cut_on_def by (subst takeWhile_append2, fastforce)+ (subst dropWhile_append2, fastforce, simp)

lemma cut_on_plain: "c \<notin> set p \<Longrightarrow> cut_on c p = (p, [])"
proof -
  assume "c \<notin> set p"
  then have "takeWhile (\<lambda>x. x \<noteq> c) p = p" "dropWhile (\<lambda>x. x \<noteq> c) p = []"
    by (auto simp: takeWhile_eq_all_conv dropWhile_eq_Nil_conv)
  then show ?thesis by (simp only: cut_on_def list.sel)
qed

section \<open>Query strings\<close>

definition code_of :: "char \<Rightarrow> nat" where "code_of c = of_char c"

definition unreserved :: "char \<Rightarrow> bool" where
  "unreserved c \<longleftrightarrow> (let n = code_of c in
     97 \<le> n \<and> n \<le> 122 \<or> 65 \<le> n \<and> n \<le> 90 \<or> 48 \<le> n \<and> n \<le> 57 \<or> c \<in> {CHR ''-'', CHR ''_'', CHR ''.'', CHR ''~''})"

definition udigits :: string where "udigits = ''0123456789ABCDEF''"

definition escape_char :: "char \<Rightarrow> string" where
  "escape_char c =
     (if unreserved c then [c] else if c = CHR '' '' then ''+''
      else [CHR ''%'', udigits ! (code_of c div 16), udigits ! (code_of c mod 16)])"

definition query_escape :: "string \<Rightarrow> string" where
  "query_escape s = concat (map escape_char s)"

definition unhex :: "char \<Rightarrow> nat option" where
  "unhex c = (let n = code_of c in
     if 48 \<le> n \<and> n \<le> 57 then Some (n - 48) else if 97 \<le> n \<and> n \<le> 102 then Some (n - 87)
     else if 65 \<le> n \<and> n \<le> 70 then Some (n - 55) else None)"

text \<open>\<open>url.QueryUnescape\<close>; \<open>None\<close> is an \<open>EscapeError\<close>.\<close>

fun query_unescape :: "string \<Rightarrow> string option" where
  "query_unescape [] = Some []"
| "query_unescape (c # r) =
     (if c = CHR ''%'' then
        (case r of
           a # b # r' \<Rightarrow>
             (case (unhex a, unhex b) of
                (Some x, Some y) \<Rightarrow> map_option (\<lambda>t. char_of (16 * x + y) # t) (query_unescape r')
              | _ \<Rightarrow> None)
         | _ \<Rightarrow> None)
      else if c = CHR ''+'' then map_option (\<lambda>t. CHR '' '' # t) (query_unescape r)
      else map_option (\<lambda>t. c # t) (query_unescape r))"

text \<open>\<open>url.Values\<close> with one value per key, and \<open>Encode\<close>, which sorts by key.\<close>

type_synonym url_values = "(string \<times> string) list"

definition encode_pair :: "string \<times> string \<Rightarrow> string" where
  "encode_pair kv = query_escape (fst kv) @ ''='' @ query_escape (snd kv)"

definition values_encode :: "url_values \<Rightarrow> string" where
  "values_encode vs = join_with (CHR ''&'') (map encode_pair (sort_key fst vs))"

text \<open>\<open>url.ParseQuery\<close>: malformed pairs are skipped; the pairs are in order of appearance.\<close>

definition parse_pair :: "string \<Rightarrow> (string \<times> string) option" where
  "parse_pair kv =
     (if CHR '';'' \<in> set kv \<or> kv = [] then None
      else case cut_on (CHR ''='') kv of (k, v) \<Rightarrow>
        (case (query_unescape k, query_unescape v) of (Some k', Some v') \<Rightarrow> Some (k', v') | _ \<Rightarrow> None))"

definition parse_query :: "string \<Rightarrow> url_values" where
  "parse_query q = List.map_filter parse_pair (split_on (CHR ''&'') q)"

definition values_get :: "url_values \<Rightarrow> string \<Rightarrow> string" where
  "values_get vs k = (case map_of vs k of None \<Rightarrow> [] | Some v \<Rightarrow> v)"

text \<open>
  \<open>url.Parse(s).RawQuery\<close>: what follows the first question mark of the part before the
  first hash sign (a lone trailing question mark leaves the query empty as well).
\<close>

definition raw_query :: "string \<Rightarrow> string" where
  "raw_query u = snd (cut_on (CHR ''?'') (fst (cut_on (CHR ''#'') u)))"

lemma code_of_bound: "code_of c < 256"
  by (simp add: code_of_def)

lemma udigits_facts: "length udigits = 16"
  by (simp add: udigits_def)

lemma unhex_udigit: "n < 16 \<Longrightarrow> unhex (udigits ! n) = Some n"
proof -
  have "\<forall>n\<in>set [0..<16]. unhex (udigits ! n) = Some n"
    by (simp add: udigits_def unhex_def code_of_def upt_rec)
  then show "n < 16 \<Longrightarrow> unhex (udigits ! n) = Some n" by simp
qed

definition delimiters :: string where "delimiters = ''&=;#?''"

lemma udigit_plain: "n < 16 \<Longrightarrow> udigits ! n \<notin> set delimiters"
proof -
  assume "n < 16"
  then have "udigits ! n \<in> set udigits" by (simp add: udigits_facts)
  moreover have "set udigits \<inter> set delimiters = {}" by (simp add: udigits_def delimiters_def)
  ultimately show ?thesis by blast
qed

lemma unreserved_not: "unreserved c \<Longrightarrow> c \<noteq> CHR ''%'' \<and> c \<noteq> CHR ''+'' \<and> c \<noteq> CHR ''&'' \<and> c \<noteq> CHR ''='' \<and> c \<noteq> CHR '';'' \<and>
    c \<noteq> CHR ''#'' \<and> c \<noteq> CHR ''?''"
  by (auto simp: unreserved_def code_of_def Let_def)

lemma code_nibbles: "code_of c div 16 < 16" "code_of c mod 16 < 16"
  using code_of_bound [of c] by auto

lemma unescape_escape_char: "query_unescape (escape_char c @ r) = map_option (\<lambda>t. c # t) (query_unescape r)"
proof (cases "unreserved c")
  case True
  then show ?thesis using unreserved_not [OF True] by (simp add: escape_char_def)
next
  case False
  have "char_of (16 * (code_of c div 16) + code_of c mod 16) = c"
    by (simp add: code_of_def)
  with False show ?thesis
    by (simp add: escape_char_def unhex_udigit code_nibbles)
qed

theorem query_roundtrip: "query_unescape (query_escape s) = Some s"
  by (induction s) (simp_all add: query_escape_def unescape_escape_char)

lemma escape_char_safe: "set (escape_char c) \<inter> set delimiters = {}"
proof (cases "unreserved c")
  case True
  then show ?thesis
    using unreserved_not [OF True] by (simp add: escape_char_def delimiters_def)
next
  case False
  have "CHR ''%'' \<notin> set delimiters" "CHR ''+'' \<notin> set delimiters"
    by (simp_all add: delimiters_def)
  with False udigit_plain [OF code_nibbles(1) [of c]] udigit_plain [OF code_nibbles(2) [of c]] show ?thesis
    by (simp add: escape_char_def)
qed

lemma query_escape_safe: "x \<in> set delimiters \<Longrightarrow> x \<notin> set (query_escape s)"
  using escape_char_safe by (induction s) (auto simp: query_escape_def)

lemma query_escape_no [simp]:
  "CHR ''&'' \<notin> set (query_escape s)" "CHR ''='' \<notin> set (query_escape s)" "CHR '';'' \<notin> set (query_escape s)"
  "CHR ''#'' \<notin> set (query_escape s)" "CHR ''?'' \<notin> set (query_escape s)"
  by (intro query_escape_safe; simp add: delimiters_def)+

lemma parse_encode_pair: "parse_pair (encode_pair kv) = Some kv"
  by (simp add: parse_pair_def encode_pair_def query_roundtrip)

theorem parse_values_encode: "parse_query (values_encode vs) = sort_key fst vs"
proof (cases "vs = []")
  case True
  then show ?thesis by (simp add: values_encode_def parse_query_def parse_pair_def List.map_filter_def)
next
  case False
  have "CHR ''&'' \<notin> set (encode_pair kv)" for kv
    by (simp add: encode_pair_def)
  moreover have "map encode_pair (sort_key fst vs) \<noteq> []"
    using False by (metis length_0_conv length_map length_sort)
  ultimately have "split_on (CHR ''&'') (values_encode vs) = map encode_pair (sort_key fst vs)"
    unfolding values_encode_def by (intro split_on_join) auto
  then show ?thesis
    by (simp add: parse_query_def List.map_filter_def parse_encode_pair comp_def)
qed

lemma values_encode_get:
  "distinct (map fst vs) \<Longrightarrow> (k, v) \<in> set vs \<Longrightarrow> values_get (parse_query (values_encode vs)) k = v"
  unfolding parse_values_encode values_get_def
  by (subst map_of_is_SomeI [of _ k v]) (auto simp: distinct_map inj_on_def)

end
