(* ===== verification/Auth_Service.thy ===== *)
theory Auth_Service imports Telemetry begin

text \<open>
  \<open>internal/service/auth_service.go\<close>: tokens for callers that hold Hydra tokens themselves,
  and the Prometheus wrapper \<open>instrumented_auth_service.go\<close>.

  \<open>ory_service\<close> is the struct \<open>OryAuthService\<close> (the two optional dependencies are options)
  and \<open>auth_service_i\<close> the interface \<open>AuthServiceI\<close>. Logging is left out.

  The properties are stated over recorded dependencies: which calls an operation makes, in
  which order and on which condition, for every behaviour of the components it calls.
\<close>

definition RefreshTTLShort :: int where "RefreshTTLShort = hour * 24 * 7"
definition RefreshTTLLong :: int where "RefreshTTLLong = hour * 24 * 30"
definition accessTokenTTL :: int where "accessTokenTTL = minute * 15"
definition blacklistSyncExtra :: int where "blacklistSyncExtra = minute * 5"

record verify_result =
  vr_KratosID :: string
  vr_DeviceID :: string
  vr_ExpiresAt :: int

record 'w auth_service_i =
  au_Login :: "string \<Rightarrow> string \<Rightarrow> bool \<Rightarrow> string option \<Rightarrow> string option \<Rightarrow> ('w, (string \<times> string) result) io"
  au_Logout :: "string \<Rightarrow> ('w, error option) io"
  au_LogoutAll :: "string \<Rightarrow> ('w, error option) io"
  au_Refresh :: "string \<Rightarrow> ('w, (string \<times> string) result) io"
  au_VerifyToken :: "string \<Rightarrow> ('w, verify_result result) io"
  au_Signup :: "string \<Rightarrow> ('w, string result) io"
  au_GoogleLogin :: "string \<Rightarrow> string \<Rightarrow> bool \<Rightarrow> string option \<Rightarrow> string option \<Rightarrow> ('w, (string \<times> string) result) io"

record 'w ory_service =
  sv_hydra :: "'w hydra_client"
  sv_redisRepo :: "'w redis_repo"
  sv_deviceSessionRepo :: "'w device_session_repo"
  sv_kratosClient :: "'w kratos_client option"
  sv_blacklist :: "'w blacklist option"
  sv_publisher :: "'w event_publisher"

text \<open>\<open>kafka.NoopPublisher\<close>, the default publisher, and the functional options.\<close>

definition NoopPublisher :: "'w event_publisher" where
  "NoopPublisher = \<lparr>pub_Publish = (\<lambda>_. State_Monad.return ()), pub_PublishAuthSession = (\<lambda>_. State_Monad.return ()),
     pub_PublishBlacklistSync = (\<lambda>_. State_Monad.return ()), pub_Close = State_Monad.return None\<rparr>"

definition WithKratosClient :: "'w kratos_client \<Rightarrow> 'w ory_service \<Rightarrow> 'w ory_service" where
  "WithKratosClient c s = s\<lparr>sv_kratosClient := Some c\<rparr>"

definition WithEventPublisher :: "'w event_publisher \<Rightarrow> 'w ory_service \<Rightarrow> 'w ory_service" where
  "WithEventPublisher pub s = s\<lparr>sv_publisher := pub\<rparr>"

definition WithBlacklist :: "'w blacklist \<Rightarrow> 'w ory_service \<Rightarrow> 'w ory_service" where
  "WithBlacklist bl s = s\<lparr>sv_blacklist := Some bl\<rparr>"

definition NewOryAuthService ::
    "'w hydra_client \<Rightarrow> 'w redis_repo \<Rightarrow> 'w device_session_repo \<Rightarrow> ('w ory_service \<Rightarrow> 'w ory_service) list \<Rightarrow> 'w ory_service" where
  "NewOryAuthService hydraClient redisRepo deviceSessionRepo opts =
     fold (\<lambda>opt s. opt s) opts \<lparr>sv_hydra = hydraClient, sv_redisRepo = redisRepo, sv_deviceSessionRepo = deviceSessionRepo,
       sv_kratosClient = None, sv_blacklist = None, sv_publisher = NoopPublisher\<rparr>"

section \<open>Operations\<close>

definition ory_Login ::
    "'w go_env \<Rightarrow> 'w ory_service \<Rightarrow> string \<Rightarrow> string \<Rightarrow> bool \<Rightarrow> string option \<Rightarrow> string option \<Rightarrow>
     ('w, (string \<times> string) result) io" where
  "ory_Login E s kratosID deviceID rememberMe userAgent ip = do {
     r \<leftarrow> hy_IssueTokens (sv_hydra s) kratosID deviceID rememberMe;
     case r of
       Inl err \<Rightarrow> State_Monad.return (Inl (Errorf ''login: issue tokens'' [err]))
     | Inr tokens \<Rightarrow> do {
         let refreshTTL = (if rememberMe then RefreshTTLLong else RefreshTTLShort);
         saved \<leftarrow> rr_SaveLogin (sv_redisRepo s) kratosID deviceID (ts_RefreshToken tokens) refreshTTL;
         case saved of
           Some err \<Rightarrow> State_Monad.return (Inl (Errorf ''login: save session'' [err]))
         | None \<Rightarrow> do {
             claims \<leftarrow> hy_ValidateAccessToken (sv_hydra s) (ts_AccessToken tokens);
             let jti = (case claims of Inl _ \<Rightarrow> [] | Inr c \<Rightarrow> cl_ID c);
             now \<leftarrow> env_now E;
             pub_PublishAuthSession (sv_publisher s) \<lparr>
               as_EventType = ''auth.session.created'', as_KratosID = kratosID, as_IPAddress = derefStr ip,
               as_UserAgent = derefStr userAgent, as_HydraJTI = jti, as_DeviceID = deviceID,
               as_Timestamp = env_format E now\<rparr>;
             State_Monad.return (Inr (ts_AccessToken tokens, ts_RefreshToken tokens))
           }
       }
   }"

text \<open>The revocation keys of a device and of a user.\<close>

definition device_revocation_key :: "string \<Rightarrow> string \<Rightarrow> string" where
  "device_revocation_key kratosID deviceID = ''device:'' @ kratosID @ '':'' @ deviceID"

definition user_revocation_key :: "string \<Rightarrow> string" where
  "user_revocation_key kratosID = ''user:'' @ kratosID"

text \<open>The optional blacklist write: \<open>ErrRedisUnavailable\<close> means the fallback has it.\<close>

definition blacklist_key :: "'w ory_service \<Rightarrow> string \<Rightarrow> ('w, error option) io" where
  "blacklist_key s key =
     (case sv_blacklist s of
        None \<Rightarrow> State_Monad.return None
      | Some bl \<Rightarrow> do {
          blErr \<leftarrow> bl_Add bl key RefreshTTLLong;
          State_Monad.return (case blErr of
             None \<Rightarrow> None
           | Some e \<Rightarrow> if \<not> errors_Is e ErrRedisUnavailable then Some e else None)
        })"

definition publish_sync :: "'w go_env \<Rightarrow> 'w ory_service \<Rightarrow> string \<Rightarrow> string \<Rightarrow> string \<Rightarrow> ('w, unit) io" where
  "publish_sync E s targetType targetValue reason = do {
     now \<leftarrow> env_now E;
     let expiresAt = now + (accessTokenTTL + blacklistSyncExtra);
     now2 \<leftarrow> env_now E;
     pub_PublishBlacklistSync (sv_publisher s) \<lparr>
       be_EventType = ''blacklist.sync'', be_TargetType = targetType, be_TargetValue = targetValue, be_Reason = reason,
       be_ExpiresAt = env_format E expiresAt, be_Timestamp = env_format E now2\<rparr>
   }"

definition ory_Logout :: "'w go_env \<Rightarrow> 'w ory_service \<Rightarrow> string \<Rightarrow> ('w, error option) io" where
  "ory_Logout E s refreshToken = do {
     r \<leftarrow> hy_IntrospectToken (sv_hydra s) refreshToken;
     case r of
       Inl err \<Rightarrow> State_Monad.return (Some (Errorf '''' [Sentinel ErrInvalidToken, err]))
     | Inr introspect \<Rightarrow>
         if \<not> ir_Active introspect then State_Monad.return (Some (Errorf ''token is inactive'' [Sentinel ErrInvalidToken]))
         else do {
           let kratosID = ir_Subject introspect;
           let deviceID = introspect_DeviceID introspect;
           if kratosID = [] \<or> deviceID = [] then
             State_Monad.return (Some (Errorf ''missing subject or device_id in token'' [Sentinel ErrInvalidToken]))
           else do {
             rev \<leftarrow> hy_RevokeToken (sv_hydra s) refreshToken;
             case rev of
               Some err \<Rightarrow> State_Monad.return (Some (Errorf ''logout: revoke token'' [err]))
             | None \<Rightarrow> do {
                 blErr \<leftarrow> blacklist_key s (device_revocation_key kratosID deviceID);
                 case blErr of
                   Some e \<Rightarrow> State_Monad.return (Some (Errorf ''logout: blacklist device'' [e]))
                 | None \<Rightarrow> do {
                     publish_sync E s ''DEVICE'' (kratosID @ '':'' @ deviceID) ''user logout'';
                     rr_LogoutDevice (sv_redisRepo s) kratosID deviceID;
                     dr_RevokeDevice (sv_deviceSessionRepo s) kratosID deviceID;
                     State_Monad.return None
                   }
               }
           }
         }
   }"

definition ory_LogoutAll :: "'w go_env \<Rightarrow> 'w ory_service \<Rightarrow> string \<Rightarrow> ('w, error option) io" where
  "ory_LogoutAll E s refreshToken = do {
     r \<leftarrow> hy_IntrospectToken (sv_hydra s) refreshToken;
     case r of
       Inl err \<Rightarrow> State_Monad.return (Some (Errorf '''' [Sentinel ErrInvalidToken, err]))
     | Inr introspect \<Rightarrow>
         if \<not> ir_Active introspect then State_Monad.return (Some (Errorf ''token is inactive'' [Sentinel ErrInvalidToken]))
         else do {
           let kratosID = ir_Subject introspect;
           if kratosID = [] then
             State_Monad.return (Some (Errorf ''missing subject in token'' [Sentinel ErrInvalidToken]))
           else do {
             rev \<leftarrow> hy_RevokeAllForSubject (sv_hydra s) kratosID;
             case rev of
               Some err \<Rightarrow> State_Monad.return (Some (Errorf ''logout all: revoke tokens'' [err]))
             | None \<Rightarrow> do {
                 blErr \<leftarrow> blacklist_key s (user_revocation_key kratosID);
                 case blErr of
                   Some e \<Rightarrow> State_Monad.return (Some (Errorf ''logout-all: blacklist user'' [e]))
                 | None \<Rightarrow> do {
                     publish_sync E s ''USER'' kratosID ''user logout-all'';
                     rr_LogoutAll (sv_redisRepo s) kratosID;
                     dr_RevokeAllDevices (sv_deviceSessionRepo s) kratosID;
                     State_Monad.return None
                   }
               }
           }
         }
   }"

definition ory_Refresh :: "'w ory_service \<Rightarrow> string \<Rightarrow> ('w, (string \<times> string) result) io" where
  "ory_Refresh s refreshToken = do {
     r \<leftarrow> hy_RefreshToken (sv_hydra s) refreshToken;
     case r of
       Inl err \<Rightarrow> State_Monad.return (Inl (Errorf '''' [Sentinel ErrInvalidToken, err]))
     | Inr tokens \<Rightarrow> do {
         c \<leftarrow> hy_ValidateAccessToken (sv_hydra s) (ts_AccessToken tokens);
         case c of
           Inl err \<Rightarrow> State_Monad.return (Inl (Errorf ''refresh: parse new access token'' [err]))
         | Inr claims \<Rightarrow> do {
             let kratosID = cl_Subject claims;
             let deviceID = claims_DeviceID claims;
             rr_RotateRefreshToken (sv_redisRepo s) kratosID deviceID (ts_RefreshToken tokens) RefreshTTLLong;
             dr_UpdateLastUsedAt (sv_deviceSessionRepo s) kratosID deviceID;
             State_Monad.return (Inr (ts_AccessToken tokens, ts_RefreshToken tokens))
           }
       }
   }"

text \<open>The loop over the two revocation keys, fail-closed.\<close>

fun verify_keys :: "'w blacklist \<Rightarrow> string list \<Rightarrow> ('w, error option) io" where
  "verify_keys bl [] = State_Monad.return None"
| "verify_keys bl (key # keys) = do {
     r \<leftarrow> bl_IsBlacklisted bl key;
     case snd r of
       Some blErr \<Rightarrow> State_Monad.return (Some (Errorf ''blacklist check'' [Sentinel ErrTokenRevoked, blErr]))
     | None \<Rightarrow>
         if fst r then State_Monad.return (Some (Errorf ''key='' [Sentinel ErrTokenRevoked]))
         else verify_keys bl keys
   }"

definition ory_VerifyToken :: "'w ory_service \<Rightarrow> string \<Rightarrow> ('w, verify_result result) io" where
  "ory_VerifyToken s accessToken = do {
     r \<leftarrow> hy_ValidateAccessToken (sv_hydra s) accessToken;
     case r of
       Inl err \<Rightarrow> State_Monad.return (Inl err)
     | Inr claims \<Rightarrow> do {
         let deviceID = claims_DeviceID claims;
         if cl_Subject claims = [] \<or> deviceID = [] then
           State_Monad.return (Inl (Errorf ''missing subject or device_id in token'' []))
         else do {
           revoked \<leftarrow> (case sv_blacklist s of
              None \<Rightarrow> State_Monad.return None
            | Some bl \<Rightarrow> verify_keys bl [device_revocation_key (cl_Subject claims) deviceID, user_revocation_key (cl_Subject claims)]);
           State_Monad.return (case revoked of
              Some e \<Rightarrow> Inl e
            | None \<Rightarrow> Inr \<lparr>vr_KratosID = cl_Subject claims, vr_DeviceID = deviceID,
                vr_ExpiresAt = (case cl_ExpiresAt claims of None \<Rightarrow> 0 | Some t \<Rightarrow> t div second)\<rparr>)
         }
       }
   }"

definition ory_Signup :: "'w ory_service \<Rightarrow> string \<Rightarrow> ('w, string result) io" where
  "ory_Signup s email =
     (case sv_kratosClient s of
        None \<Rightarrow> State_Monad.return (Inl (Errorf ''signup: Kratos client not configured'' []))
      | Some k \<Rightarrow> do {
          r \<leftarrow> kr_CreateIdentity k email;
          State_Monad.return (case r of
             Inl err \<Rightarrow> if errors_Is err KratosErrEmailConflict then Inl (Sentinel ErrEmailConflict)
                        else Inl (Errorf ''signup: create identity'' [err])
           | Inr i \<Rightarrow> Inr i)
        })"

definition ory_GoogleLogin ::
    "'w go_env \<Rightarrow> 'w ory_service \<Rightarrow> string \<Rightarrow> string \<Rightarrow> bool \<Rightarrow> string option \<Rightarrow> string option \<Rightarrow>
     ('w, (string \<times> string) result) io" where
  "ory_GoogleLogin E s email deviceID rememberMe userAgent ip =
     (case sv_kratosClient s of
        None \<Rightarrow> State_Monad.return (Inl (Errorf ''google_login: Kratos client not configured'' []))
      | Some k \<Rightarrow> do {
          r \<leftarrow> kr_GetIdentityByEmail k email;
          case r of
            Inl err \<Rightarrow>
              State_Monad.return (if errors_Is err KratosErrInvalidCredentials then Inl (Sentinel ErrInvalidCredentials)
                else Inl (Errorf ''google_login: lookup identity'' [err]))
          | Inr identity \<Rightarrow> ory_Login E s (id_ID identity) deviceID rememberMe userAgent ip
        })"

definition OryAuthService :: "'w go_env \<Rightarrow> 'w ory_service \<Rightarrow> 'w auth_service_i" where
  "OryAuthService E s = \<lparr>
     au_Login = ory_Login E s, au_Logout = ory_Logout E s, au_LogoutAll = ory_LogoutAll E s,
     au_Refresh = ory_Refresh s, au_VerifyToken = ory_VerifyToken s, au_Signup = ory_Signup s,
     au_GoogleLogin = ory_GoogleLogin E s\<rparr>"

text \<open>
  The metrics wrapper: \<open>AuthOps\<close> counts the outcome of each operation under its name and
  \<open>OryOps\<close> observes a duration. \<open>VerifyToken\<close> has no counter.
\<close>

definition instrument ::
    "'w go_env \<Rightarrow> 'w telemetry \<Rightarrow> string \<Rightarrow> string \<Rightarrow> ('a \<Rightarrow> bool) \<Rightarrow> ('w, 'a) io \<Rightarrow> ('w, 'a) io" where
  "instrument E T op ory failed call = do {
     start \<leftarrow> env_now E;
     r \<leftarrow> call;
     tl_Inc T AuthOps [op, if failed r then ''error'' else ''ok''];
     now \<leftarrow> env_now E;
     tl_Observe T OryOps [ory] (time_sub now start);
     State_Monad.return r
   }"

definition is_Inl :: "'a + 'b \<Rightarrow> bool" where
  "is_Inl r = (case r of Inl _ \<Rightarrow> True | Inr _ \<Rightarrow> False)"

definition NewInstrumentedAuthService :: "'w go_env \<Rightarrow> 'w telemetry \<Rightarrow> 'w auth_service_i \<Rightarrow> 'w auth_service_i" where
  "NewInstrumentedAuthService E T delegate = \<lparr>
     au_Login = (\<lambda>k d rm ua ip. instrument E T ''login'' ''hydra_issue_tokens'' is_Inl (au_Login delegate k d rm ua ip)),
     au_Logout = (\<lambda>t. instrument E T ''logout'' ''hydra_revoke_token'' (\<lambda>err. err \<noteq> None) (au_Logout delegate t)),
     au_LogoutAll = (\<lambda>t. instrument E T ''logout_all'' ''hydra_revoke_all'' (\<lambda>err. err \<noteq> None) (au_LogoutAll delegate t)),
     au_Refresh = (\<lambda>t. instrument E T ''refresh'' ''hydra_refresh_token'' is_Inl (au_Refresh delegate t)),
     au_VerifyToken = (\<lambda>t. timed E T OryOps ''hydra_validate_jwt'' (au_VerifyToken delegate t)),
     au_Signup = (\<lambda>e. instrument E T ''signup'' ''kratos_create_identity'' is_Inl (au_Signup delegate e)),
     au_GoogleLogin = (\<lambda>e d rm ua ip. instrument E T ''google_login'' ''kratos_get_by_email'' is_Inl
        (au_GoogleLogin delegate e d rm ua ip))\<rparr>"

section \<open>Recorded runs\<close>

definition rec_service :: "'w ory_service \<Rightarrow> 'w traced ory_service" where
  "rec_service s = \<lparr>sv_hydra = rec_hydra (sv_hydra s), sv_redisRepo = rec_repo (sv_redisRepo s),
     sv_deviceSessionRepo = rec_devices (sv_deviceSessionRepo s), sv_kratosClient = map_option rec_kratos (sv_kratosClient s),
     sv_blacklist = map_option rec_blacklist (sv_blacklist s), sv_publisher = rec_publisher (sv_publisher s)\<rparr>"

definition revocation_stored :: "error option \<Rightarrow> bool" where
  "revocation_stored e \<longleftrightarrow> (case e of None \<Rightarrow> True | Some x \<Rightarrow> errors_Is x ErrRedisUnavailable)"

lemma revocation_stored_simps [simp]:
  "revocation_stored None" "revocation_stored (Some x) = errors_Is x ErrRedisUnavailable" "\<exists>r. revocation_stored r"
  by (auto simp: revocation_stored_def intro: exI [of _ None])

lemma blacklist_key_wp:
  assumes "\<And>w'. sv_blacklist s = None \<Longrightarrow> Q None (w', snd wl)"
    and "\<And>r w'. sv_blacklist s \<noteq> None \<Longrightarrow> revocation_stored r \<Longrightarrow>
      Q None (w', snd wl @ [BlacklistAdd key RefreshTTLLong r])"
    and "\<And>x w'. sv_blacklist s \<noteq> None \<Longrightarrow> \<not> errors_Is x ErrRedisUnavailable \<Longrightarrow>
      Q (Some x) (w', snd wl @ [BlacklistAdd key RefreshTTLLong (Some x)])"
  shows "wp (blacklist_key (rec_service s) key) Q wl"
proof (cases "sv_blacklist s")
  case None
  then show ?thesis
    using assms(1) [of "fst wl"] by (simp add: blacklist_key_def rec_service_def wp_return)
next
  case (Some bl)
  have "Q (case r of None \<Rightarrow> None | Some e \<Rightarrow> if \<not> errors_Is e ErrRedisUnavailable then Some e else None)
      (w', snd wl @ [BlacklistAdd key RefreshTTLLong r])" for r w'
    using assms(2) [of r w'] assms(3) [of _ w'] Some by (cases r) (auto simp: revocation_stored_def)
  with Some show ?thesis
    by (simp add: blacklist_key_def rec_service_def rec_blacklist_def wp_bind wp_return) (rule recorded_wp, simp)
qed

lemma publish_sync_wp:
  assumes "\<And>ev w'. be_TargetType ev = tt \<Longrightarrow> be_TargetValue ev = tv \<Longrightarrow> Q () (w', snd wl @ [PublishBlacklistSync ev])"
  shows "wp (publish_sync (silent_env E) (rec_service s) tt tv reason) Q wl"
  unfolding publish_sync_def Let_def
  by (simp add: wp_bind silent_env_def rec_service_def rec_publisher_def)
    (intro silent_wp recorded_wp; use assms in simp)

lemma rec_service_simps:
  "hy_IssueTokens (sv_hydra (rec_service s)) k d b = recorded (IssueTokens k d b) (hy_IssueTokens (sv_hydra s) k d b)"
  "hy_RefreshToken (sv_hydra (rec_service s)) t = recorded (RefreshToken t) (hy_RefreshToken (sv_hydra s) t)"
  "hy_RevokeToken (sv_hydra (rec_service s)) t = recorded (RevokeToken t) (hy_RevokeToken (sv_hydra s) t)"
  "hy_RevokeAllForSubject (sv_hydra (rec_service s)) k = recorded (RevokeAllForSubject k) (hy_RevokeAllForSubject (sv_hydra s) k)"
  "hy_IntrospectToken (sv_hydra (rec_service s)) t = recorded (IntrospectToken t) (hy_IntrospectToken (sv_hydra s) t)"
  "hy_ValidateAccessToken (sv_hydra (rec_service s)) t = recorded (ValidateAccessToken t) (hy_ValidateAccessToken (sv_hydra s) t)"
  "rr_SaveLogin (sv_redisRepo (rec_service s)) k d t n = recorded (SaveLogin k d t n) (rr_SaveLogin (sv_redisRepo s) k d t n)"
  "rr_RotateRefreshToken (sv_redisRepo (rec_service s)) k d t n = recorded (RotateToken k d t n) (rr_RotateRefreshToken (sv_redisRepo s) k d t n)"
  "rr_LogoutDevice (sv_redisRepo (rec_service s)) k d = recorded (LogoutDevice k d) (rr_LogoutDevice (sv_redisRepo s) k d)"
  "rr_LogoutAll (sv_redisRepo (rec_service s)) k = recorded (LogoutAllDevices k) (rr_LogoutAll (sv_redisRepo s) k)"
  "dr_UpdateLastUsedAt (sv_deviceSessionRepo (rec_service s)) k d = recorded (UpdateLastUsedAt k d) (dr_UpdateLastUsedAt (sv_deviceSessionRepo s) k d)"
  "dr_RevokeDevice (sv_deviceSessionRepo (rec_service s)) k d = recorded (RevokeDevice k d) (dr_RevokeDevice (sv_deviceSessionRepo s) k d)"
  "dr_RevokeAllDevices (sv_deviceSessionRepo (rec_service s)) k = recorded (RevokeAllDevices k) (dr_RevokeAllDevices (sv_deviceSessionRepo s) k)"
  "pub_PublishAuthSession (sv_publisher (rec_service s)) ev = recorded (\<lambda>_. PublishAuthSession ev) (pub_PublishAuthSession (sv_publisher s) ev)"
  "sv_kratosClient (rec_service s) = map_option rec_kratos (sv_kratosClient s)"
  "sv_blacklist (rec_service s) = map_option rec_blacklist (sv_blacklist s)"
  "env_now (silent_env E) = silent (env_now E)" "env_format (silent_env E) = env_format E"
  by (simp_all add: rec_service_def recorders)

lemma verify_keys_wp:
  assumes "\<And>w'. Q None (w', snd wl @ map (\<lambda>k. BlacklistCheck k (False, None)) keys)" and "\<And>e wl'. Q (Some e) wl'"
  shows "wp (verify_keys (rec_blacklist bl) keys) Q wl"
  using assms
proof (induction keys arbitrary: wl)
  case Nil
  from Nil(1) [of "fst wl"] Nil(2) show ?case by (simp add: wp_return)
next
  case (Cons key keys)
  have check: "bl_IsBlacklisted (rec_blacklist bl) key = recorded (BlacklistCheck key) (bl_IsBlacklisted bl key)"
    by (simp add: rec_blacklist_def)
  show ?case
    unfolding verify_keys.simps check
    by (intro wp_steps recorded_wp Cons.IH) (use Cons.prems in \<open>auto simp: prod_eq_iff\<close>)
qed

lemmas run_wp = recorded_wp silent_wp publish_sync_wp blacklist_key_wp

definition logout_trace :: "'w ory_service \<Rightarrow> string \<Rightarrow> call list \<Rightarrow> bool" where
  "logout_trace s tok l \<longleftrightarrow> (\<exists>i r ev e1 e2. let k = ir_Subject i; d = introspect_DeviceID i in
     ir_Active i \<and> k \<noteq> [] \<and> d \<noteq> [] \<and>
     l = [IntrospectToken tok (Inr i), RevokeToken tok None] @
       (if sv_blacklist s = None then [] else [BlacklistAdd (device_revocation_key k d) RefreshTTLLong r]) @
       [PublishBlacklistSync ev, LogoutDevice k d e1, RevokeDevice k d e2] \<and>
     revocation_stored r \<and> be_TargetType ev = ''DEVICE'' \<and> be_TargetValue ev = k @ '':'' @ d)"

definition logout_all_trace :: "'w ory_service \<Rightarrow> string \<Rightarrow> call list \<Rightarrow> bool" where
  "logout_all_trace s tok l \<longleftrightarrow> (\<exists>i r ev e1 e2. let k = ir_Subject i in
     ir_Active i \<and> k \<noteq> [] \<and>
     l = [IntrospectToken tok (Inr i), RevokeAllForSubject k None] @
       (if sv_blacklist s = None then [] else [BlacklistAdd (user_revocation_key k) RefreshTTLLong r]) @
       [PublishBlacklistSync ev, LogoutAllDevices k e1, RevokeAllDevices k e2] \<and>
     revocation_stored r \<and> be_TargetType ev = ''USER'' \<and> be_TargetValue ev = k)"

definition refreshTTL :: "bool \<Rightarrow> int" where
  "refreshTTL rememberMe = (if rememberMe then RefreshTTLLong else RefreshTTLShort)"

definition login_trace ::
    "string \<Rightarrow> string \<Rightarrow> bool \<Rightarrow> string option \<Rightarrow> string option \<Rightarrow> string \<times> string \<Rightarrow> call list \<Rightarrow> bool" where
  "login_trace k d rm ua ip toks l \<longleftrightarrow> (\<exists>ts c ev. toks = (ts_AccessToken ts, ts_RefreshToken ts) \<and>
     l = [IssueTokens k d rm (Inr ts), SaveLogin k d (ts_RefreshToken ts) (refreshTTL rm) None,
          ValidateAccessToken (ts_AccessToken ts) c, PublishAuthSession ev] \<and>
     as_EventType ev = ''auth.session.created'' \<and> as_KratosID ev = k \<and> as_DeviceID ev = d \<and>
     as_HydraJTI ev = (case c of Inl _ \<Rightarrow> [] | Inr x \<Rightarrow> cl_ID x) \<and>
     as_IPAddress ev = derefStr ip \<and> as_UserAgent ev = derefStr ua)"

section \<open>Properties\<close>

text \<open>
  What \<open>Logout\<close> does, for every behaviour of its dependencies. When it succeeds it
  introspected the token as active, revoked it in Hydra, then (with a blacklist) stored the
  revocation of the device in Redis or, degraded, in the fallback, then published the
  revocation of this device, and only after that removed the device from Redis and
  marked its row. When it fails, it stopped at the failing step: an invalid token changes
  nothing, and neither Kafka, Redis nor Postgres is touched before the revocation holds.
\<close>

theorem auth_logout_runs:
  "wp (au_Logout (OryAuthService (silent_env E) (rec_service s)) tok) (\<lambda>err wl. case err of
     None \<Rightarrow> logout_trace s tok (snd wl)
   | Some e \<Rightarrow>
       (\<exists>i. snd wl = [IntrospectToken tok i] \<and> errors_Is e ErrInvalidToken) \<or>
       (\<exists>i x. snd wl = [IntrospectToken tok (Inr i), RevokeToken tok (Some x)] \<and> e = Errorf ''logout: revoke token'' [x]) \<or>
       (\<exists>i k d x. snd wl = [IntrospectToken tok (Inr i), RevokeToken tok None, BlacklistAdd (device_revocation_key k d) RefreshTTLLong (Some x)] \<and>
          \<not> errors_Is x ErrRedisUnavailable \<and> e = Errorf ''logout: blacklist device'' [x])) (w, [])"
  unfolding OryAuthService_def auth_service_i.simps ory_Logout_def Let_def rec_service_simps
  by (intro wp_steps run_wp) (auto simp: logout_trace_def Let_def)

text \<open>
  \<open>LogoutAll\<close> likewise: on success every token of the subject is revoked in Hydra, the
  user's key is blacklisted, the revocation is published for the user, and all devices are
  removed; an invalid token changes nothing.
\<close>

theorem auth_logout_all_runs:
  "wp (au_LogoutAll (OryAuthService (silent_env E) (rec_service s)) tok) (\<lambda>err wl. case err of
     None \<Rightarrow> logout_all_trace s tok (snd wl)
   | Some e \<Rightarrow>
       (\<exists>i. snd wl = [IntrospectToken tok i] \<and> errors_Is e ErrInvalidToken) \<or>
       (\<exists>i k x. snd wl = [IntrospectToken tok (Inr i), RevokeAllForSubject k (Some x)] \<and> e = Errorf ''logout all: revoke tokens'' [x]) \<or>
       (\<exists>i k x. snd wl = [IntrospectToken tok (Inr i), RevokeAllForSubject k None, BlacklistAdd (user_revocation_key k) RefreshTTLLong (Some x)] \<and>
          \<not> errors_Is x ErrRedisUnavailable \<and> e = Errorf ''logout-all: blacklist user'' [x])) (w, [])"
  unfolding OryAuthService_def auth_service_i.simps ory_LogoutAll_def Let_def rec_service_simps
  by (intro wp_steps run_wp) (auto simp: logout_all_trace_def Let_def)

text \<open>
  C28. \<open>VerifyToken\<close> is fail-closed: it returns claims only for a token Hydra's keys validate,
  with a subject and a device, and, when a blacklist is attached, only after both the
  device's and the user's revocation keys were looked up without error and neither is
  revoked.
\<close>

theorem verify_token_fail_closed:
  "wp (au_VerifyToken (OryAuthService (silent_env E) (rec_service s)) tok) (\<lambda>r wl. \<forall>v. r = Inr v \<longrightarrow>
     (\<exists>c. cl_Subject c = vr_KratosID v \<and> claims_DeviceID c = vr_DeviceID v \<and> vr_KratosID v \<noteq> [] \<and> vr_DeviceID v \<noteq> [] \<and>
       snd wl = ValidateAccessToken tok (Inr c) # (if sv_blacklist s = None then [] else
         [BlacklistCheck (device_revocation_key (vr_KratosID v) (vr_DeviceID v)) (False, None),
          BlacklistCheck (user_revocation_key (vr_KratosID v)) (False, None)]))) (w, [])"
  unfolding OryAuthService_def auth_service_i.simps ory_VerifyToken_def Let_def rec_service_simps
  by (cases "sv_blacklist s") (auto intro!: wp_steps run_wp verify_keys_wp)

text \<open>
  \<open>Login\<close> hands out tokens only after the device is registered: on success the refresh token
  that Hydra issued was saved for the device with the time to live that \<open>rememberMe\<close>
  selects, and exactly one session event, carrying the token's JTI when it could be read,
  was published. A failed login publishes nothing.
\<close>

theorem auth_login_runs:
  "wp (au_Login (OryAuthService (silent_env E) (rec_service s)) k d rm ua ip) (\<lambda>r wl. case r of
     Inr toks \<Rightarrow> login_trace k d rm ua ip toks (snd wl)
   | Inl e \<Rightarrow> (\<exists>x. snd wl = [IssueTokens k d rm (Inl x)] \<and> e = Errorf ''login: issue tokens'' [x]) \<or>
       (\<exists>ts x. snd wl = [IssueTokens k d rm (Inr ts), SaveLogin k d (ts_RefreshToken ts) (refreshTTL rm) (Some x)] \<and>
          e = Errorf ''login: save session'' [x])) (w, [])"
  unfolding OryAuthService_def auth_service_i.simps ory_Login_def Let_def rec_service_simps
  by (intro wp_steps run_wp) (auto simp: login_trace_def refreshTTL_def)

text \<open>
  C37. \<open>Refresh\<close> returns the pair Hydra issued, having recorded the new refresh token for the
  device of the new access token; a failed exchange is \<open>ErrInvalidToken\<close>. When the new
  access token cannot be parsed, the exchange has already happened, the new refresh token
  is neither stored nor returned, and the caller is left with the one Hydra has consumed.
\<close>

theorem auth_refresh_runs:
  "wp (au_Refresh (OryAuthService (silent_env E) (rec_service s)) tok) (\<lambda>r wl. case r of
     Inr (acc, ref) \<Rightarrow> (\<exists>ts c e1 e2. acc = ts_AccessToken ts \<and> ref = ts_RefreshToken ts \<and>
       snd wl = [RefreshToken tok (Inr ts), ValidateAccessToken acc (Inr c),
         RotateToken (cl_Subject c) (claims_DeviceID c) ref RefreshTTLLong e1, UpdateLastUsedAt (cl_Subject c) (claims_DeviceID c) e2])
   | Inl e \<Rightarrow> (\<exists>x. snd wl = [RefreshToken tok (Inl x)] \<and> errors_Is e ErrInvalidToken) \<or>
       (\<exists>ts x. snd wl = [RefreshToken tok (Inr ts), ValidateAccessToken (ts_AccessToken ts) (Inl x)] \<and>
          e = Errorf ''refresh: parse new access token'' [x])) (w, [])"
  unfolding OryAuthService_def auth_service_i.simps ory_Refresh_def Let_def rec_service_simps
  by (intro wp_steps run_wp) auto

text \<open>
  Google login is a lookup followed by \<open>Login\<close>: it issues tokens only for the identity
  Kratos returned for the e-mail address, and an unknown address is \<open>ErrInvalidCredentials\<close>,
  with no token issued.
\<close>

theorem google_login_runs:
  "wp (au_GoogleLogin (OryAuthService (silent_env E) (rec_service s)) email d rm ua ip) (\<lambda>r wl. case r of
     Inr toks \<Rightarrow> (\<exists>i l. snd wl = GetIdentityByEmail email (Inr i) # l \<and> login_trace (id_ID i) d rm ua ip toks l)
   | Inl e \<Rightarrow> \<forall>c\<in>set (snd wl). (case c of PublishAuthSession _ \<Rightarrow> False | GetIdentityByEmail _ (Inl x) \<Rightarrow>
       (e = Sentinel ErrInvalidCredentials \<longleftrightarrow> errors_Is x KratosErrInvalidCredentials) | _ \<Rightarrow> True)) (w, [])"
  apply (cases "sv_kratosClient s")
   apply (simp add: OryAuthService_def ory_GoogleLogin_def rec_service_simps wp_return)
  apply (simp add: OryAuthService_def ory_GoogleLogin_def rec_service_simps rec_kratos_def)
  apply (unfold ory_Login_def Let_def rec_service_simps)
  apply (intro wp_steps run_wp)
  apply (auto simp: login_trace_def refreshTTL_def)
  done

section \<open>Sample dependencies\<close>

text \<open>Constant answers, to run the service on.\<close>

definition sample_claims :: access_token_claims where
  "sample_claims = \<lparr>cl_Subject = ''k'', cl_Ext = Some [''device_id'' \<mapsto> JStr ''d''], cl_ClientID = ''c'', cl_ID = ''j'',
     cl_ExpiresAt = Some 5000000000\<rparr>"

definition sample_tokens :: token_set where
  "sample_tokens = \<lparr>ts_AccessToken = ''a2'', ts_RefreshToken = ''r2'', ts_IDToken = [], ts_TokenType = ''bearer'', ts_ExpiresIn = 900\<rparr>"

definition sample_hydra :: "int hydra_client" where
  "sample_hydra = \<lparr>
     hy_IssueTokens = (\<lambda>_ _ _. State_Monad.return (Inr sample_tokens)), hy_RefreshToken = (\<lambda>_. State_Monad.return (Inr sample_tokens)),
     hy_RevokeToken = (\<lambda>_. State_Monad.return None), hy_RevokeAllForSubject = (\<lambda>_. State_Monad.return None),
     hy_IntrospectToken = (\<lambda>_. State_Monad.return (Inl (Errorf ''inactive'' []))),
     hy_ValidateAccessToken = (\<lambda>_. State_Monad.return (Inr sample_claims)), hy_ForceRefreshJWKS = State_Monad.return None\<rparr>"

definition sample_kratos :: "int kratos_client" where
  "sample_kratos = \<lparr>
     kr_GetIdentity = (\<lambda>_. State_Monad.return (Inr \<lparr>id_ID = ''k'', id_Traits = ''{}''\<rparr>)),
     kr_GetIdentityByEmail = (\<lambda>_. State_Monad.return (Inl (Sentinel KratosErrInvalidCredentials))),
     kr_DeleteSessions = (\<lambda>_. State_Monad.return None), kr_CreateIdentity = (\<lambda>_. State_Monad.return (Inr ''k'')),
     kr_GetSessionIDByToken = (\<lambda>_. State_Monad.return (Inr ''ks'')), kr_DeleteSession = (\<lambda>_. State_Monad.return None),
     kr_GetIdentityFull = (\<lambda>_. State_Monad.return (Inl (Errorf ''no identity'' [])))\<rparr>"

definition sample_repo :: "int redis_repo" where
  "sample_repo = \<lparr>rr_SaveLogin = (\<lambda>_ _ _ _. State_Monad.return None), rr_GetDeviceRefreshToken = (\<lambda>_ _. State_Monad.return (Inr ''r'')),
     rr_RotateRefreshToken = (\<lambda>_ _ _ _. State_Monad.return None), rr_LogoutDevice = (\<lambda>_ _. State_Monad.return None),
     rr_LogoutAll = (\<lambda>_. State_Monad.return None)\<rparr>"

definition sample_devices :: "int device_session_repo" where
  "sample_devices = \<lparr>dr_SaveDeviceSession = (\<lambda>_. State_Monad.return None), dr_UpdateLastUsedAt = (\<lambda>_ _. State_Monad.return None),
     dr_RevokeDevice = (\<lambda>_ _. State_Monad.return None), dr_RevokeAllDevices = (\<lambda>_. State_Monad.return None),
     dr_GetDeviceSessions = (\<lambda>_. State_Monad.return (Inr [])), dr_CountActiveDevices = (\<lambda>_. State_Monad.return (0, None))\<rparr>"

definition sample_blacklist :: "int blacklist" where
  "sample_blacklist = \<lparr>bl_Add = (\<lambda>_ _. State_Monad.return None), bl_IsBlacklisted = (\<lambda>_. State_Monad.return (False, None)),
     bl_AddBatch = (\<lambda>_ _. State_Monad.return None)\<rparr>"

definition sample_ory :: "int ory_service" where
  "sample_ory = NewOryAuthService sample_hydra sample_repo sample_devices [WithKratosClient sample_kratos, WithBlacklist sample_blacklist]"

lemmas sample_defs = sample_claims_def sample_tokens_def sample_hydra_def sample_kratos_def sample_repo_def sample_devices_def
  sample_blacklist_def sample_ory_def NewOryAuthService_def WithKratosClient_def WithBlacklist_def NoopPublisher_def

theorem verify_token_fail_closed_witness:
  "case run_state (au_VerifyToken (OryAuthService (silent_env sample_env) (rec_service sample_ory)) ''t'') (0, []) of
     (r, wl) \<Rightarrow> (\<exists>v c. r = Inr v \<and> cl_Subject c = vr_KratosID v \<and> snd wl = ValidateAccessToken ''t'' (Inr c) #
         [BlacklistCheck (device_revocation_key (vr_KratosID v) (vr_DeviceID v)) (False, None),
          BlacklistCheck (user_revocation_key (vr_KratosID v)) (False, None)])"
proof -
  let ?run = "run_state (au_VerifyToken (OryAuthService (silent_env sample_env) (rec_service sample_ory)) ''t'') (0, [])"
  have "\<exists>v. fst ?run = Inr v"
    by (simp add: OryAuthService_def ory_VerifyToken_def rec_service_def recorders recorded_def sample_defs claims_DeviceID_def
        extString_def Let_def)
  moreover have "sv_blacklist sample_ory \<noteq> None"
    by (simp add: sample_defs)
  ultimately show ?thesis
    using wpD [OF verify_token_fail_closed [of sample_env sample_ory "''t''" 0] prod.collapse [symmetric]]
    by (force simp: case_prod_unfold)
qed

theorem google_login_runs_witness:
  "case run_state (au_GoogleLogin (OryAuthService (silent_env sample_env) (rec_service sample_ory)) ''e'' ''d'' True None None) (0, []) of
     (r, wl) \<Rightarrow> r = Inl (Sentinel ErrInvalidCredentials) \<and>
       snd wl = [GetIdentityByEmail ''e'' (Inl (Sentinel KratosErrInvalidCredentials))]"
proof -
  let ?m = "au_GoogleLogin (OryAuthService (silent_env sample_env) (rec_service sample_ory)) ''e'' ''d'' True None None"
  have run: "run_state ?m (0, []) =
      (Inl (Sentinel ErrInvalidCredentials), (0, [GetIdentityByEmail ''e'' (Inl (Sentinel KratosErrInvalidCredentials))]))"
    by (simp add: OryAuthService_def ory_GoogleLogin_def rec_service_def recorders recorded_def sample_defs)
  show ?thesis
    using wpD [OF google_login_runs [of sample_env sample_ory "''e''" "''d''" True None None 0] run] by (simp add: run)
qed

end
