(* ===== verification/Session_Store.thy ===== *)
theory Session_Store imports L1_Cache begin

text \<open>
  \<open>internal/session\<close>: the BFF session, its JSON form and the Redis store.

  Proved under the contract \<open>redis\<close>: the JSON round trip; that the store implements a map
  of sessions (\<open>abs_sessions\<close>) with an index per user (\<open>abs_index\<close>); that a session is
  always stored under its own identifier (\<open>identified_store\<close>); the exclusion of the
  refresh lock; and how long the index of a user lives.
\<close>

section \<open>The JSON form of a session\<close>

text \<open>
  \<open>encoding/json\<close> with the struct tags of \<open>BFFSession\<close>. A \<open>time.Time\<close> is RFC 3339 text
  and cannot be marshalled outside the years 0 to 9999; a missing time is the zero time.
\<close>

definition year_0 :: int where "year_0 = - 62167219200 * second"
definition year_10000 :: int where "year_10000 = 253402300800 * second"
definition zero_time :: int where "zero_time = - 62135596800 * second"

definition json_time_ok :: "int \<Rightarrow> bool" where
  "json_time_ok t \<longleftrightarrow> year_0 \<le> t \<and> t < year_10000"

definition session_times_ok :: "bff_session \<Rightarrow> bool" where
  "session_times_ok s \<longleftrightarrow> json_time_ok (bs_AccessTokenExp s) \<and> json_time_ok (bs_CreatedAt s) \<and> json_time_ok (bs_ExpiresAt s)"

definition marshal_session :: "'w go_env \<Rightarrow> bff_session \<Rightarrow> json result" where
  "marshal_session E s =
     (if \<not> session_times_ok s then Inl (Errorf ''json: Time.MarshalJSON: year outside of range [0,9999]'' [])
      else Inr (JObj (
        [(''session_id'', JStr (bs_SessionID s)),
         (''kratos_id'', JStr (bs_KratosID s)),
         (''device_id'', JStr (bs_DeviceID s))] @
        (if bs_KratosSessionID s = [] then [] else [(''kratos_session_id'', JStr (bs_KratosSessionID s))]) @
        [(''hydra_access_token'', JStr (bs_HydraAccessToken s)),
         (''hydra_refresh_token'', JStr (bs_HydraRefreshToken s)),
         (''access_token_exp'', JStr (env_format E (bs_AccessTokenExp s))),
         (''created_at'', JStr (env_format E (bs_CreatedAt s))),
         (''expires_at'', JStr (env_format E (bs_ExpiresAt s)))])))"

definition unmarshal_time :: "'w go_env \<Rightarrow> string \<Rightarrow> (string \<times> json) list \<Rightarrow> int result" where
  "unmarshal_time E k kvs =
     (case js_field k kvs of
        None \<Rightarrow> Inr zero_time | Some JNull \<Rightarrow> Inr zero_time | Some (JStr s) \<Rightarrow> env_parse E s
      | Some _ \<Rightarrow> Inl (Errorf ''Time.UnmarshalJSON: input is not a JSON string'' []))"

definition unmarshal_session :: "'w go_env \<Rightarrow> json \<Rightarrow> bff_session result" where
  "unmarshal_session E j =
     (case j of
        JObj kvs \<Rightarrow>
          res_bind (unmarshal_string ''session_id'' kvs) (\<lambda>a.
          res_bind (unmarshal_string ''kratos_id'' kvs) (\<lambda>b.
          res_bind (unmarshal_string ''device_id'' kvs) (\<lambda>c.
          res_bind (unmarshal_string ''kratos_session_id'' kvs) (\<lambda>d.
          res_bind (unmarshal_string ''hydra_access_token'' kvs) (\<lambda>e.
          res_bind (unmarshal_string ''hydra_refresh_token'' kvs) (\<lambda>f.
          res_bind (unmarshal_time E ''access_token_exp'' kvs) (\<lambda>g.
          res_bind (unmarshal_time E ''created_at'' kvs) (\<lambda>h.
          res_bind (unmarshal_time E ''expires_at'' kvs) (\<lambda>i.
          Inr \<lparr>bs_SessionID = a, bs_KratosID = b, bs_DeviceID = c, bs_KratosSessionID = d,
               bs_HydraAccessToken = e, bs_HydraRefreshToken = f, bs_AccessTokenExp = g,
               bs_CreatedAt = h, bs_ExpiresAt = i\<rparr>)))))))))
      | JNull \<Rightarrow> Inr \<lparr>bs_SessionID = [], bs_KratosID = [], bs_DeviceID = [], bs_KratosSessionID = [],
               bs_HydraAccessToken = [], bs_HydraRefreshToken = [], bs_AccessTokenExp = zero_time,
               bs_CreatedAt = zero_time, bs_ExpiresAt = zero_time\<rparr>
      | _ \<Rightarrow> Inl (Errorf ''json: cannot unmarshal into Go value of type session.BFFSession'' []))"

lemma unmarshal_marshal:
  assumes "time_codec_ok E" and "marshal_session E s = Inr j"
  shows "unmarshal_session E j = Inr s"
proof -
  have t: "env_parse E (env_format E t) = Inr t" for t
    using assms(1) by (simp add: time_codec_ok_def)
  show ?thesis
    using assms(2)
    by (cases "bs_KratosSessionID s = []")
      (auto simp: marshal_session_def unmarshal_session_def unmarshal_string_def unmarshal_time_def js_field_def t
        split: if_splits)
qed

definition session_text :: "'w go_env \<Rightarrow> json_codec \<Rightarrow> bff_session \<Rightarrow> string result" where
  "session_text E J s = res_bind (marshal_session E s) (\<lambda>j. Inr (js_encode J j))"

definition session_of_text :: "'w go_env \<Rightarrow> json_codec \<Rightarrow> string \<Rightarrow> bff_session result" where
  "session_of_text E J t = res_bind (js_decode J t) (unmarshal_session E)"

lemma session_of_session_text:
  "time_codec_ok E \<Longrightarrow> json_codec_ok J \<Longrightarrow> session_text E J s = Inr t \<Longrightarrow> session_of_text E J t = Inr s"
  by (auto simp: session_text_def session_of_text_def res_bind_Inr_iff json_codec_ok_def unmarshal_marshal)

section \<open>RedisStore\<close>

definition sessionKey :: "string \<Rightarrow> string" where "sessionKey sessionID = ''bff:session:'' @ sessionID"
definition userSessionsKey :: "string \<Rightarrow> string" where "userSessionsKey kratosID = ''bff:user_sessions:'' @ kratosID"
definition refreshLockKey :: "string \<Rightarrow> string" where "refreshLockKey sessionID = ''bff:refresh_lock:'' @ sessionID"

lemmas key_defs = sessionKey_def userSessionsKey_def refreshLockKey_def

lemma keys_differ [simp]:
  "sessionKey a \<noteq> userSessionsKey b" "userSessionsKey b \<noteq> sessionKey a"
  "sessionKey a \<noteq> refreshLockKey b" "refreshLockKey b \<noteq> sessionKey a"
  "userSessionsKey a \<noteq> refreshLockKey b" "refreshLockKey b \<noteq> userSessionsKey a"
  by (simp_all add: key_defs)

lemma keys_inject [simp]:
  "sessionKey a = sessionKey b \<longleftrightarrow> a = b" "userSessionsKey a = userSessionsKey b \<longleftrightarrow> a = b"
  "refreshLockKey a = refreshLockKey b \<longleftrightarrow> a = b"
  by (simp_all add: key_defs)

definition rs_Create :: "'w go_env \<Rightarrow> json_codec \<Rightarrow> ('d, 'w) redis_client \<Rightarrow> int \<Rightarrow> bff_session \<Rightarrow> ('w, error option) io" where
  "rs_Create E J rdb sessionTTL s =
     (case session_text E J s of
        Inl err \<Rightarrow> State_Monad.return (Some (Errorf ''session store: marshal'' [err]))
      | Inr b \<Rightarrow> do {
          ttl \<leftarrow> time_until E (bs_ExpiresAt s);
          let ttl = (if ttl \<le> 0 then sessionTTL else ttl);
          r \<leftarrow> rc_tx rdb [CSet (sessionKey (bs_SessionID s)) b ttl,
                         CSAdd (userSessionsKey (bs_KratosID s)) (bs_SessionID s),
                         CExpire (userSessionsKey (bs_KratosID s)) ttl];
          State_Monad.return (map_option (\<lambda>err. Errorf ''session store: create pipeline'' [err]) (snd r))
        })"

definition rs_Get :: "'w go_env \<Rightarrow> json_codec \<Rightarrow> ('d, 'w) redis_client \<Rightarrow> string \<Rightarrow> ('w, bff_session result) io" where
  "rs_Get E J rdb sessionID = do {
     r \<leftarrow> rc_do rdb (CGet (sessionKey sessionID));
     State_Monad.return (case bulk_of r of
        Inl err \<Rightarrow> if errors_Is err RedisNil then Inl (Sentinel SessionErrNotFound)
                   else Inl (Errorf ''session store: get'' [err])
      | Inr val \<Rightarrow> (case session_of_text E J val of
                      Inl err \<Rightarrow> Inl (Errorf ''session store: unmarshal'' [err])
                    | Inr s \<Rightarrow> Inr s)) }"

definition rs_Update :: "'w go_env \<Rightarrow> json_codec \<Rightarrow> ('d, 'w) redis_client \<Rightarrow> bff_session \<Rightarrow> ('w, error option) io" where
  "rs_Update E J rdb s =
     (case session_text E J s of
        Inl err \<Rightarrow> State_Monad.return (Some (Errorf ''session store: marshal update'' [err]))
      | Inr b \<Rightarrow> do {
          ttl \<leftarrow> time_until E (bs_ExpiresAt s);
          if ttl \<le> 0 then State_Monad.return (Some (Sentinel SessionErrNotFound))
          else do {
            r \<leftarrow> rc_do rdb (CSet (sessionKey (bs_SessionID s)) b ttl);
            State_Monad.return (cmd_err r)
          }
        })"

definition rs_Delete :: "'w go_env \<Rightarrow> json_codec \<Rightarrow> ('d, 'w) redis_client \<Rightarrow> string \<Rightarrow> ('w, error option) io" where
  "rs_Delete E J rdb sessionID = do {
     r \<leftarrow> rs_Get E J rdb sessionID;
     case r of
       Inl err \<Rightarrow> State_Monad.return (if errors_Is err SessionErrNotFound then None else Some err)
     | Inr s \<Rightarrow> do {
         p \<leftarrow> rc_tx rdb [CDel (sessionKey sessionID), CSRem (userSessionsKey (bs_KratosID s)) sessionID];
         State_Monad.return (map_option (\<lambda>err. Errorf ''session store: delete pipeline'' [err]) (snd p))
       }
   }"

text \<open>The loop over the pipelined replies: an expired entry is skipped, any other error ends it.\<close>

fun collect_sessions :: "'w go_env \<Rightarrow> json_codec \<Rightarrow> redis_reply result list \<Rightarrow> bff_session list result" where
  "collect_sessions E J [] = Inr []"
| "collect_sessions E J (cmd # cmds) =
     (case bulk_of cmd of
        Inl err \<Rightarrow>
          if errors_Is err RedisNil then collect_sessions E J cmds
          else Inl (Errorf ''session store: get all pipeline result'' [err])
      | Inr val \<Rightarrow>
          (case session_of_text E J val of
             Inl err \<Rightarrow> Inl (Errorf ''session store: unmarshal'' [err])
           | Inr s \<Rightarrow> res_bind (collect_sessions E J cmds) (\<lambda>sessions. Inr (s # sessions))))"

definition rs_GetAllForUser :: "'w go_env \<Rightarrow> json_codec \<Rightarrow> ('d, 'w) redis_client \<Rightarrow> string \<Rightarrow> ('w, bff_session list result) io" where
  "rs_GetAllForUser E J rdb kratosID = do {
     r \<leftarrow> rc_do rdb (CSMembers (userSessionsKey kratosID));
     case arr_of r of
       Inl err \<Rightarrow> State_Monad.return (Inl (Errorf ''session store: list user sessions'' [err]))
     | Inr sessionIDs \<Rightarrow>
         if sessionIDs = [] then State_Monad.return (Inr [])
         else do {
           p \<leftarrow> rc_pipe rdb (map (\<lambda>id. CGet (sessionKey id)) sessionIDs);
           State_Monad.return
             (case snd p of
                Some err \<Rightarrow>
                  if \<not> errors_Is err RedisNil then Inl (Errorf ''session store: get all pipeline'' [err])
                  else collect_sessions E J (fst p)
              | None \<Rightarrow> collect_sessions E J (fst p))
         }
   }"

definition rs_DeleteAllForUser :: "('d, 'w) redis_client \<Rightarrow> string \<Rightarrow> ('w, string list result) io" where
  "rs_DeleteAllForUser rdb kratosID = do {
     r \<leftarrow> rc_do rdb (CSMembers (userSessionsKey kratosID));
     case arr_of r of
       Inl err \<Rightarrow> State_Monad.return (Inl (Errorf ''session store: list user sessions'' [err]))
     | Inr sessionIDs \<Rightarrow>
         if sessionIDs = [] then State_Monad.return (Inr [])
         else do {
           p \<leftarrow> rc_tx rdb (map (\<lambda>id. CDel (sessionKey id)) sessionIDs @ [CDel (userSessionsKey kratosID)]);
           State_Monad.return (case snd p of
              Some err \<Rightarrow> Inl (Errorf ''session store: delete all'' [err])
            | None \<Rightarrow> Inr sessionIDs)
         }
   }"

definition rs_AcquireRefreshLock :: "('d, 'w) redis_client \<Rightarrow> string \<Rightarrow> int \<Rightarrow> ('w, bool result) io" where
  "rs_AcquireRefreshLock rdb sessionID ttl = do {
     r \<leftarrow> rc_do rdb (CSetNX (refreshLockKey sessionID) ''1'' ttl);
     State_Monad.return (res_bind (int_of_reply r) (\<lambda>n. Inr (n = 1)))
   }"

definition rs_ReleaseRefreshLock :: "('d, 'w) redis_client \<Rightarrow> string \<Rightarrow> ('w, error option) io" where
  "rs_ReleaseRefreshLock rdb sessionID = do {
     r \<leftarrow> rc_do rdb (CDel (refreshLockKey sessionID));
     State_Monad.return (cmd_err r)
   }"

definition NewRedisStore :: "'w go_env \<Rightarrow> json_codec \<Rightarrow> ('d, 'w) redis_client \<Rightarrow> int \<Rightarrow> 'w session_store" where
  "NewRedisStore E J rdb sessionTTL = \<lparr>
     ss_Create = rs_Create E J rdb sessionTTL,
     ss_Get = rs_Get E J rdb,
     ss_Update = rs_Update E J rdb,
     ss_Delete = rs_Delete E J rdb,
     ss_GetAllForUser = rs_GetAllForUser E J rdb,
     ss_DeleteAllForUser = rs_DeleteAllForUser rdb,
     ss_AcquireRefreshLock = rs_AcquireRefreshLock rdb,
     ss_ReleaseRefreshLock = rs_ReleaseRefreshLock rdb\<rparr>"

section \<open>The Redis store implements a map of sessions\<close>

text \<open>
  The abstract store: at instant \<open>t\<close>, the sessions whose keys are live and whose values
  decode.
\<close>

definition abs_sessions :: "'w go_env \<Rightarrow> json_codec \<Rightarrow> int \<Rightarrow> redis_db \<Rightarrow> string \<Rightarrow> bff_session option" where
  "abs_sessions E J t db sid =
     (case db_get t db (sessionKey sid) of
        Some (VStr b) \<Rightarrow> (case session_of_text E J b of Inr s \<Rightarrow> Some s | Inl _ \<Rightarrow> None)
      | _ \<Rightarrow> None)"

text \<open>The sessions of a user that the index names.\<close>

definition abs_index :: "int \<Rightarrow> redis_db \<Rightarrow> string \<Rightarrow> string set" where
  "abs_index t db kratosID =
     (case db_get t db (userSessionsKey kratosID) of Some (VSet xs) \<Rightarrow> set xs | _ \<Rightarrow> {})"

lemma abs_sessions_cong:
  "db' (sessionKey sid) = db (sessionKey sid) \<Longrightarrow> abs_sessions E J t db' sid = abs_sessions E J t db sid"
  by (simp add: abs_sessions_def db_get_def)

lemma abs_sessions_upd:
  "session_of_text E J b = Inr s \<Longrightarrow> live t dl \<Longrightarrow>
   abs_sessions E J t (db(sessionKey sid \<mapsto> (VStr b, dl))) = (abs_sessions E J t db)(sid \<mapsto> s)"
  by (rule HOL.ext) (simp add: abs_sessions_def)

lemma abs_sessions_del:
  "abs_sessions E J t (db(sessionKey sid := None)) = (abs_sessions E J t db)(sid := None)"
  by (rule HOL.ext) (simp add: abs_sessions_def)

lemma foreign_unmarshal:
  assumes "time_codec_ok E"
  shows "foreign_result (unmarshal_session E j)"
proof -
  have "foreign_result (unmarshal_string k kvs)" for k kvs
    by (simp add: unmarshal_string_def split: option.splits json.splits)
  moreover have "foreign_result (env_parse E s)" for s
    using assms by (simp add: time_codec_ok_def foreign_result_def)
  then have "foreign_result (unmarshal_time E k kvs)" for k kvs
    by (simp add: unmarshal_time_def split: option.splits json.splits)
  ultimately show ?thesis
    by (cases j) (auto simp: unmarshal_session_def intro!: foreign_res_bind)
qed

lemma foreign_session_of_text:
  assumes "time_codec_ok E" "json_codec_ok J"
  shows "foreign_result (session_of_text E J t)"
  unfolding session_of_text_def
  by (rule foreign_res_bind [OF _ foreign_unmarshal [OF assms(1)]])
    (use assms(2) in \<open>simp add: json_codec_ok_def foreign_result_def\<close>)

lemma abs_sessions_upd_ex:
  "session_of_text E J b = Inr s \<Longrightarrow> d(sessionKey sid \<mapsto> (VStr b, dl)) = d' \<Longrightarrow>
   \<exists>dl. \<forall>t. live t dl \<longrightarrow> abs_sessions E J t d' = (abs_sessions E J t d)(sid \<mapsto> s)"
  by (intro exI [of _ dl]) (auto simp: abs_sessions_upd)

lemma abs_sessions_tx_set:
  assumes "session_of_text E J b = Inr s"
    and "redis_exec_all now (CSet (sessionKey sid) b ttl # cs) d = (rs, d')"
    and "\<forall>x. sessionKey x \<notin> \<Union> (cmd_writes ` set cs)"
  shows "\<exists>dl. \<forall>t. live t dl \<longrightarrow> abs_sessions E J t d' = (abs_sessions E J t d)(sid \<mapsto> s)"
proof -
  let ?dl = "set_deadline now ttl (db_deadline now d (sessionKey sid))"
  have "abs_sessions E J t d' = abs_sessions E J t (d(sessionKey sid \<mapsto> (VStr b, ?dl)))" for t
    using redis_exec_all_head [OF assms(2) assms(3) [rule_format]]
    by (intro HOL.ext abs_sessions_cong) simp
  then show ?thesis
    by (intro exI [of _ ?dl]) (simp add: abs_sessions_upd [OF assms(1)])
qed

lemma abs_sessions_tx_del:
  assumes "redis_exec_all now (CDel (sessionKey sid) # cs) d = (rs, d')"
    and "\<forall>x. sessionKey x \<notin> \<Union> (cmd_writes ` set cs)"
  shows "abs_sessions E J t d' = (abs_sessions E J t d)(sid := None)"
proof -
  have "abs_sessions E J t d' = abs_sessions E J t (d(sessionKey sid := None))"
    using redis_exec_all_head [OF assms(1) assms(2) [rule_format]]
    by (intro HOL.ext abs_sessions_cong) simp
  then show ?thesis
    by (simp add: abs_sessions_del)
qed

context redis begin

lemma rs_Get_spec:
  assumes "time_codec_ok E" "json_codec_ok J"
  shows "wp (rs_Get E J rc sid) (\<lambda>r w'. rdb w' = rdb w \<and> rnow w \<le> rnow w' \<and>
     (case r of
        Inr s \<Rightarrow> abs_sessions E J (rnow w) (rdb w) sid = Some s
      | Inl e \<Rightarrow>
          (e = Sentinel SessionErrNotFound \<and> db_get (rnow w) (rdb w) (sessionKey sid) = None) \<or>
          foreign_error e)) w"
proof -
  have parse: "foreign_error e" if "session_of_text E J t = Inl e" for t e
    using foreign_session_of_text [OF assms, of t] that by simp
  show ?thesis
    unfolding rs_Get_def
    apply (simp only: wp_rules)
    apply (rule do_wp)
    apply (drule redis_step_Get)
    apply (auto simp: reply_defs lost_def abs_sessions_def parse split: sum.splits option.splits redis_val.splits redis_reply.splits)
    done
qed

lemma rs_Create_spec:
  assumes "env_keeps E rdb" "time_codec_ok E" "json_codec_ok J"
  shows "wp (rs_Create E J rc ttl0 s) (\<lambda>err w'. err = None \<longrightarrow>
     (\<exists>dl. \<forall>t. live t dl \<longrightarrow> abs_sessions E J t (rdb w') = (abs_sessions E J t (rdb w))(bs_SessionID s \<mapsto> s))) w"
proof (cases "session_text E J s")
  case (Inl e)
  then show ?thesis by (simp add: rs_Create_def wp_rules)
next
  case (Inr b)
  note b = session_of_session_text [OF assms(2,3) Inr]
  show ?thesis
    unfolding rs_Create_def
    apply (simp add: Inr wp_rules)
    apply (rule env_keeps_now [OF assms(1)])
    apply (rule tx_wp)
    apply (clarsimp simp del: redis_exec_all.simps)
    apply (drule redis_tx_step_ok)
    apply (clarify, drule abs_sessions_tx_set [OF b], simp)
    apply blast
    done
qed

lemma rs_Update_spec:
  assumes "env_keeps E rdb" "time_codec_ok E" "json_codec_ok J"
  shows "wp (rs_Update E J rc s) (\<lambda>err w'. err = None \<longrightarrow>
     (\<exists>dl. \<forall>t. live t dl \<longrightarrow> abs_sessions E J t (rdb w') = (abs_sessions E J t (rdb w))(bs_SessionID s \<mapsto> s))) w"
proof (cases "session_text E J s")
  case (Inl e)
  then show ?thesis by (simp add: rs_Update_def wp_rules)
next
  case (Inr b)
  note b = session_of_session_text [OF assms(2,3) Inr]
  show ?thesis
    unfolding rs_Update_def
    apply (simp add: Inr wp_rules)
    apply (rule env_keeps_now [OF assms(1)])
    apply (intro conjI impI)
    apply (rule do_wp)
    apply (clarsimp simp: cmd_err_def split: sum.splits)
    apply (drule redis_step_ok, rule refl)
    apply (simp add: abs_sessions_upd_ex [OF b])
    done
qed

lemma rs_Delete_spec:
  assumes "time_codec_ok E" "json_codec_ok J"
  shows "wp (rs_Delete E J rc sid) (\<lambda>err w'. err = None \<longrightarrow>
     (\<forall>t. rnow w \<le> t \<longrightarrow> abs_sessions E J t (rdb w') = (abs_sessions E J t (rdb w))(sid := None))) w"
  unfolding rs_Delete_def wp_rules
  apply (rule wp_mono [OF rs_Get_spec [OF assms]])
  apply (simp add: wp_rules)
  apply (intro conjI impI allI)
   apply (auto simp: abs_sessions_def db_get_later fun_eq_iff)[1]
  apply (rule tx_wp)
  apply (clarsimp simp del: redis_exec_all.simps)
  apply (drule redis_tx_step_ok)
  apply (clarify, drule abs_sessions_tx_del, simp, simp)
  done
end

lemma exec_all_gets:
  "redis_exec_all now (map (\<lambda>i. CGet (f i)) ids) d = (map (\<lambda>i. fst (redis_exec now (CGet (f i)) d)) ids, d)"
proof (induction ids)
  case (Cons i ids)
  have "snd (redis_exec now (CGet (f i)) d) = d"
    by (simp split: option.splits redis_val.splits)
  with Cons show ?case
    by (simp add: case_prod_unfold del: redis_exec.simps)
qed simp

lemma collect_sessions_gets:
  assumes "collect_sessions E J (map (\<lambda>i. fst (redis_exec now (CGet (sessionKey i)) d)) ids) = Inr ss"
  shows "ss = List.map_filter (abs_sessions E J now d) ids"
  using assms
proof (induction ids arbitrary: ss)
  case (Cons i ids)
  then show ?case
    by (auto simp: abs_sessions_def reply_defs res_bind_Inr_iff map_filter_simps
        split: option.splits redis_val.splits sum.splits if_splits)
qed (simp add: map_filter_simps)

lemma exec_all_dels:
  "snd (redis_exec_all now (map (\<lambda>i. CDel (f i)) ids @ [CDel k]) d) =
     (\<lambda>x. if x \<in> f ` set ids \<or> x = k then None else d x)"
  by (induction ids arbitrary: d) (auto simp: case_prod_unfold fun_eq_iff)

lemma redis_step_SMembers:
  assumes "redis_step now (CSMembers k) d r d'"
  shows "d' = d \<and> (lost r \<or>
    r = (case db_get now d k of None \<Rightarrow> Inr (RArr []) | Some (VSet s) \<Rightarrow> Inr (RArr s) | Some _ \<Rightarrow> Inl wrongtype))"
  using assms unfolding redis_step_def
  by (auto split: option.splits redis_val.splits)

lemma redis_pipe_gets:
  assumes "redis_pipe_step now (map (\<lambda>i. CGet (f i)) ids) d r d'"
  shows "d' = d \<and> (fst r = map (\<lambda>i. fst (redis_exec now (CGet (f i)) d)) ids \<or> (\<exists>e. snd r = Some e \<and> foreign_error e))"
  using assms exec_all_gets [of now f ids d] exec_all_gets [of now f _ d]
  by (auto simp: redis_pipe_step_def take_map)

lemma arr_of_SMembers:
  assumes "redis_step now (CSMembers (userSessionsKey k)) d r d'" and "arr_of r = Inr ids"
  shows "d' = d \<and> set ids = abs_index now d k"
  using redis_step_SMembers [OF assms(1)] assms(2)
  by (auto simp: arr_of_def lost_def abs_index_def split: option.splits redis_val.splits)


context redis begin

lemma rs_GetAllForUser_spec:
  "wp (rs_GetAllForUser E J rc k) (\<lambda>r w'. rdb w' = rdb w \<and> (\<forall>ss. r = Inr ss \<longrightarrow>
     (\<exists>ids t. rnow w \<le> t \<and> t \<le> rnow w' \<and> set ids = abs_index (rnow w) (rdb w) k \<and>
        ss = List.map_filter (abs_sessions E J t (rdb w)) ids))) w" (is "wp _ ?Q w")
  unfolding rs_GetAllForUser_def wp_rules
proof (rule do_wp)
  fix r w1
  assume step: "redis_step (rnow w) (CSMembers (userSessionsKey k)) (rdb w) r (rdb w1)" and le: "rnow w \<le> rnow w1"
  then have same: "rdb w1 = rdb w"
    by (simp add: redis_step_SMembers)
  have ids: "set ids = abs_index (rnow w) (rdb w) k" if "arr_of r = Inr ids" for ids
    using arr_of_SMembers [OF step that] by simp
  have "wp (rc_pipe rc (map (\<lambda>id. CGet (sessionKey id)) ids)) (\<lambda>p. ?Q
      (case snd p of Some err \<Rightarrow> if \<not> errors_Is err RedisNil then Inl (Errorf ''session store: get all pipeline'' [err])
         else collect_sessions E J (fst p) | None \<Rightarrow> collect_sessions E J (fst p))) w1"
    if "arr_of r = Inr ids" for ids
  proof (rule pipe_wp)
    fix p w2
    assume "redis_pipe_step (rnow w1) (map (\<lambda>id. CGet (sessionKey id)) ids) (rdb w1) p (rdb w2)" "rnow w1 \<le> rnow w2"
    from this(1) [THEN redis_pipe_gets] this(2)
    show "?Q (case snd p of Some err \<Rightarrow> if \<not> errors_Is err RedisNil then Inl (Errorf ''session store: get all pipeline'' [err])
         else collect_sessions E J (fst p) | None \<Rightarrow> collect_sessions E J (fst p)) w2"
      using le ids [OF that] same
      by (auto split: option.splits if_splits dest!: collect_sessions_gets simp del: redis_exec.simps)
        (intro exI conjI; (assumption | rule refl))+
  qed
  moreover have "?Q (Inr []) w1" if "arr_of r = Inr []"
    using ids [OF that] le same by (auto intro!: exI [of _ "[]"] simp: map_filter_simps)
  ultimately show "((\<forall>e. arr_of r = Inl e \<longrightarrow> ?Q (Inl (Errorf ''session store: list user sessions'' [e])) w1) \<and>
      (\<forall>y. arr_of r = Inr y \<longrightarrow> (y = [] \<longrightarrow> ?Q (Inr []) w1) \<and>
         (y \<noteq> [] \<longrightarrow> wp (rc_pipe rc (map (\<lambda>id. CGet (sessionKey id)) y)) (\<lambda>a. ?Q
      (case snd a of None \<Rightarrow> collect_sessions E J (fst a) | Some err \<Rightarrow> if \<not> errors_Is err RedisNil then Inl (Errorf ''session store: get all pipeline'' [err])
         else collect_sessions E J (fst a))) w1)))"
    using same by auto
qed

lemma rs_DeleteAllForUser_spec:
  "wp (rs_DeleteAllForUser rc k) (\<lambda>r w'. \<forall>ids. r = Inr ids \<longrightarrow>
     set ids = abs_index (rnow w) (rdb w) k \<and>
     (\<forall>t. abs_sessions E J t (rdb w') = abs_sessions E J t (rdb w) |` (- set ids)) \<and>
     (ids \<noteq> [] \<longrightarrow> (\<forall>t. abs_index t (rdb w') k = {}))) w" (is "wp _ ?Q w")
  unfolding rs_DeleteAllForUser_def wp_rules
proof (rule do_wp)
  fix r w1
  assume step: "redis_step (rnow w) (CSMembers (userSessionsKey k)) (rdb w) r (rdb w1)"
  have ids: "rdb w1 = rdb w \<and> set ids = abs_index (rnow w) (rdb w) k" if "arr_of r = Inr ids" for ids
    using arr_of_SMembers [OF step that] by simp
  have "wp (rc_tx rc (map (\<lambda>id. CDel (sessionKey id)) ids @ [CDel (userSessionsKey k)])) (\<lambda>p. ?Q
      (case snd p of None \<Rightarrow> Inr ids | Some err \<Rightarrow> Inl (Errorf ''session store: delete all'' [err]))) w1"
    if "arr_of r = Inr ids" for ids
  proof (rule tx_wp)
    fix p w2
    assume "redis_tx_step (rnow w1) (map (\<lambda>id. CDel (sessionKey id)) ids @ [CDel (userSessionsKey k)]) (rdb w1) p (rdb w2)"
    then have "snd p = None \<Longrightarrow> rdb w2 = (\<lambda>x. if x \<in> sessionKey ` set ids \<or> x = userSessionsKey k then None else rdb w x)"
      using ids [OF that] redis_tx_step_ok [of "rnow w1" _ "rdb w1" "fst p" "rdb w2"] exec_all_dels [of "rnow w1" sessionKey ids "userSessionsKey k" "rdb w1"]
      by (metis prod.collapse snd_conv)
    then show "?Q (case snd p of None \<Rightarrow> Inr ids | Some err \<Rightarrow> Inl (Errorf ''session store: delete all'' [err])) w2"
      using ids [OF that]
      by (auto simp: abs_sessions_def abs_index_def db_get_def restrict_map_def fun_eq_iff split: option.splits)
  qed
  moreover have "?Q (Inr []) w1" if "arr_of r = Inr []"
    using ids [OF that] by (auto simp: restrict_map_def)
  ultimately show "((\<forall>e. arr_of r = Inl e \<longrightarrow> ?Q (Inl (Errorf ''session store: list user sessions'' [e])) w1) \<and>
      (\<forall>y. arr_of r = Inr y \<longrightarrow> (y = [] \<longrightarrow> ?Q (Inr []) w1) \<and>
         (y \<noteq> [] \<longrightarrow> wp (rc_tx rc (map (\<lambda>id. CDel (sessionKey id)) y @ [CDel (userSessionsKey k)])) (\<lambda>a. ?Q
      (case snd a of None \<Rightarrow> Inr y | Some err \<Rightarrow> Inl (Errorf ''session store: delete all'' [err]))) w1)))"
    by auto
qed

lemma rs_AcquireRefreshLock_exclusive:
  assumes "db_get (rnow w) (rdb w) (refreshLockKey sid) \<noteq> None"
  shows "wp (rs_AcquireRefreshLock rc sid ttl) (\<lambda>r w'. r \<noteq> Inr True \<and> rdb w' = rdb w) w"
  unfolding rs_AcquireRefreshLock_def wp_rules
  by (rule do_wp) (use assms in \<open>auto simp: redis_step_def lost_def reply_defs\<close>)

lemma rs_AcquireRefreshLock_spec:
  "wp (rs_AcquireRefreshLock rc sid ttl) (\<lambda>r w'. r = Inr True \<longrightarrow>
     db_get (rnow w) (rdb w) (refreshLockKey sid) = None \<and>
     rdb w' = (rdb w)(refreshLockKey sid \<mapsto> (VStr ''1'', set_deadline (rnow w) ttl None))) w"
  unfolding rs_AcquireRefreshLock_def wp_rules
  by (rule do_wp) (auto simp: redis_step_def lost_def reply_defs split: if_splits)

end

section \<open>A session is stored under its own identifier\<close>

text \<open>
  The contract the BFF relies on: what a store returns for an identifier is the session
  with that identifier, and no operation breaks the invariant \<open>I\<close> that makes it so.
\<close>

locale identified_store =
  fixes st :: "'w session_store" and I :: "'w \<Rightarrow> bool"
  assumes Get_law: "I w \<Longrightarrow> wp (ss_Get st sid) (\<lambda>r w'. I w' \<and> (\<forall>s. r = Inr s \<longrightarrow> bs_SessionID s = sid)) w"
    and Create_law: "keeps I (ss_Create st s)"
    and Update_law: "keeps I (ss_Update st s)"
    and Delete_law: "keeps I (ss_Delete st sid)"
    and GetAll_law: "keeps I (ss_GetAllForUser st k)"
    and DeleteAll_law: "keeps I (ss_DeleteAllForUser st k)"
    and Acquire_law: "keeps I (ss_AcquireRefreshLock st sid ttl)"
    and Release_law: "keeps I (ss_ReleaseRefreshLock st sid)"
begin

lemma Get_keeps: "keeps I (ss_Get st sid)"
  by (rule keepsI, rule wp_mono, erule Get_law) simp

lemmas store_keeps = Get_keeps Create_law Update_law Delete_law GetAll_law DeleteAll_law Acquire_law Release_law

end

definition sessions_identified :: "'w go_env \<Rightarrow> json_codec \<Rightarrow> redis_db \<Rightarrow> bool" where
  "sessions_identified E J db \<longleftrightarrow>
     (\<forall>sid b dl s. db (sessionKey sid) = Some (VStr b, dl) \<longrightarrow> session_of_text E J b = Inr s \<longrightarrow> bs_SessionID s = sid)"

definition session_safe :: "'w go_env \<Rightarrow> json_codec \<Rightarrow> redis_cmd \<Rightarrow> bool" where
  "session_safe E J c \<longleftrightarrow>
     (\<forall>sid. sessionKey sid \<in> cmd_writes c \<longrightarrow> c = CDel (sessionKey sid) \<or>
        (\<exists>b ttl. c = CSet (sessionKey sid) b ttl \<and> (\<forall>s. session_of_text E J b = Inr s \<longrightarrow> bs_SessionID s = sid)))"

lemma session_safe_exec:
  assumes "session_safe E J c" and "sessions_identified E J d"
  shows "sessions_identified E J (snd (redis_exec now c d))"
  unfolding sessions_identified_def
proof (intro allI impI)
  fix sid b dl s
  assume a: "snd (redis_exec now c d) (sessionKey sid) = Some (VStr b, dl)" "session_of_text E J b = Inr s"
  show "bs_SessionID s = sid"
  proof (cases "sessionKey sid \<in> cmd_writes c")
    case False
    with a assms(2) show ?thesis
      by (auto simp: redis_exec_frame sessions_identified_def)
  next
    case True
    with assms(1) a show ?thesis
      unfolding session_safe_def by (auto dest!: spec [of _ sid])
  qed
qed

lemma session_safe_exec_all:
  "\<forall>c\<in>set cs. session_safe E J c \<Longrightarrow> sessions_identified E J d \<Longrightarrow>
     sessions_identified E J (snd (redis_exec_all now cs d))"
proof (induction cs arbitrary: d)
  case (Cons c cs)
  then show ?case
    using session_safe_exec [of E J c d now] by (simp add: case_prod_unfold)
qed simp

lemma session_safe_simps:
  "session_safe E J (CGet k)" "session_safe E J (CSMembers k)" "session_safe E J (CExists k)"
  "session_safe E J (CDel k)"
  "session_safe E J (CSetNX (refreshLockKey i) v ttl)"
  "session_safe E J (CSAdd (userSessionsKey k) m)" "session_safe E J (CSRem (userSessionsKey k) m)"
  "session_safe E J (CExpire (userSessionsKey k) ttl)"
  by (simp_all add: session_safe_def)

lemma session_safe_Set:
  "session_of_text E J b = Inr s \<Longrightarrow> session_safe E J (CSet (sessionKey (bs_SessionID s)) b ttl)"
  by (simp add: session_safe_def)

context redis begin

lemma do_keeps:
  assumes "session_safe E J c"
  shows "keeps (\<lambda>w. sessions_identified E J (rdb w)) (rc_do rc c)"
  by (rule keepsI, rule do_wp)
    (use session_safe_exec [OF assms] in \<open>auto dest: redis_step_db\<close>)

lemma tx_keeps:
  assumes "\<forall>c\<in>set cs. session_safe E J c"
  shows "keeps (\<lambda>w. sessions_identified E J (rdb w)) (rc_tx rc cs)"
  by (rule keepsI, rule tx_wp)
    (use session_safe_exec_all [OF assms] in \<open>auto dest: redis_tx_step_db\<close>)

lemma pipe_keeps:
  assumes "\<forall>c\<in>set cs. session_safe E J c"
  shows "keeps (\<lambda>w. sessions_identified E J (rdb w)) (rc_pipe rc cs)"
proof -
  have "\<forall>c\<in>set (take n cs). session_safe E J c" for n
    using assms in_set_takeD by fastforce
  note take = session_safe_exec_all [OF this]
  show ?thesis
    by (rule keepsI, rule pipe_wp)
      (use take in \<open>auto dest!: redis_pipe_step_db\<close>)
qed

lemmas session_ops_keep = do_keeps tx_keeps pipe_keeps

end

locale redis_sessions = redis rc rdb rnow
  for rc :: "(redis_ctx, 'w) redis_client" and rdb :: "'w \<Rightarrow> redis_db" and rnow :: "'w \<Rightarrow> int" +
  fixes E :: "'w go_env" and J :: json_codec and sessionTTL :: int
  assumes env: "env_keeps E rdb" and times: "time_codec_ok E" and codec: "json_codec_ok J"
begin

abbreviation "identified \<equiv> \<lambda>w. sessions_identified E J (rdb w)"

lemma time_until_keeps: "keeps identified (time_until E t)"
  unfolding time_until_def
  by (intro keeps_bind keepsI env_keeps_now [OF env]) (simp_all add: wp_rules)

end

sublocale redis_sessions \<subseteq> redis_store: identified_store "NewRedisStore E J rc sessionTTL" "\<lambda>w. sessions_identified E J (rdb w)"
proof
  have get: "wp (rs_Get E J rc sid) (\<lambda>r w'. identified w' \<and> (\<forall>s. r = Inr s \<longrightarrow> bs_SessionID s = sid)) w"
    if "identified w" for sid w
    using that
    by (auto intro!: wp_mono [OF rs_Get_spec [OF times codec]]
        simp: abs_sessions_def db_get_def sessions_identified_def split: option.splits redis_val.splits sum.splits if_splits)
  then show "wp (ss_Get (NewRedisStore E J rc sessionTTL) sid)
      (\<lambda>r w'. identified w' \<and> (\<forall>s. r = Inr s \<longrightarrow> bs_SessionID s = sid)) w" if "identified w" for w sid
    using that by (simp add: NewRedisStore_def)
  have getk: "keeps identified (rs_Get E J rc sid)" for sid
    by (rule keepsI, rule wp_mono, erule get) simp
  have safe: "session_safe E J (CSet (sessionKey (bs_SessionID s)) b ttl)" if "session_text E J s = Inr b" for s b ttl
    using session_of_session_text [OF times codec that] by (rule session_safe_Set)
  show "keeps identified (ss_Create (NewRedisStore E J rc sessionTTL) s)" for s
    by (cases "session_text E J s")
      (auto simp: NewRedisStore_def rs_Create_def Let_def session_safe_simps safe
        intro!: keeps_bind time_until_keeps session_ops_keep)
  show "keeps identified (ss_Update (NewRedisStore E J rc sessionTTL) s)" for s
    by (cases "session_text E J s")
      (auto simp: NewRedisStore_def rs_Update_def session_safe_simps safe
        intro!: keeps_bind keeps_if time_until_keeps session_ops_keep)
  show "keeps identified (ss_Delete (NewRedisStore E J rc sessionTTL) sid)" for sid
    by (auto simp: NewRedisStore_def rs_Delete_def session_safe_simps
        intro!: keeps_bind keeps_case_sum getk session_ops_keep)
  show "keeps identified (ss_GetAllForUser (NewRedisStore E J rc sessionTTL) k)" for k
    by (auto simp: NewRedisStore_def rs_GetAllForUser_def session_safe_simps
        intro!: keeps_bind keeps_case_sum keeps_if session_ops_keep)
  show "keeps identified (ss_DeleteAllForUser (NewRedisStore E J rc sessionTTL) k)" for k
    by (auto simp: NewRedisStore_def rs_DeleteAllForUser_def session_safe_simps
        intro!: keeps_bind keeps_case_sum keeps_if session_ops_keep)
  show "keeps identified (ss_AcquireRefreshLock (NewRedisStore E J rc sessionTTL) sid ttl)" for sid ttl
    by (auto simp: NewRedisStore_def rs_AcquireRefreshLock_def session_safe_simps intro!: keeps_bind session_ops_keep)
  show "keeps identified (ss_ReleaseRefreshLock (NewRedisStore E J rc sessionTTL) sid)" for sid
    by (auto simp: NewRedisStore_def rs_ReleaseRefreshLock_def session_safe_simps intro!: keeps_bind session_ops_keep)
qed

definition store_frame :: "'w session_store \<Rightarrow> ('w \<Rightarrow> 'v) \<Rightarrow> bool" where
  "store_frame st view \<longleftrightarrow>
     (\<forall>s. same view (ss_Create st s)) \<and> (\<forall>i. same view (ss_Get st i)) \<and> (\<forall>s. same view (ss_Update st s)) \<and>
     (\<forall>i. same view (ss_Delete st i)) \<and> (\<forall>k. same view (ss_GetAllForUser st k)) \<and>
     (\<forall>k. same view (ss_DeleteAllForUser st k)) \<and> (\<forall>i t. same view (ss_AcquireRefreshLock st i t)) \<and>
     (\<forall>i. same view (ss_ReleaseRefreshLock st i))"

lemma redis_store_frame:
  assumes "client_frame rc view" and "env_keeps E view"
  shows "store_frame (NewRedisStore E J rc ttl) view"
proof -
  have c: "same view (rc_do rc c)" "same view (rc_tx rc cs)" "same view (rc_pipe rc cs)" for c cs
    using assms(1) by (simp_all add: client_frame_def)
  have t: "same view (time_until E x)" for x
    using assms(2) by (auto simp: time_until_def env_keeps_def same_def case_prod_unfold)
  have g: "same view (rs_Get E J rc i)" for i
    unfolding rs_Get_def by (auto intro!: c)
  have "same view (rs_Create E J rc ttl s)" "same view (rs_Update E J rc s)" "same view (rs_Delete E J rc i)"
    "same view (rs_GetAllForUser E J rc i)" "same view (rs_DeleteAllForUser rc i)"
    "same view (rs_AcquireRefreshLock rc i d)" "same view (rs_ReleaseRefreshLock rc i)" for s i d
    unfolding rs_Create_def rs_Update_def rs_Delete_def rs_GetAllForUser_def rs_DeleteAllForUser_def
      rs_AcquireRefreshLock_def rs_ReleaseRefreshLock_def Let_def
    by (auto intro!: c t g same_case_sum)
  with g show ?thesis
    by (simp add: store_frame_def NewRedisStore_def)
qed

section \<open>The stores of the test world\<close>

abbreviation "sim_store \<equiv> NewRedisStore (ext_env sim_env) text_codec sim_redis (7 * 24 * hour)"

interpretation sim_sessions: redis_sessions sim_redis sim_db sim_clock "ext_env sim_env" text_codec "7 * 24 * hour"
  by unfold_locales (use sim_env_ok(4) text_codec_ok sim_env_keeps in \<open>simp_all add: time_codec_ok_def ext_env_def\<close>)

section \<open>Lifetimes and locks\<close>

text \<open>The lifetime \<open>Create\<close> gives a key when the clock reads \<open>t\<close>.\<close>

definition session_lifetime :: "int \<Rightarrow> bff_session \<Rightarrow> int \<Rightarrow> int" where
  "session_lifetime sessionTTL s t =
     (let ttl = time_sub (bs_ExpiresAt s) t in if ttl \<le> 0 then sessionTTL else ttl)"

lemma set_deadline_live:
  "0 < dur \<Longrightarrow> \<not> live t (set_deadline now dur old) \<Longrightarrow> now + dur - millisecond < t"
  using set_deadline_late [of dur now old] by (auto simp: live_def)

lemma abs_sessions_tx_set_at:
  assumes "session_of_text E J b = Inr s"
    and "redis_exec_all now (CSet (sessionKey sid) b ttl # cs) d = (rs, d')"
    and "\<forall>x. sessionKey x \<notin> \<Union> (cmd_writes ` set cs)"
    and "abs_sessions E J t d' sid = None" and "0 < ttl"
  shows "now + ttl - millisecond < t"
proof -
  have "d' (sessionKey sid) = Some (VStr b, set_deadline now ttl (db_deadline now d (sessionKey sid)))"
    using redis_exec_all_head [OF assms(2) assms(3) [rule_format]] by simp
  with assms show ?thesis
    by (auto simp: abs_sessions_def db_get_def split: if_splits intro: set_deadline_live)
qed

context redis begin

lemma rs_Create_lifetime:
  assumes "env_keeps E rdb" "env_forward E rnow" "time_codec_ok E" "json_codec_ok J" "0 < ttl0"
  shows "wp (rs_Create E J rc ttl0 s) (\<lambda>err w'. rnow w \<le> rnow w' \<and> (err = None \<longrightarrow>
     (\<forall>x. abs_sessions E J x (rdb w') (bs_SessionID s) = None \<longrightarrow>
        (\<exists>t. clock_reading E t \<and> rnow w + session_lifetime ttl0 s t - millisecond < x)) \<and>
     (\<forall>x s'. abs_sessions E J x (rdb w') (bs_SessionID s) = Some s' \<longrightarrow> s' = s))) w"
proof (cases "session_text E J s")
  case (Inl e)
  then show ?thesis by (simp add: rs_Create_def wp_rules)
next
  case (Inr b)
  note b = session_of_session_text [OF assms(3,4) Inr]
  show ?thesis
    unfolding rs_Create_def Inr sum.case wp_rules time_until_def
  proof (rule wpI)
    fix now w1
    assume now: "run_state (env_now E) w = (now, w1)"
    have w1: "rdb w1 = rdb w" "rnow w \<le> rnow w1"
      using assms(1,2) now unfolding env_keeps_def env_forward_def by (metis snd_conv)+
    let ?ttl = "session_lifetime ttl0 s now"
    let ?cs = "[CSAdd (userSessionsKey (bs_KratosID s)) (bs_SessionID s), CExpire (userSessionsKey (bs_KratosID s)) ?ttl]"
    have pos: "0 < ?ttl"
      using assms(5) by (simp add: session_lifetime_def Let_def)
    show "wp (rc_tx rc [CSet (sessionKey (bs_SessionID s)) b (if time_sub (bs_ExpiresAt s) now \<le> 0 then ttl0 else time_sub (bs_ExpiresAt s) now),
         CSAdd (userSessionsKey (bs_KratosID s)) (bs_SessionID s),
         CExpire (userSessionsKey (bs_KratosID s)) (if time_sub (bs_ExpiresAt s) now \<le> 0 then ttl0 else time_sub (bs_ExpiresAt s) now)])
       (\<lambda>a w'. rnow w \<le> rnow w' \<and> (map_option (\<lambda>err. Errorf ''session store: create pipeline'' [err]) (snd a) = None \<longrightarrow>
         (\<forall>x. abs_sessions E J x (rdb w') (bs_SessionID s) = None \<longrightarrow>
           (\<exists>t. clock_reading E t \<and> rnow w + session_lifetime ttl0 s t - millisecond < x)) \<and>
         (\<forall>x s'. abs_sessions E J x (rdb w') (bs_SessionID s) = Some s' \<longrightarrow> s' = s))) w1"
    proof (fold session_lifetime_def [unfolded Let_def], rule tx_wp)
      fix r w2
      assume step: "redis_tx_step (rnow w1) (CSet (sessionKey (bs_SessionID s)) b ?ttl # ?cs) (rdb w1) r (rdb w2)"
        and le: "rnow w1 \<le> rnow w2"
      have "(\<exists>t. clock_reading E t \<and> rnow w + session_lifetime ttl0 s t - millisecond < x)"
        if ok: "snd r = None" and none: "abs_sessions E J x (rdb w2) (bs_SessionID s) = None" for x
      proof -
        have "redis_exec_all (rnow w1) (CSet (sessionKey (bs_SessionID s)) b ?ttl # ?cs) (rdb w1) = (fst r, rdb w2)"
          using redis_tx_step_ok [of _ _ _ "fst r"] step ok by (metis prod.collapse)
        from abs_sessions_tx_set_at [OF b this _ none pos] have "rnow w1 + ?ttl - millisecond < x"
          by simp
        with w1(2) clock_readingI [OF now] show ?thesis
          by (intro exI [of _ now]) linarith
      qed
      moreover have "s' = s"
        if ok: "snd r = None" and some: "abs_sessions E J x (rdb w2) (bs_SessionID s) = Some s'" for x s'
      proof -
        have *: "redis_exec_all (rnow w1) (CSet (sessionKey (bs_SessionID s)) b ?ttl # ?cs) (rdb w1) = (fst r, rdb w2)"
          using redis_tx_step_ok [of _ _ _ "fst r"] step ok by (metis prod.collapse)
        have "rdb w2 (sessionKey (bs_SessionID s)) = snd (redis_exec (rnow w1) (CSet (sessionKey (bs_SessionID s)) b ?ttl) (rdb w1)) (sessionKey (bs_SessionID s))"
          by (rule redis_exec_all_head [OF *]) simp
        with some b show ?thesis
          by (auto simp: abs_sessions_def db_get_def split: if_splits)
      qed
      ultimately show "rnow w \<le> rnow w2 \<and> (map_option (\<lambda>err. Errorf ''session store: create pipeline'' [err]) (snd r) = None \<longrightarrow>
         (\<forall>x. abs_sessions E J x (rdb w2) (bs_SessionID s) = None \<longrightarrow>
           (\<exists>t. clock_reading E t \<and> rnow w + session_lifetime ttl0 s t - millisecond < x)) \<and>
         (\<forall>x s'. abs_sessions E J x (rdb w2) (bs_SessionID s) = Some s' \<longrightarrow> s' = s))"
        using w1(2) le by auto
    qed
  qed
qed

lemma create_then_get:
  assumes "env_keeps E rdb" "env_forward E rnow" "time_codec_ok E" "json_codec_ok J" "0 < ttl0"
  shows "wp (do { err \<leftarrow> rs_Create E J rc ttl0 s; r \<leftarrow> rs_Get E J rc (bs_SessionID s); State_Monad.return (err, r) })
    (\<lambda>(err, r) w'. err = None \<longrightarrow> r = Inr s \<or> (\<exists>e. r = Inl e \<and> foreign_error e) \<or>
       (r = Inl (Sentinel SessionErrNotFound) \<and>
        (\<exists>t. clock_reading E t \<and> rnow w + session_lifetime ttl0 s t - millisecond < rnow w'))) w"
proof (subst wp_bind, rule wp_mono [OF rs_Create_lifetime [OF assms]], subst wp_bind, rule wp_mono [OF rs_Get_spec [OF assms(3,4)]])
  fix err w1 r w2
  assume c: "rnow w \<le> rnow w1 \<and> (err = None \<longrightarrow>
     (\<forall>x. abs_sessions E J x (rdb w1) (bs_SessionID s) = None \<longrightarrow>
        (\<exists>t. clock_reading E t \<and> rnow w + session_lifetime ttl0 s t - millisecond < x)) \<and>
     (\<forall>x s'. abs_sessions E J x (rdb w1) (bs_SessionID s) = Some s' \<longrightarrow> s' = s))"
    and g: "rdb w2 = rdb w1 \<and> rnow w1 \<le> rnow w2 \<and>
     (case r of
        Inr s' \<Rightarrow> abs_sessions E J (rnow w1) (rdb w1) (bs_SessionID s) = Some s'
      | Inl e \<Rightarrow>
          (e = Sentinel SessionErrNotFound \<and> db_get (rnow w1) (rdb w1) (sessionKey (bs_SessionID s)) = None) \<or>
          foreign_error e)"
  have "\<exists>t. clock_reading E t \<and> rnow w + session_lifetime ttl0 s t - millisecond < rnow w2"
    if ok: "err = None" and none: "db_get (rnow w1) (rdb w1) (sessionKey (bs_SessionID s)) = None"
  proof -
    have "abs_sessions E J (rnow w1) (rdb w1) (bs_SessionID s) = None"
      using none by (simp add: abs_sessions_def)
    then obtain t where "clock_reading E t" "rnow w + session_lifetime ttl0 s t - millisecond < rnow w1"
      using c ok by blast
    with g show ?thesis by (intro exI [of _ t]) linarith
  qed
  with c g show "wp (State_Monad.return (err, r)) (\<lambda>(err, r) w'. err = None \<longrightarrow> r = Inr s \<or> (\<exists>e. r = Inl e \<and> foreign_error e) \<or>
       (r = Inl (Sentinel SessionErrNotFound) \<and>
        (\<exists>t. clock_reading E t \<and> rnow w + session_lifetime ttl0 s t - millisecond < rnow w'))) w2"
    by (auto simp: wp_rules split: sum.splits)
qed

lemma lock_exclusive:
  assumes "0 < ttl"
  shows "wp (do { a \<leftarrow> rs_AcquireRefreshLock rc sid ttl; b \<leftarrow> rs_AcquireRefreshLock rc sid ttl';
      State_Monad.return (a, b) })
    (\<lambda>(a, b) w'. a = Inr True \<and> b = Inr True \<longrightarrow> rnow w + ttl - millisecond < rnow w') w"
proof -
  note s = rs_AcquireRefreshLock_spec [of sid ttl] 
  show ?thesis
  proof (subst wp_bind, rule wp_mono [OF rs_AcquireRefreshLock_spec])
    fix r w1
    assume r: "r = Inr True \<longrightarrow> db_get (rnow w) (rdb w) (refreshLockKey sid) = None \<and>
      rdb w1 = (rdb w)(refreshLockKey sid \<mapsto> (VStr ''1'', set_deadline (rnow w) ttl None))"
    obtain d where d: "set_deadline (rnow w) ttl None = Some d" "rnow w + ttl - millisecond < d"
      using set_deadline_late [OF assms] by blast
    have "wp (rs_AcquireRefreshLock rc sid ttl') (\<lambda>b w'. rnow w1 \<le> rnow w' \<and> (b = Inr True \<longrightarrow> db_get (rnow w1) (rdb w1) (refreshLockKey sid) = None)) w1"
      unfolding rs_AcquireRefreshLock_def wp_rules
      by (rule do_wp) (auto simp: redis_step_def lost_def reply_defs split: if_splits)
    then show "wp (do { b \<leftarrow> rs_AcquireRefreshLock rc sid ttl'; State_Monad.return (r, b) })
      (\<lambda>(a, b) w'. a = Inr True \<and> b = Inr True \<longrightarrow> rnow w + ttl - millisecond < rnow w') w1"
      using r d by (auto simp: wp_rules live_def split: if_splits elim!: wp_mono)
  qed
qed
end

definition sample_session :: "string \<Rightarrow> int \<Rightarrow> bff_session" where
  "sample_session sid expires = \<lparr>bs_SessionID = sid, bs_KratosID = ''u'', bs_DeviceID = sid, bs_KratosSessionID = [],
     bs_HydraAccessToken = ''a'', bs_HydraRefreshToken = ''r'', bs_AccessTokenExp = 0, bs_CreatedAt = 0,
     bs_ExpiresAt = expires\<rparr>"

lemma sample_session_text:
  assumes "0 \<le> t" "t < 2 ^ 62"
  obtains b where "session_text (ext_env sim_env) text_codec (sample_session sid t) = Inr b"
    and "session_of_text (ext_env sim_env) text_codec b = Inr (sample_session sid t)"
proof -
  let ?r = "session_text (ext_env sim_env) text_codec (sample_session sid t)"
  have "\<exists>b. ?r = Inr b"
    using assms by (auto simp: session_text_def marshal_session_def sample_session_def session_times_ok_def
        json_time_ok_def year_0_def year_10000_def second_def)
  then obtain b where b: "?r = Inr b" ..
  show thesis
    by (rule that [OF b session_of_session_text [OF sim_sessions.times sim_sessions.codec b]])
qed

lemma index_ttl_shortened:
  "let s1 = sample_session ''1'' 2592000000000000; s2 = sample_session ''2'' 604800000000000 in
   fst (run_state (do {
     ss_Create sim_store s1; ss_Create sim_store s2;
     env_wait (ext_env sim_env) 691200000000000;
     all \<leftarrow> ss_GetAllForUser sim_store ''u'';
     one \<leftarrow> ss_Get sim_store ''1'';
     State_Monad.return (all, one) }) sim_start) = (Inr [], Inr s1)"
proof -
  obtain b1 where b1: "session_text (ext_env sim_env) text_codec (sample_session ''1'' 2592000000000000) = Inr b1"
      "session_of_text (ext_env sim_env) text_codec b1 = Inr (sample_session ''1'' 2592000000000000)"
    by (rule sample_session_text [of 2592000000000000]) (simp_all add: duration_defs)
  obtain b2 where b2: "session_text (ext_env sim_env) text_codec (sample_session ''2'' 604800000000000) = Inr b2"
    by (rule sample_session_text [of 604800000000000]) (simp_all add: duration_defs)
  have f: "bs_SessionID (sample_session i t) = i" "bs_KratosID (sample_session i t) = ''u''" "bs_ExpiresAt (sample_session i t) = t" for i t
    by (simp_all add: sample_session_def)
  show ?thesis
    unfolding Let_def NewRedisStore_def rs_Create_def rs_GetAllForUser_def rs_Get_def time_until_def time_sub_def
    by (simp add: b1 b2 f sim_redis_def sim_exec_def time_sub_def sim_start_def sim0_def sim_env_simps duration_defs
      set_deadline_def set_ttl_def expire_ttl_def go_div_def key_defs db_deadline_def live_def db_get_def reply_defs)
qed

section \<open>Properties\<close>

text \<open>
  Creating a session and reading it back gives the same session: after a successful
  \<open>Create\<close>, \<open>Get\<close> returns exactly what was stored, or an error of the connection; it can
  answer "not found" only once the lifetime computed from \<open>ExpiresAt\<close> (less the
  millisecond Redis rounds away) has passed.
\<close>

theorem redis_store_create_get:
  assumes "redis rc rdb rnow" and "env_keeps E rdb" and "env_forward E rnow"
    and "time_codec_ok E" and "json_codec_ok J" and "0 < sessionTTL"
  shows "wp (do { err \<leftarrow> rs_Create E J rc sessionTTL s; r \<leftarrow> rs_Get E J rc (bs_SessionID s); State_Monad.return (err, r) })
    (\<lambda>(err, r) w'. err = None \<longrightarrow> r = Inr s \<or> (\<exists>e. r = Inl e \<and> foreign_error e) \<or>
       (r = Inl (Sentinel SessionErrNotFound) \<and>
        (\<exists>t. clock_reading E t \<and> rnow w + session_lifetime sessionTTL s t - millisecond < rnow w'))) w"
  by (rule redis.create_then_get [OF assms])

theorem redis_store_create_get_witness:
  "wp (do { err \<leftarrow> rs_Create (ext_env sim_env) text_codec sim_redis hour (sample_session ''1'' hour);
        r \<leftarrow> rs_Get (ext_env sim_env) text_codec sim_redis (bs_SessionID (sample_session ''1'' hour)); State_Monad.return (err, r) })
    (\<lambda>(err, r) w'. err = None \<longrightarrow> r = Inr (sample_session ''1'' hour) \<or> (\<exists>e. r = Inl e \<and> foreign_error e) \<or>
       (r = Inl (Sentinel SessionErrNotFound) \<and>
        (\<exists>t. clock_reading (ext_env sim_env) t \<and>
          sim_clock sim_start + session_lifetime hour (sample_session ''1'' hour) t - millisecond < sim_clock w'))) sim_start"
proof -
  have "env_forward (ext_env sim_env) sim_clock"
    by (simp add: env_forward_def sim_env_simps sim_clock_def)
  from redis_store_create_get [OF sim_redis.redis_axioms sim_env_keeps this sim_sessions.times sim_sessions.codec]
  show ?thesis
    by (simp add: duration_defs)
qed



text \<open>
  The refresh lock is exclusive: two callers can both acquire it for the same session
  only if its time to live passed in between.
\<close>

theorem refresh_lock_exclusive:
  assumes "redis rc rdb rnow" and "0 < ttl"
  shows "wp (do { a \<leftarrow> rs_AcquireRefreshLock rc sid ttl; b \<leftarrow> rs_AcquireRefreshLock rc sid ttl'; State_Monad.return (a, b) })
    (\<lambda>(a, b) w'. a = Inr True \<and> b = Inr True \<longrightarrow> rnow w + ttl - millisecond < rnow w') w"
  by (rule redis.lock_exclusive [OF assms])

theorem refresh_lock_exclusive_witness:
  "fst (run_state (do { a \<leftarrow> rs_AcquireRefreshLock sim_redis ''1'' (5 * second); b \<leftarrow> rs_AcquireRefreshLock sim_redis ''1'' 1;
      State_Monad.return (a, b) }) sim_start) \<noteq> (Inr True, Inr True)"
proof -
  let ?m = "do { a \<leftarrow> rs_AcquireRefreshLock sim_redis ''1'' (5 * second); b \<leftarrow> rs_AcquireRefreshLock sim_redis ''1'' 1;
      State_Monad.return (a, b) }"
  have "sim_clock (snd (run_state ?m sim_start)) = sim_clock sim_start"
    by (simp add: rs_AcquireRefreshLock_def sim_redis_def sim_exec_def sim_clock_def case_prod_unfold sim_start_def sim0_def)
  moreover have "wp ?m (\<lambda>(a, b) w'. a = Inr True \<and> b = Inr True \<longrightarrow> sim_clock sim_start + 5 * second - millisecond < sim_clock w') sim_start"
    by (rule refresh_lock_exclusive [OF sim_redis.redis_axioms]) (simp add: second_def)
  ultimately show ?thesis
    by (auto simp: wp_def case_prod_unfold duration_defs)
qed

text \<open>
  The per-user index does not outlive its longest session: after a session of 30 days
  is created and then one of 7 days for the same user, eight days later the first session
  is still valid but \<open>GetAllForUser\<close> (hence logout-all, which enumerates with it) finds
  none. \<open>Create\<close> sets the expiry of the index to the newest session's, although its comment
  says the longest.
\<close>

theorem index_expires_before_longest_session:
  "let s1 = sample_session ''1'' 2592000000000000; s2 = sample_session ''2'' 604800000000000 in
   fst (run_state (do {
     ss_Create sim_store s1; ss_Create sim_store s2;
     env_wait (ext_env sim_env) 691200000000000;
     all \<leftarrow> ss_GetAllForUser sim_store ''u'';
     one \<leftarrow> ss_Get sim_store ''1'';
     State_Monad.return (all, one) }) sim_start) = (Inr [], Inr s1)"
  by (rule index_ttl_shortened)

end
