(* ===== verification/Resilient_Sessions.thy ===== *)
theory Resilient_Sessions imports Session_Store begin

text \<open>
  \<open>internal/resilience/resilient_session_store.go\<close>: the circuit-breaker and cache decorator
  of the session store.

  Proved: no infrastructure error escapes; the contract \<open>identified_store\<close> (a session is
  returned under its own identifier) carries over from the delegate, cache included; and a
  deletion evicts the session from the cache in every outcome.
\<close>

section \<open>ResilientSessionStore\<close>

text \<open>
  The decorator around a store, a circuit breaker and the shared cache. A cached value of
  another type makes the Go type assertion panic, which is the error \<open>TypeAssertionPanic\<close>.
\<close>

definition rss_Get :: "'w session_store \<Rightarrow> 'w circuit_breaker \<Rightarrow> 'w l1_cache \<Rightarrow> string \<Rightarrow> ('w, bff_session result) io" where
  "rss_Get delegate cb l1 sessionID = do {
     let key = sessionL1Prefix @ sessionID;
     v \<leftarrow> l1_Get l1 key;
     case v of
       Some val \<Rightarrow> State_Monad.return (case val of VSession s \<Rightarrow> Inr s | _ \<Rightarrow> Inl (Sentinel TypeAssertionPanic))
     | None \<Rightarrow> do {
         allowed \<leftarrow> cbi_Allow cb;
         if \<not> allowed then State_Monad.return (Inl (Sentinel SessionErrNotFound))
         else do {
           r \<leftarrow> ss_Get delegate sessionID;
           case r of
             Inl err \<Rightarrow>
               if is_infra_error (Some err) then do {
                 cbi_RecordFailure cb;
                 State_Monad.return (Inl (Sentinel SessionErrNotFound))
               } else do {
                 cbi_RecordSuccess cb;
                 State_Monad.return (Inl err)
               }
           | Inr sess \<Rightarrow> do {
               cbi_RecordSuccess cb;
               l1_Set l1 key (VSession sess) DefaultExpiration;
               State_Monad.return (Inr sess)
             }
         }
       }
   }"

definition rss_Create :: "'w session_store \<Rightarrow> 'w circuit_breaker \<Rightarrow> 'w l1_cache \<Rightarrow> bff_session \<Rightarrow> ('w, error option) io" where
  "rss_Create delegate cb l1 sess = do {
     allowed \<leftarrow> cbi_Allow cb;
     if \<not> allowed then State_Monad.return (Some (Sentinel ErrRedisUnavailable))
     else do {
       err \<leftarrow> ss_Create delegate sess;
       case err of
         Some e \<Rightarrow>
           if is_infra_error (Some e) then do {
             cbi_RecordFailure cb;
             State_Monad.return (Some (Sentinel ErrRedisUnavailable))
           } else do {
             cbi_RecordSuccess cb;
             State_Monad.return (Some e)
           }
       | None \<Rightarrow> do {
           cbi_RecordSuccess cb;
           l1_Set l1 (sessionL1Prefix @ bs_SessionID sess) (VSession sess) DefaultExpiration;
           State_Monad.return None
         }
     }
   }"

definition rss_Update :: "'w session_store \<Rightarrow> 'w circuit_breaker \<Rightarrow> 'w l1_cache \<Rightarrow> bff_session \<Rightarrow> ('w, error option) io" where
  "rss_Update delegate cb l1 sess = do {
     allowed \<leftarrow> cbi_Allow cb;
     if \<not> allowed then State_Monad.return (Some (Sentinel ErrRedisUnavailable))
     else do {
       err \<leftarrow> ss_Update delegate sess;
       case err of
         Some e \<Rightarrow>
           if is_infra_error (Some e) then do {
             cbi_RecordFailure cb;
             State_Monad.return (Some (Sentinel ErrRedisUnavailable))
           } else do {
             cbi_RecordSuccess cb;
             State_Monad.return (Some e)
           }
       | None \<Rightarrow> do {
           cbi_RecordSuccess cb;
           l1_Set l1 (sessionL1Prefix @ bs_SessionID sess) (VSession sess) DefaultExpiration;
           State_Monad.return None
         }
     }
   }"

definition rss_Delete :: "'w session_store \<Rightarrow> 'w circuit_breaker \<Rightarrow> 'w l1_cache \<Rightarrow> string \<Rightarrow> ('w, error option) io" where
  "rss_Delete delegate cb l1 sessionID = do {
     l1_Delete l1 (sessionL1Prefix @ sessionID);
     allowed \<leftarrow> cbi_Allow cb;
     if \<not> allowed then State_Monad.return (Some (Sentinel ErrRedisUnavailable))
     else do {
       err \<leftarrow> ss_Delete delegate sessionID;
       case err of
         Some e \<Rightarrow>
           if is_infra_error (Some e) then do {
             cbi_RecordFailure cb;
             State_Monad.return (Some (Sentinel ErrRedisUnavailable))
           } else do {
             cbi_RecordSuccess cb;
             State_Monad.return (Some e)
           }
       | None \<Rightarrow> do { cbi_RecordSuccess cb; State_Monad.return None }
     }
   }"

text \<open>\<open>copySess\<close> copies a struct of values: the identity.\<close>

definition copySess :: "bff_session \<Rightarrow> bff_session" where "copySess sess = sess"

definition rss_GetAllForUser :: "'w session_store \<Rightarrow> 'w circuit_breaker \<Rightarrow> string \<Rightarrow> ('w, bff_session list result) io" where
  "rss_GetAllForUser delegate cb kratosID = do {
     allowed \<leftarrow> cbi_Allow cb;
     if \<not> allowed then State_Monad.return (Inl (Sentinel ErrRedisUnavailable))
     else do {
       r \<leftarrow> ss_GetAllForUser delegate kratosID;
       if (case r of Inl err \<Rightarrow> is_infra_error (Some err) | Inr _ \<Rightarrow> False) then do {
         cbi_RecordFailure cb;
         State_Monad.return (Inl (Sentinel ErrRedisUnavailable))
       } else do {
         cbi_RecordSuccess cb;
         State_Monad.return (res_bind r (\<lambda>sessions. Inr (map copySess sessions)))
       }
     }
   }"

fun l1_delete_all :: "'w l1_cache \<Rightarrow> string list \<Rightarrow> ('w, unit) io" where
  "l1_delete_all l1 [] = State_Monad.return ()"
| "l1_delete_all l1 (sid # sids) = do { l1_Delete l1 (sessionL1Prefix @ sid); l1_delete_all l1 sids }"

definition rss_DeleteAllForUser :: "'w session_store \<Rightarrow> 'w circuit_breaker \<Rightarrow> 'w l1_cache \<Rightarrow> string \<Rightarrow> ('w, string list result) io" where
  "rss_DeleteAllForUser delegate cb l1 kratosID = do {
     allowed \<leftarrow> cbi_Allow cb;
     if \<not> allowed then State_Monad.return (Inl (Sentinel ErrRedisUnavailable))
     else do {
       r \<leftarrow> ss_DeleteAllForUser delegate kratosID;
       if (case r of Inl err \<Rightarrow> is_infra_error (Some err) | Inr _ \<Rightarrow> False) then do {
         cbi_RecordFailure cb;
         State_Monad.return (Inl (Sentinel ErrRedisUnavailable))
       } else do {
         cbi_RecordSuccess cb;
         l1_delete_all l1 (case r of Inl _ \<Rightarrow> [] | Inr ids \<Rightarrow> ids);
         State_Monad.return r
       }
     }
   }"

definition rss_AcquireRefreshLock :: "'w session_store \<Rightarrow> 'w circuit_breaker \<Rightarrow> string \<Rightarrow> int \<Rightarrow> ('w, bool result) io" where
  "rss_AcquireRefreshLock delegate cb sessionID ttl = do {
     allowed \<leftarrow> cbi_Allow cb;
     if \<not> allowed then State_Monad.return (Inr False)
     else do {
       r \<leftarrow> ss_AcquireRefreshLock delegate sessionID ttl;
       if (case r of Inl err \<Rightarrow> is_infra_error (Some err) | Inr _ \<Rightarrow> False) then do {
         cbi_RecordFailure cb;
         State_Monad.return (Inr False)
       } else do {
         cbi_RecordSuccess cb;
         State_Monad.return r
       }
     }
   }"

definition rss_ReleaseRefreshLock :: "'w session_store \<Rightarrow> 'w circuit_breaker \<Rightarrow> string \<Rightarrow> ('w, error option) io" where
  "rss_ReleaseRefreshLock delegate cb sessionID = do {
     allowed \<leftarrow> cbi_Allow cb;
     if \<not> allowed then State_Monad.return (Some (Sentinel ErrRedisUnavailable))
     else do {
       err \<leftarrow> ss_ReleaseRefreshLock delegate sessionID;
       case err of
         Some e \<Rightarrow>
           if is_infra_error (Some e) then do {
             cbi_RecordFailure cb;
             State_Monad.return (Some (Sentinel ErrRedisUnavailable))
           } else do {
             cbi_RecordSuccess cb;
             State_Monad.return (Some e)
           }
       | None \<Rightarrow> do { cbi_RecordSuccess cb; State_Monad.return None }
     }
   }"

definition NewResilientSessionStore :: "'w session_store \<Rightarrow> 'w circuit_breaker \<Rightarrow> 'w l1_cache \<Rightarrow> 'w session_store" where
  "NewResilientSessionStore delegate cb l1 = \<lparr>
     ss_Create = rss_Create delegate cb l1,
     ss_Get = rss_Get delegate cb l1,
     ss_Update = rss_Update delegate cb l1,
     ss_Delete = rss_Delete delegate cb l1,
     ss_GetAllForUser = rss_GetAllForUser delegate cb,
     ss_DeleteAllForUser = rss_DeleteAllForUser delegate cb l1,
     ss_AcquireRefreshLock = rss_AcquireRefreshLock delegate cb,
     ss_ReleaseRefreshLock = rss_ReleaseRefreshLock delegate cb\<rparr>"

lemma rss_hide_infra:
  "wp (rss_Get d cb l1 i) (\<lambda>r _. \<forall>e. r = Inl e \<longrightarrow> \<not> is_infra_error (Some e)) w"
  "wp (rss_Create d cb l1 s) (\<lambda>r _. \<not> is_infra_error r) w"
  "wp (rss_Update d cb l1 s) (\<lambda>r _. \<not> is_infra_error r) w"
  "wp (rss_Delete d cb l1 i) (\<lambda>r _. \<not> is_infra_error r) w"
  "wp (rss_GetAllForUser d cb k) (\<lambda>r _. \<forall>e. r = Inl e \<longrightarrow> \<not> is_infra_error (Some e)) w"
  "wp (rss_DeleteAllForUser d cb l1 k) (\<lambda>r _. \<forall>e. r = Inl e \<longrightarrow> \<not> is_infra_error (Some e)) w"
  "wp (rss_AcquireRefreshLock d cb i ttl) (\<lambda>r _. \<forall>e. r = Inl e \<longrightarrow> \<not> is_infra_error (Some e)) w"
  "wp (rss_ReleaseRefreshLock d cb i) (\<lambda>r _. \<not> is_infra_error r) w"
  unfolding rss_Get_def rss_Create_def rss_Update_def rss_Delete_def rss_GetAllForUser_def
    rss_DeleteAllForUser_def rss_AcquireRefreshLock_def rss_ReleaseRefreshLock_def Let_def
  by (simp_all add: wp_rules is_infra_Sentinel)
    (auto intro!: wp_any simp: is_infra_Sentinel res_bind_def split: sum.splits l1_val.splits)

section \<open>The decorator keeps the contract\<close>

definition l1_sessions_ok :: "(string \<Rightarrow> l1_val option) \<Rightarrow> bool" where
  "l1_sessions_ok c \<longleftrightarrow> (\<forall>sid v. c (sessionL1Prefix @ sid) = Some v \<longrightarrow> (\<exists>s. v = VSession s \<and> bs_SessionID s = sid))"

lemma l1_sessions_ok_upd:
  "l1_sessions_ok c \<Longrightarrow> l1_sessions_ok (c(sessionL1Prefix @ bs_SessionID s \<mapsto> VSession s))"
  "l1_sessions_ok c \<Longrightarrow> l1_sessions_ok (c(k := None))"
  by (auto simp: l1_sessions_ok_def)

definition resilient_inv :: "('w \<Rightarrow> string \<Rightarrow> l1_val option) \<Rightarrow> ('w \<Rightarrow> bool) \<Rightarrow> 'w \<Rightarrow> bool" where
  "resilient_inv content I w \<longleftrightarrow> I w \<and> l1_sessions_ok (content w)"

locale resilient_sessions =
  l1_cache l1 content rest + st: identified_store st I
  for l1 :: "'w l1_cache" and content :: "'w \<Rightarrow> string \<Rightarrow> l1_val option" and rest :: "'w \<Rightarrow> 'v"
    and st :: "'w session_store" and I :: "'w \<Rightarrow> bool" +
  fixes cb :: "'w circuit_breaker"
  assumes breaker: "breaker_keeps cb (\<lambda>w. (content w, I w))"
    and frame: "store_frame st content"
    and cache_I: "rest w' = rest w \<Longrightarrow> I w' = I w"
begin

abbreviation inv :: "'w \<Rightarrow> bool" where "inv \<equiv> resilient_inv content I"

lemmas inv_def = resilient_inv_def

lemma breaker_inv: "keeps inv (cbi_Allow cb)" "keeps inv (cbi_RecordSuccess cb)" "keeps inv (cbi_RecordFailure cb)"
    apply (rule keepsI, rule breaker_keeps_wp(1) [OF breaker], simp add: inv_def)
   apply (rule keepsI, rule breaker_keeps_wp(2) [OF breaker], simp add: inv_def)
  apply (rule keepsI, rule breaker_keeps_wp(3) [OF breaker], simp add: inv_def)
  done

lemma cache_inv:
  "keeps inv (l1_Set l1 (sessionL1Prefix @ bs_SessionID s) (VSession s) d)" "keeps inv (l1_Delete l1 k)"
  by (rule keepsI, rule set_wp, auto simp: inv_def l1_sessions_ok_upd dest: cache_I)
    (rule keepsI, rule delete_wp, auto simp: inv_def l1_sessions_ok_upd dest: cache_I)

lemma store_inv:
  assumes "keeps I m" and "same content m"
  shows "keeps inv m"
  using assms by (simp add: keeps_def same_def inv_def)

lemma delegate_inv:
  "keeps inv (ss_Create st s)" "keeps inv (ss_Get st i)" "keeps inv (ss_Update st s)" "keeps inv (ss_Delete st i)"
  "keeps inv (ss_GetAllForUser st k)" "keeps inv (ss_DeleteAllForUser st k)"
  "keeps inv (ss_AcquireRefreshLock st i t)" "keeps inv (ss_ReleaseRefreshLock st i)"
  using frame by (auto intro!: store_inv st.store_keeps simp: store_frame_def)

lemma delete_all_inv: "keeps inv (l1_delete_all l1 is)"
  by (induction "is") (auto intro: cache_inv)

lemma Get_spec:
  assumes "inv w"
  shows "wp (rss_Get st cb l1 sid) (\<lambda>r w'. inv w' \<and> (\<forall>s. r = Inr s \<longrightarrow> bs_SessionID s = sid)) w"
proof -
  let ?Q = "\<lambda>r w'. inv w' \<and> (\<forall>s. r = Inr s \<longrightarrow> bs_SessionID s = sid)"
  have get: "wp (ss_Get st sid) ?Q w1" if "inv w1" for w1
  proof -
    have "wp (ss_Get st sid) (\<lambda>r w'. I w' \<and> (\<forall>s. r = Inr s \<longrightarrow> bs_SessionID s = sid)) w1"
      using that by (intro st.Get_law) (simp add: inv_def)
    moreover have "wp (ss_Get st sid) (\<lambda>_. inv) w1"
      by (rule keepsD [OF delegate_inv(2) that])
    ultimately show ?thesis
      unfolding wp_iff by blast
  qed
  have hit: "\<exists>s. v = VSession s \<and> bs_SessionID s = sid" if "content w (sessionL1Prefix @ sid) = Some v" for v
    using that assms by (auto simp: inv_def l1_sessions_ok_def)
  have miss: "wp (do {
         allowed \<leftarrow> cbi_Allow cb;
         if \<not> allowed then State_Monad.return (Inl (Sentinel SessionErrNotFound))
         else do {
           r \<leftarrow> ss_Get st sid;
           case r of
             Inl err \<Rightarrow>
               if is_infra_error (Some err) then do {
                 cbi_RecordFailure cb;
                 State_Monad.return (Inl (Sentinel SessionErrNotFound))
               } else do {
                 cbi_RecordSuccess cb;
                 State_Monad.return (Inl err)
               }
           | Inr sess \<Rightarrow> do {
               cbi_RecordSuccess cb;
               l1_Set l1 (sessionL1Prefix @ sid) (VSession sess) DefaultExpiration;
               State_Monad.return (Inr sess)
             }
         }
       }) ?Q w1" if "inv w1" for w1
    apply (subst wp_bind)
    apply (rule keeps_wp [OF breaker_inv(1) that])
    apply (simp only: wp_rules)
    apply (rule conjI; rule impI)
     apply simp
    apply (rule wp_mono, erule get)
    apply (elim conjE)
    apply (rule conjI; intro allI impI)
     apply (rule conjI; rule impI)
      apply (erule keeps_wp [OF breaker_inv(3)], simp)
     apply (erule keeps_wp [OF breaker_inv(2)], simp)
    apply (erule keeps_wp [OF breaker_inv(2)])
    apply clarsimp
    apply (erule keeps_wp [OF cache_inv(1)], simp)
    done
  show ?thesis
    unfolding rss_Get_def Let_def
  proof (subst wp_bind, rule get_wp)
    fix r w1
    assume same: "content w1 = content w" "rest w1 = rest w"
      and r: "\<And>v. r = Some v \<Longrightarrow> content w (sessionL1Prefix @ sid) = Some v"
    have i: "inv w1"
      using assms same cache_I [OF same(2)] by (simp add: inv_def)
    show "wp (case r of
         Some val \<Rightarrow> State_Monad.return (case val of VSession s \<Rightarrow> Inr s | _ \<Rightarrow> Inl (Sentinel TypeAssertionPanic))
       | None \<Rightarrow> do {
           allowed \<leftarrow> cbi_Allow cb;
           if \<not> allowed then State_Monad.return (Inl (Sentinel SessionErrNotFound))
           else do {
             r \<leftarrow> ss_Get st sid;
             case r of
               Inl err \<Rightarrow>
                 if is_infra_error (Some err) then do {
                   cbi_RecordFailure cb;
                   State_Monad.return (Inl (Sentinel SessionErrNotFound))
                 } else do {
                   cbi_RecordSuccess cb;
                   State_Monad.return (Inl err)
                 }
             | Inr sess \<Rightarrow> do {
                 cbi_RecordSuccess cb;
                 l1_Set l1 (sessionL1Prefix @ sid) (VSession sess) DefaultExpiration;
                 State_Monad.return (Inr sess)
               }
           }
         }) ?Q w1"
    proof (cases r)
      case None
      with miss [OF i] show ?thesis by (simp only: option.case)
    next
      case (Some v)
      with hit [OF r] i show ?thesis by (auto simp: wp_return)
    qed
  qed
qed

end

sublocale resilient_sessions \<subseteq> resilient: identified_store "NewResilientSessionStore st cb l1" inv
proof
  note ops = breaker_inv cache_inv delegate_inv delete_all_inv
  show "wp (ss_Get (NewResilientSessionStore st cb l1) sid) (\<lambda>r w'. inv w' \<and> (\<forall>s. r = Inr s \<longrightarrow> bs_SessionID s = sid)) w"
    if "inv w" for w sid
    using Get_spec [OF that] by (simp add: NewResilientSessionStore_def)
  show "keeps inv (ss_Create (NewResilientSessionStore st cb l1) s)" for s
    by (auto simp: NewResilientSessionStore_def rss_Create_def intro!: keeps_bind keeps_if keeps_case_option ops)
  show "keeps inv (ss_Update (NewResilientSessionStore st cb l1) s)" for s
    by (auto simp: NewResilientSessionStore_def rss_Update_def intro!: keeps_bind keeps_if keeps_case_option ops)
  show "keeps inv (ss_Delete (NewResilientSessionStore st cb l1) sid)" for sid
    by (auto simp: NewResilientSessionStore_def rss_Delete_def intro!: keeps_bind keeps_if keeps_case_option ops)
  show "keeps inv (ss_GetAllForUser (NewResilientSessionStore st cb l1) k)" for k
    by (auto simp: NewResilientSessionStore_def rss_GetAllForUser_def intro!: keeps_bind keeps_if ops)
  show "keeps inv (ss_DeleteAllForUser (NewResilientSessionStore st cb l1) k)" for k
    by (auto simp: NewResilientSessionStore_def rss_DeleteAllForUser_def intro!: keeps_bind keeps_if ops)
  show "keeps inv (ss_AcquireRefreshLock (NewResilientSessionStore st cb l1) sid ttl)" for sid ttl
    by (auto simp: NewResilientSessionStore_def rss_AcquireRefreshLock_def intro!: keeps_bind keeps_if ops)
  show "keeps inv (ss_ReleaseRefreshLock (NewResilientSessionStore st cb l1) sid)" for sid
    by (auto simp: NewResilientSessionStore_def rss_ReleaseRefreshLock_def intro!: keeps_bind keeps_if keeps_case_option ops)
qed

context resilient_sessions begin

lemma Delete_evicts: "wp (rss_Delete st cb l1 sid) (\<lambda>_ w'. content w' (sessionL1Prefix @ sid) = None) w"
proof -
  let ?G = "\<lambda>w. content w (sessionL1Prefix @ sid) = None"
  have b: "keeps ?G (cbi_Allow cb)" "keeps ?G (cbi_RecordSuccess cb)" "keeps ?G (cbi_RecordFailure cb)"
    apply (rule keepsI, rule breaker_keeps_wp(1) [OF breaker], simp)
    apply (rule keepsI, rule breaker_keeps_wp(2) [OF breaker], simp)
    apply (rule keepsI, rule breaker_keeps_wp(3) [OF breaker], simp)
    done
  have d: "keeps ?G (ss_Delete st sid)"
    by (rule same_keeps [where P = "\<lambda>c. c (sessionL1Prefix @ sid) = None"]) (use frame in \<open>simp add: store_frame_def\<close>)
  show ?thesis
    unfolding rss_Delete_def
    apply (subst wp_bind, rule delete_wp)
    apply (rule keepsD)
     apply (auto intro!: keeps_bind keeps_if keeps_case_option b d)
    done
qed

end

section \<open>The stores of the test world\<close>

abbreviation "sim_resilient_store \<equiv> NewResilientSessionStore sim_store (NewCircuitBreaker sim_env sample_cfg) sim_l1"

interpretation sim_resilient_sessions: resilient_sessions sim_l1 sim_content sim_rest sim_store
    "\<lambda>w. sessions_identified (ext_env sim_env) text_codec (sim_db w)" "NewCircuitBreaker sim_env sample_cfg"
proof unfold_locales
  show "breaker_keeps (NewCircuitBreaker sim_env sample_cfg)
      (\<lambda>w. (sim_content w, sessions_identified (ext_env sim_env) text_codec (sim_db w)))"
    by (rule sim_breaker_keeps) (simp add: sim_content_def sim_db_def)
  show "store_frame sim_store sim_content"
    by (intro redis_store_frame sim_client_frame) (auto simp: sim_content_def env_keeps_def ext_env_def sim_env_def)
  show "sessions_identified (ext_env sim_env) text_codec (sim_db w') = sessions_identified (ext_env sim_env) text_codec (sim_db w)"
    if "sim_rest w' = sim_rest w" for w w'
  proof -
    have "sim_db w' = sim_db w"
      using arg_cong [OF that, of "\<lambda>p. sm_redis (pr_ext p)"] by (simp add: sim_rest_def sim_db_def)
    then show ?thesis by simp
  qed
qed

section \<open>Properties\<close>

text \<open>
  The resilient session store never lets a Redis infrastructure error escape: whatever
  the delegate, the breaker and the cache do, the errors its methods return are not
  infrastructure errors (they are \<open>ErrRedisUnavailable\<close>, "not found", or an error of the
  application), so a caller that inspects them never takes an outage for a bad request.
\<close>

theorem resilient_store_hides_infra_errors:
  "wp (ss_Get (NewResilientSessionStore d cb l1) i) (\<lambda>r _. \<not> is_infra_error (case r of Inl e \<Rightarrow> Some e | Inr _ \<Rightarrow> None)) w \<and>
   wp (ss_Create (NewResilientSessionStore d cb l1) s) (\<lambda>r _. \<not> is_infra_error r) w \<and>
   wp (ss_Update (NewResilientSessionStore d cb l1) s) (\<lambda>r _. \<not> is_infra_error r) w \<and>
   wp (ss_Delete (NewResilientSessionStore d cb l1) i) (\<lambda>r _. \<not> is_infra_error r) w \<and>
   wp (ss_GetAllForUser (NewResilientSessionStore d cb l1) k) (\<lambda>r _. \<not> is_infra_error (case r of Inl e \<Rightarrow> Some e | Inr _ \<Rightarrow> None)) w \<and>
   wp (ss_DeleteAllForUser (NewResilientSessionStore d cb l1) k) (\<lambda>r _. \<not> is_infra_error (case r of Inl e \<Rightarrow> Some e | Inr _ \<Rightarrow> None)) w \<and>
   wp (ss_AcquireRefreshLock (NewResilientSessionStore d cb l1) i t) (\<lambda>r _. \<not> is_infra_error (case r of Inl e \<Rightarrow> Some e | Inr _ \<Rightarrow> None)) w \<and>
   wp (ss_ReleaseRefreshLock (NewResilientSessionStore d cb l1) i) (\<lambda>r _. \<not> is_infra_error r) w"
  unfolding NewResilientSessionStore_def session_store.simps
  by (intro conjI wp_mono [OF rss_hide_infra(1)] wp_mono [OF rss_hide_infra(5)] wp_mono [OF rss_hide_infra(6)]
      wp_mono [OF rss_hide_infra(7)] rss_hide_infra) (auto split: sum.splits)

text \<open>
  Every session the resilient store hands out is the session asked for: over a store,
  a breaker and a cache that keep their contracts, \<open>Get\<close> with an identifier never returns
  a session with another one, from the cache or from Redis, and the invariant that
  guarantees it survives; in particular the cache never holds a value of another type
  under a session key.
\<close>

theorem resilient_store_get_identified:
  assumes "resilient_sessions l1 content rest st I cb" and "resilient_inv content I w"
  shows "wp (ss_Get (NewResilientSessionStore st cb l1) sid)
    (\<lambda>r w'. resilient_inv content I w' \<and> (\<forall>s. r = Inr s \<longrightarrow> bs_SessionID s = sid)) w"
  using resilient_sessions.Get_spec [OF assms] by (simp add: NewResilientSessionStore_def)

theorem resilient_store_get_identified_witness:
  "wp (ss_Get sim_resilient_store ''1'')
    (\<lambda>r w'. resilient_inv sim_content (\<lambda>w. sessions_identified (ext_env sim_env) text_codec (sim_db w)) w' \<and>
       (\<forall>s. r = Inr s \<longrightarrow> bs_SessionID s = ''1'')) sim_start"
  by (rule resilient_store_get_identified [OF sim_resilient_sessions.resilient_sessions_axioms])
    (simp add: resilient_inv_def sessions_identified_def l1_sessions_ok_def sim_start_def sim0_def sim_content_def sim_db_def)

text \<open>
  Deleting a session evicts it from the cache in every outcome, Redis unreachable or
  breaker open included: a logged-out session is never served from memory afterwards.
\<close>

theorem resilient_store_delete_evicts:
  assumes "resilient_sessions l1 content rest st I cb"
  shows "wp (ss_Delete (NewResilientSessionStore st cb l1) sid) (\<lambda>_ w'. content w' (sessionL1Prefix @ sid) = None) w"
  using resilient_sessions.Delete_evicts [OF assms] by (simp add: NewResilientSessionStore_def)

theorem resilient_store_delete_evicts_witness:
  "wp (ss_Delete sim_resilient_store ''1'') (\<lambda>_ w'. sim_content w' (sessionL1Prefix @ ''1'') = None) sim_start"
  by (rule resilient_store_delete_evicts [OF sim_resilient_sessions.resilient_sessions_axioms])

end
