(* ===== verification/Blacklist.thy ===== *)
theory Blacklist imports L1_Cache begin

text \<open>
  Session revocation: \<open>internal/blacklist/blacklist.go\<close> (the Redis blacklist) and
  \<open>internal/resilience/resilient_blacklist.go\<close> (the decorator with the in-process cache and
  the Postgres fallback).

  Proved: both are fail-closed (an error never reads as "not revoked"); a revocation written
  to Redis is seen until it expires; during an outage a revocation written to the fallback
  is seen; the background synchronisation loads every active revocation; and the two ways
  in which a revocation is lost across a change of the breaker's state.
\<close>

section \<open>RedisBlacklist\<close>

definition minBlacklistTTL :: int where "minBlacklistTTL = 60 * second"

definition blacklistKey :: "string \<Rightarrow> string" where "blacklistKey sessionID = ''bff:blacklist:'' @ sessionID"

lemma blacklistKey_inject [simp]: "blacklistKey a = blacklistKey b \<longleftrightarrow> a = b"
  by (simp add: blacklistKey_def)

definition rb_Add :: "('d, 'w) redis_client \<Rightarrow> string \<Rightarrow> int \<Rightarrow> ('w, error option) io" where
  "rb_Add rdb sessionID ttl = do {
     let ttl = (if ttl \<le> 0 then minBlacklistTTL else ttl);
     r \<leftarrow> rc_do rdb (CSet (blacklistKey sessionID) ''1'' ttl);
     State_Monad.return (map_option (\<lambda>err. Errorf ''blacklist: add'' [err]) (cmd_err r))
   }"

definition rb_IsBlacklisted :: "('d, 'w) redis_client \<Rightarrow> string \<Rightarrow> ('w, bool \<times> error option) io" where
  "rb_IsBlacklisted rdb sessionID = do {
     r \<leftarrow> rc_do rdb (CExists (blacklistKey sessionID));
     State_Monad.return (case int_of_reply r of
        Inl err \<Rightarrow> (True, Some (Errorf ''blacklist: check'' [err]))
      | Inr n \<Rightarrow> (n > 0, None))
   }"

definition rb_AddBatch :: "('d, 'w) redis_client \<Rightarrow> string list \<Rightarrow> int \<Rightarrow> ('w, error option) io" where
  "rb_AddBatch rdb sessionIDs ttl =
     (if length sessionIDs = 0 \<or> ttl \<le> 0 then State_Monad.return None
      else do {
        r \<leftarrow> rc_tx rdb (map (\<lambda>id. CSet (blacklistKey id) ''1'' ttl) sessionIDs);
        State_Monad.return (map_option (\<lambda>err. Errorf ''blacklist: batch add'' [err]) (snd r))
      })"

definition NewRedisBlacklist :: "('d, 'w) redis_client \<Rightarrow> 'w blacklist" where
  "NewRedisBlacklist rdb = \<lparr>bl_Add = rb_Add rdb, bl_IsBlacklisted = rb_IsBlacklisted rdb, bl_AddBatch = rb_AddBatch rdb\<rparr>"

section \<open>ResilientBlacklist\<close>

text \<open>The lookup when Redis is not consulted or has just failed: cache, then Postgres.\<close>

definition rbl_fallback :: "'w l1_cache \<Rightarrow> 'w blacklist_pg \<Rightarrow> string \<Rightarrow> ('w, bool \<times> error option) io" where
  "rbl_fallback l1 pgRepo sessionID = do {
     v \<leftarrow> l1_Get l1 sessionID;
     case v of
       Some val \<Rightarrow> State_Monad.return (case val of VBool b \<Rightarrow> (b, None) | _ \<Rightarrow> (True, Some (Sentinel TypeAssertionPanic)))
     | None \<Rightarrow> do {
         r \<leftarrow> bp_IsBlacklisted pgRepo sessionID;
         case snd r of
           Some err \<Rightarrow> State_Monad.return (True, Some (Errorf ''blacklist: pg fallback is_blacklisted'' [err]))
         | None \<Rightarrow> do {
             l1_Set l1 sessionID (VBool (fst r)) DefaultExpiration;
             State_Monad.return (fst r, None)
           }
       }
   }"

definition rbl_IsBlacklisted ::
    "'w blacklist \<Rightarrow> 'w circuit_breaker \<Rightarrow> 'w l1_cache \<Rightarrow> 'w blacklist_pg \<Rightarrow> string \<Rightarrow> ('w, bool \<times> error option) io" where
  "rbl_IsBlacklisted delegate cb l1 pgRepo sessionID = do {
     allowed \<leftarrow> cbi_Allow cb;
     if allowed then do {
       r \<leftarrow> bl_IsBlacklisted delegate sessionID;
       if is_infra_error (snd r) then do {
         cbi_RecordFailure cb;
         rbl_fallback l1 pgRepo sessionID
       } else do {
         cbi_RecordSuccess cb;
         l1_Set l1 sessionID (VBool (fst r)) DefaultExpiration;
         State_Monad.return r
       }
     } else rbl_fallback l1 pgRepo sessionID
   }"

definition rbl_add_fallback :: "'w go_env \<Rightarrow> 'w l1_cache \<Rightarrow> 'w blacklist_pg \<Rightarrow> string \<Rightarrow> int \<Rightarrow> ('w, error option) io" where
  "rbl_add_fallback E l1 pgRepo sessionID ttl = do {
     now \<leftarrow> env_now E;
     let expiresAt = now + ttl;
     pgErr \<leftarrow> bp_Add pgRepo sessionID expiresAt;
     case pgErr of
       Some e \<Rightarrow> State_Monad.return (Some (Errorf ''blacklist: pg fallback add'' [e]))
     | None \<Rightarrow> do {
         l1_Set l1 sessionID (VBool True) ttl;
         State_Monad.return (Some (Sentinel ErrRedisUnavailable))
       }
   }"

definition rbl_Add ::
    "'w go_env \<Rightarrow> 'w blacklist \<Rightarrow> 'w circuit_breaker \<Rightarrow> 'w l1_cache \<Rightarrow> 'w blacklist_pg \<Rightarrow> string \<Rightarrow> int \<Rightarrow> ('w, error option) io" where
  "rbl_Add E delegate cb l1 pgRepo sessionID ttl = do {
     allowed \<leftarrow> cbi_Allow cb;
     if allowed then do {
       err \<leftarrow> bl_Add delegate sessionID ttl;
       if is_infra_error err then do {
         cbi_RecordFailure cb;
         rbl_add_fallback E l1 pgRepo sessionID ttl
       } else do {
         cbi_RecordSuccess cb;
         (if err = None then l1_Set l1 sessionID (VBool True) ttl else State_Monad.return ());
         State_Monad.return err
       }
     } else rbl_add_fallback E l1 pgRepo sessionID ttl
   }"

fun l1_set_all :: "'w l1_cache \<Rightarrow> int \<Rightarrow> string list \<Rightarrow> ('w, unit) io" where
  "l1_set_all l1 ttl [] = State_Monad.return ()"
| "l1_set_all l1 ttl (sid # sids) = do { l1_Set l1 sid (VBool True) ttl; l1_set_all l1 ttl sids }"

fun rbl_batch_loop :: "'w l1_cache \<Rightarrow> 'w blacklist_pg \<Rightarrow> int \<Rightarrow> int \<Rightarrow> string list \<Rightarrow> ('w, error option) io" where
  "rbl_batch_loop l1 pgRepo expiresAt ttl [] = State_Monad.return (Some (Sentinel ErrRedisUnavailable))"
| "rbl_batch_loop l1 pgRepo expiresAt ttl (sid # sids) = do {
     pgErr \<leftarrow> bp_Add pgRepo sid expiresAt;
     case pgErr of
       Some e \<Rightarrow> State_Monad.return (Some (Errorf ''blacklist: pg fallback add_batch'' [e]))
     | None \<Rightarrow> do {
         l1_Set l1 sid (VBool True) ttl;
         rbl_batch_loop l1 pgRepo expiresAt ttl sids
       }
   }"

definition rbl_batch_fallback :: "'w go_env \<Rightarrow> 'w l1_cache \<Rightarrow> 'w blacklist_pg \<Rightarrow> string list \<Rightarrow> int \<Rightarrow> ('w, error option) io" where
  "rbl_batch_fallback E l1 pgRepo sessionIDs ttl = do {
     now \<leftarrow> env_now E;
     rbl_batch_loop l1 pgRepo (now + ttl) ttl sessionIDs
   }"

definition rbl_AddBatch ::
    "'w go_env \<Rightarrow> 'w blacklist \<Rightarrow> 'w circuit_breaker \<Rightarrow> 'w l1_cache \<Rightarrow> 'w blacklist_pg \<Rightarrow> string list \<Rightarrow> int \<Rightarrow> ('w, error option) io" where
  "rbl_AddBatch E delegate cb l1 pgRepo sessionIDs ttl =
     (if length sessionIDs = 0 then State_Monad.return None
      else do {
        allowed \<leftarrow> cbi_Allow cb;
        if allowed then do {
          err \<leftarrow> bl_AddBatch delegate sessionIDs ttl;
          if is_infra_error err then do {
            cbi_RecordFailure cb;
            rbl_batch_fallback E l1 pgRepo sessionIDs ttl
          } else do {
            cbi_RecordSuccess cb;
            (if err = None then l1_set_all l1 ttl sessionIDs else State_Monad.return ());
            State_Monad.return err
          }
        } else rbl_batch_fallback E l1 pgRepo sessionIDs ttl
      })"

definition NewResilientBlacklist ::
    "'w go_env \<Rightarrow> 'w blacklist \<Rightarrow> 'w circuit_breaker \<Rightarrow> 'w l1_cache \<Rightarrow> 'w blacklist_pg \<Rightarrow> 'w blacklist" where
  "NewResilientBlacklist E delegate cb l1 pgRepo = \<lparr>
     bl_Add = rbl_Add E delegate cb l1 pgRepo,
     bl_IsBlacklisted = rbl_IsBlacklisted delegate cb l1 pgRepo,
     bl_AddBatch = rbl_AddBatch E delegate cb l1 pgRepo\<rparr>"

text \<open>\<open>syncFromPG\<close>, and one tick of the background goroutine: it runs only while OPEN.\<close>

fun sync_loop :: "'w l1_cache \<Rightarrow> int \<Rightarrow> blacklist_entry list \<Rightarrow> ('w, unit) io" where
  "sync_loop l1 now [] = State_Monad.return ()"
| "sync_loop l1 now (e # es) = do {
     let ttl = time_sub (en_ExpiresAt e) now;
     (if ttl \<le> 0 then State_Monad.return () else l1_Set l1 (en_SessionID e) (VBool True) ttl);
     sync_loop l1 now es
   }"

definition syncFromPG :: "'w go_env \<Rightarrow> 'w l1_cache \<Rightarrow> 'w blacklist_pg \<Rightarrow> ('w, unit) io" where
  "syncFromPG E l1 pgRepo = do {
     r \<leftarrow> bp_ListActive pgRepo;
     case r of
       Inl err \<Rightarrow> State_Monad.return ()
     | Inr entries \<Rightarrow> do { now \<leftarrow> env_now E; sync_loop l1 now entries }
   }"

definition background_sync_tick :: "'w go_env \<Rightarrow> 'w circuit_breaker \<Rightarrow> 'w l1_cache \<Rightarrow> 'w blacklist_pg \<Rightarrow> ('w, unit) io" where
  "background_sync_tick E cb l1 pgRepo = do {
     st \<leftarrow> cbi_State cb;
     if st = StateOpen then syncFromPG E l1 pgRepo else State_Monad.return ()
   }"

section \<open>Fail-closed\<close>

text \<open>
  The contract of \<open>Blacklist.IsBlacklisted\<close>: an error comes with the answer "revoked".
\<close>

locale fail_closed =
  fixes bl :: "'w blacklist"
  assumes closed: "wp (bl_IsBlacklisted bl s) (\<lambda>r _. snd r \<noteq> None \<longrightarrow> fst r) w"

lemma redis_fail_closed: "fail_closed (NewRedisBlacklist rc)"
  by unfold_locales
    (auto simp: NewRedisBlacklist_def rb_IsBlacklisted_def wp_rules intro!: wp_any split: sum.splits)

interpretation redis_bl: fail_closed "NewRedisBlacklist rc" for rc :: "('d, 'w) redis_client"
  by (rule redis_fail_closed)

lemma fallback_closed: "wp (rbl_fallback l1 pgRepo s) (\<lambda>r _. snd r \<noteq> None \<longrightarrow> fst r) w"
  unfolding rbl_fallback_def
  by (auto simp: wp_rules intro!: wp_any split: l1_val.splits)

context fail_closed begin

lemma resilient_closed:
  "wp (rbl_IsBlacklisted bl cb l1 pgRepo s) (\<lambda>r _. snd r \<noteq> None \<longrightarrow> fst r) w"
proof -
  let ?Q = "\<lambda>(r :: bool \<times> error option) _. snd r \<noteq> None \<longrightarrow> fst r"
  have fallback: "wp (rbl_fallback l1 pgRepo s) ?Q = (\<lambda>_. True)"
    by (rule HOL.ext, rule eqTrueI, rule fallback_closed)
  have "wp (bl_IsBlacklisted bl s) (\<lambda>r. wp (if is_infra_error (snd r)
      then do { cbi_RecordFailure cb; rbl_fallback l1 pgRepo s }
      else do { cbi_RecordSuccess cb; l1_Set l1 s (VBool (fst r)) DefaultExpiration; State_Monad.return r }) ?Q) w" for w
  proof (rule wp_mono [OF closed])
    fix r :: "bool \<times> error option" and w'
    assume "snd r \<noteq> None \<longrightarrow> fst r"
    then show "wp (if is_infra_error (snd r)
      then do { cbi_RecordFailure cb; rbl_fallback l1 pgRepo s }
      else do { cbi_RecordSuccess cb; l1_Set l1 s (VBool (fst r)) DefaultExpiration; State_Monad.return r }) ?Q w'"
      by (simp only: wp_rules fallback) (auto intro!: wp_any)
  qed
  note main = this
  show ?thesis
    unfolding rbl_IsBlacklisted_def
    by (subst wp_bind, rule wp_any, subst wp_if, subst wp_bind) (simp only: fallback main simp_thms)
qed

end

locale resilient_blacklist = delegate: fail_closed bl
  for bl :: "'w blacklist" +
  fixes E :: "'w go_env" and cb :: "'w circuit_breaker" and l1 :: "'w l1_cache" and pgRepo :: "'w blacklist_pg"

sublocale resilient_blacklist \<subseteq> resilient: fail_closed "NewResilientBlacklist E bl cb l1 pgRepo"
  by unfold_locales (use delegate.resilient_closed in \<open>simp add: NewResilientBlacklist_def\<close>)

abbreviation "sim_blacklist \<equiv> NewResilientBlacklist (ext_env sim_env) (NewRedisBlacklist sim_redis)
  (NewCircuitBreaker sim_env sample_cfg) sim_l1 (NewPostgresBlacklistRepository sim_pool)"

interpretation sim_bl: resilient_blacklist "NewRedisBlacklist sim_redis" "ext_env sim_env"
    "NewCircuitBreaker sim_env sample_cfg" sim_l1 "NewPostgresBlacklistRepository sim_pool"
  by unfold_locales

section \<open>The Redis blacklist\<close>

definition effective_ttl :: "int \<Rightarrow> int" where
  "effective_ttl ttl = (if ttl \<le> 0 then minBlacklistTTL else ttl)"

lemma effective_ttl_pos: "0 < effective_ttl ttl"
  by (simp add: effective_ttl_def minBlacklistTTL_def second_def)

lemma redis_step_Set_ok:
  assumes "redis_step now (CSet k v dur) d (Inr x) d'"
  shows "d' = d(k \<mapsto> (VStr v, set_deadline now dur (db_deadline now d k)))"
  using assms by (auto simp: redis_step_def lost_def)

context redis begin

lemma rb_IsBlacklisted_spec:
  "wp (rb_IsBlacklisted rc s) (\<lambda>r w'. rdb w' = rdb w \<and> rnow w \<le> rnow w' \<and>
     (snd r = None \<longrightarrow> fst r = (db_get (rnow w) (rdb w) (blacklistKey s) \<noteq> None)) \<and>
     (snd r \<noteq> None \<longrightarrow> fst r)) w"
  unfolding rb_IsBlacklisted_def wp_rules
  by (rule do_wp) (auto simp: redis_step_def lost_def reply_defs split: if_splits)

lemma rb_Add_spec:
  "wp (rb_Add rc s ttl) (\<lambda>err w'. rnow w \<le> rnow w' \<and> (err = None \<longrightarrow>
     (\<exists>d. rdb w' (blacklistKey s) = Some (VStr ''1'', Some d) \<and> rnow w + effective_ttl ttl - millisecond < d))) w"
  unfolding rb_Add_def Let_def wp_rules effective_ttl_def [symmetric]
proof (rule do_wp, intro conjI impI)
  fix r w'
  assume "redis_step (rnow w) (CSet (blacklistKey s) ''1'' (effective_ttl ttl)) (rdb w) r (rdb w')"
    and "map_option (\<lambda>err. Errorf ''blacklist: add'' [err]) (cmd_err r) = None"
  then have "rdb w' (blacklistKey s) = Some (VStr ''1'', set_deadline (rnow w) (effective_ttl ttl) (db_deadline (rnow w) (rdb w) (blacklistKey s)))"
    by (cases r) (auto dest!: redis_step_Set_ok)
  then show "\<exists>d. rdb w' (blacklistKey s) = Some (VStr ''1'', Some d) \<and> rnow w + effective_ttl ttl - millisecond < d"
    using set_deadline_late [OF effective_ttl_pos] by metis
qed

lemma rb_add_then_check:
  "wp (do { err \<leftarrow> rb_Add rc s ttl; r \<leftarrow> rb_IsBlacklisted rc s; State_Monad.return (err, r) })
     (\<lambda>(err, r) w'. err = None \<longrightarrow> fst r \<or> rnow w + effective_ttl ttl - millisecond < rnow w') w"
  unfolding wp_rules
  apply (rule wp_mono [OF rb_Add_spec])
  apply (rule wp_mono [OF rb_IsBlacklisted_spec])
  apply (auto simp: wp_rules db_get_def live_def split: if_splits)
  done

end

section \<open>The fallback during an outage\<close>

lemma upsert_blacklisted_has: "\<exists>t'. (s, t') \<in> set (upsert_blacklisted s t rs) \<and> t \<le> t'"
  by (induction s t rs rule: upsert_blacklisted.induct) auto

locale blacklist_fallback =
  l1_cache l1 content rest + postgres pool pdb pnow
  for l1 :: "'w l1_cache" and content :: "'w \<Rightarrow> string \<Rightarrow> l1_val option" and rest :: "'w \<Rightarrow> 'v"
    and pool :: "'w pg_pool" and pdb :: "'w \<Rightarrow> pg_db" and pnow :: "'w \<Rightarrow> int" +
  fixes E :: "'w go_env"
  assumes rest_pdb: "rest w' = rest w \<Longrightarrow> pdb w' = pdb w \<and> pnow w' = pnow w"
    and pool_content: "same content (pg_Exec pool st)" "same content (pg_Query pool q)"
    and pool_clock: "wp (pg_Query pool q) (\<lambda>_ w'. pnow w \<le> pnow w') w"
    and env: "env_keeps E (\<lambda>w. (content w, pdb w))"
begin

lemma add_fallback_spec:
  "wp (rbl_add_fallback E l1 blacklist_repo s ttl) (\<lambda>err w'. err = Some (Sentinel ErrRedisUnavailable) \<longrightarrow>
     content w' s = Some (VBool True) \<and>
     (\<exists>now t. clock_reading E now \<and> (s, t) \<in> set (pg_blacklisted (pdb w')) \<and> pg_time (now + ttl) \<le> t)) w"
  (is "wp _ (\<lambda>err w'. err = _ \<longrightarrow> ?G w') w")
proof -
  have store: "wp (l1_Set l1 s (VBool True) ttl) (\<lambda>_. ?G) w2"
    if now: "clock_reading E now" and row: "(s, t) \<in> set (pg_blacklisted (pdb w2))" "pg_time (now + ttl) \<le> t" for now t w2
  proof (rule set_wp)
    fix w3
    assume "content w3 = (content w2)(s \<mapsto> VBool True)" "rest w3 = rest w2"
    with rest_pdb [of w3 w2] now row show "?G w3" by auto
  qed
  have add: "wp (bp_Add blacklist_repo s (now + ttl)) (\<lambda>err w2. err = None \<longrightarrow> wp (l1_Set l1 s (VBool True) ttl) (\<lambda>_. ?G) w2) w1"
    if now: "clock_reading E now" for now w1
  proof (rule wp_mono [OF bp_Add_spec], rule impI)
    fix err w2
    assume a: "(err = None \<longrightarrow> pg_blacklisted (pdb w2) = upsert_blacklisted s (pg_time (now + ttl)) (pg_blacklisted (pdb w1))) \<and>
        pg_blacklisted (pdb w2) \<in> {pg_blacklisted (pdb w1), upsert_blacklisted s (pg_time (now + ttl)) (pg_blacklisted (pdb w1))}"
      and "err = None"
    then obtain t where "(s, t) \<in> set (pg_blacklisted (pdb w2))" "pg_time (now + ttl) \<le> t"
      using upsert_blacklisted_has [of s "pg_time (now + ttl)"] by metis
    then show "wp (l1_Set l1 s (VBool True) ttl) (\<lambda>_. ?G) w2"
      by (rule store [OF now])
  qed
  show ?thesis
    unfolding rbl_add_fallback_def Let_def
  proof (subst wp_bind, rule wpI)
    fix now w1
    assume "run_state (env_now E) w = (now, w1)"
    then show "wp (do { pgErr \<leftarrow> bp_Add blacklist_repo s (now + ttl);
          case pgErr of Some e \<Rightarrow> State_Monad.return (Some (Errorf ''blacklist: pg fallback add'' [e]))
          | None \<Rightarrow> do { l1_Set l1 s (VBool True) ttl; State_Monad.return (Some (Sentinel ErrRedisUnavailable)) } })
        (\<lambda>err w'. err = Some (Sentinel ErrRedisUnavailable) \<longrightarrow> ?G w') w1"
      by (subst wp_bind, intro wp_mono [OF add [OF clock_readingI]])
        (auto simp: wp_return wp_bind split: option.split)
  qed
qed

lemma fallback_spec:
  assumes "content w s \<noteq> Some (VBool False)"
  shows "wp (rbl_fallback l1 blacklist_repo s) (\<lambda>r w'. fst r \<or>
     (\<forall>t. (s, t) \<in> set (pg_blacklisted (pdb w)) \<longrightarrow> t \<le> pg_time (pnow w'))) w" (is "wp _ ?Q w")
proof -
  have store: "wp (l1_Set l1 s v d) (\<lambda>_. ?Q r) w2" if "?Q r w2" for r w2 v d
  proof (rule set_wp)
    fix w3
    assume "rest w3 = rest w2"
    with rest_pdb [of w3 w2] that show "?Q r w3" by auto
  qed
  have query: "wp (bp_IsBlacklisted blacklist_repo s) (\<lambda>r w2. snd r = None \<longrightarrow> ?Q (fst r, None) w2) w1"
    if "pdb w1 = pdb w" for w1
  proof -
    have "wp (pg_Query pool (ExistsBlacklisted s)) (\<lambda>r w2. (\<forall>b. scan_bool r = Inr b \<longrightarrow> ?Q (b, None) w2)) w1"
    proof (rule wp_mono [OF wp_conj [OF query_law [of "ExistsBlacklisted s" w1] pool_clock [of "ExistsBlacklisted s" w1]]],
        intro allI impI)
      fix r w2 b
      assume a: "(pdb w2 = pdb w1 \<and> ((\<exists>e. r = Inl e) \<or> r = Inr (pg_answer (pnow w1) (ExistsBlacklisted s) (pdb w1)))) \<and> pnow w1 \<le> pnow w2"
        and b: "scan_bool r = Inr b"
      have "b = (\<exists>r\<in>set (pg_blacklisted (pdb w)). fst r = s \<and> pg_time (pnow w1) < snd r)"
        using a b that by (fastforce simp: scan_bool_def)
      moreover have "pg_time (pnow w1) \<le> pg_time (pnow w2)"
        using a by (simp add: pg_time_mono)
      ultimately show "?Q (b, None) w2"
        by (cases b) (simp, metis fst_conv not_le order_trans snd_conv)
    qed
    then show ?thesis
      unfolding NewPostgresBlacklistRepository_def
      by (simp add: wp_rules) (erule wp_mono, auto split: sum.splits)
  qed
  show ?thesis
    unfolding rbl_fallback_def
  proof (subst wp_bind, rule get_wp)
    fix v w1
    assume v: "rest w1 = rest w" "\<And>x. v = Some x \<Longrightarrow> content w s = Some x"
    show "wp (case v of
       Some val \<Rightarrow> State_Monad.return (case val of VBool b \<Rightarrow> (b, None) | _ \<Rightarrow> (True, Some (Sentinel TypeAssertionPanic)))
     | None \<Rightarrow> do {
         r \<leftarrow> bp_IsBlacklisted blacklist_repo s;
         case snd r of
           Some err \<Rightarrow> State_Monad.return (True, Some (Errorf ''blacklist: pg fallback is_blacklisted'' [err]))
         | None \<Rightarrow> do {
             l1_Set l1 s (VBool (fst r)) DefaultExpiration;
             State_Monad.return (fst r, None)
           }
       }) ?Q w1"
    proof (cases v)
      case None
      then show ?thesis
        using rest_pdb [OF v(1)]
        by (simp only: option.case wp_bind, intro wp_mono [OF query])
          (auto simp: wp_return wp_bind split: option.split intro!: store)
    next
      case (Some x)
      with v(2) assms show ?thesis by (auto simp: wp_return split: l1_val.split)
    qed
  qed
qed

lemma add_then_check:
  "wp (do { err \<leftarrow> rbl_add_fallback E l1 blacklist_repo s ttl; r \<leftarrow> rbl_fallback l1 blacklist_repo s; State_Monad.return (err, r) })
     (\<lambda>(err, r) w'. err = Some (Sentinel ErrRedisUnavailable) \<longrightarrow>
        fst r \<or> (\<exists>now. clock_reading E now \<and> pg_time (now + ttl) \<le> pg_time (pnow w'))) w"
proof (subst wp_bind, rule wp_mono [OF add_fallback_spec], subst wp_bind)
  fix err w1
  assume a: "err = Some (Sentinel ErrRedisUnavailable) \<longrightarrow> content w1 s = Some (VBool True) \<and>
     (\<exists>now t. clock_reading E now \<and> (s, t) \<in> set (pg_blacklisted (pdb w1)) \<and> pg_time (now + ttl) \<le> t)"
  show "wp (rbl_fallback l1 blacklist_repo s) (\<lambda>r. wp (State_Monad.return (err, r))
     (\<lambda>(err, r) w'. err = Some (Sentinel ErrRedisUnavailable) \<longrightarrow>
        fst r \<or> (\<exists>now. clock_reading E now \<and> pg_time (now + ttl) \<le> pg_time (pnow w')))) w1"
  proof (cases "err = Some (Sentinel ErrRedisUnavailable)")
    case True
    with a have "content w1 s \<noteq> Some (VBool False)" by simp
    from fallback_spec [OF this] show ?thesis
      by (rule wp_mono) (use a in \<open>auto simp: wp_return intro: order_trans\<close>)
  qed (auto simp: wp_return intro!: wp_any)
qed

end

context l1_cache begin

text \<open>The synchronisation loads every entry that has not expired, and nothing else.\<close>

lemma sync_loop_spec:
  "wp (sync_loop l1 now es) (\<lambda>_ w'. rest w' = rest w \<and>
     (\<forall>k. content w' k = (if \<exists>e\<in>set es. en_SessionID e = k \<and> now < en_ExpiresAt e then Some (VBool True) else content w k))) w"
proof (induction es arbitrary: w)
  case Nil
  then show ?case by (simp add: wp_rules)
next
  case (Cons e es)
  have ttl: "time_sub (en_ExpiresAt e) now \<le> 0 \<longleftrightarrow> \<not> now < en_ExpiresAt e"
    using time_sub_pos_iff [of "en_ExpiresAt e" now] by linarith
  show ?case
  proof (cases "now < en_ExpiresAt e")
    case False
    then show ?thesis
      by (simp add: Let_def wp_rules ttl) (rule wp_mono [OF Cons.IH], auto)
  next
    case True
    show ?thesis
      unfolding sync_loop.simps Let_def ttl
      apply (subst wp_bind)
      apply (simp add: True)
      apply (rule set_wp)
      apply (rule wp_mono [OF Cons.IH])
      apply (auto simp: True)
      done
  qed
qed

end

context blacklist_fallback begin

lemma syncFromPG_spec:
  "wp (syncFromPG E l1 blacklist_repo) (\<lambda>_ w'. content w' = content w \<or>
     (\<exists>now. clock_reading E now \<and> (\<forall>k. content w' k =
        (if \<exists>t. (k, t) \<in> set (pg_blacklisted (pdb w)) \<and> pg_time (pnow w) < t \<and> now < t then Some (VBool True) else content w k)))) w"
  (is "wp _ (\<lambda>_. ?Q) w")
proof -
  let ?es = "map (\<lambda>r. \<lparr>en_SessionID = fst r, en_ExpiresAt = snd r\<rparr>)
       (sort_key snd (filter (\<lambda>r. pg_time (pnow w) < snd r) (pg_blacklisted (pdb w))))"
  have list: "wp (bp_ListActive blacklist_repo) (\<lambda>r w1. content w1 = content w \<and> ((\<exists>e. r = Inl e) \<or> r = Inr ?es)) w"
  proof -
    have "wp (pg_Query pool ActiveBlacklisted) (\<lambda>r w1. content w1 = content w \<and> ((\<exists>e. r = Inl e) \<or> r = Inr (RowsEntries ?es))) w"
      by (rule wp_mono [OF wp_conj [OF query_law same_wp [OF pool_content(2), where Q = "\<lambda>_ w1. content w1 = content w"]]]) auto
    then show ?thesis
      unfolding NewPostgresBlacklistRepository_def
      by (simp add: wp_rules) (erule wp_mono, auto)
  qed
  have e: "(\<exists>e\<in>set ?es. en_SessionID e = k \<and> now < en_ExpiresAt e) \<longleftrightarrow>
      (\<exists>t. (k, t) \<in> set (pg_blacklisted (pdb w)) \<and> pg_time (pnow w) < t \<and> now < t)" for k now
    by force
  have load: "wp (do { now \<leftarrow> env_now E; sync_loop l1 now ?es }) (\<lambda>_. ?Q) w1" if "content w1 = content w" for w1
    unfolding wp_bind
  proof (rule wpI)
    fix now w2
    assume now: "run_state (env_now E) w1 = (now, w2)"
    have "content w2 = content w"
      using env now that unfolding env_keeps_def by (metis fst_conv snd_conv)
    then show "wp (sync_loop l1 now ?es) (\<lambda>_. ?Q) w2"
      using clock_readingI [OF now]
      by (intro wp_mono [OF sync_loop_spec]) (auto simp only: e)
  qed
  show ?thesis
    unfolding syncFromPG_def
  proof (subst wp_bind, rule wp_mono [OF list])
    fix r w1
    assume "content w1 = content w \<and> ((\<exists>e. r = Inl e) \<or> r = Inr ?es)"
    then show "wp (case r of Inl err \<Rightarrow> State_Monad.return ()
        | Inr entries \<Rightarrow> do { now \<leftarrow> env_now E; sync_loop l1 now entries }) (\<lambda>_. ?Q) w1"
      using load [of w1] by (elim conjE disjE exE) (simp_all only: sum.case wp_return simp_thms)
  qed
qed

end

lemma sim_fallback: "blacklist_fallback sim_l1 sim_content sim_rest sim_pool sim_tables sim_clock (ext_env sim_env)"
proof unfold_locales
  show "sim_tables w' = sim_tables w \<and> sim_clock w' = sim_clock w" if "sim_rest w' = sim_rest w" for w w'
    using arg_cong [OF that, of "\<lambda>p. sm_pg (pr_ext p)"] arg_cong [OF that, of "\<lambda>p. sm_now (pr_ext p)"]
    by (simp add: sim_rest_def sim_tables_def sim_clock_def)
  show "same sim_content (pg_Exec sim_pool st)" "same sim_content (pg_Query sim_pool q)" for st q
    by (auto simp: same_def sim_pool_def sim_content_def)
  show "wp (pg_Query sim_pool q) (\<lambda>_ w'. sim_clock w \<le> sim_clock w') w" for q w
    by (auto intro!: wpI simp: sim_pool_def sim_clock_def)
  show "env_keeps (ext_env sim_env) (\<lambda>w. (sim_content w, sim_tables w))"
    by (simp add: env_keeps_def sim_env_simps sim_content_def sim_tables_def)
qed

interpretation sim_fb: blacklist_fallback sim_l1 sim_content sim_rest sim_pool sim_tables sim_clock "ext_env sim_env"
  by (rule sim_fallback)

section \<open>Properties\<close>



text \<open>
  A revocation that \<open>Add\<close> acknowledged is seen: the next \<open>IsBlacklisted\<close> answers "revoked"
  unless the entry's time to live, at least a minute even for a session already expired,
  has passed.
\<close>

theorem redis_blacklist_add_then_check:
  assumes "redis rc rdb rnow"
  shows "wp (do { err \<leftarrow> rb_Add rc s ttl; r \<leftarrow> rb_IsBlacklisted rc s; State_Monad.return (err, r) })
     (\<lambda>(err, r) w'. err = None \<longrightarrow> fst r \<or> rnow w + effective_ttl ttl - millisecond < rnow w') w"
  by (rule redis.rb_add_then_check [OF assms])

theorem redis_blacklist_add_then_check_witness:
  "wp (do { err \<leftarrow> rb_Add sim_redis ''s'' 0; r \<leftarrow> rb_IsBlacklisted sim_redis ''s''; State_Monad.return (err, r) })
     (\<lambda>(err, r) w'. err = None \<longrightarrow> fst r \<or> sim_clock sim_start + effective_ttl 0 - millisecond < sim_clock w') sim_start"
  by (rule redis_blacklist_add_then_check [OF sim_redis.redis_axioms])

text \<open>
  During an outage a revocation takes effect: when the fallback path of \<open>Add\<close> reports
  \<open>ErrRedisUnavailable\<close> (which its callers treat as success), the fallback path of
  \<open>IsBlacklisted\<close> answers "revoked", from the cache or from Postgres, until the session's
  own expiry, to the microsecond Postgres stores.
\<close>

theorem outage_revocation_effective:
  assumes "blacklist_fallback l1 content rest pool pdb pnow E"
  shows "wp (do { err \<leftarrow> rbl_add_fallback E l1 (NewPostgresBlacklistRepository pool) s ttl;
         r \<leftarrow> rbl_fallback l1 (NewPostgresBlacklistRepository pool) s; State_Monad.return (err, r) })
     (\<lambda>(err, r) w'. err = Some (Sentinel ErrRedisUnavailable) \<longrightarrow>
        fst r \<or> (\<exists>now. clock_reading E now \<and> pg_time (now + ttl) \<le> pg_time (pnow w'))) w"
  by (rule blacklist_fallback.add_then_check [OF assms])

theorem outage_revocation_effective_witness:
  "wp (do { err \<leftarrow> rbl_add_fallback (ext_env sim_env) sim_l1 (NewPostgresBlacklistRepository sim_pool) ''s'' hour;
         r \<leftarrow> rbl_fallback sim_l1 (NewPostgresBlacklistRepository sim_pool) ''s''; State_Monad.return (err, r) })
     (\<lambda>(err, r) w'. err = Some (Sentinel ErrRedisUnavailable) \<longrightarrow>
        fst r \<or> (\<exists>now. clock_reading (ext_env sim_env) now \<and> pg_time (now + hour) \<le> pg_time (sim_clock w'))) sim_start"
  by (rule outage_revocation_effective [OF sim_fallback])

text \<open>
  The background synchronisation loads exactly the active revocations: unless the query
  fails, afterwards the cache answers "revoked" for every row of \<open>blacklisted_sessions\<close>
  that has not expired, and is otherwise unchanged.
\<close>

theorem background_sync_loads_active:
  assumes "blacklist_fallback l1 content rest pool pdb pnow E"
  shows "wp (syncFromPG E l1 (NewPostgresBlacklistRepository pool)) (\<lambda>_ w'. content w' = content w \<or>
     (\<exists>now. clock_reading E now \<and> (\<forall>k. content w' k =
        (if \<exists>t. (k, t) \<in> set (pg_blacklisted (pdb w)) \<and> pg_time (pnow w) < t \<and> now < t then Some (VBool True) else content w k)))) w"
  by (rule blacklist_fallback.syncFromPG_spec [OF assms])

theorem background_sync_loads_active_witness:
  "wp (syncFromPG (ext_env sim_env) sim_l1 (NewPostgresBlacklistRepository sim_pool)) (\<lambda>_ w'. sim_content w' = sim_content sim_start \<or>
     (\<exists>now. clock_reading (ext_env sim_env) now \<and> (\<forall>k. sim_content w' k =
        (if \<exists>t. (k, t) \<in> set (pg_blacklisted (sim_tables sim_start)) \<and> pg_time (sim_clock sim_start) < t \<and> now < t
         then Some (VBool True) else sim_content sim_start k)))) sim_start"
  by (rule background_sync_loads_active [OF sim_fallback])


text \<open>
  A revocation made while Redis is healthy is lost in an outage: \<open>Add\<close> writes Redis and
  the cache but not Postgres, so once the cache entry is gone (a restart, another replica,
  or the default expiry that the next check sets) the fallback reports the revoked session
  as not revoked.
\<close>

theorem healthy_revocation_lost_in_outage:
  "fst (run_state (do {
     err \<leftarrow> bl_Add sim_blacklist ''s'' 3600000000000;
     l1_Delete sim_l1 ''s'';
     ext (State (\<lambda>x. ((), x\<lparr>sm_redis_up := False\<rparr>)));
     r \<leftarrow> bl_IsBlacklisted sim_blacklist ''s'';
     State_Monad.return (err, r) }) sim_start) = (None, (False, None))"
  by (simp add: NewResilientBlacklist_def rbl_IsBlacklisted_def NewRedisBlacklist_def rb_IsBlacklisted_def rbl_Add_def rb_Add_def
        rbl_add_fallback_def rbl_fallback_def NewPostgresBlacklistRepository_def NewCircuitBreaker_def sim_redis_def sim_exec_def
        sim_env_simps sim_start_def sim0_def sim_pool_def sample_breaker_defs empty_pg_def
        sim_l1_def reply_defs scan_bool_def db_get_def)

text \<open>
  \<open>AddBatch\<close> with a time to live that is not positive succeeds without revoking anything,
  where \<open>Add\<close> writes at least a minute: revoking all sessions of a user whose sessions
  just expired leaves requests in flight unguarded.
\<close>

theorem batch_without_lifetime_revokes_nothing:
  assumes "ttl \<le> 0"
  shows "run_state (bl_AddBatch (NewRedisBlacklist rc) ids ttl) w = (None, w)"
  using assms by (simp add: NewRedisBlacklist_def rb_AddBatch_def)

theorem batch_without_lifetime_revokes_nothing_witness:
  "run_state (bl_AddBatch (NewRedisBlacklist sim_redis) [''s''] 0) sim_start = (None, sim_start)"
  by (rule batch_without_lifetime_revokes_nothing) simp

end
