(* ===== verification/Device_Repository.thy ===== *)
theory Device_Repository imports L1_Cache Telemetry "HOL-Library.Multiset" begin

text \<open>
  The devices of a user: \<open>internal/repository/redis_repository.go\<close> with its Lua scripts, the
  instrumented wrapper and the decorator \<open>internal/resilience/resilient_redis_repo.go\<close>.

  A script is translated statement by statement over the primitive \<open>call\<close> (\<open>redis.call\<close>);
  an error reply of a call aborts the script, as Lua's \<open>error\<close> does, and keeps what was
  written before.

  Proved: the device cap and the eviction of the oldest device, the atomic logout of one
  device, that the chunked logout deletes every token, and what the decorator's cache may
  still hold afterwards.
\<close>

section \<open>Keys and scripts\<close>

definition MaxDevices :: int where "MaxDevices = 5"

definition devicesKey :: "string \<Rightarrow> string" where "devicesKey kratosID = ''auth:devices:'' @ kratosID"

definition refreshKey :: "string \<Rightarrow> string \<Rightarrow> string" where
  "refreshKey kratosID deviceID = ''auth:refresh:'' @ kratosID @ '':'' @ deviceID"

definition refreshPrefix :: "string \<Rightarrow> string" where
  "refreshPrefix kratosID = ''auth:refresh:'' @ kratosID @ '':''"

lemma refreshKey_prefix: "refreshPrefix k @ d = refreshKey k d"
  by (simp add: refreshKey_def refreshPrefix_def)

lemma device_keys [simp]:
  "devicesKey k \<noteq> refreshKey k' d" "refreshKey k' d \<noteq> devicesKey k"
  "refreshKey k d = refreshKey k d' \<longleftrightarrow> d = d'"
  by (simp_all add: devicesKey_def refreshKey_def)

text \<open>A call whose reply is used: an error aborts the script.\<close>

definition lua :: "('d, redis_reply result) io \<Rightarrow> (redis_reply \<Rightarrow> ('d, redis_reply result) io) \<Rightarrow> ('d, redis_reply result) io" where
  "lua m f = do { r \<leftarrow> m; case r of Inl e \<Rightarrow> State_Monad.return (Inl e) | Inr v \<Rightarrow> f v }"

definition tonumber :: "redis_reply \<Rightarrow> int" where
  "tonumber r = (case r of RInt n \<Rightarrow> n | _ \<Rightarrow> 0)"

definition evict_oldest ::
    "(redis_cmd \<Rightarrow> ('d, redis_reply result) io) \<Rightarrow> string \<Rightarrow> int \<Rightarrow> string \<Rightarrow> ('d, redis_reply result) io" where
  "evict_oldest call dKey maxDev rPrefix =
     lua (call (CZCard dKey)) (\<lambda>count.
       if tonumber count \<ge> maxDev then
         lua (call (CZRange dKey 0 0)) (\<lambda>oldest.
           case oldest of
             RArr (o1 # _) \<Rightarrow>
               lua (call (CZRem dKey o1)) (\<lambda>_. call (CDel (rPrefix @ o1)))
           | _ \<Rightarrow> State_Monad.return (Inr ROk))
       else State_Monad.return (Inr ROk))"

definition register_login ::
    "(redis_cmd \<Rightarrow> ('d, redis_reply result) io) \<Rightarrow> string \<Rightarrow> string \<Rightarrow> string \<Rightarrow> int \<Rightarrow> string \<Rightarrow> int \<Rightarrow>
     ('d, redis_reply result) io" where
  "register_login call dKey rKey deviceID score tokenVal ttl =
     lua (call (CZAdd dKey score deviceID)) (\<lambda>_.
     lua (call (CSetSec rKey tokenVal ttl)) (\<lambda>_.
     lua (call (CTTL dKey)) (\<lambda>currentTTL.
     lua (if tonumber currentTTL < 0 \<or> ttl > tonumber currentTTL then call (CExpireSec dKey ttl)
          else State_Monad.return (Inr ROk)) (\<lambda>_.
     State_Monad.return (Inr (RInt 1))))))"

definition saveLoginScript ::
    "(redis_cmd \<Rightarrow> ('d, redis_reply result) io) \<Rightarrow> string \<Rightarrow> string \<Rightarrow> string \<Rightarrow> int \<Rightarrow> string \<Rightarrow> int \<Rightarrow> int \<Rightarrow> string \<Rightarrow>
     ('d, redis_reply result) io" where
  "saveLoginScript call dKey rKey deviceID score tokenVal ttl maxDev rPrefix = do {
     existing \<leftarrow> call (CZScore dKey deviceID);
     lua (case existing of
            Inl e \<Rightarrow> if e = Sentinel RedisNil then evict_oldest call dKey maxDev rPrefix
                     else State_Monad.return (Inl e)
          | Inr v \<Rightarrow> State_Monad.return (Inr v)) (\<lambda>_.
     register_login call dKey rKey deviceID score tokenVal ttl)
   }"

definition logoutDeviceScript ::
    "(redis_cmd \<Rightarrow> ('d, redis_reply result) io) \<Rightarrow> string \<Rightarrow> string \<Rightarrow> string \<Rightarrow> ('d, redis_reply result) io" where
  "logoutDeviceScript call dKey rKey deviceID =
     lua (call (CZRem dKey deviceID)) (\<lambda>removed.
     lua (call (CDel rKey)) (\<lambda>_.
     State_Monad.return (Inr removed)))"

section \<open>RedisRepository\<close>

definition rr_save_login ::
    "'w go_env \<Rightarrow> ('d, 'w) redis_client \<Rightarrow> string \<Rightarrow> string \<Rightarrow> string \<Rightarrow> int \<Rightarrow> ('w, error option) io" where
  "rr_save_login E client kratosID deviceID hydraRefreshToken ttl = do {
     let ttlSec = go_div ttl second;
     let rPrefix = refreshPrefix kratosID;
     now \<leftarrow> env_now E;
     r \<leftarrow> rc_eval client (saveLoginScript (rc_call client) (devicesKey kratosID) (refreshKey kratosID deviceID)
            deviceID (now div second) hydraRefreshToken ttlSec MaxDevices rPrefix);
     State_Monad.return (cmd_err r)
   }"

definition rr_get_token :: "('d, 'w) redis_client \<Rightarrow> string \<Rightarrow> string \<Rightarrow> ('w, string result) io" where
  "rr_get_token client kratosID deviceID = do {
     r \<leftarrow> rc_do client (CGet (refreshKey kratosID deviceID));
     State_Monad.return (case bulk_of r of
        Inl err \<Rightarrow> if errors_Is err RedisNil then Inl (Sentinel ErrDeviceTokenNotFound) else Inl err
      | Inr token \<Rightarrow> Inr token)
   }"

definition rr_rotate :: "('d, 'w) redis_client \<Rightarrow> string \<Rightarrow> string \<Rightarrow> string \<Rightarrow> int \<Rightarrow> ('w, error option) io" where
  "rr_rotate client kratosID deviceID newToken ttl = do {
     r \<leftarrow> rc_do client (CSet (refreshKey kratosID deviceID) newToken ttl);
     State_Monad.return (cmd_err r)
   }"

definition rr_logout_device :: "('d, 'w) redis_client \<Rightarrow> string \<Rightarrow> string \<Rightarrow> ('w, error option) io" where
  "rr_logout_device client kratosID deviceID = do {
     r \<leftarrow> rc_eval client (logoutDeviceScript (rc_call client) (devicesKey kratosID) (refreshKey kratosID deviceID) deviceID);
     State_Monad.return (cmd_err r)
   }"

definition logoutAllChunkSize :: nat where "logoutAllChunkSize = 50"

function logout_chunks :: "('d, 'w) redis_client \<Rightarrow> string \<Rightarrow> string list \<Rightarrow> ('w, error option) io" where
  "logout_chunks client kratosID deviceIDs =
     (if deviceIDs = [] then State_Monad.return None
      else do {
        r \<leftarrow> rc_pipe client (map (\<lambda>d. CDel (refreshKey kratosID d)) (take logoutAllChunkSize deviceIDs));
        case snd r of
          Some err \<Rightarrow> State_Monad.return (Some (Errorf ''LogoutAll: chunk'' [err]))
        | None \<Rightarrow> logout_chunks client kratosID (drop logoutAllChunkSize deviceIDs)
      })"
  by pat_completeness auto
termination by (relation "measure (\<lambda>(_, _, ds). length ds)") (auto simp: logoutAllChunkSize_def)

declare logout_chunks.simps [simp del]

definition rr_logout_all :: "('d, 'w) redis_client \<Rightarrow> string \<Rightarrow> ('w, error option) io" where
  "rr_logout_all client kratosID = do {
     let dKey = devicesKey kratosID;
     r \<leftarrow> rc_do client (CZRange dKey 0 (-1));
     case arr_of r of
       Inl err \<Rightarrow> State_Monad.return (Some err)
     | Inr deviceIDs \<Rightarrow> do {
         err \<leftarrow> logout_chunks client kratosID deviceIDs;
         case err of
           Some e \<Rightarrow> State_Monad.return (Some e)
         | None \<Rightarrow> do { d \<leftarrow> rc_do client (CDel dKey); State_Monad.return (cmd_err d) }
       }
   }"

definition NewRedisRepository :: "'w go_env \<Rightarrow> ('d, 'w) redis_client \<Rightarrow> 'w redis_repo" where
  "NewRedisRepository E client = \<lparr>
     rr_SaveLogin = rr_save_login E client,
     rr_GetDeviceRefreshToken = rr_get_token client,
     rr_RotateRefreshToken = rr_rotate client,
     rr_LogoutDevice = rr_logout_device client,
     rr_LogoutAll = rr_logout_all client\<rparr>"

text \<open>The instrumented wrapper times each call and changes nothing else.\<close>

definition NewInstrumentedRedisRepo :: "'w go_env \<Rightarrow> 'w telemetry \<Rightarrow> 'w redis_repo \<Rightarrow> 'w redis_repo" where
  "NewInstrumentedRedisRepo E T delegate = \<lparr>
     rr_SaveLogin = (\<lambda>k d t ttl. timed E T RedisOps ''save_login'' (rr_SaveLogin delegate k d t ttl)),
     rr_GetDeviceRefreshToken = (\<lambda>k d. timed E T RedisOps ''get_device_refresh_token'' (rr_GetDeviceRefreshToken delegate k d)),
     rr_RotateRefreshToken = (\<lambda>k d t ttl. timed E T RedisOps ''rotate_refresh_token'' (rr_RotateRefreshToken delegate k d t ttl)),
     rr_LogoutDevice = (\<lambda>k d. timed E T RedisOps ''logout_device'' (rr_LogoutDevice delegate k d)),
     rr_LogoutAll = (\<lambda>k. timed E T RedisOps ''logout_all'' (rr_LogoutAll delegate k))\<rparr>"

section \<open>ResilientRedisRepo\<close>

definition rrr_get_token ::
    "'w redis_repo \<Rightarrow> 'w circuit_breaker \<Rightarrow> 'w l1_cache \<Rightarrow> string \<Rightarrow> string \<Rightarrow> ('w, string result) io" where
  "rrr_get_token delegate cb l1 kratosID deviceID = do {
     let key = deviceTokenL1Key kratosID deviceID;
     v \<leftarrow> l1_Get l1 key;
     case v of
       Some val \<Rightarrow> State_Monad.return (case val of VString s \<Rightarrow> Inr s | _ \<Rightarrow> Inl (Sentinel TypeAssertionPanic))
     | None \<Rightarrow> do {
         allowed \<leftarrow> cbi_Allow cb;
         if \<not> allowed then State_Monad.return (Inl (Sentinel ErrRedisUnavailable))
         else do {
           r \<leftarrow> rr_GetDeviceRefreshToken delegate kratosID deviceID;
           case r of
             Inl err \<Rightarrow>
               if is_infra_error (Some err) then do {
                 cbi_RecordFailure cb;
                 State_Monad.return (Inl (Sentinel ErrRedisUnavailable))
               } else do {
                 cbi_RecordSuccess cb;
                 State_Monad.return (Inl err)
               }
           | Inr token \<Rightarrow> do {
               cbi_RecordSuccess cb;
               l1_Set l1 key (VString token) DefaultExpiration;
               State_Monad.return (Inr token)
             }
         }
       }
   }"

definition rrr_save_login ::
    "'w redis_repo \<Rightarrow> 'w circuit_breaker \<Rightarrow> 'w l1_cache \<Rightarrow> string \<Rightarrow> string \<Rightarrow> string \<Rightarrow> int \<Rightarrow> ('w, error option) io" where
  "rrr_save_login delegate cb l1 kratosID deviceID hydraRefreshToken ttl = do {
     allowed \<leftarrow> cbi_Allow cb;
     if \<not> allowed then State_Monad.return (Some (Sentinel ErrRedisUnavailable))
     else do {
       err \<leftarrow> rr_SaveLogin delegate kratosID deviceID hydraRefreshToken ttl;
       case err of
         Some e \<Rightarrow>
           if is_infra_error (Some e) then do {
             cbi_RecordFailure cb;
             State_Monad.return (Some (Sentinel ErrRedisUnavailable))
           } else do {
             cbi_RecordSuccess cb;
             State_Monad.return (Some e)
           }
       | None \<Rightarrow> do {
           cbi_RecordSuccess cb;
           l1_Set l1 (deviceTokenL1Key kratosID deviceID) (VString hydraRefreshToken) DefaultExpiration;
           State_Monad.return None
         }
     }
   }"

definition rrr_rotate ::
    "'w redis_repo \<Rightarrow> 'w circuit_breaker \<Rightarrow> 'w l1_cache \<Rightarrow> string \<Rightarrow> string \<Rightarrow> string \<Rightarrow> int \<Rightarrow> ('w, error option) io" where
  "rrr_rotate delegate cb l1 kratosID deviceID newToken ttl = do {
     allowed \<leftarrow> cbi_Allow cb;
     if \<not> allowed then State_Monad.return (Some (Sentinel ErrRedisUnavailable))
     else do {
       err \<leftarrow> rr_RotateRefreshToken delegate kratosID deviceID newToken ttl;
       case err of
         Some e \<Rightarrow>
           if is_infra_error (Some e) then do {
             cbi_RecordFailure cb;
             State_Monad.return (Some (Sentinel ErrRedisUnavailable))
           } else do {
             cbi_RecordSuccess cb;
             State_Monad.return (Some e)
           }
       | None \<Rightarrow> do {
           cbi_RecordSuccess cb;
           l1_Set l1 (deviceTokenL1Key kratosID deviceID) (VString newToken) DefaultExpiration;
           State_Monad.return None
         }
     }
   }"

definition rrr_logout_device ::
    "'w redis_repo \<Rightarrow> 'w circuit_breaker \<Rightarrow> 'w l1_cache \<Rightarrow> string \<Rightarrow> string \<Rightarrow> ('w, error option) io" where
  "rrr_logout_device delegate cb l1 kratosID deviceID = do {
     allowed \<leftarrow> cbi_Allow cb;
     if \<not> allowed then State_Monad.return (Some (Sentinel ErrRedisUnavailable))
     else do {
       err \<leftarrow> rr_LogoutDevice delegate kratosID deviceID;
       case err of
         Some e \<Rightarrow>
           if is_infra_error (Some e) then do {
             cbi_RecordFailure cb;
             State_Monad.return (Some (Sentinel ErrRedisUnavailable))
           } else do {
             cbi_RecordSuccess cb;
             State_Monad.return (Some e)
           }
       | None \<Rightarrow> do {
           cbi_RecordSuccess cb;
           l1_Delete l1 (deviceTokenL1Key kratosID deviceID);
           State_Monad.return None
         }
     }
   }"

definition rrr_logout_all :: "'w redis_repo \<Rightarrow> 'w circuit_breaker \<Rightarrow> string \<Rightarrow> ('w, error option) io" where
  "rrr_logout_all delegate cb kratosID = do {
     allowed \<leftarrow> cbi_Allow cb;
     if \<not> allowed then State_Monad.return (Some (Sentinel ErrRedisUnavailable))
     else do {
       err \<leftarrow> rr_LogoutAll delegate kratosID;
       case err of
         Some e \<Rightarrow>
           if is_infra_error (Some e) then do {
             cbi_RecordFailure cb;
             State_Monad.return (Some (Sentinel ErrRedisUnavailable))
           } else do {
             cbi_RecordSuccess cb;
             State_Monad.return (Some e)
           }
       | None \<Rightarrow> do { cbi_RecordSuccess cb; State_Monad.return None }
     }
   }"

definition NewResilientRedisRepo :: "'w redis_repo \<Rightarrow> 'w circuit_breaker \<Rightarrow> 'w l1_cache \<Rightarrow> 'w redis_repo" where
  "NewResilientRedisRepo delegate cb l1 = \<lparr>
     rr_SaveLogin = rrr_save_login delegate cb l1,
     rr_GetDeviceRefreshToken = rrr_get_token delegate cb l1,
     rr_RotateRefreshToken = rrr_rotate delegate cb l1,
     rr_LogoutDevice = rrr_logout_device delegate cb l1,
     rr_LogoutAll = rrr_logout_all delegate cb\<rparr>"

section \<open>The device set\<close>

text \<open>
  The devices of a user at instant \<open>t\<close>, oldest login first, and the invariant of the set: no
  device twice, at most \<open>MaxDevices\<close>, ordered by login time.
\<close>

definition devices_at :: "int \<Rightarrow> redis_db \<Rightarrow> string \<Rightarrow> (int \<times> string) list option" where
  "devices_at t d k = (case db_get t d (devicesKey k) of
      None \<Rightarrow> Some [] | Some (VZSet z) \<Rightarrow> Some z | Some _ \<Rightarrow> None)"

definition devices_ok :: "(int \<times> string) list \<Rightarrow> bool" where
  "devices_ok z \<longleftrightarrow> distinct (map snd z) \<and> int (length z) \<le> MaxDevices \<and> sorted z"

definition login_devices :: "(int \<times> string) list \<Rightarrow> string \<Rightarrow> int \<Rightarrow> (int \<times> string) list" where
  "login_devices z deviceID score =
     (let z' = (if deviceID \<in> snd ` set z then filter (\<lambda>p. snd p \<noteq> deviceID) z
                else if int (length z) \<ge> MaxDevices then tl z else z) in
      insort (score, deviceID) z')"

lemma distinct_map_insort: "distinct (map f (insort x xs)) \<longleftrightarrow> f x \<notin> f ` set xs \<and> distinct (map f xs)"
proof -
  have "mset (map f (insort x xs)) = mset (map f (x # xs))"
    by simp
  then show ?thesis
    by (metis mset_eq_imp_distinct_iff distinct.simps(2) list.set_map list.simps(9))
qed

lemma filter_hd_tl:
  assumes "distinct (map snd z)" and "z \<noteq> []"
  shows "filter (\<lambda>p. snd p \<noteq> snd (hd z)) z = tl z"
  using assms by (cases z) (force simp: filter_id_conv)+

lemma login_devices_ok:
  assumes "devices_ok z"
  shows "devices_ok (login_devices z dev score)"
proof -
  have d: "distinct (map snd z)" and l: "int (length z) \<le> MaxDevices" and s: "sorted z"
    using assms by (auto simp: devices_ok_def)
  let ?z = "if dev \<in> snd ` set z then filter (\<lambda>p. snd p \<noteq> dev) z
                else if int (length z) \<ge> MaxDevices then tl z else z"
  have "dev \<notin> snd ` set ?z"
    by (cases z) auto
  moreover have "distinct (map snd ?z)"
    using d by (auto simp: map_tl distinct_tl distinct_map_filter)
  moreover have "sorted ?z"
    using s by (auto simp: sorted_tl intro: sorted_wrt_filter)
  moreover have "int (length ?z) < MaxDevices"
  proof (cases "dev \<in> snd ` set z")
    case True
    then have "length (filter (\<lambda>p. snd p \<noteq> dev) z) < length z"
      by (auto intro: length_filter_less)
    with True l show ?thesis by simp
  next
    case False
    with l show ?thesis by (auto simp: MaxDevices_def)
  qed
  ultimately show ?thesis
    by (simp add: devices_ok_def login_devices_def distinct_map_insort sorted_insort)
qed

lemma live_db_deadline [simp]: "live t (db_deadline t d k)"
  by (auto simp: db_deadline_def live_def split: option.splits)

lemma run_lua: "run_state (lua m f) s = (case run_state m s of (r, s') \<Rightarrow>
    case r of Inl e \<Rightarrow> (Inl e, s') | Inr v \<Rightarrow> run_state (f v) s')"
  by (simp add: lua_def split: prod.splits sum.splits)

lemma zset_range_0: "zset_range z 0 0 = (if z = [] then [] else [snd (hd z)])"
  by (cases z) (simp_all add: zset_range_def)

lemma find_snd: "find (\<lambda>p. snd p = m) z = None \<longleftrightarrow> m \<notin> snd ` set z"
  by (force simp: find_None_iff)

lemma evict_run:
  assumes "devices_at t d k = Some z" and "distinct (map snd z)"
  shows "run_state (evict_oldest redis_call (devicesKey k) MaxDevices (refreshPrefix k)) (t, d) =
    (if int (length z) \<ge> MaxDevices
     then (Inr (RInt (if db_get t d (refreshKey k (snd (hd z))) = None then 0 else 1)),
       (t, d(devicesKey k := (if tl z = [] then None else Some (VZSet (tl z), db_deadline t d (devicesKey k))),
             refreshKey k (snd (hd z)) := None)))
     else (Inr ROk, (t, d)))"
proof (cases "int (length z) \<ge> MaxDevices")
  case True
  then have z: "z \<noteq> []"
    by (auto simp: MaxDevices_def)
  with assms(1) have g: "db_get t d (devicesKey k) = Some (VZSet z)"
    by (auto simp: devices_at_def split: option.splits redis_val.splits)
  have h: "snd (hd z) \<in> snd ` set z"
    using z by simp
  show ?thesis
    using True z filter_hd_tl [OF assms(2) z]
    by (simp add: evict_oldest_def run_lua g tonumber_def zset_range_0 h refreshKey_prefix split: list.split)
next
  case False
  then show ?thesis
    using assms(1)
    by (auto simp: devices_at_def evict_oldest_def run_lua tonumber_def split: option.splits redis_val.splits)
qed

text \<open>
  The effect of the login script on a well-formed device set, with a positive lifetime in
  seconds: the set becomes \<open>login_devices\<close>, the token is stored, and the token of an
  evicted device is gone.
\<close>

definition evicted_device :: "(int \<times> string) list \<Rightarrow> string \<Rightarrow> string option" where
  "evicted_device z dev =
     (if dev \<notin> snd ` set z \<and> int (length z) \<ge> MaxDevices then Some (snd (hd z)) else None)"

lemma exec_TTL: "db_get t d k = Some v \<Longrightarrow> \<exists>n. redis_exec t (CTTL k) d = (Inr (RInt n), d)"
  by (cases "db_deadline t d k") auto

lemma register_run:
  assumes z: "devices_at t d k = Some z" and ttl: "0 < ttl"
  shows "\<exists>d' dl. run_state (register_login redis_call (devicesKey k) (refreshKey k dev) dev score tok ttl) (t, d)
      = (Inr (RInt 1), (t, d')) \<and> live t dl \<and>
    d' = d(devicesKey k \<mapsto> (VZSet (insort (score, dev) (filter (\<lambda>p. snd p \<noteq> dev) z)), dl),
           refreshKey k dev \<mapsto> (VStr tok, Some (t + ttl * second)))"
proof -
  have ttl': "0 < ttl * second"
    using ttl by (simp add: second_def)
  have lv: "live t (Some (t + ttl * second))"
    using ttl' by (simp add: live_def)
  let ?z = "insort (score, dev) (filter (\<lambda>p. snd p \<noteq> dev) z)"
  obtain dl where dl: "live t dl" and add: "\<exists>r. redis_exec t (CZAdd (devicesKey k) score dev) d = (Inr r, d(devicesKey k \<mapsto> (VZSet ?z, dl)))"
  proof (cases "db_get t d (devicesKey k)")
    case None
    with z have "z = []" by (simp add: devices_at_def)
    with None that [of None] show ?thesis by (simp add: live_def)
  next
    case (Some v)
    with z have "v = VZSet z" by (auto simp: devices_at_def split: redis_val.splits)
    with Some that [of "db_deadline t d (devicesKey k)"] show ?thesis by simp
  qed
  let ?d1 = "d(devicesKey k \<mapsto> (VZSet ?z, dl), refreshKey k dev \<mapsto> (VStr tok, Some (t + ttl * second)))"
  have swap: "?d1(devicesKey k \<mapsto> (VZSet ?z, Some (t + ttl * second))) =
      d(devicesKey k \<mapsto> (VZSet ?z, Some (t + ttl * second)), refreshKey k dev \<mapsto> (VStr tok, Some (t + ttl * second)))"
    by (rule HOL.ext) simp
  have g: "db_get t ?d1 (devicesKey k) = Some (VZSet ?z)"
    using dl by simp
  obtain n where n: "redis_exec t (CTTL (devicesKey k)) ?d1 = (Inr (RInt n), ?d1)"
    using exec_TTL [OF g] by blast
  obtain r where r: "redis_exec t (CZAdd (devicesKey k) score dev) d = (Inr r, d(devicesKey k \<mapsto> (VZSet ?z, dl)))"
    using add by blast
  have set: "redis_exec t (CSetSec (refreshKey k dev) tok ttl) (d(devicesKey k \<mapsto> (VZSet ?z, dl))) = (Inr ROk, ?d1)"
    using ttl by simp
  have expire: "redis_exec t (CExpireSec (devicesKey k) ttl) ?d1 =
      (Inr (RInt 1), ?d1(devicesKey k \<mapsto> (VZSet ?z, Some (t + ttl * second))))"
    using g ttl by simp
  have run: "run_state (register_login redis_call (devicesKey k) (refreshKey k dev) dev score tok ttl) (t, d) =
     (Inr (RInt 1), (t, if n < 0 \<or> ttl > n then ?d1(devicesKey k \<mapsto> (VZSet ?z, Some (t + ttl * second))) else ?d1))"
    by (simp add: register_login_def run_lua r set n expire tonumber_def del: redis_exec.simps fun_upd_apply)
  show ?thesis
  proof (cases "n < 0 \<or> ttl > n")
    case True
    then have "run_state (register_login redis_call (devicesKey k) (refreshKey k dev) dev score tok ttl) (t, d) =
      (Inr (RInt 1), (t, d(devicesKey k \<mapsto> (VZSet ?z, Some (t + ttl * second)), refreshKey k dev \<mapsto> (VStr tok, Some (t + ttl * second)))))"
      using run swap by (simp only: if_True simp_thms)
    with lv show ?thesis by blast
  next
    case False
    then have "run_state (register_login redis_call (devicesKey k) (refreshKey k dev) dev score tok ttl) (t, d) =
      (Inr (RInt 1), (t, ?d1))"
      using run by (simp only: if_False simp_thms)
    with dl show ?thesis by blast
  qed
qed

lemma saveLogin_run:
  assumes z: "devices_at t d k = Some z" "devices_ok z" and ttl: "0 < ttl"
  shows "\<exists>d' dl. run_state (saveLoginScript redis_call (devicesKey k) (refreshKey k dev) dev score tok ttl MaxDevices (refreshPrefix k)) (t, d)
      = (Inr (RInt 1), (t, d')) \<and> live t dl \<and>
    d' = (case evicted_device z dev of None \<Rightarrow> d | Some o1 \<Rightarrow> d(refreshKey k o1 := None))
       (devicesKey k \<mapsto> (VZSet (login_devices z dev score), dl),
        refreshKey k dev \<mapsto> (VStr tok, Some (t + ttl * second)))"
proof -
  have dist: "distinct (map snd z)"
    using z(2) by (simp add: devices_ok_def)
  show ?thesis
  proof (cases "dev \<in> snd ` set z")
    case True
    then have g: "db_get t d (devicesKey k) = Some (VZSet z)"
      using z(1) by (auto simp: devices_at_def split: option.splits redis_val.splits)
    obtain p where p: "find (\<lambda>p. snd p = dev) z = Some p"
      using True find_snd [of dev z] by (cases "find (\<lambda>p. snd p = dev) z") auto
    have "redis_exec t (CZScore (devicesKey k) dev) d = (Inr (RInt (fst p)), d)"
      by (simp add: g p)
    with True register_run [OF z(1) ttl] show ?thesis
      by (simp add: saveLoginScript_def run_lua evicted_device_def login_devices_def del: redis_exec.simps)
  next
    case False
    then have f: "filter (\<lambda>p. snd p \<noteq> dev) z = z" "find (\<lambda>p. snd p = dev) z = None"
      by (force simp: filter_id_conv) (simp add: find_snd False)
    have score: "redis_exec t (CZScore (devicesKey k) dev) d = (Inl (Sentinel RedisNil), d)"
      using z(1) f(2) by (auto simp: devices_at_def split: option.splits redis_val.splits)
    note ev = evict_run [OF z(1) dist]
    show ?thesis
    proof (cases "int (length z) \<ge> MaxDevices")
      case True
      have hd_dev: "snd (hd z) \<noteq> dev"
        using False True by (cases z) (auto simp: MaxDevices_def)
      have ftl: "filter (\<lambda>p. snd p \<noteq> dev) (tl z) = tl z"
        using False by (cases z) (force simp: filter_id_conv)+
      let ?d1 = "d(devicesKey k := (if tl z = [] then None else Some (VZSet (tl z), db_deadline t d (devicesKey k))),
             refreshKey k (snd (hd z)) := None)"
      have "devices_at t ?d1 k = Some (tl z)"
        by (simp add: devices_at_def)
      from register_run [OF this ttl, of dev score tok] ftl
      obtain d' dl where reg: "run_state (register_login redis_call (devicesKey k) (refreshKey k dev) dev score tok ttl) (t, ?d1)
          = (Inr (RInt 1), (t, d'))" and dl: "live t dl"
        and d': "d' = ?d1(devicesKey k \<mapsto> (VZSet (insort (score, dev) (tl z)), dl),
           refreshKey k dev \<mapsto> (VStr tok, Some (t + ttl * second)))"
        by auto
      have "d' = d(refreshKey k (snd (hd z)) := None, devicesKey k \<mapsto> (VZSet (insort (score, dev) (tl z)), dl),
           refreshKey k dev \<mapsto> (VStr tok, Some (t + ttl * second)))"
        unfolding d' by (rule HOL.ext) simp
      with reg dl False True ev show ?thesis
        by (auto simp: saveLoginScript_def run_lua score evicted_device_def login_devices_def simp del: redis_exec.simps)
    next
      case few: False
      with ev register_run [OF z(1) ttl, of dev score tok] False f show ?thesis
        by (auto simp: saveLoginScript_def run_lua score evicted_device_def login_devices_def simp del: redis_exec.simps)
    qed
  qed
qed

definition device_sets_ok :: "redis_db \<Rightarrow> bool" where
  "device_sets_ok db \<longleftrightarrow> (\<forall>k v dl. db (devicesKey k) = Some (v, dl) \<longrightarrow> (\<exists>z. v = VZSet z \<and> devices_ok z))"

lemma devicesKey_inject [simp]: "devicesKey a = devicesKey b \<longleftrightarrow> a = b"
  by (simp add: devicesKey_def)

lemma device_sets_ok_at:
  assumes "device_sets_ok db"
  obtains z where "devices_at t db k = Some z" "devices_ok z"
proof (cases "db_get t db (devicesKey k)")
  case None
  then show ?thesis
    by (intro that [of "[]"]) (simp_all add: devices_at_def devices_ok_def MaxDevices_def)
next
  case (Some v)
  then obtain dl where "db (devicesKey k) = Some (v, dl)"
    by (auto simp: db_get_def split: option.splits if_splits)
  with assms obtain z where "v = VZSet z" "devices_ok z"
    by (auto simp: device_sets_ok_def)
  with Some show ?thesis
    by (intro that [of z]) (simp_all add: devices_at_def)
qed

lemma device_sets_ok_frame:
  "device_sets_ok db \<Longrightarrow> (\<And>k'. k' \<noteq> k \<Longrightarrow> db' (devicesKey k') = db (devicesKey k')) \<Longrightarrow>
   (\<And>v dl. db' (devicesKey k) = Some (v, dl) \<Longrightarrow> \<exists>z. v = VZSet z \<and> devices_ok z) \<Longrightarrow> device_sets_ok db'"
  unfolding device_sets_ok_def by metis

context redis begin

text \<open>What a successful login does to the keyspace, at the server's instant \<open>t\<close>.\<close>

lemma save_login_spec:
  assumes env: "env_keeps E rdb" and ok: "device_sets_ok (rdb w)" and ttl: "second \<le> ttl"
  shows "wp (rr_save_login E rc k dev tok ttl) (\<lambda>err w'. device_sets_ok (rdb w') \<and> (err = None \<longrightarrow>
     (\<exists>t z score dl. devices_at t (rdb w) k = Some z \<and> devices_ok z \<and> live t dl \<and>
        rdb w' = (case evicted_device z dev of None \<Rightarrow> rdb w | Some o1 \<Rightarrow> (rdb w)(refreshKey k o1 := None))
          (devicesKey k \<mapsto> (VZSet (login_devices z dev score), dl),
           refreshKey k dev \<mapsto> (VStr tok, Some (t + go_div ttl second * second)))))) w"
  (is "wp _ ?Q w")
proof -
  have pos: "0 < go_div ttl second"
  proof -
    have "1 \<le> ttl div second"
      using ttl by (simp add: second_def)
    then show ?thesis
      using ttl by (simp add: go_div_nonneg second_def)
  qed
  have "wp (rc_eval rc (saveLoginScript (rc_call rc) (devicesKey k) (refreshKey k dev) dev (now div second) tok (go_div ttl second) MaxDevices (refreshPrefix k)))
     (\<lambda>r. ?Q (cmd_err r)) w1" if w1: "rdb w1 = rdb w" for now w1
  proof (rule wp_mono [OF eval_law])
    fix r w2
    let ?run = "run_state (saveLoginScript (rc_call rc) (devicesKey k) (refreshKey k dev) dev (now div second) tok (go_div ttl second) MaxDevices (refreshPrefix k)) (rnow w1, rdb w1)"
    assume step: "rnow w1 \<le> rnow w2 \<and> ((\<exists>s. ?run = (r, s) \<and> rdb w2 = snd s) \<or>
       lost r \<and> (rdb w2 = rdb w1 \<or> rdb w2 = snd (snd ?run)))"
    obtain z where z: "devices_at (rnow w1) (rdb w1) k = Some z" "devices_ok z"
      using device_sets_ok_at ok w1 by metis
    from saveLogin_run [OF z pos] obtain d' dl where run: "?run = (Inr (RInt 1), rnow w1, d')" and dl: "live (rnow w1) dl"
      and d': "d' = (case evicted_device z dev of None \<Rightarrow> rdb w1 | Some o1 \<Rightarrow> (rdb w1)(refreshKey k o1 := None))
          (devicesKey k \<mapsto> (VZSet (login_devices z dev (now div second)), dl),
           refreshKey k dev \<mapsto> (VStr tok, Some (rnow w1 + go_div ttl second * second)))"
      unfolding call_law by metis
    have "device_sets_ok d'"
      by (rule device_sets_ok_frame [OF ok, of k])
        (use login_devices_ok [OF z(2)] in \<open>auto simp: d' w1 split: option.splits\<close>)
    with step run ok w1 have inv: "device_sets_ok (rdb w2)"
      by auto
    moreover have "\<exists>t z score dl. devices_at t (rdb w) k = Some z \<and> devices_ok z \<and> live t dl \<and>
        rdb w2 = (case evicted_device z dev of None \<Rightarrow> rdb w | Some o1 \<Rightarrow> (rdb w)(refreshKey k o1 := None))
          (devicesKey k \<mapsto> (VZSet (login_devices z dev score), dl),
           refreshKey k dev \<mapsto> (VStr tok, Some (t + go_div ttl second * second)))" if "cmd_err r = None"
    proof -
      have "rdb w2 = d'"
        using step run that by (auto simp: lost_def)
      with z dl d' w1 show ?thesis by metis
    qed
    ultimately show "?Q (cmd_err r) w2" by blast
  qed
  then show ?thesis
    unfolding rr_save_login_def Let_def
    by (subst wp_bind, intro env_keeps_now [OF env]) (simp add: wp_bind wp_return)
qed

lemma logout_device_spec:
  assumes ok: "device_sets_ok (rdb w)"
  shows "wp (rr_logout_device rc k dev) (\<lambda>err w'. err = None \<longrightarrow>
     rdb w' (refreshKey k dev) = None \<and>
     (\<exists>t z. devices_at t (rdb w) k = Some z \<and> devices_at t (rdb w') k = Some (filter (\<lambda>p. snd p \<noteq> dev) z)) \<and>
     (\<forall>key. key \<noteq> devicesKey k \<longrightarrow> key \<noteq> refreshKey k dev \<longrightarrow> rdb w' key = rdb w key)) w"
  unfolding rr_logout_device_def wp_rules
proof (rule wp_mono [OF eval_law], rule impI)
  fix r w2
  let ?run = "run_state (logoutDeviceScript (rc_call rc) (devicesKey k) (refreshKey k dev) dev) (rnow w, rdb w)"
  assume step: "rnow w \<le> rnow w2 \<and> ((\<exists>s. ?run = (r, s) \<and> rdb w2 = snd s) \<or>
       lost r \<and> (rdb w2 = rdb w \<or> rdb w2 = snd (snd ?run)))" and err: "cmd_err r = None"
  obtain z where z: "devices_at (rnow w) (rdb w) k = Some z" "devices_ok z"
    using device_sets_ok_at ok by metis
  let ?z = "filter (\<lambda>p. snd p \<noteq> dev) z"
  let ?d = "if dev \<in> snd ` set z then (rdb w)(devicesKey k := (if ?z = [] then None else Some (VZSet ?z, db_deadline (rnow w) (rdb w) (devicesKey k))))
      else rdb w"
  have f: "?z = z" if "dev \<notin> snd ` set z"
    using that by (force simp: filter_id_conv)
  have rem: "\<exists>n. redis_exec (rnow w) (CZRem (devicesKey k) dev) (rdb w) = (Inr (RInt n), ?d)"
    using z(1) by (auto simp: devices_at_def split: option.splits redis_val.splits list.splits)
  define d1 where "d1 = ?d"
  obtain n where n: "redis_exec (rnow w) (CZRem (devicesKey k) dev) (rdb w) = (Inr (RInt n), d1)"
    using rem unfolding d1_def ..
  have "\<exists>m. redis_exec (rnow w) (CDel (refreshKey k dev)) d1 = (Inr (RInt m), d1(refreshKey k dev := None))"
    by simp
  then obtain m where m: "redis_exec (rnow w) (CDel (refreshKey k dev)) d1 = (Inr (RInt m), d1(refreshKey k dev := None))" ..
  have "?run = (Inr (RInt n), rnow w, d1(refreshKey k dev := None))"
    by (simp add: call_law logoutDeviceScript_def run_lua n m del: redis_exec.simps)
  with step err have db: "rdb w2 = d1(refreshKey k dev := None)"
    by (auto simp: lost_def)
  have "devices_at (rnow w) (rdb w2) k = Some ?z"
    using z(1) f by (auto simp: db d1_def devices_at_def)
  moreover have "\<forall>key. key \<noteq> devicesKey k \<longrightarrow> d1 key = rdb w key"
    by (simp add: d1_def)
  ultimately show "rdb w2 (refreshKey k dev) = None \<and>
     (\<exists>t z. devices_at t (rdb w) k = Some z \<and> devices_at t (rdb w2) k = Some (filter (\<lambda>p. snd p \<noteq> dev) z)) \<and>
     (\<forall>key. key \<noteq> devicesKey k \<longrightarrow> key \<noteq> refreshKey k dev \<longrightarrow> rdb w2 key = rdb w key)"
    using db z(1) by auto
qed

lemma logout_chunks_spec:
  "wp (logout_chunks rc k ds) (\<lambda>err w'. err = None \<longrightarrow>
     rdb w' = (\<lambda>x. if x \<in> refreshKey k ` set ds then None else rdb w x)) w"
proof (induction "length ds" arbitrary: ds w rule: less_induct)
  case less
  show ?case
  proof (cases "ds = []")
    case True
    then show ?thesis by (simp add: logout_chunks.simps wp_rules)
  next
    case False
    let ?a = "take logoutAllChunkSize ds" and ?b = "drop logoutAllChunkSize ds"
    have dels: "snd (redis_exec_all now (map (\<lambda>d. CDel (refreshKey k d)) xs) d) =
        (\<lambda>x. if x \<in> refreshKey k ` set xs then None else d x)" for now xs d
      by (induction xs arbitrary: d) (auto simp: case_prod_unfold fun_eq_iff)
    have sets: "set ds = set ?a \<union> set ?b"
      by (metis append_take_drop_id set_append)
    have rec: "wp (logout_chunks rc k ?b) (\<lambda>err w'. err = None \<longrightarrow>
        rdb w' = (\<lambda>x. if x \<in> refreshKey k ` set ?b then None else rdb w1 x)) w1" for w1
      by (rule less) (use False in \<open>simp add: logoutAllChunkSize_def\<close>)
    show ?thesis
    proof (subst logout_chunks.simps, simp only: False if_False, subst wp_bind, rule pipe_wp)
      fix r w1
      assume step: "redis_pipe_step (rnow w) (map (\<lambda>d. CDel (refreshKey k d)) ?a) (rdb w) r (rdb w1)"
      have db: "rdb w1 = (\<lambda>x. if x \<in> refreshKey k ` set ?a then None else rdb w x)" if "snd r = None"
        using redis_pipe_step_ok [of _ _ _ "fst r"] step that dels [of "rnow w" ?a "rdb w"]
        by (metis prod.collapse snd_conv)
      show "wp (case snd r of Some err \<Rightarrow> State_Monad.return (Some (Errorf ''LogoutAll: chunk'' [err]))
          | None \<Rightarrow> logout_chunks rc k ?b)
          (\<lambda>err w'. err = None \<longrightarrow> rdb w' = (\<lambda>x. if x \<in> refreshKey k ` set ds then None else rdb w x)) w1"
      proof (cases "snd r")
        case None
        show ?thesis
          unfolding None option.case
          by (rule wp_mono [OF rec], intro impI HOL.ext) (simp add: db [OF None] sets image_Un)
      qed (simp add: wp_return)
    qed
  qed
qed

lemma logout_all_spec:
  assumes ok: "device_sets_ok (rdb w)"
  shows "wp (rr_logout_all rc k) (\<lambda>err w'. err = None \<longrightarrow>
     (\<exists>t z. devices_at t (rdb w) k = Some z \<and>
        rdb w' = (\<lambda>x. if x \<in> refreshKey k ` snd ` set z \<or> x = devicesKey k then None else rdb w x))) w"
proof -
  obtain z where z: "devices_at (rnow w) (rdb w) k = Some z" "devices_ok z"
    using device_sets_ok_at ok by metis
  have full: "zset_range z 0 (-1) = map snd z"
    by (simp add: zset_range_def)
  have range: "redis_exec (rnow w) (CZRange (devicesKey k) 0 (-1)) (rdb w) = (Inr (RArr (map snd z)), rdb w)"
    using z(1) by (auto simp: devices_at_def full split: option.splits redis_val.splits)
  let ?T = "\<lambda>x. if x \<in> refreshKey k ` snd ` set z then None else rdb w x"
  have last: "wp (rc_do rc (CDel (devicesKey k))) (\<lambda>d w'. cmd_err d = None \<longrightarrow>
      rdb w' = (\<lambda>x. if x \<in> refreshKey k ` snd ` set z \<or> x = devicesKey k then None else rdb w x)) w2"
    if "rdb w2 = ?T" for w2
  proof (rule do_wp, rule impI)
    fix d w3
    assume "redis_step (rnow w2) (CDel (devicesKey k)) (rdb w2) d (rdb w3)" "cmd_err d = None"
    then have "rdb w3 = (rdb w2)(devicesKey k := None)"
      by (auto simp: redis_step_def lost_def)
    with that show "rdb w3 = (\<lambda>x. if x \<in> refreshKey k ` snd ` set z \<or> x = devicesKey k then None else rdb w x)"
      by (auto intro!: HOL.ext)
  qed
  show ?thesis
    unfolding rr_logout_all_def Let_def
  proof (subst wp_bind, rule do_wp)
    fix r w1
    assume step: "redis_step (rnow w) (CZRange (devicesKey k) 0 (-1)) (rdb w) r (rdb w1)"
    have same: "rdb w1 = rdb w"
      using step range by (auto dest!: redis_step_db)
    have arr: "ids = map snd z" if "arr_of r = Inr ids" for ids
      using step range that by (auto simp: redis_step_def lost_def arr_of_def)
    show "wp (case arr_of r of Inl err \<Rightarrow> State_Monad.return (Some err)
       | Inr deviceIDs \<Rightarrow> do {
           err \<leftarrow> logout_chunks rc k deviceIDs;
           case err of Some e \<Rightarrow> State_Monad.return (Some e)
           | None \<Rightarrow> do { d \<leftarrow> rc_do rc (CDel (devicesKey k)); State_Monad.return (cmd_err d) } })
       (\<lambda>err w'. err = None \<longrightarrow> (\<exists>t z. devices_at t (rdb w) k = Some z \<and>
          rdb w' = (\<lambda>x. if x \<in> refreshKey k ` snd ` set z \<or> x = devicesKey k then None else rdb w x))) w1"
    proof (cases "arr_of r")
      case (Inr ids)
      have chunks: "wp (logout_chunks rc k ids) (\<lambda>err w2. err = None \<longrightarrow> rdb w2 = ?T) w1"
        using logout_chunks_spec [of k ids w1] unfolding arr [OF Inr] same set_map .
      show ?thesis
        unfolding Inr sum.case
      proof (subst wp_bind, rule wp_mono [OF chunks])
        fix err :: "error option" and w2
        assume e: "err = None \<longrightarrow> rdb w2 = ?T"
        show "wp (case err of Some e \<Rightarrow> State_Monad.return (Some e)
           | None \<Rightarrow> do { d \<leftarrow> rc_do rc (CDel (devicesKey k)); State_Monad.return (cmd_err d) })
           (\<lambda>err w'. err = None \<longrightarrow> (\<exists>t z. devices_at t (rdb w) k = Some z \<and>
              rdb w' = (\<lambda>x. if x \<in> refreshKey k ` snd ` set z \<or> x = devicesKey k then None else rdb w x))) w2"
        proof (cases err)
          case None
          show ?thesis
            unfolding None option.case wp_bind wp_return
            by (rule wp_mono [OF last]) (use e None z(1) in blast)+
        qed (simp add: wp_return)
      qed
    qed (simp add: wp_return)
  qed
qed

end

context redis begin

lemma save_then_get:
  assumes env: "env_keeps E rdb" and ok: "device_sets_ok (rdb w)" and ttl: "second \<le> ttl"
  shows "wp (do { err \<leftarrow> rr_save_login E rc k dev tok ttl; r \<leftarrow> rr_get_token rc k dev; State_Monad.return (err, r) })
    (\<lambda>(err, r) w'. err = None \<longrightarrow> (\<forall>t'. r = Inr t' \<longrightarrow> t' = tok)) w"
proof (subst wp_bind, rule wp_mono [OF save_login_spec [OF env ok ttl]], subst wp_bind)
  fix err :: "error option" and w1
  let ?Q = "\<lambda>(err, r) (w'::'a). err = None \<longrightarrow> (\<forall>t'. r = Inr t' \<longrightarrow> t' = tok)"
  assume a: "device_sets_ok (rdb w1) \<and> (err = None \<longrightarrow>
     (\<exists>t z score dl. devices_at t (rdb w) k = Some z \<and> devices_ok z \<and> live t dl \<and>
        rdb w1 = (case evicted_device z dev of None \<Rightarrow> rdb w | Some o1 \<Rightarrow> (rdb w)(refreshKey k o1 := None))
          (devicesKey k \<mapsto> (VZSet (login_devices z dev score), dl),
           refreshKey k dev \<mapsto> (VStr tok, Some (t + go_div ttl second * second)))))"
  show "wp (rr_get_token rc k dev) (\<lambda>r. wp (State_Monad.return (err, r)) ?Q) w1"
  proof (cases err)
    case None
    with a obtain dl where v: "rdb w1 (refreshKey k dev) = Some (VStr tok, dl)"
      by auto
    show ?thesis
      unfolding rr_get_token_def wp_rules None
    proof (rule do_wp)
      fix r w2
      assume "redis_step (rnow w1) (CGet (refreshKey k dev)) (rdb w1) r (rdb w2)"
      from redis_step_Get [OF this] v
      show "?Q (None, case bulk_of r of Inl err \<Rightarrow> if errors_Is err RedisNil then Inl (Sentinel ErrDeviceTokenNotFound) else Inl err
          | Inr token \<Rightarrow> Inr token) w2"
        by (auto simp: db_get_def bulk_of_def lost_def split: if_splits)
    qed
  qed (simp add: wp_return wp_any)
qed

end

lemma rrr_hide_infra:
  "wp (rrr_get_token d cb l1 k dev) (\<lambda>r _. \<forall>e. r = Inl e \<longrightarrow> \<not> is_infra_error (Some e)) w"
  "wp (rrr_save_login d cb l1 k dev tok ttl) (\<lambda>r _. \<not> is_infra_error r) w"
  "wp (rrr_rotate d cb l1 k dev tok ttl) (\<lambda>r _. \<not> is_infra_error r) w"
  "wp (rrr_logout_device d cb l1 k dev) (\<lambda>r _. \<not> is_infra_error r) w"
  "wp (rrr_logout_all d cb k) (\<lambda>r _. \<not> is_infra_error r) w"
  unfolding rrr_get_token_def rrr_save_login_def rrr_rotate_def rrr_logout_device_def rrr_logout_all_def Let_def
  by (simp_all add: wp_rules is_infra_Sentinel)
    (auto intro!: wp_any simp: is_infra_Sentinel split: sum.splits l1_val.splits)

text \<open>A repository whose methods leave the cache alone.\<close>

definition repo_frame :: "'w redis_repo \<Rightarrow> ('w \<Rightarrow> 'v) \<Rightarrow> bool" where
  "repo_frame r view \<longleftrightarrow> (\<forall>k d t n. same view (rr_SaveLogin r k d t n)) \<and>
     (\<forall>k d. same view (rr_GetDeviceRefreshToken r k d)) \<and> (\<forall>k d t n. same view (rr_RotateRefreshToken r k d t n)) \<and>
     (\<forall>k d. same view (rr_LogoutDevice r k d)) \<and> (\<forall>k. same view (rr_LogoutAll r k))"

lemma logout_chunks_same:
  assumes "client_frame rc view"
  shows "same view (logout_chunks rc k ds)"
proof (induction "length ds" arbitrary: ds rule: less_induct)
  case less
  show ?case
  proof (cases "ds = []")
    case False
    have "same view (logout_chunks rc k (drop logoutAllChunkSize ds))"
      by (rule less) (use False in \<open>simp add: logoutAllChunkSize_def\<close>)
    with assms show ?thesis
      by (subst logout_chunks.simps) (auto simp: client_frame_def intro!: same_bind split: option.splits)
  qed (simp add: logout_chunks.simps)
qed

lemma redis_repo_frame:
  assumes "client_frame rc view" and "env_keeps E view"
  shows "repo_frame (NewRedisRepository E rc) view"
proof -
  have n: "same view (env_now E)"
    using assms(2) by (simp add: same_def env_keeps_def)
  show ?thesis
    using assms(1) n logout_chunks_same [OF assms(1)]
    by (auto simp: repo_frame_def NewRedisRepository_def rr_save_login_def rr_get_token_def rr_rotate_def
        rr_logout_device_def rr_logout_all_def client_frame_def Let_def intro!: same_bind same_case_sum split: option.splits)
qed

locale resilient_devices =
  l1_cache l1 content rest for l1 :: "'w l1_cache" and content :: "'w \<Rightarrow> string \<Rightarrow> l1_val option" and rest :: "'w \<Rightarrow> 'v" +
  fixes cb :: "'w circuit_breaker" and d :: "'w redis_repo"
  assumes breaker: "breaker_keeps cb content"
    and frame: "repo_frame d content"
begin

lemma content_keeps:
  "keeps (\<lambda>w. P (content w)) (cbi_Allow cb)" "keeps (\<lambda>w. P (content w)) (cbi_RecordSuccess cb)"
  "keeps (\<lambda>w. P (content w)) (cbi_RecordFailure cb)"
    apply (rule keepsI, rule breaker_keeps_wp(1) [OF breaker], simp)
   apply (rule keepsI, rule breaker_keeps_wp(2) [OF breaker], simp)
  apply (rule keepsI, rule breaker_keeps_wp(3) [OF breaker], simp)
  done

lemma delegate_keeps:
  "keeps (\<lambda>w. P (content w)) (rr_SaveLogin d k dev t n)" "keeps (\<lambda>w. P (content w)) (rr_GetDeviceRefreshToken d k dev)"
  "keeps (\<lambda>w. P (content w)) (rr_RotateRefreshToken d k dev t n)" "keeps (\<lambda>w. P (content w)) (rr_LogoutDevice d k dev)"
  "keeps (\<lambda>w. P (content w)) (rr_LogoutAll d k)"
  using frame by (simp_all add: repo_frame_def same_def keeps_def)

lemma cache_typed:
  "keeps (\<lambda>w. l1_typed (content w)) (l1_Set l1 (deviceTokenL1Key k dev) (VString t) e)"
  "keeps (\<lambda>w. l1_typed (content w)) (l1_Delete l1 key)"
  "keeps (\<lambda>w. l1_typed (content w)) (l1_Get l1 key)"
    apply (rule keepsI, rule set_wp, simp add: l1_typed_intros)
   apply (rule keepsI, rule delete_wp, simp add: l1_typed_intros)
  apply (rule keepsI, rule get_wp, simp)
  done

lemma keeps_typed:
  "keeps (\<lambda>w. l1_typed (content w)) (rrr_get_token d cb l1 k dev)"
  "keeps (\<lambda>w. l1_typed (content w)) (rrr_save_login d cb l1 k dev tok ttl)"
  "keeps (\<lambda>w. l1_typed (content w)) (rrr_rotate d cb l1 k dev tok ttl)"
  "keeps (\<lambda>w. l1_typed (content w)) (rrr_logout_device d cb l1 k dev)"
  "keeps (\<lambda>w. l1_typed (content w)) (rrr_logout_all d cb k)"
  unfolding rrr_get_token_def rrr_save_login_def rrr_rotate_def rrr_logout_device_def rrr_logout_all_def Let_def
  by (auto intro!: keeps_bind keeps_if keeps_case_option keeps_case_sum content_keeps delegate_keeps cache_typed)

text \<open>A successful login, rotation or logout leaves the cache in step with what was written.\<close>

lemma cache_in_step:
  "wp (rrr_save_login d cb l1 k dev tok ttl) (\<lambda>err w'. err = None \<longrightarrow> content w' (deviceTokenL1Key k dev) = Some (VString tok)) w"
  "wp (rrr_rotate d cb l1 k dev tok ttl) (\<lambda>err w'. err = None \<longrightarrow> content w' (deviceTokenL1Key k dev) = Some (VString tok)) w"
  "wp (rrr_logout_device d cb l1 k dev) (\<lambda>err w'. err = None \<longrightarrow> content w' (deviceTokenL1Key k dev) = None) w"
    apply (simp add: rrr_save_login_def wp_rules wp_True)
    apply (rule wp_any, rule impI, rule wp_any, rule impI, rule wp_any, rule set_wp, simp)
   apply (simp add: rrr_rotate_def wp_rules wp_True)
   apply (rule wp_any, rule impI, rule wp_any, rule impI, rule wp_any, rule set_wp, simp)
  apply (simp add: rrr_logout_device_def wp_rules wp_True)
  apply (rule wp_any, rule impI, rule wp_any, rule impI, rule wp_any, rule delete_wp, simp)
  done

lemma contract:
  assumes t: "l1_typed (content w)"
  shows "wp (rr_SaveLogin (NewResilientRedisRepo d cb l1) k dev tok ttl) (\<lambda>err w'. \<not> is_infra_error err \<and> l1_typed (content w') \<and>
       (err = None \<longrightarrow> content w' (deviceTokenL1Key k dev) = Some (VString tok))) w \<and>
   wp (rr_RotateRefreshToken (NewResilientRedisRepo d cb l1) k dev tok ttl) (\<lambda>err w'. \<not> is_infra_error err \<and> l1_typed (content w') \<and>
       (err = None \<longrightarrow> content w' (deviceTokenL1Key k dev) = Some (VString tok))) w \<and>
   wp (rr_LogoutDevice (NewResilientRedisRepo d cb l1) k dev) (\<lambda>err w'. \<not> is_infra_error err \<and> l1_typed (content w') \<and>
       (err = None \<longrightarrow> content w' (deviceTokenL1Key k dev) = None)) w \<and>
   wp (rr_GetDeviceRefreshToken (NewResilientRedisRepo d cb l1) k dev) (\<lambda>r w'.
       \<not> is_infra_error (case r of Inl e \<Rightarrow> Some e | Inr _ \<Rightarrow> None) \<and> l1_typed (content w')) w \<and>
   wp (rr_LogoutAll (NewResilientRedisRepo d cb l1) k) (\<lambda>err w'. \<not> is_infra_error err \<and> l1_typed (content w')) w"
  unfolding NewResilientRedisRepo_def redis_repo.simps
  by (intro conjI wp_conj rrr_hide_infra cache_in_step keepsD [OF keeps_typed(1) t] keepsD [OF keeps_typed(2) t]
      keepsD [OF keeps_typed(3) t] keepsD [OF keeps_typed(4) t] keepsD [OF keeps_typed(5) t] wp_mono [OF rrr_hide_infra(1)])
    (auto split: sum.splits)

end

abbreviation "sim_device_repo \<equiv> NewResilientRedisRepo (NewRedisRepository (ext_env sim_env) sim_redis)
  (NewCircuitBreaker sim_env sample_cfg) sim_l1"

lemma sim_repo_frame: "repo_frame (NewRedisRepository (ext_env sim_env) sim_redis) sim_content"
  by (intro redis_repo_frame sim_client_frame) (auto simp: sim_content_def env_keeps_def ext_env_def sim_env_def)

interpretation sim_devices: resilient_devices sim_l1 sim_content sim_rest "NewCircuitBreaker sim_env sample_cfg"
    "NewRedisRepository (ext_env sim_env) sim_redis"
proof unfold_locales
  show "breaker_keeps (NewCircuitBreaker sim_env sample_cfg) sim_content"
    by (rule sim_breaker_keeps) (simp add: sim_content_def)
qed (rule sim_repo_frame)

section \<open>Properties\<close>



text \<open>
  \<open>LogoutAll\<close> is complete: when it reports success, the token of every device in the
  user's set and the set itself are gone, in however many pipelined chunks the deletion was
  cut, and every other key is untouched.
\<close>

theorem logout_all_deletes_every_token:
  assumes "redis rc rdb rnow" and "device_sets_ok (rdb w)"
  shows "wp (rr_LogoutAll (NewRedisRepository E rc) k) (\<lambda>err w'. err = None \<longrightarrow>
     (\<exists>t z. devices_at t (rdb w) k = Some z \<and>
        rdb w' = (\<lambda>x. if x \<in> refreshKey k ` snd ` set z \<or> x = devicesKey k then None else rdb w x))) w"
  using redis.logout_all_spec [OF assms] by (simp add: NewRedisRepository_def)

theorem logout_all_deletes_every_token_witness:
  "wp (rr_LogoutAll (NewRedisRepository (ext_env sim_env) sim_redis) ''k'') (\<lambda>err w'. err = None \<longrightarrow>
     (\<exists>t z. devices_at t (sim_db sim_start) ''k'' = Some z \<and>
        sim_db w' = (\<lambda>x. if x \<in> refreshKey ''k'' ` snd ` set z \<or> x = devicesKey ''k'' then None else sim_db sim_start x))) sim_start"
  by (rule logout_all_deletes_every_token [OF sim_redis.redis_axioms])
    (simp add: device_sets_ok_def sim_start_def sim0_def sim_db_def)

text \<open>
  Logging out one device is atomic: the script removes the device from the set and
  deletes its token together, keeps the order of the others and touches no other key.
\<close>

theorem logout_device_removes_one:
  assumes "redis rc rdb rnow" and "device_sets_ok (rdb w)"
  shows "wp (rr_LogoutDevice (NewRedisRepository E rc) k dev) (\<lambda>err w'. err = None \<longrightarrow>
     rdb w' (refreshKey k dev) = None \<and>
     (\<exists>t z. devices_at t (rdb w) k = Some z \<and> devices_at t (rdb w') k = Some (filter (\<lambda>p. snd p \<noteq> dev) z)) \<and>
     (\<forall>key. key \<noteq> devicesKey k \<longrightarrow> key \<noteq> refreshKey k dev \<longrightarrow> rdb w' key = rdb w key)) w"
  using redis.logout_device_spec [OF assms] by (simp add: NewRedisRepository_def)

theorem logout_device_removes_one_witness:
  "wp (rr_LogoutDevice (NewRedisRepository (ext_env sim_env) sim_redis) ''k'' ''d'') (\<lambda>err w'. err = None \<longrightarrow>
     sim_db w' (refreshKey ''k'' ''d'') = None \<and>
     (\<exists>t z. devices_at t (sim_db sim_start) ''k'' = Some z \<and>
        devices_at t (sim_db w') ''k'' = Some (filter (\<lambda>p. snd p \<noteq> ''d'') z)) \<and>
     (\<forall>key. key \<noteq> devicesKey ''k'' \<longrightarrow> key \<noteq> refreshKey ''k'' ''d'' \<longrightarrow> sim_db w' key = sim_db sim_start key)) sim_start"
  by (rule logout_device_removes_one [OF sim_redis.redis_axioms])
    (simp add: device_sets_ok_def sim_start_def sim0_def sim_db_def)

text \<open>
  The decorator of the device repository lets no infrastructure error escape, keeps
  every cache entry at the type its key stands for, and after a successful login, rotation
  or logout of one device the cache agrees with what was written.
\<close>

theorem resilient_devices_contract:
  assumes "resilient_devices l1 content rest cb d" and "l1_typed (content w)"
  shows "wp (rr_SaveLogin (NewResilientRedisRepo d cb l1) k dev tok ttl) (\<lambda>err w'. \<not> is_infra_error err \<and> l1_typed (content w') \<and>
       (err = None \<longrightarrow> content w' (deviceTokenL1Key k dev) = Some (VString tok))) w \<and>
   wp (rr_RotateRefreshToken (NewResilientRedisRepo d cb l1) k dev tok ttl) (\<lambda>err w'. \<not> is_infra_error err \<and> l1_typed (content w') \<and>
       (err = None \<longrightarrow> content w' (deviceTokenL1Key k dev) = Some (VString tok))) w \<and>
   wp (rr_LogoutDevice (NewResilientRedisRepo d cb l1) k dev) (\<lambda>err w'. \<not> is_infra_error err \<and> l1_typed (content w') \<and>
       (err = None \<longrightarrow> content w' (deviceTokenL1Key k dev) = None)) w \<and>
   wp (rr_GetDeviceRefreshToken (NewResilientRedisRepo d cb l1) k dev) (\<lambda>r w'.
       \<not> is_infra_error (case r of Inl e \<Rightarrow> Some e | Inr _ \<Rightarrow> None) \<and> l1_typed (content w')) w \<and>
   wp (rr_LogoutAll (NewResilientRedisRepo d cb l1) k) (\<lambda>err w'. \<not> is_infra_error err \<and> l1_typed (content w')) w"
  by (rule resilient_devices.contract [OF assms])

theorem resilient_devices_contract_witness:
  "wp (rr_LogoutDevice sim_device_repo ''k'' ''d'')
     (\<lambda>err w'. \<not> is_infra_error err \<and> l1_typed (sim_content w') \<and>
       (err = None \<longrightarrow> sim_content w' (deviceTokenL1Key ''k'' ''d'') = None)) sim_start"
  by (rule resilient_devices_contract [OF sim_devices.resilient_devices_axioms, THEN conjunct2, THEN conjunct2, THEN conjunct1])
    (simp add: l1_typed_def sim_content_def sim_start_def sim0_def)

text \<open>
  \<open>ResilientRedisRepo.LogoutAll\<close> leaves the cached tokens of the logged-out devices: the
  next \<open>GetDeviceRefreshToken\<close> of the same process still hands out the refresh token that
  was just deleted from Redis, although \<open>LogoutDevice\<close> evicts its own entry.
\<close>

theorem logout_all_keeps_cached_token:
  "fst (run_state (do {
     rr_SaveLogin sim_device_repo ''k'' ''d'' ''tok'' 3600000000000;
     err \<leftarrow> rr_LogoutAll sim_device_repo ''k'';
     r \<leftarrow> rr_GetDeviceRefreshToken sim_device_repo ''k'' ''d'';
     State_Monad.return (err, r) }) sim_start) = (None, Inr ''tok'')"
  by (simp add: NewResilientRedisRepo_def NewRedisRepository_def rrr_save_login_def rrr_logout_all_def rrr_get_token_def
        rr_save_login_def rr_logout_all_def saveLoginScript_def evict_oldest_def register_login_def lua_def tonumber_def
        NewCircuitBreaker_def sim_redis_def sim_exec_def logout_chunks.simps
        sim_env_simps sim_start_def sim0_def sample_breaker_defs redis_call_def reply_defs MaxDevices_def Let_def
        sim_l1_def db_get_def db_deadline_def live_def go_div_def duration_defs zset_range_def
        devicesKey_def refreshKey_def refreshPrefix_def logoutAllChunkSize_def)

end
