(* ===== verification/BFF_Service.thy ===== *)
theory BFF_Service imports Go_Encoding Auth_Service Resilient_Sessions Blacklist Device_Repository begin

text \<open>
  \<open>internal/service/bff_service.go\<close>: browser sessions whose Hydra tokens never leave the server.

  \<open>bff_service\<close> is the struct and \<open>bff_service_i\<close> the interface \<open>BFFServiceI\<close>. The loop that waits
  for another request's refresh depends on the clock; it runs on fuel and answers \<open>None\<close>
  when the fuel is used up, and \<open>poll_terminates\<close> shows that eleven rounds are enough on any
  clock that moves with the timer. Logging and metrics are left out.
\<close>

record 'w bff_service =
  bf_hydra :: "'w hydra_client"
  bf_kratosClient :: "'w kratos_client"
  bf_sessionStore :: "'w session_store"
  bf_blacklist :: "'w blacklist"
  bf_redisRepo :: "'w redis_repo"
  bf_deviceSessionRepo :: "'w device_session_repo"
  bf_AccessTokenRefreshBuffer :: int
  bf_publisher :: "'w event_publisher"

record 'w bff_service_i =
  bi_Login :: "string \<Rightarrow> string \<Rightarrow> bool \<Rightarrow> string \<Rightarrow> string option \<Rightarrow> string option \<Rightarrow> ('w, string result) io"
  bi_Logout :: "string \<Rightarrow> ('w, error option) io"
  bi_LogoutAll :: "string \<Rightarrow> ('w, error option) io"
  bi_ResolveSession :: "string \<Rightarrow> ('w, (string \<times> string \<times> string) result option) io"
  bi_WhoAmI :: "string \<Rightarrow> ('w, (string \<times> string) result) io"

section \<open>Session identifiers\<close>

definition randomSessionID :: "'w go_env \<Rightarrow> ('w, string result) io" where
  "randomSessionID E = do {
     r \<leftarrow> env_rand E 32;
     State_Monad.return (case r of
        Inl err \<Rightarrow> Inl (Errorf ''random session id'' [err])
      | Inr b \<Rightarrow> Inr (hex_bytes b))
   }"

section \<open>Login\<close>

definition bff_Login ::
    "'w go_env \<Rightarrow> 'w bff_service \<Rightarrow> string \<Rightarrow> string \<Rightarrow> bool \<Rightarrow> string \<Rightarrow> string option \<Rightarrow> string option \<Rightarrow>
     ('w, string result) io" where
  "bff_Login E s kratosID deviceID rememberMe kratosSessionToken userAgent ip = do {
     r \<leftarrow> hy_IssueTokens (bf_hydra s) kratosID deviceID rememberMe;
     case r of
       Inl err \<Rightarrow> State_Monad.return (Inl (Errorf ''bff login: issue tokens'' [err]))
     | Inr tokens \<Rightarrow> do {
         c \<leftarrow> hy_ValidateAccessToken (bf_hydra s) (ts_AccessToken tokens);
         case c of
           Inl err \<Rightarrow> State_Monad.return (Inl (Errorf ''bff login: parse access token'' [err]))
         | Inr claims \<Rightarrow> do {
             i \<leftarrow> randomSessionID E;
             case i of
               Inl err \<Rightarrow> State_Monad.return (Inl (Errorf ''bff login: generate session id'' [err]))
             | Inr sessionID \<Rightarrow> do {
                 kratosSessionID \<leftarrow> (if kratosSessionToken \<noteq> [] then do {
                     l \<leftarrow> kr_GetSessionIDByToken (bf_kratosClient s) kratosSessionToken;
                     State_Monad.return (case l of Inl _ \<Rightarrow> [] | Inr id' \<Rightarrow> id')
                   } else State_Monad.return []);
                 now \<leftarrow> env_now E;
                 let refreshTTL = (if rememberMe then RefreshTTLLong else RefreshTTLShort);
                 let accessExp = (case cl_ExpiresAt claims of Some t \<Rightarrow> t | None \<Rightarrow> now + 15 * minute);
                 let sess = \<lparr>bs_SessionID = sessionID, bs_KratosID = kratosID, bs_DeviceID = deviceID,
                   bs_KratosSessionID = kratosSessionID, bs_HydraAccessToken = ts_AccessToken tokens,
                   bs_HydraRefreshToken = ts_RefreshToken tokens, bs_AccessTokenExp = accessExp,
                   bs_CreatedAt = now, bs_ExpiresAt = now + refreshTTL\<rparr>;
                 created \<leftarrow> ss_Create (bf_sessionStore s) sess;
                 case created of
                   Some err \<Rightarrow> State_Monad.return (Inl (Errorf ''bff login: store session'' [err]))
                 | None \<Rightarrow> do {
                     rr_SaveLogin (bf_redisRepo s) kratosID deviceID (ts_RefreshToken tokens) refreshTTL;
                     pub_PublishAuthSession (bf_publisher s) \<lparr>
                       as_EventType = ''auth.session.created'', as_KratosID = kratosID, as_IPAddress = derefStr ip,
                       as_UserAgent = derefStr userAgent, as_HydraJTI = cl_ID claims, as_DeviceID = deviceID,
                       as_Timestamp = env_format E now\<rparr>;
                     State_Monad.return (Inr sessionID)
                   }
               }
           }
       }
   }"

section \<open>Transparent refresh\<close>

datatype poll_result = PollReturned "bff_session result" | PollDeadline | PollFuel

fun poll_refresh :: "nat \<Rightarrow> 'w go_env \<Rightarrow> 'w session_store \<Rightarrow> bff_session \<Rightarrow> int \<Rightarrow> ('w, poll_result) io" where
  "poll_refresh 0 E st sess deadline = State_Monad.return PollFuel"
| "poll_refresh (Suc n) E st sess deadline = do {
     now \<leftarrow> env_now E;
     if \<not> now < deadline then State_Monad.return PollDeadline
     else do {
       r \<leftarrow> ss_Get st (bs_SessionID sess);
       case (case r of Inl _ \<Rightarrow> None
             | Inr updated \<Rightarrow> if bs_AccessTokenExp sess < bs_AccessTokenExp updated then Some updated else None) of
         Some updated \<Rightarrow> State_Monad.return (PollReturned (Inr updated))
       | None \<Rightarrow> do {
           done \<leftarrow> env_wait E (250 * millisecond);
           case done of
             Some err \<Rightarrow> State_Monad.return (PollReturned (Inl err))
           | None \<Rightarrow> poll_refresh n E st sess deadline
         }
     }
   }"

definition lockTTL :: int where "lockTTL = 5 * second"

text \<open>The winner of the lock: what runs between acquiring it and the deferred release.\<close>

definition refresh_locked :: "'w go_env \<Rightarrow> 'w bff_service \<Rightarrow> bff_session \<Rightarrow> ('w, bff_session result) io" where
  "refresh_locked E s sess = do {
     r \<leftarrow> hy_RefreshToken (bf_hydra s) (bs_HydraRefreshToken sess);
     case r of
       Inl err \<Rightarrow> State_Monad.return (Inl (Errorf ''bff refresh: hydra refresh'' [err]))
     | Inr tokens \<Rightarrow> do {
         c \<leftarrow> hy_ValidateAccessToken (bf_hydra s) (ts_AccessToken tokens);
         case c of
           Inl err \<Rightarrow> State_Monad.return (Inl (Errorf ''bff refresh: parse new access token'' [err]))
         | Inr claims \<Rightarrow> do {
             newExp \<leftarrow> (case cl_ExpiresAt claims of
                Some t \<Rightarrow> State_Monad.return t
              | None \<Rightarrow> do { now \<leftarrow> env_now E; State_Monad.return (now + 15 * minute) });
             let sess' = sess\<lparr>bs_HydraAccessToken := ts_AccessToken tokens, bs_HydraRefreshToken := ts_RefreshToken tokens,
               bs_AccessTokenExp := newExp\<rparr>;
             u \<leftarrow> ss_Update (bf_sessionStore s) sess';
             case u of
               Some err \<Rightarrow> State_Monad.return (Inl (Errorf ''bff refresh: update session'' [err]))
             | None \<Rightarrow> do {
                 rr_RotateRefreshToken (bf_redisRepo s) (bs_KratosID sess') (bs_DeviceID sess') (ts_RefreshToken tokens) RefreshTTLLong;
                 dr_UpdateLastUsedAt (bf_deviceSessionRepo s) (bs_KratosID sess') (bs_DeviceID sess');
                 State_Monad.return (Inr sess')
               }
           }
       }
   }"

text \<open>The caller uses the returned session only when the error is nil, so the pair is a sum.\<close>

definition doRefresh :: "nat \<Rightarrow> 'w go_env \<Rightarrow> 'w bff_service \<Rightarrow> bff_session \<Rightarrow> ('w, bff_session result option) io" where
  "doRefresh fuel E s sess = do {
     a \<leftarrow> ss_AcquireRefreshLock (bf_sessionStore s) (bs_SessionID sess) lockTTL;
     case a of
       Inl err \<Rightarrow> State_Monad.return (Some (Inl (Errorf ''bff refresh: acquire lock'' [err])))
     | Inr acquired \<Rightarrow>
         if \<not> acquired then do {
           now \<leftarrow> env_now E;
           let deadline = now + lockTTL div 2;
           p \<leftarrow> poll_refresh fuel E (bf_sessionStore s) sess deadline;
           case p of
             PollFuel \<Rightarrow> State_Monad.return None
           | PollReturned r \<Rightarrow> State_Monad.return (Some r)
           | PollDeadline \<Rightarrow> do {
               r \<leftarrow> ss_Get (bf_sessionStore s) (bs_SessionID sess);
               State_Monad.return (Some (Inr (case r of Inl _ \<Rightarrow> sess | Inr updated \<Rightarrow> updated)))
             }
         } else do {
           r \<leftarrow> refresh_locked E s sess;
           ss_ReleaseRefreshLock (bf_sessionStore s) (bs_SessionID sess);
           State_Monad.return (Some r)
         }
   }"

section \<open>The request path\<close>

definition check_session :: "'w bff_service \<Rightarrow> string \<Rightarrow> string \<Rightarrow> ('w, bff_session result) io" where
  "check_session s tag sessionID = do {
     b \<leftarrow> bl_IsBlacklisted (bf_blacklist s) sessionID;
     case snd b of
       Some err \<Rightarrow> State_Monad.return (Inl (Errorf (tag @ '': blacklist check'') [err]))
     | None \<Rightarrow>
         if fst b then State_Monad.return (Inl (Sentinel ErrSessionBlacklisted))
         else do {
           r \<leftarrow> ss_Get (bf_sessionStore s) sessionID;
           State_Monad.return (case r of
              Inl err \<Rightarrow> if errors_Is err SessionErrNotFound then Inl (Sentinel ErrSessionNotFound)
                         else Inl (Errorf (tag @ '': get session'') [err])
            | Inr sess \<Rightarrow> Inr sess)
         }
   }"

definition bff_ResolveSession ::
    "nat \<Rightarrow> 'w go_env \<Rightarrow> 'w bff_service \<Rightarrow> string \<Rightarrow> ('w, (string \<times> string \<times> string) result option) io" where
  "bff_ResolveSession fuel E s sessionID = do {
     c \<leftarrow> check_session s ''bff resolve'' sessionID;
     case c of
       Inl err \<Rightarrow> State_Monad.return (Some (Inl err))
     | Inr sess \<Rightarrow> do {
         left \<leftarrow> time_until E (bs_AccessTokenExp sess);
         if left < bf_AccessTokenRefreshBuffer s then do {
           d \<leftarrow> doRefresh fuel E s sess;
           State_Monad.return (case d of
              None \<Rightarrow> None
            | Some r \<Rightarrow>
                (let sess' = (case r of Inl _ \<Rightarrow> sess | Inr refreshed \<Rightarrow> refreshed) in
                 Some (Inr (bs_HydraAccessToken sess', bs_KratosID sess', bs_DeviceID sess'))))
         } else State_Monad.return (Some (Inr (bs_HydraAccessToken sess, bs_KratosID sess, bs_DeviceID sess)))
       }
   }"

definition bff_WhoAmI :: "'w bff_service \<Rightarrow> string \<Rightarrow> ('w, (string \<times> string) result) io" where
  "bff_WhoAmI s sessionID = do {
     c \<leftarrow> check_session s ''bff whoami'' sessionID;
     State_Monad.return (case c of Inl err \<Rightarrow> Inl err | Inr sess \<Rightarrow> Inr (bs_KratosID sess, bs_DeviceID sess))
   }"

section \<open>Logout\<close>

definition bff_Logout :: "'w go_env \<Rightarrow> 'w bff_service \<Rightarrow> string \<Rightarrow> ('w, error option) io" where
  "bff_Logout E s sessionID = do {
     g \<leftarrow> ss_Get (bf_sessionStore s) sessionID;
     case g of
       Inl err \<Rightarrow> State_Monad.return
         (if errors_Is err SessionErrNotFound then None else Some (Errorf ''bff logout: get session'' [err]))
     | Inr sess \<Rightarrow> do {
         ttl \<leftarrow> time_until E (bs_ExpiresAt sess);
         b \<leftarrow> bl_Add (bf_blacklist s) sessionID ttl;
         case (case b of None \<Rightarrow> None | Some err \<Rightarrow> if \<not> errors_Is err ErrRedisUnavailable then Some err else None) of
           Some err \<Rightarrow> State_Monad.return (Some (Errorf ''bff logout: blacklist session'' [err]))
         | None \<Rightarrow> do {
             hy_RevokeToken (bf_hydra s) (bs_HydraRefreshToken sess);
             (if bs_KratosSessionID sess \<noteq> [] then kr_DeleteSession (bf_kratosClient s) (bs_KratosSessionID sess)
              else kr_DeleteSessions (bf_kratosClient s) (bs_KratosID sess));
             ss_Delete (bf_sessionStore s) sessionID;
             rr_LogoutDevice (bf_redisRepo s) (bs_KratosID sess) (bs_DeviceID sess);
             dr_RevokeDevice (bf_deviceSessionRepo s) (bs_KratosID sess) (bs_DeviceID sess);
             State_Monad.return None
           }
       }
   }"

text \<open>The loop that computes the longest remaining lifetime.\<close>

fun longest_ttl :: "'w go_env \<Rightarrow> int \<Rightarrow> bff_session list \<Rightarrow> ('w, int) io" where
  "longest_ttl E maxTTL [] = State_Monad.return maxTTL"
| "longest_ttl E maxTTL (s2 # rest) = do {
     remaining \<leftarrow> time_until E (bs_ExpiresAt s2);
     longest_ttl E (if remaining > maxTTL then remaining else maxTTL) rest
   }"

definition bff_LogoutAll :: "'w go_env \<Rightarrow> 'w bff_service \<Rightarrow> string \<Rightarrow> ('w, error option) io" where
  "bff_LogoutAll E s sessionID = do {
     g \<leftarrow> ss_Get (bf_sessionStore s) sessionID;
     case g of
       Inl err \<Rightarrow> State_Monad.return
         (if errors_Is err SessionErrNotFound then None else Some (Errorf ''bff logout-all: get session'' [err]))
     | Inr sess \<Rightarrow> do {
         let kratosID = bs_KratosID sess;
         a \<leftarrow> ss_GetAllForUser (bf_sessionStore s) kratosID;
         case a of
           Inl err \<Rightarrow> State_Monad.return (Some (Errorf ''bff logout-all: get all sessions'' [err]))
         | Inr allSessions \<Rightarrow> do {
             ttl0 \<leftarrow> time_until E (bs_ExpiresAt sess);
             maxTTL \<leftarrow> longest_ttl E ttl0 allSessions;
             b \<leftarrow> bl_AddBatch (bf_blacklist s) (map bs_SessionID allSessions) maxTTL;
             case (case b of None \<Rightarrow> None | Some err \<Rightarrow> if \<not> errors_Is err ErrRedisUnavailable then Some err else None) of
               Some err \<Rightarrow> State_Monad.return (Some (Errorf ''bff logout-all: blacklist sessions'' [err]))
             | None \<Rightarrow> do {
                 r \<leftarrow> hy_RevokeAllForSubject (bf_hydra s) kratosID;
                 case r of
                   Some err \<Rightarrow> State_Monad.return (Some (Errorf ''bff logout-all: revoke tokens'' [err]))
                 | None \<Rightarrow> do {
                     kr_DeleteSessions (bf_kratosClient s) kratosID;
                     ss_DeleteAllForUser (bf_sessionStore s) kratosID;
                     rr_LogoutAll (bf_redisRepo s) kratosID;
                     dr_RevokeAllDevices (bf_deviceSessionRepo s) kratosID;
                     State_Monad.return None
                   }
               }
           }
       }
   }"

text \<open>Enough rounds for the waiting loop: the deadline over the interval, and one to notice it.\<close>

definition pollFuel :: nat where "pollFuel = 11"

definition NewBFFService :: "'w go_env \<Rightarrow> 'w bff_service \<Rightarrow> 'w bff_service_i" where
  "NewBFFService E s = \<lparr>
     bi_Login = bff_Login E s, bi_Logout = bff_Logout E s, bi_LogoutAll = bff_LogoutAll E s,
     bi_ResolveSession = bff_ResolveSession pollFuel E s, bi_WhoAmI = bff_WhoAmI s\<rparr>"

section \<open>Recorded runs\<close>

definition rec_bff :: "'w bff_service \<Rightarrow> 'w traced bff_service" where
  "rec_bff s = \<lparr>bf_hydra = rec_hydra (bf_hydra s), bf_kratosClient = rec_kratos (bf_kratosClient s),
     bf_sessionStore = rec_store (bf_sessionStore s), bf_blacklist = rec_blacklist (bf_blacklist s),
     bf_redisRepo = rec_repo (bf_redisRepo s), bf_deviceSessionRepo = rec_devices (bf_deviceSessionRepo s),
     bf_AccessTokenRefreshBuffer = bf_AccessTokenRefreshBuffer s, bf_publisher = rec_publisher (bf_publisher s)\<rparr>"

lemma rec_store_Get [simp]: "ss_Get (rec_store st) i = recorded (SessionGet i) (ss_Get st i)"
  by (simp add: rec_store_def)

lemma rec_bff_simps:
  "hy_IssueTokens (bf_hydra (rec_bff s)) k d b = recorded (IssueTokens k d b) (hy_IssueTokens (bf_hydra s) k d b)"
  "hy_RefreshToken (bf_hydra (rec_bff s)) t = recorded (RefreshToken t) (hy_RefreshToken (bf_hydra s) t)"
  "hy_RevokeToken (bf_hydra (rec_bff s)) t = recorded (RevokeToken t) (hy_RevokeToken (bf_hydra s) t)"
  "hy_RevokeAllForSubject (bf_hydra (rec_bff s)) k = recorded (RevokeAllForSubject k) (hy_RevokeAllForSubject (bf_hydra s) k)"
  "hy_ValidateAccessToken (bf_hydra (rec_bff s)) t = recorded (ValidateAccessToken t) (hy_ValidateAccessToken (bf_hydra s) t)"
  "kr_GetSessionIDByToken (bf_kratosClient (rec_bff s)) t = recorded (GetSessionIDByToken t) (kr_GetSessionIDByToken (bf_kratosClient s) t)"
  "kr_DeleteSession (bf_kratosClient (rec_bff s)) i = recorded (KratosDeleteSession i) (kr_DeleteSession (bf_kratosClient s) i)"
  "kr_DeleteSessions (bf_kratosClient (rec_bff s)) k = recorded (KratosDeleteSessions k) (kr_DeleteSessions (bf_kratosClient s) k)"
  "bf_sessionStore (rec_bff s) = rec_store (bf_sessionStore s)"
  "ss_Create (rec_store st) x = recorded (SessionCreate x) (ss_Create st x)"
  "ss_Update (rec_store st) x = recorded (SessionUpdate x) (ss_Update st x)"
  "ss_Delete (rec_store st) i = recorded (SessionDelete i) (ss_Delete st i)"
  "ss_GetAllForUser (rec_store st) k = recorded (SessionGetAll k) (ss_GetAllForUser st k)"
  "ss_DeleteAllForUser (rec_store st) k = recorded (SessionDeleteAll k) (ss_DeleteAllForUser st k)"
  "ss_AcquireRefreshLock (rec_store st) i n = recorded (AcquireLock i n) (ss_AcquireRefreshLock st i n)"
  "ss_ReleaseRefreshLock (rec_store st) i = recorded (ReleaseLock i) (ss_ReleaseRefreshLock st i)"
  "bl_Add (bf_blacklist (rec_bff s)) i n = recorded (BlacklistAdd i n) (bl_Add (bf_blacklist s) i n)"
  "bl_IsBlacklisted (bf_blacklist (rec_bff s)) i = recorded (BlacklistCheck i) (bl_IsBlacklisted (bf_blacklist s) i)"
  "bl_AddBatch (bf_blacklist (rec_bff s)) is n = recorded (BlacklistBatch is n) (bl_AddBatch (bf_blacklist s) is n)"
  "rr_SaveLogin (bf_redisRepo (rec_bff s)) k d t n = recorded (SaveLogin k d t n) (rr_SaveLogin (bf_redisRepo s) k d t n)"
  "rr_RotateRefreshToken (bf_redisRepo (rec_bff s)) k d t n = recorded (RotateToken k d t n) (rr_RotateRefreshToken (bf_redisRepo s) k d t n)"
  "rr_LogoutDevice (bf_redisRepo (rec_bff s)) k d = recorded (LogoutDevice k d) (rr_LogoutDevice (bf_redisRepo s) k d)"
  "rr_LogoutAll (bf_redisRepo (rec_bff s)) k = recorded (LogoutAllDevices k) (rr_LogoutAll (bf_redisRepo s) k)"
  "dr_UpdateLastUsedAt (bf_deviceSessionRepo (rec_bff s)) k d = recorded (UpdateLastUsedAt k d) (dr_UpdateLastUsedAt (bf_deviceSessionRepo s) k d)"
  "dr_RevokeDevice (bf_deviceSessionRepo (rec_bff s)) k d = recorded (RevokeDevice k d) (dr_RevokeDevice (bf_deviceSessionRepo s) k d)"
  "dr_RevokeAllDevices (bf_deviceSessionRepo (rec_bff s)) k = recorded (RevokeAllDevices k) (dr_RevokeAllDevices (bf_deviceSessionRepo s) k)"
  "pub_PublishAuthSession (bf_publisher (rec_bff s)) ev = recorded (\<lambda>_. PublishAuthSession ev) (pub_PublishAuthSession (bf_publisher s) ev)"
  "bf_AccessTokenRefreshBuffer (rec_bff s) = bf_AccessTokenRefreshBuffer s"
  "env_now (silent_env E) = silent (env_now E)" "env_format (silent_env E) = env_format E"
  "env_rand (silent_env E) m = silent (env_rand E m)" "env_wait (silent_env E) n = silent (env_wait E n)"
  by (simp_all add: rec_bff_def recorders)

lemma time_until_wp:
  "(\<And>now w'. run_state (env_now E) (fst wl) = (now, w') \<Longrightarrow> Q (time_sub t now) (w', snd wl)) \<Longrightarrow> wp (time_until (silent_env E) t) Q wl"
  unfolding time_until_def by (simp add: silent_env_def) (intro wp_steps silent_wp; simp)

text \<open>The waiting loop only reads the session.\<close>

definition only_gets :: "string \<Rightarrow> call list \<Rightarrow> bool" where
  "only_gets sid l \<longleftrightarrow> (\<forall>c\<in>set l. \<exists>r. c = SessionGet sid r)"

lemma poll_refresh_runs:
  "wp (poll_refresh n (silent_env E) (rec_store st) sess dl) (\<lambda>r wl'.
     \<exists>l. snd wl' = snd wl @ l \<and> only_gets (bs_SessionID sess) l \<and>
       (\<forall>u. r = PollReturned (Inr u) \<longrightarrow> SessionGet (bs_SessionID sess) (Inr u) \<in> set l \<and> bs_AccessTokenExp sess < bs_AccessTokenExp u)) wl"
proof (induction n arbitrary: wl)
  case 0
  show ?case by (simp add: wp_return only_gets_def)
next
  case (Suc n)
  show ?case
    unfolding poll_refresh.simps rec_bff_simps rec_store_Get
    apply (intro wp_steps silent_wp recorded_wp)
       apply (simp add: only_gets_def)
      apply (rule wp_mono [OF Suc.IH], force simp: only_gets_def)
     apply (simp add: only_gets_def)
    apply (auto simp: only_gets_def split: sum.splits if_splits)
    done
qed

lemma poll_wp:
  assumes "\<And>r w' l. only_gets (bs_SessionID sess) l \<Longrightarrow>
     (\<And>u. r = PollReturned (Inr u) \<Longrightarrow> SessionGet (bs_SessionID sess) (Inr u) \<in> set l \<and> bs_AccessTokenExp sess < bs_AccessTokenExp u) \<Longrightarrow>
     Q r (w', snd wl @ l)"
  shows "wp (poll_refresh n (silent_env E) (rec_store st) sess dl) Q wl"
  by (rule wp_mono [OF poll_refresh_runs]) (use assms in \<open>metis prod.collapse\<close>)

lemma wp_pollI:
  "(p = PollFuel \<Longrightarrow> wp a Q w) \<Longrightarrow> (\<And>r. p = PollReturned r \<Longrightarrow> wp (b r) Q w) \<Longrightarrow> (p = PollDeadline \<Longrightarrow> wp c Q w) \<Longrightarrow>
   wp (case p of PollReturned r \<Rightarrow> b r | PollDeadline \<Rightarrow> c | PollFuel \<Rightarrow> a) Q w"
  by (cases p) simp_all

lemmas bff_wp = wp_steps wp_pollI recorded_wp silent_wp time_until_wp poll_wp

text \<open>What the holder of the refresh lock does.\<close>

inductive refresh_run :: "bff_session \<Rightarrow> call list \<Rightarrow> bff_session result \<Rightarrow> bool" where
  hydra_failed: "refresh_run sess [RefreshToken (bs_HydraRefreshToken sess) (Inl x)] (Inl (Errorf ''bff refresh: hydra refresh'' [x]))"
| unreadable: "refresh_run sess [RefreshToken (bs_HydraRefreshToken sess) (Inr ts), ValidateAccessToken (ts_AccessToken ts) (Inl x)]
     (Inl (Errorf ''bff refresh: parse new access token'' [x]))"
| not_stored: "bs_HydraRefreshToken sess' = ts_RefreshToken ts \<Longrightarrow>
     refresh_run sess [RefreshToken (bs_HydraRefreshToken sess) (Inr ts), ValidateAccessToken (ts_AccessToken ts) (Inr c), SessionUpdate sess' (Some x)]
     (Inl (Errorf ''bff refresh: update session'' [x]))"
| refreshed: "sess' = sess\<lparr>bs_HydraAccessToken := ts_AccessToken ts, bs_HydraRefreshToken := ts_RefreshToken ts, bs_AccessTokenExp := e\<rparr> \<Longrightarrow>
     (\<And>t. cl_ExpiresAt c = Some t \<Longrightarrow> e = t) \<Longrightarrow>
     refresh_run sess [RefreshToken (bs_HydraRefreshToken sess) (Inr ts), ValidateAccessToken (ts_AccessToken ts) (Inr c), SessionUpdate sess' None,
       RotateToken (bs_KratosID sess) (bs_DeviceID sess) (ts_RefreshToken ts) RefreshTTLLong r1, UpdateLastUsedAt (bs_KratosID sess) (bs_DeviceID sess) r2]
     (Inr sess')"

lemma refresh_locked_wp:
  assumes "\<And>r w' l. refresh_run sess l r \<Longrightarrow> Q r (w', snd wl @ l)"
  shows "wp (refresh_locked (silent_env E) (rec_bff s) sess) Q wl"
  unfolding refresh_locked_def Let_def rec_bff_simps
  by (intro wp_steps recorded_wp silent_wp) (auto intro!: assms refresh_run.intros)

inductive do_refresh_run :: "bff_session \<Rightarrow> call list \<Rightarrow> bff_session result option \<Rightarrow> bool" where
  lock_failed: "do_refresh_run sess [AcquireLock (bs_SessionID sess) lockTTL (Inl x)] (Some (Inl (Errorf ''bff refresh: acquire lock'' [x])))"
| winner: "refresh_run sess l r \<Longrightarrow>
     do_refresh_run sess (AcquireLock (bs_SessionID sess) lockTTL (Inr True) # l @ [ReleaseLock (bs_SessionID sess) e]) (Some r)"
| loser: "only_gets (bs_SessionID sess) l \<Longrightarrow>
     (\<And>u. r = Some (Inr u) \<Longrightarrow> u = sess \<or> SessionGet (bs_SessionID sess) (Inr u) \<in> set l) \<Longrightarrow>
     do_refresh_run sess (AcquireLock (bs_SessionID sess) lockTTL (Inr False) # l) r"

lemma doRefresh_wp:
  assumes "\<And>r w' l. do_refresh_run sess l r \<Longrightarrow> Q r (w', snd wl @ l)"
  shows "wp (doRefresh n (silent_env E) (rec_bff s) sess) Q wl"
  unfolding doRefresh_def Let_def rec_bff_simps rec_store_Get
  apply (intro bff_wp refresh_locked_wp)
      apply (simp, intro assms lock_failed)
     apply (simp, intro assms loser, assumption, simp)
    apply (simp, intro assms loser, assumption, blast)
   subgoal for r w1 acquired now w2 p w3 l r2 w4
     using assms [OF loser [of sess "l @ [SessionGet (bs_SessionID sess) r2]" "Some (Inr (case r2 of Inl x \<Rightarrow> sess | Inr updated \<Rightarrow> updated))"], of w4]
     by (auto simp: only_gets_def split: sum.splits)
  subgoal for r w1 acquired r2 w2 l e w3
    using assms [OF winner [of sess l r2 e], of w3] by simp
  done

section \<open>The waiting loop ends\<close>

text \<open>A clock that every wait moves, and a store whose reads do not turn it back.\<close>

locale ticking =
  fixes E :: "'w go_env" and clk :: "'w \<Rightarrow> int" and st :: "'w session_store"
  assumes now_law: "wp (env_now E) (\<lambda>t w'. clk w \<le> t \<and> t \<le> clk w') w"
    and wait_law: "0 \<le> d \<Longrightarrow> wp (env_wait E d) (\<lambda>_ w'. clk w + d \<le> clk w') w"
    and get_law: "wp (ss_Get st i) (\<lambda>_ w'. clk w \<le> clk w') w"
begin

lemma poll_ends:
  "deadline \<le> clk w + int n * (250 * millisecond) \<Longrightarrow> wp (poll_refresh (Suc n) E st sess deadline) (\<lambda>r _. r \<noteq> PollFuel) w"
proof (induction n arbitrary: w)
  case 0
  then show ?case
    by (simp only: poll_refresh.simps wp_bind, intro wp_mono [OF now_law]) (simp add: wp_return)
next
  case (Suc n)
  have step: "wp (env_wait E (250 * millisecond)) (\<lambda>done. wp (case done of
             Some err \<Rightarrow> State_Monad.return (PollReturned (Inl err))
           | None \<Rightarrow> poll_refresh (Suc n) E st sess deadline) (\<lambda>r _. r \<noteq> PollFuel)) w3" if "clk w \<le> clk w3" for w3
  proof (rule wp_mono [OF wait_law])
    fix d and w4
    assume "clk w3 + 250 * millisecond \<le> clk w4"
    with that Suc.prems have "deadline \<le> clk w4 + int n * (250 * millisecond)"
      by (simp add: algebra_simps)
    then show "wp (case d of Some err \<Rightarrow> State_Monad.return (PollReturned (Inl err))
           | None \<Rightarrow> poll_refresh (Suc n) E st sess deadline) (\<lambda>r _. r \<noteq> PollFuel) w4"
      by (intro wp_steps Suc.IH) simp_all
  qed (simp add: millisecond_def)
  show ?case
    unfolding poll_refresh.simps(2) [of "Suc n"]
  proof (rule wp_bindI, rule wp_mono [OF now_law], elim conjE, rule wp_ifI)
    fix t w1
    assume t: "clk w \<le> t" "t \<le> clk w1"
    show "wp (State_Monad.return PollDeadline) (\<lambda>r _. r \<noteq> PollFuel) w1"
      by (simp add: wp_return)
    show "wp (do {
       r \<leftarrow> ss_Get st (bs_SessionID sess);
       case (case r of Inl _ \<Rightarrow> None
             | Inr updated \<Rightarrow> if bs_AccessTokenExp sess < bs_AccessTokenExp updated then Some updated else None) of
         Some updated \<Rightarrow> State_Monad.return (PollReturned (Inr updated))
       | None \<Rightarrow> do {
           done \<leftarrow> env_wait E (250 * millisecond);
           case done of
             Some err \<Rightarrow> State_Monad.return (PollReturned (Inl err))
           | None \<Rightarrow> poll_refresh (Suc n) E st sess deadline
         }
     }) (\<lambda>r _. r \<noteq> PollFuel) w1"
      by (rule wp_bindI, rule wp_mono [OF get_law], rule wp_optionI, rule wp_bindI, rule step)
        (use t in \<open>auto simp: wp_return\<close>)
  qed
qed

lemma doRefresh_ends:
  assumes "bf_sessionStore s = st"
  shows "wp (doRefresh pollFuel E s sess) (\<lambda>r _. r \<noteq> None) w"
proof -
  have poll: "wp (do { now \<leftarrow> env_now E; let deadline = now + lockTTL div 2;
         p \<leftarrow> poll_refresh pollFuel E st sess deadline;
         case p of
           PollFuel \<Rightarrow> State_Monad.return None
         | PollReturned r \<Rightarrow> State_Monad.return (Some r)
         | PollDeadline \<Rightarrow> do {
             r \<leftarrow> ss_Get st (bs_SessionID sess);
             State_Monad.return (Some (Inr (case r of Inl _ \<Rightarrow> sess | Inr updated \<Rightarrow> updated))) } })
       (\<lambda>r _. r \<noteq> None) w1" for w1
  proof (rule wp_bindI, rule wp_mono [OF now_law], unfold Let_def, rule wp_bindI)
    fix t w2
    assume "clk w1 \<le> t \<and> t \<le> clk w2"
    then have d: "t + lockTTL div 2 \<le> clk w2 + int 10 * (250 * millisecond)"
      by (simp add: lockTTL_def duration_defs)
    show "wp (poll_refresh pollFuel E st sess (t + lockTTL div 2)) (\<lambda>p. wp (case p of
           PollFuel \<Rightarrow> State_Monad.return None
         | PollReturned r \<Rightarrow> State_Monad.return (Some r)
         | PollDeadline \<Rightarrow> do {
             r \<leftarrow> ss_Get st (bs_SessionID sess);
             State_Monad.return (Some (Inr (case r of Inl _ \<Rightarrow> sess | Inr updated \<Rightarrow> updated))) }) (\<lambda>r _. r \<noteq> None)) w2"
      using poll_ends [OF d, of sess] unfolding pollFuel_def
      by (simp only: eval_nat_numeral One_nat_def BitM.simps numeral_inc) (erule wp_mono, intro wp_pollI wp_bindI, simp_all add: wp_return wp_True)
  qed
  show ?thesis
    unfolding doRefresh_def assms
    by (intro wp_steps wp_any poll) simp_all
qed

end

text \<open>A runtime whose clock runs with the timer, over the Redis store.\<close>

definition ticking_env :: "sim go_env" where
  "ticking_env = sim_env\<lparr>env_now := State (\<lambda>x. (sm_now x, x))\<rparr>"

interpretation sim_ticking: ticking "ext_env ticking_env" sim_clock sim_store
proof
  show "wp (env_now (ext_env ticking_env)) (\<lambda>t w'. sim_clock w \<le> t \<and> t \<le> sim_clock w') w" for w
    by (auto intro!: wpI simp: ticking_env_def ext_env_def sim_clock_def)
  show "wp (env_wait (ext_env ticking_env) d) (\<lambda>_ w'. sim_clock w + d \<le> sim_clock w') w" if "0 \<le> d" for d w
    using that by (auto intro!: wpI simp: ticking_env_def ext_env_def sim_env_def sim_clock_def)
  have "client_frame sim_redis sim_clock"
    by (rule sim_client_frame) (simp add: sim_clock_def)
  then show "wp (ss_Get sim_store i) (\<lambda>_ w'. sim_clock w \<le> sim_clock w') w" for i w
    unfolding NewRedisStore_def session_store.simps rs_Get_def
    by (intro wp_steps) (auto simp: client_frame_def wp_return intro!: same_wp [of sim_clock "rc_do sim_redis _"])
qed

lemma longest_ttl_wp:
  assumes "\<And>m w'. m0 \<le> m \<Longrightarrow> (\<And>x. x \<in> set xs \<Longrightarrow> \<exists>now. clock_reading E now \<and> time_sub (bs_ExpiresAt x) now \<le> m) \<Longrightarrow>
      Q m (w', snd wl)"
  shows "wp (longest_ttl (silent_env E) m0 xs) Q wl"
  using assms
proof (induction xs arbitrary: m0 wl)
  case Nil
  from Nil [of m0 "fst wl"] show ?case by (simp add: wp_return)
next
  case (Cons x xs)
  show ?case
    unfolding longest_ttl.simps
  proof (intro wp_bindI time_until_wp Cons.IH)
    fix now w1 m w2
    let ?r = "time_sub (bs_ExpiresAt x) now"
    assume now: "run_state (env_now E) (fst wl) = (now, w1)" and m: "(if ?r > m0 then ?r else m0) \<le> m"
      and xs: "\<And>y. y \<in> set xs \<Longrightarrow> \<exists>now. clock_reading E now \<and> time_sub (bs_ExpiresAt y) now \<le> m"
    have "m0 \<le> m" "?r \<le> m"
      using m by (auto split: if_splits)
    with xs clock_readingI [OF now] Cons.prems [of m w2] show "Q m (w2, snd (w1, snd wl))"
      by auto
  qed
qed

lemma check_session_wp:
  assumes "\<And>e b w'. (snd b = None \<longrightarrow> fst b \<and> e = Sentinel ErrSessionBlacklisted) \<Longrightarrow> Q (Inl e) (w', snd wl @ [BlacklistCheck sid b])"
    and "\<And>e x w'. (errors_Is x SessionErrNotFound \<longrightarrow> e = Sentinel ErrSessionNotFound) \<Longrightarrow>
      Q (Inl e) (w', snd wl @ [BlacklistCheck sid (False, None), SessionGet sid (Inl x)])"
    and "\<And>sess w'. Q (Inr sess) (w', snd wl @ [BlacklistCheck sid (False, None), SessionGet sid (Inr sess)])"
  shows "wp (check_session (rec_bff s) tag sid) Q wl"
  unfolding check_session_def rec_bff_simps rec_store_Get
proof (intro wp_steps recorded_wp)
  fix b :: "bool \<times> error option" and w1 e
  assume "snd b = Some e"
  then show "Q (Inl (Errorf (tag @ '': blacklist check'') [e])) (w1, snd wl @ [BlacklistCheck sid b])"
    by (intro assms(1)) simp
next
  fix b :: "bool \<times> error option" and w1
  assume "snd b = None" "fst b"
  then show "Q (Inl (Sentinel ErrSessionBlacklisted)) (w1, snd wl @ [BlacklistCheck sid b])"
    by (intro assms(1)) simp
next
  fix b :: "bool \<times> error option" and w1 r w2
  assume "snd b = None" "\<not> fst b"
  then have b: "b = (False, None)"
    by (simp add: prod_eq_iff)
  show "Q (case r of Inl err \<Rightarrow> if errors_Is err SessionErrNotFound then Inl (Sentinel ErrSessionNotFound)
         else Inl (Errorf (tag @ '': get session'') [err]) | Inr sess \<Rightarrow> Inr sess)
     (w2, snd (w1, snd wl @ [BlacklistCheck sid b]) @ [SessionGet sid r])"
    using assms(2) [of _ _ w2] assms(3) [of _ w2] by (cases r) (auto simp: b)
qed

text \<open>The runs of \<open>ResolveSession\<close>: the calls and the answer.\<close>

definition forwarded :: "bff_session \<Rightarrow> string \<times> string \<times> string" where
  "forwarded s = (bs_HydraAccessToken s, bs_KratosID s, bs_DeviceID s)"

inductive resolve_run :: "string \<Rightarrow> call list \<Rightarrow> (string \<times> string \<times> string) result option \<Rightarrow> bool" where
  revoked: "(snd b = None \<Longrightarrow> fst b \<and> e = Sentinel ErrSessionBlacklisted) \<Longrightarrow> resolve_run sid [BlacklistCheck sid b] (Some (Inl e))"
| no_session: "(errors_Is x SessionErrNotFound \<Longrightarrow> e = Sentinel ErrSessionNotFound) \<Longrightarrow>
     resolve_run sid [BlacklistCheck sid (False, None), SessionGet sid (Inl x)] (Some (Inl e))"
| stored: "resolve_run sid [BlacklistCheck sid (False, None), SessionGet sid (Inr sess)] (Some (Inr (forwarded sess)))"
| near_expiry: "do_refresh_run sess l r \<Longrightarrow>
     resolve_run sid (BlacklistCheck sid (False, None) # SessionGet sid (Inr sess) # l)
       (map_option (\<lambda>rr. Inr (forwarded (case rr of Inl _ \<Rightarrow> sess | Inr u \<Rightarrow> u))) r)"

lemma resolve_wp: "wp (bff_ResolveSession n (silent_env E) (rec_bff s) sid) (\<lambda>r wl. resolve_run sid (snd wl) r) (w, [])"
proof -
  have near: "resolve_run sid (BlacklistCheck sid (False, None) # SessionGet sid (Inr sess) # l)
      (case r of None \<Rightarrow> None | Some rr \<Rightarrow> Some (Inr (forwarded (case rr of Inl _ \<Rightarrow> sess | Inr u \<Rightarrow> u))))"
    if "do_refresh_run sess l r" for sess l r
    using near_expiry [OF that, of sid] by (cases r) simp_all
  show ?thesis
    unfolding bff_ResolveSession_def Let_def forwarded_def [symmetric]
  proof (rule wp_bindI, rule check_session_wp)
    fix sess w1
    let ?l = "[BlacklistCheck sid (False, None), SessionGet sid (Inr sess)]"
    show "wp (case Inr sess of Inl err \<Rightarrow> State_Monad.return (Some (Inl err))
      | Inr sess \<Rightarrow> do {
          left \<leftarrow> time_until (silent_env E) (bs_AccessTokenExp sess);
          if left < bf_AccessTokenRefreshBuffer (rec_bff s) then do {
            d \<leftarrow> doRefresh n (silent_env E) (rec_bff s) sess;
            State_Monad.return (case d of None \<Rightarrow> None
               | Some r \<Rightarrow> Some (Inr (forwarded (case r of Inl _ \<Rightarrow> sess | Inr refreshed \<Rightarrow> refreshed))))
          } else State_Monad.return (Some (Inr (forwarded sess)))
        }) (\<lambda>r wl. resolve_run sid (snd wl) r) (w1, snd (w, []) @ ?l)"
      unfolding sum.case
      by (intro wp_bindI wp_ifI time_until_wp doRefresh_wp wp_returnI) (simp_all add: near stored)
  qed (auto simp: wp_return intro!: resolve_run.intros)
qed

text \<open>The exchange at Hydra happens once, under the lock.\<close>

definition hydra_refresh :: "call \<Rightarrow> bool" where
  "hydra_refresh c \<longleftrightarrow> (\<exists>t r. c = RefreshToken t r)"

lemma hydra_refresh_simps [simp]:
  "hydra_refresh (RefreshToken t r)" "\<not> hydra_refresh (ValidateAccessToken t c)" "\<not> hydra_refresh (SessionUpdate x e)"
  "\<not> hydra_refresh (RotateToken k d t n e)" "\<not> hydra_refresh (UpdateLastUsedAt k d e)" "\<not> hydra_refresh (SessionGet i g)"
  "\<not> hydra_refresh (AcquireLock i n a)" "\<not> hydra_refresh (ReleaseLock i e)"
  by (simp_all add: hydra_refresh_def)

lemma only_gets_no_refresh: "only_gets sid l \<Longrightarrow> c \<in> set l \<Longrightarrow> \<not> hydra_refresh c"
  by (auto simp: only_gets_def hydra_refresh_def)

lemma refresh_run_once: "refresh_run sess l r \<Longrightarrow> length (filter hydra_refresh l) = 1"
  by (induction rule: refresh_run.induct) simp_all

lemma do_refresh_run_locked:
  "do_refresh_run sess l r \<Longrightarrow> c \<in> set l \<Longrightarrow> hydra_refresh c \<Longrightarrow>
     length (filter hydra_refresh l) = 1 \<and>
     (\<exists>m e. l = AcquireLock (bs_SessionID sess) lockTTL (Inr True) # m @ [ReleaseLock (bs_SessionID sess) e])"
  by (induction rule: do_refresh_run.induct) (auto simp: refresh_run_once dest: only_gets_no_refresh)

lemma hex_bare_key:
  assumes "set s \<subseteq> set ldigits"
  shows "bare_key s"
proof -
  have sub: "set (take n s) \<subseteq> set ldigits" for n
    using assms set_take_subset [of n s] by blast
  have no: "CHR ''s'' \<notin> set ldigits" "CHR ''r'' \<notin> set ldigits"
    by (simp_all add: ldigits_def)
  have "take 5 s \<noteq> ''sess:''"
  proof
    assume "take 5 s = ''sess:''"
    then have "CHR ''s'' \<in> set (take 5 s)" by simp
    with sub no show False by blast
  qed
  moreover have "take 4 s \<noteq> ''drt:''"
  proof
    assume "take 4 s = ''drt:''"
    then have "CHR ''r'' \<in> set (take 4 s)" by simp
    with sub no show False by blast
  qed
  ultimately show ?thesis
    by (simp add: bare_key_def has_prefix_def eval_nat_numeral)
qed


text \<open>A service in the test world, over the Redis and Postgres repositories, whose Hydra refuses every exchange.\<close>

definition refusing_hydra :: "'w hydra_client" where
  "refusing_hydra = \<lparr>
     hy_IssueTokens = (\<lambda>_ _ _. State_Monad.return (Inl refused)), hy_RefreshToken = (\<lambda>_. State_Monad.return (Inl refused)),
     hy_RevokeToken = (\<lambda>_. State_Monad.return None), hy_RevokeAllForSubject = (\<lambda>_. State_Monad.return None),
     hy_IntrospectToken = (\<lambda>_. State_Monad.return (Inl refused)), hy_ValidateAccessToken = (\<lambda>_. State_Monad.return (Inl refused)),
     hy_ForceRefreshJWKS = State_Monad.return None\<rparr>"

definition idle_kratos :: "'w kratos_client" where
  "idle_kratos = \<lparr>
     kr_GetIdentity = (\<lambda>_. State_Monad.return (Inl refused)), kr_GetIdentityByEmail = (\<lambda>_. State_Monad.return (Inl refused)),
     kr_DeleteSessions = (\<lambda>_. State_Monad.return None), kr_CreateIdentity = (\<lambda>_. State_Monad.return (Inl refused)),
     kr_GetSessionIDByToken = (\<lambda>_. State_Monad.return (Inl refused)), kr_DeleteSession = (\<lambda>_. State_Monad.return None),
     kr_GetIdentityFull = (\<lambda>_. State_Monad.return (Inl refused))\<rparr>"

definition sim_bff :: "sim_proc bff_service" where
  "sim_bff = \<lparr>bf_hydra = refusing_hydra, bf_kratosClient = idle_kratos, bf_sessionStore = sim_store,
     bf_blacklist = NewRedisBlacklist sim_redis, bf_redisRepo = NewRedisRepository (ext_env sim_env) sim_redis,
     bf_deviceSessionRepo = NewPostgresDeviceSessionRepository sim_pool, bf_AccessTokenRefreshBuffer = 60000000000,
     bf_publisher = NoopPublisher\<rparr>"

text \<open>The runs of \<open>Logout\<close> and \<open>LogoutAll\<close>.\<close>

inductive logout_run :: "string \<Rightarrow> call list \<Rightarrow> error option \<Rightarrow> bool" where
  gone: "errors_Is x SessionErrNotFound \<Longrightarrow> logout_run sid [SessionGet sid (Inl x)] None"
| unreadable: "\<not> errors_Is x SessionErrNotFound \<Longrightarrow>
     logout_run sid [SessionGet sid (Inl x)] (Some (Errorf ''bff logout: get session'' [x]))"
| not_revoked: "\<not> errors_Is x ErrRedisUnavailable \<Longrightarrow>
     logout_run sid [SessionGet sid (Inr sess), BlacklistAdd sid ttl (Some x)] (Some (Errorf ''bff logout: blacklist session'' [x]))"
| logged_out: "revocation_stored r \<Longrightarrow> k = bs_KratosID sess \<Longrightarrow> d = bs_DeviceID sess \<Longrightarrow>
     ends = (if bs_KratosSessionID sess \<noteq> [] then KratosDeleteSession (bs_KratosSessionID sess) e2 else KratosDeleteSessions k e2) \<Longrightarrow>
     logout_run sid [SessionGet sid (Inr sess), BlacklistAdd sid ttl r, RevokeToken (bs_HydraRefreshToken sess) e1, ends,
       SessionDelete sid e3, LogoutDevice k d e4, RevokeDevice k d e5] None"

lemma stored_or_not:
  "(case b of None \<Rightarrow> None | Some err \<Rightarrow> if \<not> errors_Is err ErrRedisUnavailable then Some err else None) =
     (if revocation_stored b then None else b)"
  by (cases b) auto

lemma stored_or_not_iff [simp]:
  "(if revocation_stored b then None else b) = None \<longleftrightarrow> revocation_stored b"
  "(if revocation_stored b then None else b) = Some x \<longleftrightarrow> b = Some x \<and> \<not> errors_Is x ErrRedisUnavailable"
  by (cases b; simp) (cases b; auto)

inductive logout_all_run :: "'w go_env \<Rightarrow> string \<Rightarrow> call list \<Rightarrow> error option \<Rightarrow> bool" for E where
  gone: "errors_Is x SessionErrNotFound \<Longrightarrow> logout_all_run E sid [SessionGet sid (Inl x)] None"
| unreadable: "\<not> errors_Is x SessionErrNotFound \<Longrightarrow>
     logout_all_run E sid [SessionGet sid (Inl x)] (Some (Errorf ''bff logout-all: get session'' [x]))"
| no_list: "logout_all_run E sid [SessionGet sid (Inr sess), SessionGetAll (bs_KratosID sess) (Inl x)]
     (Some (Errorf ''bff logout-all: get all sessions'' [x]))"
| not_revoked: "\<not> errors_Is x ErrRedisUnavailable \<Longrightarrow>
     logout_all_run E sid [SessionGet sid (Inr sess), SessionGetAll (bs_KratosID sess) (Inr all), BlacklistBatch (map bs_SessionID all) ttl (Some x)]
       (Some (Errorf ''bff logout-all: blacklist sessions'' [x]))"
| hydra_failed: "revocation_stored r \<Longrightarrow>
     logout_all_run E sid [SessionGet sid (Inr sess), SessionGetAll (bs_KratosID sess) (Inr all), BlacklistBatch (map bs_SessionID all) ttl r,
       RevokeAllForSubject (bs_KratosID sess) (Some x)] (Some (Errorf ''bff logout-all: revoke tokens'' [x]))"
| logged_out: "revocation_stored r \<Longrightarrow> k = bs_KratosID sess \<Longrightarrow>
     (\<And>x. x \<in> insert sess (set all) \<Longrightarrow> \<exists>now. clock_reading E now \<and> time_sub (bs_ExpiresAt x) now \<le> ttl) \<Longrightarrow>
     logout_all_run E sid [SessionGet sid (Inr sess), SessionGetAll k (Inr all), BlacklistBatch (map bs_SessionID all) ttl r,
       RevokeAllForSubject k None, KratosDeleteSessions k e1, SessionDeleteAll k e2, LogoutAllDevices k e3, RevokeAllDevices k e4] None"

section \<open>Properties\<close>

text \<open>
  C2. No request is served without a blacklist check: \<open>ResolveSession\<close> answers a token only after
  the blacklist said, without error, that the session is not revoked, and the store had
  the session; on a revoked session or a failed check it stops there. The token is that of
  the stored session or of the transparent refresh, whose failure never fails the
  request.
\<close>

theorem resolve_session_runs:
  "wp (bi_ResolveSession (NewBFFService (silent_env E) (rec_bff s)) sid) (\<lambda>r wl. resolve_run sid (snd wl) r) (w, [])"
  using resolve_wp by (simp add: NewBFFService_def)


text \<open>
  C31. The request path always answers: on a clock that moves with the timer, over a store whose
  reads do not turn it back, \<open>ResolveSession\<close> ends, because the waiting loop of a caller
  that lost the lock reaches its deadline within \<open>pollFuel\<close> rounds.
\<close>

theorem resolve_session_terminates:
  assumes "ticking E clk (bf_sessionStore s)"
  shows "wp (bi_ResolveSession (NewBFFService E s) sid) (\<lambda>r _. r \<noteq> None) w"
proof -
  have fin: "wp (doRefresh pollFuel E s sess) (\<lambda>d. wp (State_Monad.return (case d of None \<Rightarrow> None
      | Some r \<Rightarrow> Some (f r))) (\<lambda>r _. r \<noteq> None)) w1" for sess f w1
    by (rule wp_mono [OF ticking.doRefresh_ends [OF assms refl]]) (auto simp: wp_return)
  show ?thesis
    unfolding NewBFFService_def bff_service_i.simps bff_ResolveSession_def Let_def
    by (intro wp_bindI wp_any wp_sumI wp_ifI wp_returnI fin) simp_all
qed

theorem resolve_session_terminates_witness:
  "wp (bi_ResolveSession (NewBFFService (ext_env ticking_env) sim_bff) ''1'') (\<lambda>r _. r \<noteq> None) sim_start"
  by (rule resolve_session_terminates [of _ sim_clock]) (simp only: sim_bff_def bff_service.simps sim_ticking.ticking_axioms)


text \<open>
  C30. \<open>LogoutAll\<close> revokes what the index lists: on success exactly the sessions
  \<open>GetAllForUser\<close> returned were blacklisted, in one batch whose lifetime covers the caller's
  session and each of them, before anything was revoked at Hydra, deleted or logged out.
  If the batch fails nothing else is touched.
\<close>

theorem bff_logout_all_runs:
  "wp (bi_LogoutAll (NewBFFService (silent_env E) (rec_bff s)) sid) (\<lambda>err wl. logout_all_run E sid (snd wl) err) (w, [])"
  unfolding NewBFFService_def bff_service_i.simps bff_LogoutAll_def Let_def rec_bff_simps rec_store_Get stored_or_not
  apply (intro bff_wp longest_ttl_wp)
  apply (simp_all add: logout_all_run.intros)
  apply (intro logout_all_run.logged_out)
  apply (auto dest: clock_readingI)
  done
text \<open>
  A BFF login returns a session identifier only after the session is stored: the stored
  session carries the identifier, the user, the device and both tokens Hydra issued, and
  lives as long as \<open>rememberMe\<close> selects; then the device is registered (best effort) and one
  event with the token's JTI published. A failed login stores no session.
\<close>

theorem bff_login_runs:
  "wp (bi_Login (NewBFFService (silent_env E) (rec_bff s)) k d rm kt ua ip) (\<lambda>r wl. case r of
     Inl _ \<Rightarrow> \<forall>x. SessionCreate x None \<notin> set (snd wl)
   | Inr sid \<Rightarrow> (\<exists>ts c l sess e ev.
       snd wl = [IssueTokens k d rm (Inr ts), ValidateAccessToken (ts_AccessToken ts) (Inr c)] @ l @
         [SessionCreate sess None, SaveLogin k d (ts_RefreshToken ts) (refreshTTL rm) e, PublishAuthSession ev] \<and>
       (if kt = [] then l = [] else \<exists>x. l = [GetSessionIDByToken kt x]) \<and>
       bs_SessionID sess = sid \<and> bs_KratosID sess = k \<and> bs_DeviceID sess = d \<and>
       bs_HydraAccessToken sess = ts_AccessToken ts \<and> bs_HydraRefreshToken sess = ts_RefreshToken ts \<and>
       bs_ExpiresAt sess = bs_CreatedAt sess + refreshTTL rm \<and>
       as_HydraJTI ev = cl_ID c \<and> as_KratosID ev = k \<and> as_DeviceID ev = d)) (w, [])"
  unfolding NewBFFService_def bff_service_i.simps bff_Login_def randomSessionID_def Let_def rec_bff_simps
  apply (intro bff_wp)
  apply (simp_all add: refreshTTL_def)
  done

text \<open>
  Session identifiers are 64 lower-case hexadecimal digits, the text of the 32 random bytes
  that were read, so distinct bytes give distinct identifiers; such an identifier collides
  with no key of the session or device entries that share the in-process cache with the
  blacklist.
\<close>

theorem session_id_format:
  assumes "rand_ok E"
  shows "wp (randomSessionID E) (\<lambda>r w'. \<forall>sid. r = Inr sid \<longrightarrow>
     length sid = 64 \<and> set sid \<subseteq> set ''0123456789abcdef'' \<and> bare_key sid \<and>
     (\<exists>bs. run_state (env_rand E 32) w = (Inr bs, w') \<and>
       (\<forall>cs. (\<forall>b\<in>set cs. b < 256) \<longrightarrow> hex_bytes cs = sid \<longrightarrow> cs = bs))) w"
proof (rule wpI, intro allI impI)
  fix r w' sid
  assume run: "run_state (randomSessionID E) w = (r, w')" and r: "r = Inr sid"
  then obtain bs where bs: "run_state (env_rand E 32) w = (Inr bs, w')" "sid = hex_bytes bs"
    by (auto simp: randomSessionID_def split: sum.splits prod.splits)
  have b: "length bs = 32" "\<forall>b\<in>set bs. b < 256"
    using assms bs(1) unfolding rand_ok_def by (metis fst_conv)+
  show "length sid = 64 \<and> set sid \<subseteq> set ''0123456789abcdef'' \<and> bare_key sid \<and>
     (\<exists>bs. run_state (env_rand E 32) w = (Inr bs, w') \<and>
       (\<forall>cs. (\<forall>b\<in>set cs. b < 256) \<longrightarrow> hex_bytes cs = sid \<longrightarrow> cs = bs))"
    using hex_bytes_shape [OF b(2)] b(1) bs hex_bare_key [of sid] hex_bytes_inject [OF _ b(2)]
    by (simp add: ldigits_def [symmetric])
qed

theorem session_id_format_witness:
  "wp (randomSessionID (ext_env sim_env)) (\<lambda>r w'. \<forall>sid. r = Inr sid \<longrightarrow>
     length sid = 64 \<and> set sid \<subseteq> set ''0123456789abcdef'' \<and> bare_key sid \<and>
     (\<exists>bs. run_state (env_rand (ext_env sim_env) 32) sim_start = (Inr bs, w') \<and>
       (\<forall>cs. (\<forall>b\<in>set cs. b < 256) \<longrightarrow> hex_bytes cs = sid \<longrightarrow> cs = bs))) sim_start"
  by (rule session_id_format) (auto simp: rand_ok_def sim_env_simps)

text \<open>
  A refresh whose result cannot be stored loses the session's refresh token: when the update
  after a successful exchange fails, the request is answered with the old access token,
  and the store still holds the refresh token that Hydra has just consumed; the new one is
  recorded nowhere.
\<close>

theorem refresh_lost_when_update_fails:
  "wp (bi_ResolveSession (NewBFFService (silent_env E) (rec_bff s)) sid) (\<lambda>r wl. \<forall>v x. SessionUpdate v (Some x) \<in> set (snd wl) \<longrightarrow>
     (\<exists>sess ts. SessionGet sid (Inr sess) \<in> set (snd wl) \<and> r = Some (Inr (forwarded sess)) \<and>
        RefreshToken (bs_HydraRefreshToken sess) (Inr ts) \<in> set (snd wl) \<and> bs_HydraRefreshToken v = ts_RefreshToken ts \<and>
        (\<forall>k d t n e. RotateToken k d t n e \<notin> set (snd wl)))) (w, [])"
proof -
  have locked: "SessionUpdate v (Some x) \<in> set l \<Longrightarrow> (\<exists>y. r = Inl y) \<and>
      (\<exists>ts. RefreshToken (bs_HydraRefreshToken sess) (Inr ts) \<in> set l \<and> bs_HydraRefreshToken v = ts_RefreshToken ts) \<and>
      (\<forall>k d t n e. RotateToken k d t n e \<notin> set l)" if "refresh_run sess l r" for sess l r v x
    using that by (cases rule: refresh_run.cases) auto
  have tried: "SessionUpdate v (Some x) \<in> set l \<Longrightarrow> (\<exists>y. r = Some (Inl y)) \<and>
      (\<exists>ts. RefreshToken (bs_HydraRefreshToken sess) (Inr ts) \<in> set l \<and> bs_HydraRefreshToken v = ts_RefreshToken ts) \<and>
      (\<forall>k d t n e. RotateToken k d t n e \<notin> set l)" if "do_refresh_run sess l r" for sess l r v x
    using that
  proof (cases rule: do_refresh_run.cases)
    case (winner l' r' e)
    then show "SessionUpdate v (Some x) \<in> set l \<Longrightarrow> ?thesis"
      using locked [OF winner(3), of v x] by auto
  qed (auto simp: only_gets_def)
  have "\<forall>v x. SessionUpdate v (Some x) \<in> set l \<longrightarrow>
     (\<exists>sess ts. SessionGet sid (Inr sess) \<in> set l \<and> r = Some (Inr (forwarded sess)) \<and>
        RefreshToken (bs_HydraRefreshToken sess) (Inr ts) \<in> set l \<and> bs_HydraRefreshToken v = ts_RefreshToken ts \<and>
        (\<forall>k d t n e. RotateToken k d t n e \<notin> set l))" if "resolve_run sid l r" for l r
    using that
  proof (cases rule: resolve_run.cases)
    case (near_expiry sess l' r')
    show ?thesis
    proof (intro allI impI)
      fix v x
      assume "SessionUpdate v (Some x) \<in> set l"
      then have "SessionUpdate v (Some x) \<in> set l'"
        using near_expiry(1) by simp
      from tried [OF near_expiry(3) this] near_expiry(1,2)
      show "\<exists>sess ts. SessionGet sid (Inr sess) \<in> set l \<and> r = Some (Inr (forwarded sess)) \<and>
        RefreshToken (bs_HydraRefreshToken sess) (Inr ts) \<in> set l \<and> bs_HydraRefreshToken v = ts_RefreshToken ts \<and>
        (\<forall>k d t n e. RotateToken k d t n e \<notin> set l)"
        by auto
    qed
  qed auto
  then show ?thesis
    unfolding NewBFFService_def bff_service_i.simps by (intro wp_mono [OF resolve_wp])
qed

text \<open>
  While the circuit breaker is open no refresh happens: over the resilient store the lock
  request answers "not acquired", although its comment says that this permits concurrent
  refreshes, so \<open>doRefresh\<close> only waits for a winner that does not exist.
\<close>

theorem open_breaker_never_refreshes:
  assumes "wp (cbi_Allow cb) (\<lambda>b _. \<not> b) w"
  shows "wp (doRefresh n (silent_env E) (rec_bff (s\<lparr>bf_sessionStore := NewResilientSessionStore d cb l1\<rparr>)) sess)
     (\<lambda>r wl. \<forall>c\<in>set (snd wl). \<not> hydra_refresh c) (w, [])"
proof -
  let ?st = "NewResilientSessionStore d cb l1" and ?sid = "bs_SessionID sess"
  have lock: "wp (recorded (AcquireLock ?sid lockTTL) (ss_AcquireRefreshLock ?st ?sid lockTTL))
      (\<lambda>a wl. a = Inr False \<and> snd wl = [AcquireLock ?sid lockTTL (Inr False)]) (w, [])"
  proof (rule wpI)
    fix a :: "bool result" and wl
    assume run: "run_state (recorded (AcquireLock ?sid lockTTL) (ss_AcquireRefreshLock ?st ?sid lockTTL)) (w, []) = (a, wl)"
    obtain b w1 where b: "run_state (cbi_Allow cb) w = (b, w1)" "\<not> b"
      using assms by (cases "run_state (cbi_Allow cb) w") (auto simp: wp_def)
    with run show "a = Inr False \<and> snd wl = [AcquireLock ?sid lockTTL (Inr False)]"
      by (auto simp: run_recorded NewResilientSessionStore_def rss_AcquireRefreshLock_def)
  qed
  have st: "bf_sessionStore (s\<lparr>bf_sessionStore := ?st\<rparr>) = ?st"
    by simp
  show ?thesis
    unfolding doRefresh_def Let_def rec_bff_simps rec_store_Get st
    apply (rule wp_bindI, rule wp_mono [OF lock], elim conjE)
    subgoal for a wl
      by (simp only: sum.case, intro bff_wp) (auto dest: only_gets_no_refresh)
    done
qed

theorem open_breaker_never_refreshes_witness:
  "wp (doRefresh 11 (silent_env (ext_env sim_env)) (rec_bff (sim_bff\<lparr>bf_sessionStore := sim_resilient_store\<rparr>)) (sample_session ''1'' 0))
     (\<lambda>r wl. \<forall>c\<in>set (snd wl). \<not> hydra_refresh c)
     (sim_start\<lparr>pr_breaker := (pr_breaker sim_start)\<lparr>cb_state := StateOpen, cb_nextProbeAt := 5000\<rparr>\<rparr>, [])"
  by (rule open_breaker_never_refreshes)
    (simp add: NewCircuitBreaker_def sample_breaker_defs wp_def sim_start_def sim0_def sim_env_simps sim_env_def new_circuit_breaker_def)


section \<open>Sample service\<close>

text \<open>Constant answers: a session that is near its expiry, a lock that is free, a store that cannot be written.\<close>

definition sample_store :: "error option \<Rightarrow> int session_store" where
  "sample_store u = \<lparr>ss_Create = (\<lambda>_. State_Monad.return u), ss_Get = (\<lambda>i. State_Monad.return (Inr (sample_session i 0))),
     ss_Update = (\<lambda>_. State_Monad.return u), ss_Delete = (\<lambda>_. State_Monad.return u),
     ss_GetAllForUser = (\<lambda>_. State_Monad.return (Inr [])), ss_DeleteAllForUser = (\<lambda>_. State_Monad.return (Inr [])),
     ss_AcquireRefreshLock = (\<lambda>_ _. State_Monad.return (Inr True)), ss_ReleaseRefreshLock = (\<lambda>_. State_Monad.return None)\<rparr>"

definition sample_bff :: "error option \<Rightarrow> int bff_service" where
  "sample_bff u = \<lparr>bf_hydra = sample_hydra, bf_kratosClient = sample_kratos, bf_sessionStore = sample_store u,
     bf_blacklist = sample_blacklist, bf_redisRepo = sample_repo, bf_deviceSessionRepo = sample_devices,
     bf_AccessTokenRefreshBuffer = 120 * second, bf_publisher = NoopPublisher\<rparr>"


theorem refresh_lost_when_update_fails_witness:
  "case run_state (bi_ResolveSession (NewBFFService (silent_env sample_env) (rec_bff (sample_bff (Some (Errorf ''down'' []))))) ''1'') (0, []) of
     (r, wl) \<Rightarrow> \<exists>sess ts. SessionGet ''1'' (Inr sess) \<in> set (snd wl) \<and> r = Some (Inr (forwarded sess)) \<and>
        RefreshToken (bs_HydraRefreshToken sess) (Inr ts) \<in> set (snd wl) \<and> (\<forall>k d t n e. RotateToken k d t n e \<notin> set (snd wl))"
proof -
  let ?run = "run_state (bi_ResolveSession (NewBFFService (silent_env sample_env) (rec_bff (sample_bff (Some (Errorf ''down'' []))))) ''1'') (0, [])"
  have "\<exists>v. SessionUpdate v (Some (Errorf ''down'' [])) \<in> set (snd (snd ?run))"
    by (simp add: NewBFFService_def bff_ResolveSession_def check_session_def time_until_def doRefresh_def refresh_locked_def rec_bff_simps
        recorded_def silent_def sample_bff_def sample_store_def sample_defs Let_def sample_session_def sample_env_def time_sub_def second_def)
  then show ?thesis
    using wpD [OF refresh_lost_when_update_fails [of sample_env "sample_bff (Some (Errorf ''down'' []))" "''1''" 0]
        prod.collapse [symmetric]]
    by (simp add: case_prod_unfold) blast
qed

end
