(* ===== verification/Http_Client.thy ===== *)
theory Http_Client imports Go_Encoding Call_Trace begin

text \<open>
  What the clients of Hydra and Kratos use of \<open>net/http\<close>, \<open>net/url\<close> and \<open>encoding/json\<close>.

  The services on the other side of the network are not under \<open>src/\<close>: sending a request is
  the parameter \<open>nt_Do\<close> of the record \<open>net\<close>, which may answer anything. The other fields are
  the parts of the library whose result depends on a grammar the code does not look at:
  whether a URL parses, the cookie jar (a handle), the JSON text codec, SHA-256. Building
  requests, status codes, headers, query strings and the decoding of documents into
  structs are written out.
\<close>

section \<open>Computations that may fail\<close>

text \<open>\<open>if err != nil { return ..., err }\<close> after a call, and the wrapping of its error.\<close>

definition try_io :: "('w, 'a result) io \<Rightarrow> ('a \<Rightarrow> ('w, 'b result) io) \<Rightarrow> ('w, 'b result) io" where
  "try_io m f = do { r \<leftarrow> m; case r of Inl e \<Rightarrow> State_Monad.return (Inl e) | Inr a \<Rightarrow> f a }"

definition wrap_error :: "string \<Rightarrow> 'a result \<Rightarrow> 'a result" where
  "wrap_error msg r = (case r of Inl e \<Rightarrow> Inl (Errorf msg [e]) | Inr a \<Rightarrow> Inr a)"

definition wrap_io :: "string \<Rightarrow> ('w, 'a result) io \<Rightarrow> ('w, 'a result) io" where
  "wrap_io msg m = do { r \<leftarrow> m; State_Monad.return (wrap_error msg r) }"

lemma wrap_error_simps [simp]:
  "wrap_error msg (Inl e) = Inl (Errorf msg [e])" "wrap_error msg (Inr a) = Inr a"
  by (simp_all add: wrap_error_def)

lemma wrap_error_Inr [simp]: "wrap_error msg r = Inr a \<longleftrightarrow> r = Inr a"
  by (cases r) simp_all

lemma wp_tryI:
  "wp m (\<lambda>r w'. (\<forall>e. r = Inl e \<longrightarrow> Q (Inl e) w') \<and> (\<forall>a. r = Inr a \<longrightarrow> wp (f a) Q w')) w \<Longrightarrow> wp (try_io m f) Q w"
  by (auto simp: try_io_def wp_def split: prod.splits sum.splits)

lemma wp_wrapI: "wp m (\<lambda>r. Q (wrap_error msg r)) w \<Longrightarrow> wp (wrap_io msg m) Q w"
  by (simp add: wrap_io_def wp_bind wp_return)

lemma run_try: "run_state (try_io m f) w = (case run_state m w of (Inl e, w') \<Rightarrow> (Inl e, w') | (Inr a, w') \<Rightarrow> run_state (f a) w')"
  by (auto simp: try_io_def split: prod.splits sum.splits)

lemma run_wrap: "run_state (wrap_io msg m) w = (case run_state m w of (r, w') \<Rightarrow> (wrap_error msg r, w'))"
  by (auto simp: wrap_io_def split: prod.splits)

text \<open>A successful run of a sequence is a successful run of each part.\<close>

lemma run_try_Inr:
  "run_state (try_io m f) w = (Inr b, w') \<longleftrightarrow> (\<exists>a w1. run_state m w = (Inr a, w1) \<and> run_state (f a) w1 = (Inr b, w'))"
  by (auto simp: run_try split: prod.splits sum.splits)

lemma run_wrap_Inr: "run_state (wrap_io msg m) w = (Inr a, w') \<longleftrightarrow> run_state m w = (Inr a, w')"
  by (auto simp: run_wrap split: prod.splits)

lemma run_return_Inr: "run_state (State_Monad.return r) w = (Inr a, w') \<longleftrightarrow> r = Inr a \<and> w' = w"
  by auto

lemmas run_success = run_try_Inr run_wrap_Inr run_return_Inr

lemma keeps_try [intro]: "keeps I m \<Longrightarrow> (\<And>a. keeps I (f a)) \<Longrightarrow> keeps I (try_io m f)"
  unfolding try_io_def by (intro keeps_bind keeps_case_sum keeps_return)

lemma keeps_wrap [intro]: "keeps I m \<Longrightarrow> keeps I (wrap_io msg m)"
  unfolding wrap_io_def by (intro keeps_bind keeps_return)

lemma same_try [intro]: "same v m \<Longrightarrow> (\<And>a. same v (f a)) \<Longrightarrow> same v (try_io m f)"
  unfolding try_io_def by (intro same_bind same_case_sum same_return)

lemma same_wrap [intro]: "same v m \<Longrightarrow> same v (wrap_io msg m)"
  unfolding wrap_io_def by (intro same_bind same_return)

section \<open>Requests and responses\<close>

record http_request =
  rq_Method :: string
  rq_URL :: string
  rq_Header :: "(string \<times> string) list"
  rq_Body :: string

text \<open>Reading the body can fail; header keys are in canonical form.\<close>

record http_response =
  re_StatusCode :: int
  re_Header :: "(string \<times> string) list"
  re_Body :: "string result"

text \<open>\<open>http.Client\<close>: its timeout, whether it follows redirects, its cookie jar.\<close>

record http_config =
  hk_Timeout :: int
  hk_Redirects :: bool
  hk_Jar :: "nat option"

record 'w net =
  nt_NewRequest :: "string \<Rightarrow> string \<Rightarrow> error option"
  nt_NewJar :: "('w, nat result) io"
  nt_Do :: "http_config \<Rightarrow> http_request \<Rightarrow> ('w, http_response result) io"
  nt_ParseURL :: "string \<Rightarrow> error option"
  nt_codec :: json_codec
  nt_Decode :: "string \<Rightarrow> json result"
  nt_SHA256 :: "nat list \<Rightarrow> nat list"

definition header_get :: "(string \<times> string) list \<Rightarrow> string \<Rightarrow> string" where
  "header_get hs k = (case map_of hs k of None \<Rightarrow> [] | Some v \<Rightarrow> v)"

text \<open>
  Building a request and sending it: \<open>f\<close> and \<open>g\<close> are what the caller does to the two errors.
\<close>

definition http_call ::
    "'w net \<Rightarrow> http_config \<Rightarrow> (error \<Rightarrow> error) \<Rightarrow> (error \<Rightarrow> error) \<Rightarrow> http_request \<Rightarrow> ('w, http_response result) io" where
  "http_call N cfg f g rq =
     (case nt_NewRequest N (rq_Method rq) (rq_URL rq) of
        Some e \<Rightarrow> State_Monad.return (Inl (f e))
      | None \<Rightarrow> do {
          r \<leftarrow> nt_Do N cfg rq;
          State_Monad.return (case r of Inl e \<Rightarrow> Inl (g e) | Inr resp \<Rightarrow> Inr resp)
        })"

text \<open>\<open>http.Client.Get\<close>.\<close>

definition get_request :: "string \<Rightarrow> http_request" where
  "get_request u = \<lparr>rq_Method = ''GET'', rq_URL = u, rq_Header = [], rq_Body = []\<rparr>"

definition http_get :: "'w net \<Rightarrow> http_config \<Rightarrow> string \<Rightarrow> ('w, http_response result) io" where
  "http_get N cfg u = http_call N cfg (\<lambda>e. e) (\<lambda>e. e) (get_request u)"

text \<open>\<open>json.NewDecoder(resp.Body).Decode\<close> and \<open>io.ReadAll\<close> followed by \<open>json.Unmarshal\<close>.\<close>

definition decode_body :: "'w net \<Rightarrow> http_response \<Rightarrow> json result" where
  "decode_body N resp = res_bind (re_Body resp) (nt_Decode N)"

section \<open>Decoding documents into structs\<close>

definition unmarshal_error :: "string \<Rightarrow> error" where
  "unmarshal_error t = Errorf (''json: cannot unmarshal into Go value of type '' @ t) []"

definition unmarshal_object :: "json \<Rightarrow> (string \<times> json) list result" where
  "unmarshal_object j = (case j of JObj kvs \<Rightarrow> Inr kvs | JNull \<Rightarrow> Inr [] | _ \<Rightarrow> Inl (unmarshal_error ''struct''))"

definition unmarshal_bool :: "string \<Rightarrow> (string \<times> json) list \<Rightarrow> bool result" where
  "unmarshal_bool k kvs =
     (case js_field k kvs of
        None \<Rightarrow> Inr False | Some JNull \<Rightarrow> Inr False | Some (JBool b) \<Rightarrow> Inr b | Some _ \<Rightarrow> Inl (unmarshal_error ''bool''))"

definition unmarshal_int64 :: "string \<Rightarrow> (string \<times> json) list \<Rightarrow> int result" where
  "unmarshal_int64 k kvs =
     (case js_field k kvs of
        None \<Rightarrow> Inr 0 | Some JNull \<Rightarrow> Inr 0
      | Some (JNum i) \<Rightarrow> if - (2 ^ 63) \<le> i \<and> i < 2 ^ 63 then Inr i else Inl (unmarshal_error ''int64'')
      | Some _ \<Rightarrow> Inl (unmarshal_error ''int64''))"

definition unmarshal_map :: "string \<Rightarrow> (string \<times> json) list \<Rightarrow> (string \<rightharpoonup> json) option result" where
  "unmarshal_map k kvs =
     (case js_field k kvs of
        None \<Rightarrow> Inr None | Some JNull \<Rightarrow> Inr None
      | Some (JObj m) \<Rightarrow> Inr (Some (map_of (rev m)))
      | Some _ \<Rightarrow> Inl (unmarshal_error ''map''))"

fun unmarshal_all :: "(json \<Rightarrow> 'a result) \<Rightarrow> json list \<Rightarrow> 'a list result" where
  "unmarshal_all f [] = Inr []"
| "unmarshal_all f (j # js) = res_bind (f j) (\<lambda>x. res_bind (unmarshal_all f js) (\<lambda>xs. Inr (x # xs)))"

definition unmarshal_list :: "(json \<Rightarrow> 'a result) \<Rightarrow> json \<Rightarrow> 'a list result" where
  "unmarshal_list f j = (case j of JArr js \<Rightarrow> unmarshal_all f js | JNull \<Rightarrow> Inr [] | _ \<Rightarrow> Inl (unmarshal_error ''slice''))"

text \<open>A client seen from the whole process.\<close>

definition ext_net :: "'x net \<Rightarrow> 'x proc net" where
  "ext_net N = \<lparr>nt_NewRequest = nt_NewRequest N, nt_NewJar = ext (nt_NewJar N), nt_Do = (\<lambda>c r. ext (nt_Do N c r)),
     nt_ParseURL = nt_ParseURL N, nt_codec = nt_codec N, nt_Decode = nt_Decode N, nt_SHA256 = nt_SHA256 N\<rparr>"

section \<open>Recorded traffic\<close>

text \<open>A client whose requests and answers are observable.\<close>

type_synonym exchange = "http_request \<times> http_response result"

definition rec_net :: "'x net \<Rightarrow> ('x \<times> exchange list) net" where
  "rec_net N = \<lparr>nt_NewRequest = nt_NewRequest N, nt_NewJar = silent (nt_NewJar N),
     nt_Do = (\<lambda>c r. recorded (\<lambda>a. (r, a)) (nt_Do N c r)),
     nt_ParseURL = nt_ParseURL N, nt_codec = nt_codec N, nt_Decode = nt_Decode N, nt_SHA256 = nt_SHA256 N\<rparr>"

lemma net_simps [simp]:
  "nt_NewRequest (ext_net N1) = nt_NewRequest N1" "nt_ParseURL (ext_net N1) = nt_ParseURL N1" "nt_codec (ext_net N1) = nt_codec N1"
  "nt_Decode (ext_net N1) = nt_Decode N1" "nt_SHA256 (ext_net N1) = nt_SHA256 N1"
  "nt_NewJar (ext_net N1) = ext (nt_NewJar N1)" "nt_Do (ext_net N1) c r = ext (nt_Do N1 c r)"
  "nt_NewRequest (rec_net N) = nt_NewRequest N" "nt_ParseURL (rec_net N) = nt_ParseURL N" "nt_codec (rec_net N) = nt_codec N"
  "nt_Decode (rec_net N) = nt_Decode N" "nt_SHA256 (rec_net N) = nt_SHA256 N"
  by (simp_all add: ext_net_def rec_net_def)

lemma rec_env_simps [simp]:
  "env_now (silent_env E) = silent (env_now E)" "env_rand (silent_env E) m = silent (env_rand E m)"
  "env_format (silent_env E) = env_format E" "env_parse (silent_env E) = env_parse E"
  by (simp_all add: silent_env_def)

text \<open>A recorded exchange either is refused before it is sent, or leaves one event.\<close>

lemma http_call_wp:
  assumes "\<And>e w'. w' = wl \<Longrightarrow> Q (Inl (f e)) w'"
    and "\<And>e w'. Q (Inl (g e)) (w', snd wl @ [(rq, Inl e)])"
    and "\<And>resp w'. Q (Inr resp) (w', snd wl @ [(rq, Inr resp)])"
  shows "wp (http_call (rec_net N) cfg f g rq) Q wl"
  unfolding http_call_def net_simps
  by (intro wp_steps; (simp add: assms)?) (auto simp: rec_net_def wp_return intro!: recorded_wp assms split: sum.splits)

text \<open>A successful exchange, without recording: the request was sent.\<close>

lemma http_call_Inr:
  "run_state (http_call N cfg f g rq) w = (Inr resp, w') \<longleftrightarrow>
     nt_NewRequest N (rq_Method rq) (rq_URL rq) = None \<and> run_state (nt_Do N cfg rq) w = (Inr resp, w')"
  by (auto simp: http_call_def split: option.splits prod.splits sum.splits)

end
