(* ===== verification/Hydra_Client.thy ===== *)
theory Hydra_Client imports Http_Client Test_World "HOL-Library.AList" begin

text \<open>
  \<open>internal/hydra/client.go\<close>: the programmatic authorization-code flow, the token endpoints
  and the local validation of access tokens against the cached JWKS.

  The cache is \<open>pr_jwks\<close> of the process, its two generations association lists from key
  identifiers to RSA keys; its mutex makes \<open>jwks_get\<close>, \<open>jwks_set\<close> and \<open>jwks_isStale\<close> one step
  each. The JWT library (\<open>github.com/golang-jwt/jwt\<close>) is the parameter \<open>jwt_lib\<close>.
  Log lines and the deprecated-key metric are left out.
\<close>

section \<open>The JWT library\<close>

datatype jwt_option = WithExpirationRequired | WithIssuer string | WithAudience string

text \<open>What the key function reads of a parsed token: its algorithm family and its \<open>kid\<close> header.\<close>

record jwt_token =
  jt_IsRSA :: bool
  jt_kid :: "json option"

record 'w jwt_lib =
  jw_ParseWithClaims ::
    "jwt_option list \<Rightarrow> string \<Rightarrow> (jwt_token \<Rightarrow> ('w, rsa_key result) io) \<Rightarrow> ('w, (access_token_claims \<times> bool) result) io"

section \<open>The key cache\<close>

text \<open>The zero \<open>time.Time\<close>, 1 January of the year 1, in nanoseconds.\<close>

definition zero_time :: int where "zero_time = - 62135596800 * second"

definition newJWKSCache :: "int \<Rightarrow> jwks_cache" where
  "newJWKSCache gracePeriod = \<lparr>jc_keys = [], jc_fetchedAt = zero_time, jc_previousKeys = [], jc_previousFetchedAt = zero_time,
     jc_ttl = 1 * hour, jc_gracePeriod = gracePeriod\<rparr>"

definition get_jwks :: "('x proc, jwks_cache) io" where
  "get_jwks = State (\<lambda>p. (pr_jwks p, p))"

definition put_jwks :: "jwks_cache \<Rightarrow> ('x proc, unit) io" where
  "put_jwks c = State (\<lambda>p. ((), p\<lparr>pr_jwks := c\<rparr>))"

text \<open>\<open>time.Since\<close>.\<close>

definition time_since :: "'w go_env \<Rightarrow> int \<Rightarrow> ('w, int) io" where
  "time_since E t = do { now \<leftarrow> env_now E; State_Monad.return (time_sub now t) }"

definition jwks_get :: "'x go_env \<Rightarrow> string \<Rightarrow> ('x proc, rsa_key option) io" where
  "jwks_get E kid = do {
     jc \<leftarrow> get_jwks;
     case map_of (jc_keys jc) kid of
       Some k \<Rightarrow> State_Monad.return (Some k)
     | None \<Rightarrow>
         if jc_previousKeys jc \<noteq> [] then do {
           age \<leftarrow> ext (time_since E (jc_previousFetchedAt jc));
           State_Monad.return (if age < jc_gracePeriod jc then map_of (jc_previousKeys jc) kid else None)
         } else State_Monad.return None
   }"

definition jwks_set :: "'x go_env \<Rightarrow> (string \<times> rsa_key) list \<Rightarrow> ('x proc, unit) io" where
  "jwks_set E keys = do {
     jc \<leftarrow> get_jwks;
     now \<leftarrow> ext (env_now E);
     put_jwks (jc\<lparr>jc_previousKeys := jc_keys jc, jc_previousFetchedAt := jc_fetchedAt jc, jc_keys := keys, jc_fetchedAt := now\<rparr>)
   }"

definition jwks_isStale :: "'x go_env \<Rightarrow> ('x proc, bool) io" where
  "jwks_isStale E = do {
     jc \<leftarrow> get_jwks;
     age \<leftarrow> ext (time_since E (jc_fetchedAt jc));
     State_Monad.return (age > jc_ttl jc)
   }"

section \<open>The client\<close>

record hydra_config =
  hc_publicURL :: string
  hc_adminURL :: string
  hc_clientID :: string
  hc_clientSecret :: string
  hc_redirectURI :: string
  hc_expectedIssuer :: string
  hc_expectedAudience :: string
  hc_httpClient :: http_config
  hc_noRedirectClient :: http_config

text \<open>A functional option changes the configuration and the initial key cache.\<close>

type_synonym hydra_option = "hydra_config \<times> jwks_cache \<Rightarrow> hydra_config \<times> jwks_cache"

definition WithGracePeriod :: "int \<Rightarrow> hydra_option" where
  "WithGracePeriod d = (\<lambda>(c, jc). (c, jc\<lparr>jc_gracePeriod := d\<rparr>))"

definition WithExpectedIssuer :: "string \<Rightarrow> hydra_option" where
  "WithExpectedIssuer issuer = (\<lambda>(c, jc). (c\<lparr>hc_expectedIssuer := issuer\<rparr>, jc))"

definition WithExpectedAudience :: "string \<Rightarrow> hydra_option" where
  "WithExpectedAudience audience = (\<lambda>(c, jc). (c\<lparr>hc_expectedAudience := audience\<rparr>, jc))"

definition hydra_New :: "string \<Rightarrow> string \<Rightarrow> string \<Rightarrow> string \<Rightarrow> string \<Rightarrow> hydra_option list \<Rightarrow> hydra_config \<times> jwks_cache" where
  "hydra_New publicURL adminURL clientID clientSecret redirectURI opts =
     fold (\<lambda>opt c. opt c) opts
       (\<lparr>hc_publicURL = publicURL, hc_adminURL = adminURL, hc_clientID = clientID, hc_clientSecret = clientSecret,
         hc_redirectURI = redirectURI, hc_expectedIssuer = [], hc_expectedAudience = [],
         hc_httpClient = \<lparr>hk_Timeout = 15 * second, hk_Redirects = True, hk_Jar = None\<rparr>,
         hc_noRedirectClient = \<lparr>hk_Timeout = 15 * second, hk_Redirects = False, hk_Jar = None\<rparr>\<rparr>,
        newJWKSCache (30 * minute))"

section \<open>Helpers\<close>

definition randomHex :: "'w go_env \<Rightarrow> nat \<Rightarrow> ('w, string result) io" where
  "randomHex E n = try_io (env_rand E n) (\<lambda>b. State_Monad.return (Inr (hex_bytes b)))"

definition randomBase64URL :: "'w go_env \<Rightarrow> nat \<Rightarrow> ('w, string result) io" where
  "randomBase64URL E n = try_io (env_rand E n) (\<lambda>b. State_Monad.return (Inr (b64_encode b)))"

definition extractParam :: "'w net \<Rightarrow> string \<Rightarrow> string \<Rightarrow> string result" where
  "extractParam N rawURL param =
     (if rawURL = [] then Inl (Errorf (''empty redirect URL when extracting '' @ param) [])
      else case nt_ParseURL N rawURL of
        Some err \<Rightarrow> Inl (Errorf ''parse redirect URL'' [err])
      | None \<Rightarrow>
          (let v = values_get (parse_query (raw_query rawURL)) param in
           if v = [] then Inl (Errorf (''param '' @ param @ '' not found in redirect URL: '' @ rawURL) [])
           else Inr v))"

fun find_param :: "string \<Rightarrow> string list \<Rightarrow> string option" where
  "find_param prefix [] = None"
| "find_param prefix (kv # kvs) = (if has_prefix kv prefix then Some (drop (length prefix) kv) else find_param prefix kvs)"

definition extractRawParam :: "'w net \<Rightarrow> string \<Rightarrow> string \<Rightarrow> string result" where
  "extractRawParam N rawURL param =
     (if rawURL = [] then Inl (Errorf (''empty redirect URL when extracting '' @ param) [])
      else case nt_ParseURL N rawURL of
        Some err \<Rightarrow> Inl (Errorf ''parse redirect URL'' [err])
      | None \<Rightarrow>
          (case find_param (param @ ''='') (split_on (CHR ''&'') (raw_query rawURL)) of
             Some val \<Rightarrow>
               if val = [] then Inl (Errorf (''param '' @ param @ '' is empty in redirect URL: '' @ rawURL) []) else Inr val
           | None \<Rightarrow> Inl (Errorf (''param '' @ param @ '' not found in redirect URL: '' @ rawURL) [])))"

text \<open>The low 64 bits of the exponent, as \<open>Int64\<close> returns them.\<close>

definition parseRSAPublicKey :: "string \<Rightarrow> string \<Rightarrow> rsa_key result" where
  "parseRSAPublicKey nB64 eB64 =
     res_bind (wrap_error ''decode n'' (b64_decode nB64)) (\<lambda>nBytes.
     res_bind (wrap_error ''decode e'' (b64_decode eB64)) (\<lambda>eBytes.
       Inr (set_bytes nBytes, i64 (set_bytes eBytes))))"

section \<open>JWKS\<close>

record jwk_key =
  jk_Kty :: string
  jk_Kid :: string
  jk_Use :: string
  jk_N :: string
  jk_E :: string

definition unmarshal_jwk :: "json \<Rightarrow> jwk_key result" where
  "unmarshal_jwk j =
     res_bind (unmarshal_object j) (\<lambda>o1.
     res_bind (unmarshal_string ''kty'' o1) (\<lambda>kty.
     res_bind (unmarshal_string ''kid'' o1) (\<lambda>kid.
     res_bind (unmarshal_string ''use'' o1) (\<lambda>use'.
     res_bind (unmarshal_string ''n'' o1) (\<lambda>n.
     res_bind (unmarshal_string ''e'' o1) (\<lambda>e.
       Inr \<lparr>jk_Kty = kty, jk_Kid = kid, jk_Use = use', jk_N = n, jk_E = e\<rparr>))))))"

definition unmarshal_jwks :: "json \<Rightarrow> jwk_key list result" where
  "unmarshal_jwks j =
     res_bind (unmarshal_object j) (\<lambda>o1.
       case js_field ''keys'' o1 of None \<Rightarrow> Inr [] | Some ks \<Rightarrow> unmarshal_list unmarshal_jwk ks)"

text \<open>The loop that collects the usable signing keys.\<close>

fun collect_keys :: "(string \<times> rsa_key) list \<Rightarrow> jwk_key list \<Rightarrow> (string \<times> rsa_key) list" where
  "collect_keys keys [] = keys"
| "collect_keys keys (k # ks) =
     (if jk_Kty k \<noteq> ''RSA'' \<or> jk_Use k \<noteq> ''sig'' then collect_keys keys ks
      else case parseRSAPublicKey (jk_N k) (jk_E k) of
        Inl _ \<Rightarrow> collect_keys keys ks
      | Inr pub \<Rightarrow> collect_keys (AList.update (jk_Kid k) pub keys) ks)"

definition jwks_request :: "hydra_config \<Rightarrow> http_request" where
  "jwks_request c = get_request (hc_publicURL c @ ''/.well-known/jwks.json'')"

text \<open>What a response of the endpoint stands for: the keys it installs, or the error.\<close>

definition jwks_of_response :: "'w net \<Rightarrow> http_response \<Rightarrow> (string \<times> rsa_key) list result" where
  "jwks_of_response N resp =
     (if re_StatusCode resp \<noteq> 200 then Inl (Errorf (''hydra: JWKS endpoint '' @ show_int (re_StatusCode resp)) [])
      else res_bind (wrap_error ''hydra: decode JWKS response'' (res_bind (decode_body N resp) unmarshal_jwks)) (\<lambda>jwks.
        let keys = collect_keys [] jwks in
        if length keys = 0 then
          Inl (Errorf (''hydra: JWKS response contained no usable RSA signing keys (got '' @ show_nat (length jwks) @ '' raw keys)'') [])
        else Inr keys))"

definition refreshJWKS :: "'x go_env \<Rightarrow> 'x proc net \<Rightarrow> hydra_config \<Rightarrow> ('x proc, error option) io" where
  "refreshJWKS E N c = do {
     r \<leftarrow> http_call N (hc_httpClient c) (\<lambda>e. Errorf ''hydra: build JWKS request'' [e])
            (\<lambda>e. Errorf ''hydra: JWKS fetch failed'' [e]) (jwks_request c);
     case r of
       Inl err \<Rightarrow> State_Monad.return (Some err)
     | Inr resp \<Rightarrow>
         (case jwks_of_response N resp of
            Inl err \<Rightarrow> State_Monad.return (Some err)
          | Inr keys \<Rightarrow> do { jwks_set E keys; State_Monad.return None })
   }"

definition resolveKey :: "'x go_env \<Rightarrow> 'x proc net \<Rightarrow> hydra_config \<Rightarrow> string \<Rightarrow> ('x proc, rsa_key result) io" where
  "resolveKey E N c kid = do {
     stale \<leftarrow> jwks_isStale E;
     hit \<leftarrow> (if \<not> stale then jwks_get E kid else State_Monad.return None);
     case hit of
       Some k \<Rightarrow> State_Monad.return (Inr k)
     | None \<Rightarrow> do {
         err \<leftarrow> refreshJWKS E N c;
         case err of
           Some e \<Rightarrow> State_Monad.return (Inl e)
         | None \<Rightarrow> do {
             k \<leftarrow> jwks_get E kid;
             State_Monad.return (case k of
                None \<Rightarrow> Inl (Errorf (''hydra: no JWKS key found for kid='' @ kid) [])
              | Some key \<Rightarrow> Inr key)
           }
       }
   }"

definition hydra_ForceRefreshJWKS :: "'x go_env \<Rightarrow> 'x proc net \<Rightarrow> hydra_config \<Rightarrow> ('x proc, error option) io" where
  "hydra_ForceRefreshJWKS E N c = refreshJWKS E N c"

text \<open>The key function given to the JWT library.\<close>

definition jwt_keyfunc :: "'x go_env \<Rightarrow> 'x proc net \<Rightarrow> hydra_config \<Rightarrow> jwt_token \<Rightarrow> ('x proc, rsa_key result) io" where
  "jwt_keyfunc E N c t =
     (if \<not> jt_IsRSA t then State_Monad.return (Inl (Errorf ''hydra: unexpected signing method'' []))
      else resolveKey E N c (case jt_kid t of Some (JStr s) \<Rightarrow> s | _ \<Rightarrow> []))"

definition parser_options :: "hydra_config \<Rightarrow> jwt_option list" where
  "parser_options c =
     [WithExpirationRequired]
     @ (if hc_expectedIssuer c \<noteq> [] then [WithIssuer (hc_expectedIssuer c)] else [])
     @ (if hc_expectedAudience c \<noteq> [] then [WithAudience (hc_expectedAudience c)] else [])"

definition hydra_ValidateAccessToken ::
    "'x go_env \<Rightarrow> 'x proc net \<Rightarrow> 'x proc jwt_lib \<Rightarrow> hydra_config \<Rightarrow> string \<Rightarrow> ('x proc, access_token_claims result) io" where
  "hydra_ValidateAccessToken E N J c tokenStr = do {
     r \<leftarrow> jw_ParseWithClaims J (parser_options c) tokenStr (jwt_keyfunc E N c);
     State_Monad.return (case r of
        Inl err \<Rightarrow> Inl (Errorf ''hydra: token validation failed'' [err])
      | Inr (claims, valid) \<Rightarrow> if \<not> valid then Inl (Errorf ''hydra: token is not valid'' []) else Inr claims)
   }"

section \<open>Token endpoints\<close>

definition form_header :: "(string \<times> string) list" where
  "form_header = [(''Content-Type'', ''application/x-www-form-urlencoded'')]"

definition post_form :: "string \<Rightarrow> url_values \<Rightarrow> http_request" where
  "post_form u data = \<lparr>rq_Method = ''POST'', rq_URL = u, rq_Header = form_header, rq_Body = values_encode data\<rparr>"

definition unmarshal_token_set :: "json \<Rightarrow> token_set result" where
  "unmarshal_token_set j =
     res_bind (unmarshal_object j) (\<lambda>o1.
     res_bind (unmarshal_string ''access_token'' o1) (\<lambda>a.
     res_bind (unmarshal_string ''refresh_token'' o1) (\<lambda>r.
     res_bind (unmarshal_string ''id_token'' o1) (\<lambda>i.
     res_bind (unmarshal_string ''token_type'' o1) (\<lambda>t.
     res_bind (unmarshal_int64 ''expires_in'' o1) (\<lambda>e.
       Inr \<lparr>ts_AccessToken = a, ts_RefreshToken = r, ts_IDToken = i, ts_TokenType = t, ts_ExpiresIn = e\<rparr>))))))"

definition unmarshal_introspect :: "json \<Rightarrow> introspect_result result" where
  "unmarshal_introspect j =
     res_bind (unmarshal_object j) (\<lambda>o1.
     res_bind (unmarshal_bool ''active'' o1) (\<lambda>a.
     res_bind (unmarshal_string ''sub'' o1) (\<lambda>s.
     res_bind (unmarshal_map ''ext'' o1) (\<lambda>x.
     res_bind (unmarshal_string ''client_id'' o1) (\<lambda>c.
     res_bind (unmarshal_int64 ''exp'' o1) (\<lambda>e.
       Inr \<lparr>ir_Active = a, ir_Subject = s, ir_Ext = x, ir_ClientID = c, ir_Exp = e\<rparr>))))))"

text \<open>An error text contains the response body as far as it could be read.\<close>

definition body_text :: "http_response \<Rightarrow> string" where
  "body_text resp = (case re_Body resp of Inl _ \<Rightarrow> [] | Inr t \<Rightarrow> t)"

definition tokenRequest :: "'w net \<Rightarrow> hydra_config \<Rightarrow> url_values \<Rightarrow> ('w, token_set result) io" where
  "tokenRequest N c data =
     try_io (http_call N (hc_httpClient c) (\<lambda>e. Errorf ''hydra: build token request'' [e])
               (\<lambda>e. Errorf ''hydra: token request failed'' [e]) (post_form (hc_publicURL c @ ''/oauth2/token'') data)) (\<lambda>resp.
       State_Monad.return
         (if re_StatusCode resp \<noteq> 200 then
            Inl (Errorf (''hydra: token endpoint '' @ show_int (re_StatusCode resp) @ '': '' @ body_text resp) [])
          else wrap_error ''hydra: decode token response'' (res_bind (decode_body N resp) unmarshal_token_set)))"

definition exchangeCode :: "'w net \<Rightarrow> hydra_config \<Rightarrow> string \<Rightarrow> string \<Rightarrow> ('w, token_set result) io" where
  "exchangeCode N c code codeVerifier =
     tokenRequest N c [(''grant_type'', ''authorization_code''), (''code'', code), (''redirect_uri'', hc_redirectURI c),
       (''client_id'', hc_clientID c), (''client_secret'', hc_clientSecret c), (''code_verifier'', codeVerifier)]"

definition hydra_RefreshToken :: "'w net \<Rightarrow> hydra_config \<Rightarrow> string \<Rightarrow> ('w, token_set result) io" where
  "hydra_RefreshToken N c refreshToken =
     tokenRequest N c [(''grant_type'', ''refresh_token''), (''refresh_token'', refreshToken), (''client_id'', hc_clientID c),
       (''client_secret'', hc_clientSecret c)]"

definition hydra_RevokeToken :: "'w net \<Rightarrow> hydra_config \<Rightarrow> string \<Rightarrow> ('w, error option) io" where
  "hydra_RevokeToken N c token = do {
     r \<leftarrow> http_call N (hc_httpClient c) (\<lambda>e. Errorf ''hydra: build revoke request'' [e])
            (\<lambda>e. Errorf ''hydra: revoke request failed'' [e])
            (post_form (hc_publicURL c @ ''/oauth2/revoke'')
               [(''token'', token), (''client_id'', hc_clientID c), (''client_secret'', hc_clientSecret c)]);
     State_Monad.return (case r of
        Inl err \<Rightarrow> Some err
      | Inr resp \<Rightarrow>
          if re_StatusCode resp \<noteq> 200 then Some (Errorf (''hydra: unexpected revoke status '' @ show_int (re_StatusCode resp)) [])
          else None)
   }"

definition hydra_RevokeAllForSubject :: "'w net \<Rightarrow> hydra_config \<Rightarrow> string \<Rightarrow> ('w, error option) io" where
  "hydra_RevokeAllForSubject N c kratosID = do {
     r \<leftarrow> http_call N (hc_httpClient c) (\<lambda>e. Errorf ''hydra: build revoke-all request'' [e])
            (\<lambda>e. Errorf ''hydra: revoke-all request failed'' [e])
            \<lparr>rq_Method = ''DELETE'',
             rq_URL = hc_adminURL c @ ''/admin/oauth2/tokens?'' @ values_encode [(''subject'', kratosID), (''client_id'', hc_clientID c)],
             rq_Header = [], rq_Body = []\<rparr>;
     State_Monad.return (case r of
        Inl err \<Rightarrow> Some err
      | Inr resp \<Rightarrow>
          if re_StatusCode resp \<noteq> 204 \<and> re_StatusCode resp \<noteq> 200 then
            Some (Errorf (''hydra: unexpected revoke-all status '' @ show_int (re_StatusCode resp)) [])
          else None)
   }"

definition hydra_IntrospectToken :: "'w net \<Rightarrow> hydra_config \<Rightarrow> string \<Rightarrow> ('w, introspect_result result) io" where
  "hydra_IntrospectToken N c token =
     try_io (http_call N (hc_httpClient c) (\<lambda>e. Errorf ''hydra: build introspect request'' [e])
               (\<lambda>e. Errorf ''hydra: introspect request failed'' [e])
               (post_form (hc_adminURL c @ ''/admin/oauth2/introspect'') [(''token'', token)])) (\<lambda>resp.
       State_Monad.return
         (if re_StatusCode resp \<noteq> 200 then
            Inl (Errorf (''hydra: unexpected introspect status '' @ show_int (re_StatusCode resp)) [])
          else wrap_error ''hydra: decode introspect response'' (res_bind (decode_body N resp) unmarshal_introspect)))"

section \<open>The authorization-code flow\<close>

text \<open>\<open>adminAccept\<close>: \<open>json.Marshal\<close> does not fail on the two bodies it is given.\<close>

definition accept_request :: "'w net \<Rightarrow> hydra_config \<Rightarrow> string \<Rightarrow> json \<Rightarrow> http_request" where
  "accept_request N c path body = \<lparr>rq_Method = ''PUT'', rq_URL = hc_adminURL c @ path,
     rq_Header = [(''Content-Type'', ''application/json'')], rq_Body = js_encode (nt_codec N) body\<rparr>"

definition adminAccept :: "'w net \<Rightarrow> hydra_config \<Rightarrow> string \<Rightarrow> json \<Rightarrow> ('w, string result) io" where
  "adminAccept N c path body =
     try_io (http_call N (hc_httpClient c) (\<lambda>e. e) (\<lambda>e. e) (accept_request N c path body)) (\<lambda>resp.
       State_Monad.return
         (if re_StatusCode resp \<noteq> 200 then
            Inl (Errorf (''hydra admin PUT '' @ path @ '' '' @ show_int (re_StatusCode resp) @ '': '' @ body_text resp) [])
          else wrap_error ''hydra: decode admin accept response''
            (res_bind (decode_body N resp) (\<lambda>j. res_bind (unmarshal_object j) (unmarshal_string ''redirect_to'')))))"

definition codeChallenge :: "'w net \<Rightarrow> string \<Rightarrow> string" where
  "codeChallenge N codeVerifier = b64_encode (nt_SHA256 N (map code_of codeVerifier))"

definition auth_params :: "hydra_config \<Rightarrow> string \<Rightarrow> string \<Rightarrow> string \<Rightarrow> url_values" where
  "auth_params c st nonce challenge =
     [(''response_type'', ''code''), (''client_id'', hc_clientID c), (''redirect_uri'', hc_redirectURI c),
      (''scope'', ''openid offline_access email profile''), (''state'', st), (''nonce'', nonce),
      (''code_challenge'', challenge), (''code_challenge_method'', ''S256'')]"

definition auth_url :: "hydra_config \<Rightarrow> string \<Rightarrow> string \<Rightarrow> string \<Rightarrow> string" where
  "auth_url c st nonce challenge = hc_publicURL c @ ''/oauth2/auth?'' @ values_encode (auth_params c st nonce challenge)"

definition rememberFor :: "bool \<Rightarrow> int" where
  "rememberFor rememberMe = (if rememberMe then 60 * 60 * 24 * 30 else 0)"

text \<open>\<open>json.Marshal\<close> writes the keys of a map in sorted order.\<close>

definition login_accept_body :: "string \<Rightarrow> string \<Rightarrow> bool \<Rightarrow> json" where
  "login_accept_body kratosID deviceID rememberMe = JObj
     [(''context'', JObj [(''device_id'', JStr deviceID)]), (''remember'', JBool rememberMe),
      (''remember_for'', JNum (rememberFor rememberMe)), (''subject'', JStr kratosID)]"

definition consent_audience :: "hydra_config \<Rightarrow> string" where
  "consent_audience c = (if hc_expectedAudience c = [] then hc_clientID c else hc_expectedAudience c)"

definition consent_accept_body :: "hydra_config \<Rightarrow> string \<Rightarrow> bool \<Rightarrow> json" where
  "consent_accept_body c deviceID rememberMe = JObj
     [(''grant_access_token_audience'', JArr [JStr (consent_audience c)]),
      (''grant_scope'', JArr (map JStr [''openid'', ''offline_access'', ''email'', ''profile''])),
      (''remember'', JBool rememberMe), (''remember_for'', JNum (rememberFor rememberMe)),
      (''session'', JObj
         [(''access_token'', JObj [(''device_id'', JStr deviceID), (''permissions'', JArr []), (''roles'', JArr [JStr ''user''])]),
          (''id_token'', JObj [(''device_id'', JStr deviceID)])])]"

definition login_accept_path :: "string \<Rightarrow> string" where
  "login_accept_path ch = ''/admin/oauth2/auth/requests/login/accept?login_challenge='' @ ch"

definition consent_accept_path :: "string \<Rightarrow> string" where
  "consent_accept_path ch = ''/admin/oauth2/auth/requests/consent/accept?consent_challenge='' @ ch"

definition location :: "http_response \<Rightarrow> string" where
  "location resp = header_get (re_Header resp) ''Location''"

definition hydra_IssueTokens ::
    "'w go_env \<Rightarrow> 'w net \<Rightarrow> hydra_config \<Rightarrow> string \<Rightarrow> string \<Rightarrow> bool \<Rightarrow> ('w, token_set result) io" where
  "hydra_IssueTokens E N c kratosID deviceID rememberMe =
     try_io (wrap_io ''hydra: generate state'' (randomHex E 16)) (\<lambda>st.
     try_io (wrap_io ''hydra: generate nonce'' (randomHex E 16)) (\<lambda>nonce.
     try_io (wrap_io ''hydra: generate code verifier'' (randomBase64URL E 32)) (\<lambda>codeVerifier.
     try_io (wrap_io ''hydra: create cookie jar'' (nt_NewJar N)) (\<lambda>jar.
     let flowClient = \<lparr>hk_Timeout = hk_Timeout (hc_noRedirectClient c), hk_Redirects = False, hk_Jar = Some jar\<rparr> in
     try_io (wrap_io ''hydra: initiate auth flow'' (http_get N flowClient (auth_url c st nonce (codeChallenge N codeVerifier)))) (\<lambda>resp1.
     try_io (State_Monad.return (wrap_error ''hydra: extract login_challenge''
               (extractRawParam N (location resp1) ''login_challenge''))) (\<lambda>loginChallenge.
     try_io (wrap_io ''hydra: accept login''
               (adminAccept N c (login_accept_path loginChallenge) (login_accept_body kratosID deviceID rememberMe))) (\<lambda>redirectTo1.
     try_io (wrap_io ''hydra: follow login redirect'' (http_get N flowClient redirectTo1)) (\<lambda>resp3.
     try_io (State_Monad.return (wrap_error ''hydra: extract consent_challenge''
               (extractRawParam N (location resp3) ''consent_challenge''))) (\<lambda>consentChallenge.
     try_io (wrap_io ''hydra: accept consent''
               (adminAccept N c (consent_accept_path consentChallenge) (consent_accept_body c deviceID rememberMe))) (\<lambda>redirectTo2.
     try_io (wrap_io ''hydra: follow consent redirect'' (http_get N flowClient redirectTo2)) (\<lambda>resp5.
     try_io (State_Monad.return (wrap_error ''hydra: extract authorization code'' (extractParam N (location resp5) ''code''))) (\<lambda>code.
     let returnedState = (case extractParam N (location resp5) ''state'' of Inl _ \<Rightarrow> [] | Inr v \<Rightarrow> v) in
     if returnedState \<noteq> st then State_Monad.return (Inl (Errorf ''hydra: state mismatch, possible CSRF'' []))
     else exchangeCode N c code codeVerifier))))))))))))"

text \<open>\<open>*Client\<close> as a value of the interface.\<close>

definition HydraClient :: "'x go_env \<Rightarrow> 'x net \<Rightarrow> 'x proc jwt_lib \<Rightarrow> hydra_config \<Rightarrow> 'x proc hydra_client" where
  "HydraClient E N J c = \<lparr>
     hy_IssueTokens = hydra_IssueTokens (ext_env E) (ext_net N) c,
     hy_RefreshToken = hydra_RefreshToken (ext_net N) c,
     hy_RevokeToken = hydra_RevokeToken (ext_net N) c,
     hy_RevokeAllForSubject = hydra_RevokeAllForSubject (ext_net N) c,
     hy_IntrospectToken = hydra_IntrospectToken (ext_net N) c,
     hy_ValidateAccessToken = hydra_ValidateAccessToken E (ext_net N) J c,
     hy_ForceRefreshJWKS = hydra_ForceRefreshJWKS E (ext_net N) c\<rparr>"

section \<open>The flow\<close>

definition redirect_of :: "'w net \<Rightarrow> http_response \<Rightarrow> string result" where
  "redirect_of N resp = res_bind (decode_body N resp) (\<lambda>j. res_bind (unmarshal_object j) (unmarshal_string ''redirect_to''))"

definition token_form :: "hydra_config \<Rightarrow> string \<Rightarrow> string \<Rightarrow> url_values" where
  "token_form c code codeVerifier =
     [(''grant_type'', ''authorization_code''), (''code'', code), (''redirect_uri'', hc_redirectURI c),
      (''client_id'', hc_clientID c), (''client_secret'', hc_clientSecret c), (''code_verifier'', codeVerifier)]"

definition token_post :: "hydra_config \<Rightarrow> string \<Rightarrow> string \<Rightarrow> http_request" where
  "token_post c code codeVerifier = post_form (hc_publicURL c @ ''/oauth2/token'') (token_form c code codeVerifier)"

text \<open>
  The five exchanges before the code is redeemed, with the code and the verifier that the
  sixth request has to carry.
\<close>

inductive flow_to_code :: "'x net \<Rightarrow> hydra_config \<Rightarrow> string \<Rightarrow> string \<Rightarrow> bool \<Rightarrow> exchange list \<Rightarrow> string \<Rightarrow> string \<Rightarrow> bool"
  for N :: "'x net" and c k d rm where
  "extractRawParam N (location r1) ''login_challenge'' = Inr lc \<Longrightarrow> redirect_of N a2 = Inr u1 \<Longrightarrow>
   extractRawParam N (location r3) ''consent_challenge'' = Inr cc \<Longrightarrow> redirect_of N a4 = Inr u2 \<Longrightarrow>
   extractParam N (location r5) ''code'' = Inr code \<Longrightarrow>
   st = (case extractParam N (location r5) ''state'' of Inl _ \<Rightarrow> [] | Inr v \<Rightarrow> v) \<Longrightarrow>
   flow_to_code N c k d rm
     [(get_request (auth_url c st nonce (codeChallenge N verifier)), Inr r1),
      (accept_request N c (login_accept_path lc) (login_accept_body k d rm), Inr a2),
      (get_request u1, Inr r3),
      (accept_request N c (consent_accept_path cc) (consent_accept_body c d rm), Inr a4),
      (get_request u2, Inr r5)] code verifier"

lemma rec_jar: "nt_NewJar (rec_net N) = silent (nt_NewJar N)"
  by (simp add: rec_net_def)

lemma extract_rec [simp]:
  "extractRawParam (rec_net N) = extractRawParam N" "extractParam (rec_net N) = extractParam N"
  "codeChallenge (rec_net N) = codeChallenge N" "decode_body (rec_net N) = decode_body N"
  "accept_request (rec_net N) = accept_request N"
  by (simp_all add: fun_eq_iff extractRawParam_def extractParam_def codeChallenge_def decode_body_def accept_request_def)

text \<open>One rule per step: what it may leave on failure, and what it adds on success.\<close>

lemma wp_let2: "wp (f a) Q w \<Longrightarrow> wp (let x = a in f x) Q w"
  by (simp add: Let_def)

lemma try_pure_wp:
  "(\<And>e. r = Inl e \<Longrightarrow> Q (Inl (Errorf m [e])) w) \<Longrightarrow> (\<And>a. r = Inr a \<Longrightarrow> wp (f a) Q w) \<Longrightarrow>
   wp (try_io (State_Monad.return (wrap_error m r)) f) Q w"
  by (cases r) (simp_all add: try_io_def wp_bind wp_return)

lemma try_silent_wp:
  "(\<And>e w'. Q (Inl e) (w', snd wl)) \<Longrightarrow> (\<And>a w'. wp (f a) Q (w', snd wl)) \<Longrightarrow>
   wp (try_io (wrap_io m (try_io (silent x) (\<lambda>b. State_Monad.return (Inr (g b))))) f) Q wl"
  "(\<And>e w'. Q (Inl e) (w', snd wl)) \<Longrightarrow> (\<And>a w'. wp (f' a) Q (w', snd wl)) \<Longrightarrow>
   wp (try_io (wrap_io m (silent x')) f') Q wl"
  by (intro wp_tryI wp_wrapI silent_wp; auto simp: wp_return)+

lemma try_get_wp:
  assumes fails: "\<And>e w' l. length l \<le> 1 \<Longrightarrow> Q (Inl e) (w', snd wl @ l)"
    and ok: "\<And>resp w'. wp (f resp) Q (w', snd wl @ [(get_request u, Inr resp)])"
  shows "wp (try_io (wrap_io m (http_get (rec_net N) cfg u)) f) Q wl"
proof -
  have none: "Q (Inl e) wl" for e
    using fails [of "[]" e "fst wl"] by simp
  show ?thesis
    unfolding http_get_def by (intro wp_tryI wp_wrapI http_call_wp) (use none fails ok in auto)
qed

lemma try_accept_wp:
  assumes fails: "\<And>e w' l. length l \<le> 1 \<Longrightarrow> Q (Inl e) (w', snd wl @ l)"
    and ok: "\<And>u resp w'. redirect_of N resp = Inr u \<Longrightarrow> wp (f u) Q (w', snd wl @ [(accept_request N c path body, Inr resp)])"
  shows "wp (try_io (wrap_io m (adminAccept (rec_net N) c path body)) f) Q wl"
proof -
  have none: "Q (Inl e) wl" for e
    using fails [of "[]" e "fst wl"] by simp
  have fin: "wp (State_Monad.return (if re_StatusCode resp \<noteq> 200 then Inl x else wrap_error m' (redirect_of N resp)))
      (\<lambda>r w'. (\<forall>e. wrap_error m r = Inl e \<longrightarrow> Q (Inl e) w') \<and> (\<forall>a. wrap_error m r = Inr a \<longrightarrow> wp (f a) Q w'))
      (w', snd wl @ [(accept_request N c path body, Inr resp)])" for resp w' x m'
    using fails ok by (cases "redirect_of N resp") (auto simp: wp_return)
  show ?thesis
    unfolding adminAccept_def redirect_of_def [symmetric] extract_rec
    by (intro wp_tryI wp_wrapI http_call_wp) (use none fails fin in \<open>simp_all add: redirect_of_def\<close>)
qed

lemma tokenRequest_wp:
  assumes "Q (Inl e0) wl" "\<And>e. Q (Inl e) wl" "\<And>e a w'. Q (Inl e) (w', snd wl @ [(post_form (hc_publicURL c @ ''/oauth2/token'') data, a)])"
    and "\<And>ts resp w'. re_StatusCode resp = 200 \<Longrightarrow> res_bind (decode_body N resp) unmarshal_token_set = Inr ts \<Longrightarrow>
      Q (Inr ts) (w', snd wl @ [(post_form (hc_publicURL c @ ''/oauth2/token'') data, Inr resp)])"
  shows "wp (tokenRequest (rec_net N) c data) Q wl"
proof -
  let ?rq = "post_form (hc_publicURL c @ ''/oauth2/token'') data"
  have "wp (State_Monad.return (if re_StatusCode resp \<noteq> 200 then Inl x
        else wrap_error m (res_bind (decode_body N resp) unmarshal_token_set))) Q (w', snd wl @ [(?rq, Inr resp)])" for resp w' x m
    using assms by (cases "res_bind (decode_body N resp) unmarshal_token_set") (auto simp: wp_return)
  then show ?thesis
    unfolding tokenRequest_def extract_rec by (intro wp_tryI http_call_wp) (use assms in simp_all)
qed


section \<open>Redirect parameters\<close>

lemma find_param_skip: "\<forall>kv\<in>set xs. \<not> has_prefix kv p \<Longrightarrow> find_param p (xs @ ys) = find_param p ys"
  by (induction xs) simp_all

lemma query_of_url:
  assumes "CHR ''?'' \<notin> set base" "CHR ''#'' \<notin> set base" "CHR ''#'' \<notin> set q"
  shows "raw_query (base @ CHR ''?'' # q) = q"
  using assms cut_on_plain [of "CHR ''#''" "base @ CHR ''?'' # q"] by (simp add: raw_query_def)

lemma values_encode_no_hash: "CHR ''#'' \<notin> set (values_encode vs)"
proof -
  have "\<forall>p\<in>set ps. CHR ''#'' \<notin> set p \<Longrightarrow> CHR ''#'' \<notin> set (join_with (CHR ''&'') ps)" for ps
    by (induction "CHR ''&''" ps rule: join_with.induct) auto
  then show ?thesis
    by (simp add: values_encode_def encode_pair_def)
qed

lemma escape_unreserved: "list_all unreserved k \<Longrightarrow> query_escape k = k"
  by (induction k) (simp_all add: query_escape_def escape_char_def)

lemma query_escape_nonempty: "v \<noteq> [] \<Longrightarrow> query_escape v \<noteq> []"
  by (cases v) (simp_all add: query_escape_def escape_char_def)

lemma query_escape_inject: "query_escape a = query_escape b \<longleftrightarrow> a = b"
  by (metis option.inject query_roundtrip)

lemma pair_prefix: "list_all unreserved k \<Longrightarrow> has_prefix (encode_pair kv) (k @ ''='') \<longleftrightarrow> fst kv = k"
proof
  assume k: "list_all unreserved k" and "has_prefix (encode_pair kv) (k @ ''='')"
  then obtain r where r: "query_escape (fst kv) @ ''='' @ query_escape (snd kv) = query_escape k @ ''='' @ r"
    by (auto simp: encode_pair_def escape_unreserved elim!: has_prefixE)
  then have "cut_on (CHR ''='') (query_escape (fst kv) @ CHR ''='' # query_escape (snd kv)) = cut_on (CHR ''='') (query_escape k @ CHR ''='' # r)"
    by simp
  then show "fst kv = k"
    by (simp add: query_escape_inject)
next
  assume "list_all unreserved k" "fst kv = k"
  then show "has_prefix (encode_pair kv) (k @ ''='')"
    using has_prefix_append [of "k @ ''=''" "query_escape (snd kv)"] by (simp add: encode_pair_def escape_unreserved)
qed

lemma find_param_encoded:
  assumes "list_all unreserved k" "distinct (map fst vs)" "(k, v) \<in> set vs"
  shows "find_param (k @ ''='') (map encode_pair vs) = Some (query_escape v)"
  using assms
proof (induction vs)
  case (Cons kv vs)
  show ?case
  proof (cases "fst kv = k")
    case True
    with Cons.prems have "kv = (k, v)" by (cases kv) force
    then show ?thesis
      using Cons.prems by (simp add: pair_prefix) (simp add: encode_pair_def escape_unreserved)
  qed (use Cons in \<open>auto simp: pair_prefix\<close>)
qed simp

text \<open>
  Redirect parameters are read back as they were sent: for a URL whose query encodes
  parameters with distinct names, \<open>extractParam\<close> returns the value of the named one, and
  \<open>extractRawParam\<close> returns its encoded bytes verbatim, so that forwarding them hands Hydra
  exactly the value it issued.
\<close>

theorem redirect_params_roundtrip:
  assumes "nt_ParseURL N (base @ CHR ''?'' # values_encode vs) = None"
    and "CHR ''?'' \<notin> set base" "CHR ''#'' \<notin> set base"
    and "distinct (map fst vs)" "(k, v) \<in> set vs" "v \<noteq> []" "list_all unreserved k"
  shows "extractParam N (base @ CHR ''?'' # values_encode vs) k = Inr v \<and>
    extractRawParam N (base @ CHR ''?'' # values_encode vs) k = Inr (query_escape v) \<and>
    query_unescape (query_escape v) = Some v"
proof -
  let ?u = "base @ CHR ''?'' # values_encode vs" and ?vs = "sort_key fst vs"
  have q: "raw_query ?u = values_encode vs"
    using assms values_encode_no_hash by (intro query_of_url) auto
  have ne: "map encode_pair ?vs \<noteq> []"
    using assms(5) by (metis empty_iff length_0_conv length_map length_sort list.set(1))
  have "split_on (CHR ''&'') (values_encode vs) = map encode_pair ?vs"
    unfolding values_encode_def by (rule split_on_join [OF ne]) (simp add: encode_pair_def)
  moreover have "find_param (k @ ''='') (map encode_pair ?vs) = Some (query_escape v)"
    using assms by (intro find_param_encoded) (simp_all add: distinct_map inj_on_def)
  ultimately have "extractRawParam N ?u k = Inr (query_escape v)"
    using assms(1) query_escape_nonempty [OF assms(6)] by (simp add: extractRawParam_def q)
  moreover have "extractParam N ?u k = Inr v"
    using assms(1,6) values_encode_get [OF assms(4,5)] by (simp add: extractParam_def q)
  ultimately show ?thesis
    by (simp add: query_roundtrip)
qed

section \<open>The key cache\<close>

lemma run_get_jwks [simp]: "run_state get_jwks p = (pr_jwks p, p)"
  by (simp add: get_jwks_def)

lemma run_put_jwks [simp]: "run_state (put_jwks c) p = ((), p\<lparr>pr_jwks := c\<rparr>)"
  by (simp add: put_jwks_def)

lemma run_time_since: "run_state (time_since E t) x = (case run_state (env_now E) x of (now, x') \<Rightarrow> (time_sub now t, x'))"
  by (simp add: time_since_def split: prod.splits)

text \<open>What a lookup may answer; it never changes the cache.\<close>

definition lookup_allowed :: "'x go_env \<Rightarrow> jwks_cache \<Rightarrow> string \<Rightarrow> rsa_key option \<Rightarrow> bool" where
  "lookup_allowed E jc kid r \<longleftrightarrow>
     (case map_of (jc_keys jc) kid of
        Some k \<Rightarrow> r = Some k
      | None \<Rightarrow> r = None \<or> r = map_of (jc_previousKeys jc) kid \<and>
          (\<exists>t. clock_reading E t \<and> time_sub t (jc_previousFetchedAt jc) < jc_gracePeriod jc))"

lemma jwks_get_wp:
  assumes "\<And>r x. lookup_allowed E (pr_jwks p) kid r \<Longrightarrow> Q r (p\<lparr>pr_ext := x\<rparr>)"
  shows "wp (jwks_get E kid) Q p"
proof (rule wpI)
  fix r p'
  assume run: "run_state (jwks_get E kid) p = (r, p')"
  obtain t x where now: "run_state (env_now E) (pr_ext p) = (t, x)"
    by fastforce
  have "lookup_allowed E (pr_jwks p) kid r \<and> p' = p\<lparr>pr_ext := pr_ext p'\<rparr>"
  proof (cases "map_of (jc_keys (pr_jwks p)) kid")
    case None
    with run now clock_readingI [OF now] show ?thesis
      by (cases "jc_previousKeys (pr_jwks p) = []") (auto simp: jwks_get_def run_time_since lookup_allowed_def split: if_splits)
  next
    case (Some k)
    then have "run_state (jwks_get E kid) p = (Some k, p)"
      by (simp add: jwks_get_def)
    with run have "r = Some k" "p' = p" by simp_all
    with Some show ?thesis
      by (simp add: lookup_allowed_def)
  qed
  then show "Q r p'"
    using assms by metis
qed

lemma jwks_isStale_wp:
  "(\<And>t x. clock_reading E t \<Longrightarrow> Q (time_sub t (jc_fetchedAt (pr_jwks p)) > jc_ttl (pr_jwks p)) (p\<lparr>pr_ext := x\<rparr>)) \<Longrightarrow> wp (jwks_isStale E) Q p"
  by (auto simp: wp_def jwks_isStale_def run_time_since split: prod.splits dest: clock_readingI)

definition rotated :: "(string \<times> rsa_key) list \<Rightarrow> int \<Rightarrow> jwks_cache \<Rightarrow> jwks_cache" where
  "rotated keys t jc = jc\<lparr>jc_previousKeys := jc_keys jc, jc_previousFetchedAt := jc_fetchedAt jc, jc_keys := keys, jc_fetchedAt := t\<rparr>"

lemma rotated_simps [simp]:
  "jc_keys (rotated keys t jc) = keys" "jc_fetchedAt (rotated keys t jc) = t" "jc_previousKeys (rotated keys t jc) = jc_keys jc"
  "jc_previousFetchedAt (rotated keys t jc) = jc_fetchedAt jc" "jc_ttl (rotated keys t jc) = jc_ttl jc"
  "jc_gracePeriod (rotated keys t jc) = jc_gracePeriod jc"
  by (simp_all add: rotated_def)

text \<open>A response of the JWKS endpoint.\<close>

definition answers :: "'x net \<Rightarrow> hydra_config \<Rightarrow> http_response \<Rightarrow> bool" where
  "answers N c resp \<longleftrightarrow> (\<exists>x. fst (run_state (nt_Do N (hc_httpClient c) (jwks_request c)) x) = Inr resp)"

lemma answersI: "run_state (nt_Do N (hc_httpClient c) (jwks_request c)) x = (Inr resp, x') \<Longrightarrow> answers N c resp"
  unfolding answers_def by (metis fst_conv)

lemma jwks_of_response_ext [simp]: "jwks_of_response (ext_net N) resp = jwks_of_response N resp"
  by (simp add: jwks_of_response_def decode_body_def)

lemma jwks_of_response_nonempty: "jwks_of_response N resp = Inr keys \<Longrightarrow> keys \<noteq> []"
  by (auto simp: jwks_of_response_def res_bind_Inr_iff Let_def split: if_splits)

lemma refreshJWKS_wp:
  assumes "\<And>e x. Q (Some e) (p\<lparr>pr_ext := x\<rparr>)"
    and "\<And>resp keys t x. answers N c resp \<Longrightarrow> jwks_of_response N resp = Inr keys \<Longrightarrow> keys \<noteq> [] \<Longrightarrow> clock_reading E t \<Longrightarrow>
      Q None (p\<lparr>pr_ext := x, pr_jwks := rotated keys t (pr_jwks p)\<rparr>)"
  shows "wp (refreshJWKS E (ext_net N) c) Q p"
proof -
  have none: "Q (Some e) p" for e
    using assms(1) [of e "pr_ext p"] by simp
  show ?thesis
    unfolding refreshJWKS_def http_call_def
    by (auto simp: wp_def jwks_set_def none rotated_def [symmetric] split: option.splits prod.splits sum.splits
        intro!: assms clock_readingI answersI dest: jwks_of_response_nonempty)
qed

lemma resolveKey_wp:
  assumes fails: "\<And>e x. Q (Inl e) (p\<lparr>pr_ext := x\<rparr>)"
    and hit: "\<And>k t x. clock_reading E t \<Longrightarrow> time_sub t (jc_fetchedAt (pr_jwks p)) \<le> jc_ttl (pr_jwks p) \<Longrightarrow>
      lookup_allowed E (pr_jwks p) kid (Some k) \<Longrightarrow> Q (Inr k) (p\<lparr>pr_ext := x\<rparr>)"
    and fetched: "\<And>resp keys t r x. answers N c resp \<Longrightarrow> jwks_of_response N resp = Inr keys \<Longrightarrow> keys \<noteq> [] \<Longrightarrow> clock_reading E t \<Longrightarrow>
      lookup_allowed E (rotated keys t (pr_jwks p)) kid r \<Longrightarrow>
      Q (case r of None \<Rightarrow> Inl (Errorf (''hydra: no JWKS key found for kid='' @ kid) []) | Some k \<Rightarrow> Inr k)
        (p\<lparr>pr_ext := x, pr_jwks := rotated keys t (pr_jwks p)\<rparr>)"
  shows "wp (resolveKey E (ext_net N) c kid) Q p"
proof -
  have swap: "p\<lparr>pr_ext := x, pr_jwks := a, pr_ext := y\<rparr> = p\<lparr>pr_ext := y, pr_jwks := a\<rparr>" for a x y
    by simp
  have look: "wp (jwks_get E kid) (\<lambda>k. wp (State_Monad.return (case k of None \<Rightarrow> Inl (Errorf (''hydra: no JWKS key found for kid='' @ kid) [])
      | Some key \<Rightarrow> Inr key)) Q) (p\<lparr>pr_ext := x, pr_jwks := rotated keys t (pr_jwks p)\<rparr>)"
    if "answers N c resp" "jwks_of_response N resp = Inr keys" "keys \<noteq> []" "clock_reading E t" for resp keys t x
    by (rule jwks_get_wp, unfold wp_return swap, rule fetched [OF that]) simp
  have miss: "wp (do {
       err \<leftarrow> refreshJWKS E (ext_net N) c;
       case err of Some e \<Rightarrow> State_Monad.return (Inl e)
       | None \<Rightarrow> do { k \<leftarrow> jwks_get E kid;
           State_Monad.return (case k of None \<Rightarrow> Inl (Errorf (''hydra: no JWKS key found for kid='' @ kid) []) | Some key \<Rightarrow> Inr key) }
     }) Q (p\<lparr>pr_ext := x\<rparr>)" for x
    by (rule wp_bindI, rule refreshJWKS_wp) (use fails look in \<open>simp_all add: wp_return wp_bind\<close>)
  show ?thesis
    unfolding resolveKey_def
    apply (rule wp_bindI, rule jwks_isStale_wp)
    subgoal for t x
      apply (rule wp_bindI, rule wp_ifI)
       apply (rule jwks_get_wp)
      subgoal for r x'
        using hit [of t] miss by (cases r) (simp_all add: wp_return)
      using miss by (simp add: wp_return)
    done
qed

section \<open>Rotation\<close>

text \<open>
  A refresh of the JWKS installs a non-empty set of parsed RSA signing keys and keeps the
  keys it replaces as the one previous generation, with the time at which those had been
  fetched; when the request fails, or the answer holds no usable key, the cache is as
  before.
\<close>

theorem jwks_refresh_runs:
  "wp (hy_ForceRefreshJWKS (HydraClient E N J c)) (\<lambda>err p'. case err of
     Some _ \<Rightarrow> pr_jwks p' = pr_jwks p
   | None \<Rightarrow> \<exists>resp keys t. answers N c resp \<and> jwks_of_response N resp = Inr keys \<and> keys \<noteq> [] \<and> clock_reading E t \<and>
       pr_jwks p' = rotated keys t (pr_jwks p)) p"
  unfolding HydraClient_def hydra_client.simps hydra_ForceRefreshJWKS_def
  by (rule refreshJWKS_wp) auto

text \<open>
  After the lifetime of the fetched keys there is no grace period: once more than
  \<open>ttl\<close> has passed since the last fetch, and with a grace period no longer than \<open>ttl\<close> (one
  hour and thirty minutes as constructed), a key is resolved only if it is in the set
  fetched for this very lookup. The previous generation is dated by its own fetch, so it
  is already too old when it becomes the previous one.
\<close>

theorem expired_refresh_ends_grace:
  assumes "jc_ttl (pr_jwks p) < 2 ^ 63 - 1" "jc_gracePeriod (pr_jwks p) \<le> jc_ttl (pr_jwks p)" "0 \<le> jc_ttl (pr_jwks p)"
    and past: "\<forall>t. clock_reading E t \<longrightarrow> jc_fetchedAt (pr_jwks p) + jc_ttl (pr_jwks p) < t"
  shows "wp (resolveKey E (ext_net N) c kid) (\<lambda>r p'. \<forall>k. r = Inr k \<longrightarrow>
     map_of (jc_keys (pr_jwks p')) kid = Some k \<and> jc_previousKeys (pr_jwks p') = jc_keys (pr_jwks p)) p"
proof -
  have old: "jc_ttl (pr_jwks p) < time_sub t (jc_fetchedAt (pr_jwks p))" if "clock_reading E t" for t
    using past that assms by (force simp: time_sub_def)
  have young: "\<not> time_sub t (jc_fetchedAt (pr_jwks p)) < jc_gracePeriod (pr_jwks p)" if "clock_reading E t" for t
    using old [OF that] assms(2) by simp
  show ?thesis
  proof (rule resolveKey_wp)
    fix resp :: http_response and keys t r x
    assume "lookup_allowed E (rotated keys t (pr_jwks p)) kid r"
    then have "r = None \<or> map_of keys kid = r"
      using young by (auto simp: lookup_allowed_def split: option.splits)
    then show "\<forall>k. (case r of None \<Rightarrow> Inl (Errorf (''hydra: no JWKS key found for kid='' @ kid) []) | Some k \<Rightarrow> Inr k) = Inr k \<longrightarrow>
      map_of (jc_keys (pr_jwks (p\<lparr>pr_ext := x, pr_jwks := rotated keys t (pr_jwks p)\<rparr>))) kid = Some k \<and>
      jc_previousKeys (pr_jwks (p\<lparr>pr_ext := x, pr_jwks := rotated keys t (pr_jwks p)\<rparr>)) = jc_keys (pr_jwks p)"
      by (auto split: option.splits)
  qed (use old in \<open>auto simp: not_le\<close>, fastforce+)?
qed

section \<open>Validation\<close>

text \<open>
  The documented behaviour of \<open>ParseWithClaims\<close>: it touches no memory of the process except
  through the key function, which it calls with the parsed header; it succeeds only with a
  key that function returned, under which the signature of the token verifies, and when
  the token meets every option.
\<close>

definition jwt_lib_ok :: "'x proc jwt_lib \<Rightarrow> (rsa_key \<Rightarrow> string \<Rightarrow> bool) \<Rightarrow> (jwt_option \<Rightarrow> string \<Rightarrow> bool) \<Rightarrow> bool" where
  "jwt_lib_ok J signed meets \<longleftrightarrow>
     (\<forall>opts tok kf p r p'. run_state (jw_ParseWithClaims J opts tok kf) p = (r, p') \<longrightarrow>
       (pr_jwks p' = pr_jwks p \<or> (\<exists>t a p1. run_state (kf t) p = (a, p1) \<and> pr_jwks p' = pr_jwks p1)) \<and>
       (\<forall>x. r = Inr x \<longrightarrow> (\<exists>t key p1. run_state (kf t) p = (Inr key, p1) \<and> signed key tok) \<and> (\<forall>opt\<in>set opts. meets opt tok)))"

text \<open>\<open>K\<close> is what the JWKS endpoint publishes, and the cache holds nothing else.\<close>

definition publishes :: "'x net \<Rightarrow> hydra_config \<Rightarrow> (string \<times> rsa_key) set \<Rightarrow> bool" where
  "publishes N c K \<longleftrightarrow> (\<forall>resp keys. answers N c resp \<longrightarrow> jwks_of_response N resp = Inr keys \<longrightarrow> set keys \<subseteq> K)"

definition trusts :: "(string \<times> rsa_key) set \<Rightarrow> jwks_cache \<Rightarrow> bool" where
  "trusts K jc \<longleftrightarrow> set (jc_keys jc) \<subseteq> K \<and> set (jc_previousKeys jc) \<subseteq> K"

lemma lookup_trusted: "trusts K jc \<Longrightarrow> lookup_allowed E jc kid (Some k) \<Longrightarrow> (kid, k) \<in> K"
  by (auto simp: trusts_def lookup_allowed_def split: option.splits dest: map_of_SomeD [OF sym] map_of_SomeD)

lemma trusts_rotated: "publishes N c K \<Longrightarrow> trusts K jc \<Longrightarrow> answers N c resp \<Longrightarrow> jwks_of_response N resp = Inr keys \<Longrightarrow>
   trusts K (rotated keys t jc)"
  by (auto simp: trusts_def publishes_def)

lemma resolveKey_trusted:
  assumes "publishes N c K" "trusts K (pr_jwks p)"
  shows "wp (resolveKey E (ext_net N) c kid) (\<lambda>r p'. trusts K (pr_jwks p') \<and> (\<forall>k. r = Inr k \<longrightarrow> (kid, k) \<in> K)) p"
proof (rule resolveKey_wp)
  fix resp keys t r x
  assume a: "answers N c resp" "jwks_of_response N resp = Inr keys" "lookup_allowed E (rotated keys t (pr_jwks p)) kid r"
  have "trusts K (rotated keys t (pr_jwks p))"
    by (rule trusts_rotated [OF assms a(1,2)])
  then show "trusts K (pr_jwks (p\<lparr>pr_ext := x, pr_jwks := rotated keys t (pr_jwks p)\<rparr>)) \<and>
     (\<forall>k. (case r of None \<Rightarrow> Inl (Errorf (''hydra: no JWKS key found for kid='' @ kid) []) | Some k \<Rightarrow> Inr k) = Inr k \<longrightarrow> (kid, k) \<in> K)"
    using lookup_trusted a(3) by (cases r) auto
qed (use assms lookup_trusted in auto)

lemma keyfunc_trusted:
  assumes "publishes N c K" "trusts K (pr_jwks p)"
  shows "wp (jwt_keyfunc E (ext_net N) c t) (\<lambda>r p'. trusts K (pr_jwks p') \<and> (\<forall>k. r = Inr k \<longrightarrow> (\<exists>kid. (kid, k) \<in> K))) p"
  unfolding jwt_keyfunc_def
  by (rule wp_ifI, use assms in \<open>simp add: wp_return\<close>, rule wp_mono [OF resolveKey_trusted [OF assms]]) auto

text \<open>
  C9. Access tokens are validated against Hydra's keys only: whatever the cache went through,
  a token is accepted only if its signature verifies under a key that Hydra published, it
  carries an expiry that has not passed, and its issuer and audience are the configured
  ones where they are configured. Validation never puts another key into the cache.
\<close>

theorem validate_access_token_sound:
  assumes "jwt_lib_ok J signed meets" "publishes N c K" "trusts K (pr_jwks p)"
  shows "wp (hy_ValidateAccessToken (HydraClient E N J c) tok) (\<lambda>r p'. trusts K (pr_jwks p') \<and>
     (\<forall>cl. r = Inr cl \<longrightarrow> (\<exists>kid key. (kid, key) \<in> K \<and> signed key tok) \<and> meets WithExpirationRequired tok \<and>
       (hc_expectedIssuer c = [] \<or> meets (WithIssuer (hc_expectedIssuer c)) tok) \<and>
       (hc_expectedAudience c = [] \<or> meets (WithAudience (hc_expectedAudience c)) tok))) p"
proof (rule wpI)
  fix r p'
  let ?kf = "jwt_keyfunc E (ext_net N) c"
  assume "run_state (hy_ValidateAccessToken (HydraClient E N J c) tok) p = (r, p')"
  then obtain x where x: "run_state (jw_ParseWithClaims J (parser_options c) tok ?kf) p = (x, p')"
      "\<And>cl. r = Inr cl \<Longrightarrow> x = Inr (cl, True)"
    by (auto simp: HydraClient_def hydra_ValidateAccessToken_def split: prod.splits sum.splits if_splits)
  have kf: "trusts K (pr_jwks p1) \<and> (\<forall>k. a = Inr k \<longrightarrow> (\<exists>kid. (kid, k) \<in> K))" if "run_state (?kf t) p = (a, p1)" for t a p1
    using wpD [OF keyfunc_trusted [OF assms(2,3)] that] by simp
  have "trusts K (pr_jwks p')"
    using assms(1,3) x(1) kf unfolding jwt_lib_ok_def by metis
  moreover have "(\<exists>kid key. (kid, key) \<in> K \<and> signed key tok) \<and> (\<forall>opt\<in>set (parser_options c). meets opt tok)" if "r = Inr cl" for cl
    using assms(1) x(1) x(2) [OF that] kf unfolding jwt_lib_ok_def by metis
  ultimately show "trusts K (pr_jwks p') \<and>
     (\<forall>cl. r = Inr cl \<longrightarrow> (\<exists>kid key. (kid, key) \<in> K \<and> signed key tok) \<and> meets WithExpirationRequired tok \<and>
       (hc_expectedIssuer c = [] \<or> meets (WithIssuer (hc_expectedIssuer c)) tok) \<and>
       (hc_expectedAudience c = [] \<or> meets (WithAudience (hc_expectedAudience c)) tok))"
    by (auto simp: parser_options_def)
qed

section \<open>Concrete runs\<close>

text \<open>An endpoint that publishes one key under the identifier \<open>new\<close>; the clock stands at one hour.\<close>

definition sample_jwks_doc :: json where
  "sample_jwks_doc = JObj [(''keys'', JArr [JObj [(''kty'', JStr ''RSA''), (''kid'', JStr ''new''), (''use'', JStr ''sig''),
     (''n'', JStr ''AQAB''), (''e'', JStr ''AQAB'')]])]"

definition sample_net :: "int net" where
  "sample_net = \<lparr>nt_NewRequest = (\<lambda>_ _. None), nt_NewJar = State_Monad.return (Inr 0),
     nt_Do = (\<lambda>_ _. State_Monad.return (Inr \<lparr>re_StatusCode = 200, re_Header = [], re_Body = Inr (js_encode text_codec sample_jwks_doc)\<rparr>)),
     nt_ParseURL = (\<lambda>_. None), nt_codec = text_codec, nt_Decode = js_decode text_codec, nt_SHA256 = (\<lambda>bs. bs)\<rparr>"

definition sample_hydra_config :: hydra_config where
  "sample_hydra_config = fst (hydra_New ''p'' ''a'' ''i'' ''s'' ''r'' [WithExpectedAudience ''aud''])"

definition sample_process :: "jwks_cache \<Rightarrow> int \<Rightarrow> int proc" where
  "sample_process jc now = \<lparr>pr_breaker = pr_breaker sim_start, pr_jwks = jc, pr_ext = now\<rparr>"

definition sample_key :: rsa_key where "sample_key = (65537, 65537)"

definition sample_jwt :: "int proc jwt_lib" where
  "sample_jwt = \<lparr>jw_ParseWithClaims = (\<lambda>_ tok kf. try_io (kf \<lparr>jt_IsRSA = True, jt_kid = Some (JStr ''new'')\<rparr>) (\<lambda>k.
     State_Monad.return (if k \<noteq> sample_key then Inl (Errorf ''signature is invalid'' []) else Inr (\<lparr>cl_Subject = tok, cl_Ext = None, cl_ClientID = [], cl_ID = [], cl_ExpiresAt = None\<rparr>, True))))\<rparr>"

lemma sample_jwks: "jwks_of_response N \<lparr>re_StatusCode = 200, re_Header = [], re_Body = Inr (js_encode text_codec sample_jwks_doc)\<rparr> =
    Inr [(''new'', sample_key)]" if "nt_Decode N = js_decode text_codec"
proof -
  have d: "js_decode text_codec (js_encode text_codec j) = Inr j" for j
    using text_codec_ok by (simp add: json_codec_ok_def)
  have k: "parseRSAPublicKey ''AQAB'' ''AQAB'' = Inr sample_key"
    by (simp add: parseRSAPublicKey_def b64_decode_def b64_val_def b64_alphabet_def set_bytes_def i64_def sample_key_def)
  show ?thesis
    by (simp add: jwks_of_response_def decode_body_def that d sample_jwks_doc_def unmarshal_jwks_def unmarshal_object_def js_field_def
        unmarshal_list_def unmarshal_jwk_def unmarshal_string_def k)
qed

theorem redirect_params_roundtrip_witness:
  "extractParam sample_net (''http://h/cb'' @ CHR ''?'' # values_encode [(''state'', ''a b&c''), (''code'', ''x'')]) ''state'' = Inr ''a b&c''"
  using redirect_params_roundtrip [of sample_net "''http://h/cb''" "[(''state'', ''a b&c''), (''code'', ''x'')]" "''state''" "''a b&c''"]
  by (simp add: sample_net_def unreserved_def code_of_def)

theorem validate_access_token_sound_witness:
  "wp (hy_ValidateAccessToken (HydraClient sample_env sample_net sample_jwt sample_hydra_config) ''t'') (\<lambda>r p'.
     trusts {(''new'', sample_key)} (pr_jwks p') \<and>
     (\<forall>cl. r = Inr cl \<longrightarrow> (\<exists>kid key. (kid, key) \<in> {(''new'', sample_key)} \<and> (\<lambda>k _. k = sample_key) key ''t'') \<and>
       (\<lambda>_ _. True) WithExpirationRequired ''t'' \<and>
       (hc_expectedIssuer sample_hydra_config = [] \<or> (\<lambda>_ _. True) (WithIssuer (hc_expectedIssuer sample_hydra_config)) ''t'') \<and>
       (hc_expectedAudience sample_hydra_config = [] \<or> (\<lambda>_ _. True) (WithAudience (hc_expectedAudience sample_hydra_config)) ''t'')))
     (sample_process (newJWKSCache (30 * minute)) 0)"
proof (rule validate_access_token_sound)
  show "publishes sample_net sample_hydra_config {(''new'', sample_key)}"
    by (auto simp: publishes_def answers_def sample_net_def sample_jwks)
  show "trusts {(''new'', sample_key)} (pr_jwks (sample_process (newJWKSCache (30 * minute)) 0))"
    by (simp add: trusts_def sample_process_def newJWKSCache_def)
  show "jwt_lib_ok sample_jwt (\<lambda>k _. k = sample_key) (\<lambda>_ _. True)"
    unfolding jwt_lib_ok_def sample_jwt_def jwt_lib.simps run_try
    by (force split: prod.splits sum.splits if_splits)
qed

text \<open>
  One token with an unknown key identifier ends the grace period of everybody else: the
  lookup that precedes the check of its signature refreshes the cache, and the refresh
  moves the current keys into the place of the previous generation. A token under the
  previous key, valid a moment before, is then refused.
\<close>

theorem unknown_kid_ends_grace:
  "let resolve = resolveKey sample_env (ext_net sample_net) sample_hydra_config;
       cache = rotated [(''new'', sample_key)] (60 * minute) ((newJWKSCache (30 * minute))\<lparr>jc_keys := [(''old'', (7, 3))], jc_fetchedAt := 50 * minute\<rparr>)
   in case run_state (do { a \<leftarrow> resolve ''old''; resolve ''forged''; b \<leftarrow> resolve ''old''; State_Monad.return (a, b) })
        (sample_process cache (61 * minute)) of
     ((a, b), _) \<Rightarrow> a = Inr (7, 3) \<and> b = Inl (Errorf ''hydra: no JWKS key found for kid=old'' [])"
  by (simp add: Let_def resolveKey_def jwks_isStale_def jwks_get_def jwks_set_def refreshJWKS_def http_call_def time_since_def rotated_def
      sample_process_def newJWKSCache_def sample_net_def sample_env_def time_sub_def duration_defs sample_jwks)

theorem expired_refresh_ends_grace_witness:
  "wp (resolveKey sample_env (ext_net sample_net) sample_hydra_config ''new'') (\<lambda>r p'. \<forall>k. r = Inr k \<longrightarrow>
     map_of (jc_keys (pr_jwks p')) ''new'' = Some k \<and> jc_previousKeys (pr_jwks p') = []) (sample_process (newJWKSCache (30 * minute)) 0)"
proof -
  let ?p = "sample_process (newJWKSCache (30 * minute)) 0"
  have clock: "0 \<le> t" if "clock_reading sample_env t" for t
    using clock_ok_bounds [OF sample_env_ok(2) that] by simp
  have "wp (resolveKey sample_env (ext_net sample_net) sample_hydra_config ''new'') (\<lambda>r p'. \<forall>k. r = Inr k \<longrightarrow>
     map_of (jc_keys (pr_jwks p')) ''new'' = Some k \<and> jc_previousKeys (pr_jwks p') = jc_keys (pr_jwks ?p)) ?p"
    by (rule expired_refresh_ends_grace) (use clock in \<open>force simp: sample_process_def newJWKSCache_def zero_time_def duration_defs\<close>)+
  then show ?thesis
    by (simp add: sample_process_def newJWKSCache_def)
qed

end
