(* ===== verification/Kratos_Client.thy ===== *)
theory Kratos_Client imports Hydra_Client begin

text \<open>
  \<open>internal/kratos/client.go\<close>: identities and sessions over the Kratos Admin and Public APIs.
  A \<open>json.RawMessage\<close> is the text of the document it holds.
\<close>

record kratos_config =
  kc_adminURL :: string
  kc_publicURL :: string
  kc_httpClient :: http_config

definition kratos_New :: "string \<Rightarrow> string \<Rightarrow> kratos_config" where
  "kratos_New adminURL publicURL = \<lparr>kc_adminURL = adminURL, kc_publicURL = publicURL,
     kc_httpClient = \<lparr>hk_Timeout = 10 * second, hk_Redirects = True, hk_Jar = None\<rparr>\<rparr>"

section \<open>Documents\<close>

definition raw_field :: "'w net \<Rightarrow> string \<Rightarrow> (string \<times> json) list \<Rightarrow> string" where
  "raw_field N k o1 = (case js_field k o1 of None \<Rightarrow> [] | Some j \<Rightarrow> js_encode (nt_codec N) j)"

definition unmarshal_identity :: "'w net \<Rightarrow> json \<Rightarrow> identity result" where
  "unmarshal_identity N j =
     res_bind (unmarshal_object j) (\<lambda>o1.
     res_bind (unmarshal_string ''id'' o1) (\<lambda>i.
       Inr \<lparr>id_ID = i, id_Traits = raw_field N ''traits'' o1\<rparr>))"

definition unmarshal_identity_full :: "'w net \<Rightarrow> json \<Rightarrow> identity_full result" where
  "unmarshal_identity_full N j =
     res_bind (unmarshal_object j) (\<lambda>o1.
     res_bind (unmarshal_string ''id'' o1) (\<lambda>i.
     res_bind (unmarshal_map ''credentials'' o1) (\<lambda>c.
       Inr \<lparr>id_ID = i, id_Traits = raw_field N ''traits'' o1,
         id_Credentials = (case c of None \<Rightarrow> Map.empty | Some m \<Rightarrow> (\<lambda>k. map_option (js_encode (nt_codec N)) (m k)))\<rparr>)))"

section \<open>Operations\<close>

definition admin_request :: "string \<Rightarrow> string \<Rightarrow> http_request" where
  "admin_request method u = \<lparr>rq_Method = method, rq_URL = u, rq_Header = [], rq_Body = []\<rparr>"

definition doAdminGet :: "'w net \<Rightarrow> kratos_config \<Rightarrow> string \<Rightarrow> ('w, string result) io" where
  "doAdminGet N c path =
     try_io (http_call N (kc_httpClient c) (\<lambda>e. Errorf ''kratos: build request'' [e])
               (\<lambda>e. Errorf ''kratos: admin request failed'' [e]) (admin_request ''GET'' (kc_adminURL c @ path))) (\<lambda>resp.
       State_Monad.return
         (if re_StatusCode resp = 404 then Inl (Errorf (''kratos: resource not found at '' @ path) [])
          else if re_StatusCode resp \<noteq> 200 then
            Inl (Errorf (''kratos: unexpected status '' @ show_int (re_StatusCode resp) @ '' from '' @ path) [])
          else re_Body resp))"

definition identity_path :: "string \<Rightarrow> string" where
  "identity_path identityID = ''/admin/identities/'' @ identityID"

definition kratos_GetIdentity :: "'w net \<Rightarrow> kratos_config \<Rightarrow> string \<Rightarrow> ('w, identity result) io" where
  "kratos_GetIdentity N c identityID =
     try_io (doAdminGet N c (identity_path identityID)) (\<lambda>data.
       State_Monad.return (wrap_error ''kratos: decode identity response''
         (res_bind (js_decode (nt_codec N) data) (unmarshal_identity N))))"

definition kratos_GetIdentityFull :: "'w net \<Rightarrow> kratos_config \<Rightarrow> string \<Rightarrow> ('w, identity_full result) io" where
  "kratos_GetIdentityFull N c identityID =
     try_io (doAdminGet N c (identity_path identityID)) (\<lambda>data.
       State_Monad.return (wrap_error ''kratos: decode identity-full response''
         (res_bind (js_decode (nt_codec N) data) (unmarshal_identity_full N))))"

definition create_identity_body :: "string \<Rightarrow> json" where
  "create_identity_body email = JObj [(''schema_id'', JStr ''person''), (''traits'', JObj [(''email'', JStr email)])]"

definition kratos_CreateIdentity :: "'w net \<Rightarrow> kratos_config \<Rightarrow> string \<Rightarrow> ('w, string result) io" where
  "kratos_CreateIdentity N c email =
     try_io (http_call N (kc_httpClient c) (\<lambda>e. Errorf ''kratos: build create-identity request'' [e])
               (\<lambda>e. Errorf ''kratos: create identity request failed'' [e])
               \<lparr>rq_Method = ''POST'', rq_URL = kc_adminURL c @ ''/admin/identities'',
                rq_Header = [(''Content-Type'', ''application/json'')],
                rq_Body = js_encode (nt_codec N) (create_identity_body email)\<rparr>) (\<lambda>resp.
       State_Monad.return
         (if re_StatusCode resp = 409 then Inl (Sentinel KratosErrEmailConflict)
          else if re_StatusCode resp \<noteq> 201 then
            Inl (Errorf (''kratos: unexpected status '' @ show_int (re_StatusCode resp) @ '' from create identity'') [])
          else wrap_error ''kratos: decode create identity response''
            (res_bind (res_bind (decode_body N resp) (unmarshal_identity N)) (\<lambda>i. Inr (id_ID i)))))"

definition kratos_DeleteSessions :: "'w net \<Rightarrow> kratos_config \<Rightarrow> string \<Rightarrow> ('w, error option) io" where
  "kratos_DeleteSessions N c identityID = do {
     r \<leftarrow> http_call N (kc_httpClient c) (\<lambda>e. Errorf ''kratos: build delete-sessions request'' [e])
            (\<lambda>e. Errorf ''kratos: delete sessions request failed'' [e])
            (admin_request ''DELETE'' (kc_adminURL c @ ''/admin/identities/'' @ identityID @ ''/sessions''));
     State_Monad.return (case r of
        Inl err \<Rightarrow> Some err
      | Inr resp \<Rightarrow>
          if re_StatusCode resp \<noteq> 204 \<and> re_StatusCode resp \<noteq> 200 then
            Some (Errorf (''kratos: unexpected status '' @ show_int (re_StatusCode resp) @ '' from delete sessions'') [])
          else None)
   }"

definition email_url :: "kratos_config \<Rightarrow> string \<Rightarrow> string" where
  "email_url c email = kc_adminURL c @ ''/admin/identities?credentials_identifier='' @ email"

definition kratos_GetIdentityByEmail :: "'w net \<Rightarrow> kratos_config \<Rightarrow> string \<Rightarrow> ('w, identity result) io" where
  "kratos_GetIdentityByEmail N c email =
     try_io (http_call N (kc_httpClient c) (\<lambda>e. Errorf ''kratos: build get-by-email request'' [e])
               (\<lambda>e. Errorf ''kratos: get-by-email request failed'' [e]) (admin_request ''GET'' (email_url c email))) (\<lambda>resp.
       State_Monad.return
         (if re_StatusCode resp \<noteq> 200 then
            Inl (Errorf (''kratos: unexpected status '' @ show_int (re_StatusCode resp) @ '' from list identities'') [])
          else res_bind (wrap_error ''kratos: decode list-identities response''
                  (res_bind (decode_body N resp) (unmarshal_list (unmarshal_identity N)))) (\<lambda>identities.
            case identities of [] \<Rightarrow> Inl (Sentinel KratosErrInvalidCredentials) | i # _ \<Rightarrow> Inr i)))"

definition whoami_request :: "kratos_config \<Rightarrow> string \<Rightarrow> http_request" where
  "whoami_request c sessionToken = \<lparr>rq_Method = ''GET'', rq_URL = kc_publicURL c @ ''/sessions/whoami'',
     rq_Header = [(''X-Session-Token'', sessionToken)], rq_Body = []\<rparr>"

definition kratos_GetSessionIDByToken :: "'w net \<Rightarrow> kratos_config \<Rightarrow> string \<Rightarrow> ('w, string result) io" where
  "kratos_GetSessionIDByToken N c sessionToken =
     try_io (http_call N (kc_httpClient c) (\<lambda>e. Errorf ''kratos: build whoami request'' [e])
               (\<lambda>e. Errorf ''kratos: whoami request failed'' [e]) (whoami_request c sessionToken)) (\<lambda>resp.
       State_Monad.return
         (if re_StatusCode resp = 401 then Inl (Errorf ''kratos: session token invalid or expired'' [])
          else if re_StatusCode resp \<noteq> 200 then
            Inl (Errorf (''kratos: unexpected status '' @ show_int (re_StatusCode resp) @ '' from whoami'') [])
          else res_bind (wrap_error ''kratos: decode whoami response''
                  (res_bind (decode_body N resp) (\<lambda>j. res_bind (unmarshal_object j) (unmarshal_string ''id'')))) (\<lambda>i.
            if i = [] then Inl (Errorf ''kratos: whoami returned empty session ID'' []) else Inr i)))"

definition kratos_DeleteSession :: "'w net \<Rightarrow> kratos_config \<Rightarrow> string \<Rightarrow> ('w, error option) io" where
  "kratos_DeleteSession N c kratosSessionID = do {
     r \<leftarrow> http_call N (kc_httpClient c) (\<lambda>e. Errorf ''kratos: build delete-session request'' [e])
            (\<lambda>e. Errorf ''kratos: delete session request failed'' [e])
            (admin_request ''DELETE'' (kc_adminURL c @ ''/admin/sessions/'' @ kratosSessionID));
     State_Monad.return (case r of
        Inl err \<Rightarrow> Some err
      | Inr resp \<Rightarrow>
          if re_StatusCode resp = 404 then None
          else if re_StatusCode resp \<noteq> 204 \<and> re_StatusCode resp \<noteq> 200 then
            Some (Errorf (''kratos: unexpected status '' @ show_int (re_StatusCode resp) @ '' from delete session'') [])
          else None)
   }"

definition KratosClient :: "'w net \<Rightarrow> kratos_config \<Rightarrow> 'w kratos_client" where
  "KratosClient N c = \<lparr>
     kr_GetIdentity = kratos_GetIdentity N c, kr_GetIdentityByEmail = kratos_GetIdentityByEmail N c,
     kr_DeleteSessions = kratos_DeleteSessions N c, kr_CreateIdentity = kratos_CreateIdentity N c,
     kr_GetSessionIDByToken = kratos_GetSessionIDByToken N c, kr_DeleteSession = kratos_DeleteSession N c,
     kr_GetIdentityFull = kratos_GetIdentityFull N c\<rparr>"

section \<open>Properties\<close>

text \<open>
  What a login by e-mail relies on: the lookup answers an identity only when Kratos listed
  it for this request, and reports the unknown address (\<open>ErrInvalidCredentials\<close>) only on a
  successful, empty list. Every network or decoding failure is another error.
\<close>

theorem identity_by_email_answers:
  "wp (kr_GetIdentityByEmail (KratosClient (rec_net N) c) email) (\<lambda>r wl. case r of
     Inr i \<Rightarrow> (\<exists>resp rest. snd wl = [(admin_request ''GET'' (email_url c email), Inr resp)] \<and> re_StatusCode resp = 200 \<and>
       res_bind (decode_body N resp) (unmarshal_list (unmarshal_identity N)) = Inr (i # rest))
   | Inl e \<Rightarrow> e = Sentinel KratosErrInvalidCredentials \<longleftrightarrow>
       (\<exists>resp. snd wl = [(admin_request ''GET'' (email_url c email), Inr resp)] \<and> re_StatusCode resp = 200 \<and>
         res_bind (decode_body N resp) (unmarshal_list (unmarshal_identity N)) = Inr [])) (w, [])"
proof -
  let ?rq = "admin_request ''GET'' (email_url c email)"
  have raw: "raw_field (rec_net N) = raw_field N"
    by (simp add: fun_eq_iff raw_field_def cong: option.case_cong)
  have rec: "decode_body (rec_net N) = decode_body N" "unmarshal_identity (rec_net N) = unmarshal_identity N"
    by (simp_all add: fun_eq_iff unmarshal_identity_def raw)
  show ?thesis
    unfolding KratosClient_def kratos_client.simps kratos_GetIdentityByEmail_def rec
    apply (intro wp_tryI http_call_wp)
      apply simp
     apply simp
    subgoal for resp w'
      by (cases "res_bind (decode_body N resp) (unmarshal_list (unmarshal_identity N))") (auto simp: wp_return split: list.splits)
    done
qed

text \<open>
  The address is not escaped: looking up \<open>a+b@x\<close> asks Kratos for the address \<open>a b@x\<close>, so an
  account with a plus sign in its address cannot log in by it.
\<close>

theorem email_lookup_not_escaped:
  "values_get (parse_query (raw_query (email_url (kratos_New ''http://kratos'' ''http://kratos'') ''a+b@x''))) ''credentials_identifier''
     = ''a b@x''"
  by (simp add: email_url_def kratos_New_def raw_query_def cut_on_def parse_query_def List.map_filter_def parse_pair_def values_get_def
      code_of_def)

end
