(* ===== verification/Account_Service.thy ===== *)
theory Account_Service imports BFF_Service Kratos_Client begin

text \<open>
  \<open>internal/service/account_service.go\<close>, \<open>admin_blacklist_service.go\<close> and
  \<open>internal/uaparser/parser.go\<close>: what a signed-in user sees and ends of the own sessions, and the
  global blocks of an administrator. The methods take the BFF session identifier of the
  caller; log lines are left out.
\<close>

section \<open>User agents\<close>

fun contains :: "string \<Rightarrow> string \<Rightarrow> bool" where
  "contains [] p = (p = [])"
| "contains (c # s) p = (has_prefix (c # s) p \<or> contains s p)"

text \<open>\<open>FindStringSubmatch\<close> of a literal followed by \<open>(\d+)\<close>: the leftmost match, as many digits as there are.\<close>

fun version_after :: "string \<Rightarrow> string \<Rightarrow> string option" where
  "version_after p [] = None"
| "version_after p (c # s) =
     (if has_prefix (c # s) p \<and> takeWhile is_digit (drop (length p) (c # s)) \<noteq> []
      then Some (takeWhile is_digit (drop (length p) (c # s)))
      else version_after p s)"

definition parseOS :: "string \<Rightarrow> string" where
  "parseOS ua =
     (if contains ua ''Android'' then ''Android''
      else if contains ua ''iPhone'' \<or> contains ua ''iPad'' then ''iOS''
      else if contains ua ''Windows'' then ''Windows''
      else if contains ua ''Macintosh'' \<or> contains ua ''Mac OS X'' then ''macOS''
      else if contains ua ''Linux'' then ''Linux''
      else ''Unknown'')"

definition parseBrowser :: "string \<Rightarrow> string" where
  "parseBrowser ua =
     (if contains ua ''Edg/'' then ''Edge''
      else if contains ua ''OPR/'' \<or> contains ua ''Opera'' then ''Opera''
      else if contains ua ''Firefox/'' then
        (case version_after ''Firefox/'' ua of Some v \<Rightarrow> ''Firefox '' @ v | None \<Rightarrow> ''Firefox'')
      else if contains ua ''Chrome/'' then
        (case version_after ''Chrome/'' ua of Some v \<Rightarrow> ''Chrome '' @ v | None \<Rightarrow> ''Chrome'')
      else if contains ua ''Safari/'' then ''Safari''
      else ''Unknown'')"

definition ua_Parse :: "string \<Rightarrow> string \<times> string" where
  "ua_Parse ua = (parseBrowser ua, parseOS ua)"

section \<open>The account service\<close>

record account_me =
  me_Email :: string
  me_Name :: string
  me_LoginProvider :: string

record device_info =
  di_DeviceID :: string
  di_Browser :: string
  di_OS :: string
  di_LastUsedAt :: "int option"
  di_IsCurrent :: bool

record sessions_response =
  sr_CurrentDevice :: "device_info option"
  sr_OtherDevices :: "device_info list"

record 'w account_service =
  ac_bff :: "'w bff_service_i"
  ac_kratosClient :: "'w kratos_client"
  ac_sessionStore :: "'w session_store"
  ac_deviceSessionRepo :: "'w device_session_repo"

text \<open>The traits of an identity: \<open>email\<close> and \<open>name.first\<close>.\<close>

definition unmarshal_traits :: "json \<Rightarrow> (string \<times> string) result" where
  "unmarshal_traits j =
     res_bind (unmarshal_object j) (\<lambda>o1.
     res_bind (unmarshal_string ''email'' o1) (\<lambda>email.
     res_bind (case js_field ''name'' o1 of None \<Rightarrow> Inr [] | Some n \<Rightarrow> unmarshal_object n) (\<lambda>o2.
     res_bind (unmarshal_string ''first'' o2) (\<lambda>first. Inr (email, first)))))"

definition account_GetMe :: "json_codec \<Rightarrow> 'w account_service \<Rightarrow> string \<Rightarrow> ('w, account_me result) io" where
  "account_GetMe J s sessionID =
     try_io (wrap_io ''account: whoami'' (bi_WhoAmI (ac_bff s) sessionID)) (\<lambda>(kratosID, _).
     try_io (wrap_io ''account: get identity'' (kr_GetIdentityFull (ac_kratosClient s) kratosID)) (\<lambda>identity.
       State_Monad.return
         (res_bind (wrap_error ''account: parse traits'' (res_bind (js_decode J (id_Traits identity)) unmarshal_traits)) (\<lambda>(email, first).
           Inr \<lparr>me_Email = email, me_Name = first,
             me_LoginProvider = (if id_Credentials identity ''oidc'' \<noteq> None then ''Google'' else ''Password'')\<rparr>))))"

definition device_info_of :: "string \<Rightarrow> device_session \<Rightarrow> device_info" where
  "device_info_of currentDeviceID pg =
     (let parsed = ua_Parse (case ds_UserAgent pg of None \<Rightarrow> [] | Some u \<Rightarrow> u) in
      \<lparr>di_DeviceID = ds_DeviceID pg, di_Browser = fst parsed, di_OS = snd parsed, di_LastUsedAt = ds_LastUsedAt pg,
       di_IsCurrent = (ds_DeviceID pg = currentDeviceID)\<rparr>)"

text \<open>The loop over the Postgres rows.\<close>

fun collect_devices :: "string list \<Rightarrow> string \<Rightarrow> device_session list \<Rightarrow> device_info option \<times> device_info list \<Rightarrow> device_info option \<times> device_info list" where
  "collect_devices activeDevices currentDeviceID [] acc = acc"
| "collect_devices activeDevices currentDeviceID (pg # rest) (current, others) =
     (if ds_DeviceID pg \<notin> set activeDevices then collect_devices activeDevices currentDeviceID rest (current, others)
      else if ds_Revoked pg then collect_devices activeDevices currentDeviceID rest (current, others)
      else
        (let info = device_info_of currentDeviceID pg in
         if ds_DeviceID pg = currentDeviceID then collect_devices activeDevices currentDeviceID rest (Some info, others)
         else collect_devices activeDevices currentDeviceID rest (current, others @ [info])))"

definition account_GetSessions :: "'w account_service \<Rightarrow> string \<Rightarrow> ('w, sessions_response result) io" where
  "account_GetSessions s sessionID =
     try_io (wrap_io ''account: whoami'' (bi_WhoAmI (ac_bff s) sessionID)) (\<lambda>(kratosID, currentDeviceID).
     try_io (wrap_io ''account: get device sessions'' (dr_GetDeviceSessions (ac_deviceSessionRepo s) kratosID)) (\<lambda>pgSessions.
     try_io (wrap_io ''account: get all user sessions'' (ss_GetAllForUser (ac_sessionStore s) kratosID)) (\<lambda>bffSessions.
       let activeDevices = map bs_DeviceID bffSessions;
           r = collect_devices activeDevices currentDeviceID pgSessions (None, [])
       in State_Monad.return (Inr \<lparr>sr_CurrentDevice = fst r, sr_OtherDevices = snd r\<rparr>))))"

text \<open>The best-effort loop over the sessions to end.\<close>

fun logout_each :: "'w account_service \<Rightarrow> (bff_session \<Rightarrow> bool) \<Rightarrow> bff_session list \<Rightarrow> ('w, unit) io" where
  "logout_each s wanted [] = State_Monad.return ()"
| "logout_each s wanted (b # rest) =
     (if \<not> wanted b then logout_each s wanted rest
      else do { bi_Logout (ac_bff s) (bs_SessionID b); logout_each s wanted rest })"

definition account_LogoutDevices :: "'w account_service \<Rightarrow> string \<Rightarrow> string list \<Rightarrow> ('w, unit result) io" where
  "account_LogoutDevices s sessionID deviceIDs =
     try_io (wrap_io ''account: whoami'' (bi_WhoAmI (ac_bff s) sessionID)) (\<lambda>(kratosID, currentDeviceID).
       let requested = filter (\<lambda>i. i \<noteq> currentDeviceID) deviceIDs in
     try_io (wrap_io ''account: get all user sessions'' (ss_GetAllForUser (ac_sessionStore s) kratosID)) (\<lambda>bffSessions.
       do { logout_each s (\<lambda>b. bs_DeviceID b \<in> set requested) bffSessions; State_Monad.return (Inr ()) }))"

definition account_LogoutOtherDevices :: "'w account_service \<Rightarrow> string \<Rightarrow> ('w, unit result) io" where
  "account_LogoutOtherDevices s sessionID =
     try_io (wrap_io ''account: whoami'' (bi_WhoAmI (ac_bff s) sessionID)) (\<lambda>(kratosID, currentDeviceID).
     try_io (wrap_io ''account: get all user sessions'' (ss_GetAllForUser (ac_sessionStore s) kratosID)) (\<lambda>bffSessions.
       do { logout_each s (\<lambda>b. bs_DeviceID b \<noteq> currentDeviceID) bffSessions; State_Monad.return (Inr ()) }))"

section \<open>The administrator's blocks\<close>

definition adminBlockTTL :: int where "adminBlockTTL = hour * 24 * 30"

record 'w admin_service =
  ad_repo :: "'w global_blacklist"
  ad_deviceSessionRepo :: "'w device_session_repo"
  ad_publisher :: "'w event_publisher"

definition admin_Block ::
    "'w go_env \<Rightarrow> 'w admin_service \<Rightarrow> blacklist_target_type \<Rightarrow> string \<Rightarrow> string \<Rightarrow> ('w, error option) io" where
  "admin_Block E s targetType targetValue reason = do {
     err \<leftarrow> gb_Add (ad_repo s) targetType targetValue reason;
     case err of
       Some e \<Rightarrow> State_Monad.return (Some (Errorf ''admin blacklist: persist block'' [e]))
     | None \<Rightarrow> do {
         (if target_type_string targetType = ''USER'' then dr_RevokeAllDevices (ad_deviceSessionRepo s) targetValue
          else State_Monad.return None);
         now \<leftarrow> env_now E;
         now2 \<leftarrow> env_now E;
         pub_PublishBlacklistSync (ad_publisher s) \<lparr>
           be_EventType = ''blacklist.sync'', be_TargetType = target_type_string targetType, be_TargetValue = targetValue,
           be_Reason = reason, be_ExpiresAt = env_format E (now + adminBlockTTL), be_Timestamp = env_format E now2\<rparr>;
         State_Monad.return None
       }
   }"

definition admin_Unblock :: "'w go_env \<Rightarrow> 'w admin_service \<Rightarrow> blacklist_target_type \<Rightarrow> string \<Rightarrow> ('w, error option) io" where
  "admin_Unblock E s targetType targetValue = do {
     err \<leftarrow> gb_Remove (ad_repo s) targetType targetValue;
     case err of
       Some e \<Rightarrow> State_Monad.return (Some (Errorf ''admin blacklist: remove block'' [e]))
     | None \<Rightarrow> do {
         now \<leftarrow> env_now E;
         pub_PublishBlacklistSync (ad_publisher s) \<lparr>
           be_EventType = ''blacklist.unblock'', be_TargetType = target_type_string targetType, be_TargetValue = targetValue,
           be_Reason = [], be_ExpiresAt = [], be_Timestamp = env_format E now\<rparr>;
         State_Monad.return None
       }
   }"

section \<open>Recorded runs\<close>

datatype account_call =
    AskedWhoAmI string "(string \<times> string) result"
  | ListedSessions string "bff_session list result"
  | ListedDevices string "device_session list result"
  | LoggedOut string "error option"

definition rec_account :: "'w account_service \<Rightarrow> ('w \<times> account_call list) account_service" where
  "rec_account s = \<lparr>
     ac_bff = \<lparr>
       bi_Login = (\<lambda>k d r t u i. silent (bi_Login (ac_bff s) k d r t u i)),
       bi_Logout = (\<lambda>i. recorded (LoggedOut i) (bi_Logout (ac_bff s) i)),
       bi_LogoutAll = (\<lambda>i. silent (bi_LogoutAll (ac_bff s) i)),
       bi_ResolveSession = (\<lambda>i. silent (bi_ResolveSession (ac_bff s) i)),
       bi_WhoAmI = (\<lambda>i. recorded (AskedWhoAmI i) (bi_WhoAmI (ac_bff s) i))\<rparr>,
     ac_kratosClient = \<lparr>
       kr_GetIdentity = (\<lambda>k. silent (kr_GetIdentity (ac_kratosClient s) k)),
       kr_GetIdentityByEmail = (\<lambda>e. silent (kr_GetIdentityByEmail (ac_kratosClient s) e)),
       kr_DeleteSessions = (\<lambda>k. silent (kr_DeleteSessions (ac_kratosClient s) k)),
       kr_CreateIdentity = (\<lambda>e. silent (kr_CreateIdentity (ac_kratosClient s) e)),
       kr_GetSessionIDByToken = (\<lambda>t. silent (kr_GetSessionIDByToken (ac_kratosClient s) t)),
       kr_DeleteSession = (\<lambda>i. silent (kr_DeleteSession (ac_kratosClient s) i)),
       kr_GetIdentityFull = (\<lambda>k. silent (kr_GetIdentityFull (ac_kratosClient s) k))\<rparr>,
     ac_sessionStore = \<lparr>
       ss_Create = (\<lambda>x. silent (ss_Create (ac_sessionStore s) x)),
       ss_Get = (\<lambda>i. silent (ss_Get (ac_sessionStore s) i)),
       ss_Update = (\<lambda>x. silent (ss_Update (ac_sessionStore s) x)),
       ss_Delete = (\<lambda>i. silent (ss_Delete (ac_sessionStore s) i)),
       ss_GetAllForUser = (\<lambda>k. recorded (ListedSessions k) (ss_GetAllForUser (ac_sessionStore s) k)),
       ss_DeleteAllForUser = (\<lambda>k. silent (ss_DeleteAllForUser (ac_sessionStore s) k)),
       ss_AcquireRefreshLock = (\<lambda>i t. silent (ss_AcquireRefreshLock (ac_sessionStore s) i t)),
       ss_ReleaseRefreshLock = (\<lambda>i. silent (ss_ReleaseRefreshLock (ac_sessionStore s) i))\<rparr>,
     ac_deviceSessionRepo = \<lparr>
       dr_SaveDeviceSession = (\<lambda>x. silent (dr_SaveDeviceSession (ac_deviceSessionRepo s) x)),
       dr_UpdateLastUsedAt = (\<lambda>k d. silent (dr_UpdateLastUsedAt (ac_deviceSessionRepo s) k d)),
       dr_RevokeDevice = (\<lambda>k d. silent (dr_RevokeDevice (ac_deviceSessionRepo s) k d)),
       dr_RevokeAllDevices = (\<lambda>k. silent (dr_RevokeAllDevices (ac_deviceSessionRepo s) k)),
       dr_GetDeviceSessions = (\<lambda>k. recorded (ListedDevices k) (dr_GetDeviceSessions (ac_deviceSessionRepo s) k)),
       dr_CountActiveDevices = (\<lambda>k. silent (dr_CountActiveDevices (ac_deviceSessionRepo s) k))\<rparr>\<rparr>"

lemma rec_account_simps:
  "bi_Logout (ac_bff (rec_account s)) i = recorded (LoggedOut i) (bi_Logout (ac_bff s) i)"
  "bi_WhoAmI (ac_bff (rec_account s)) i = recorded (AskedWhoAmI i) (bi_WhoAmI (ac_bff s) i)"
  "ss_GetAllForUser (ac_sessionStore (rec_account s)) k = recorded (ListedSessions k) (ss_GetAllForUser (ac_sessionStore s) k)"
  "dr_GetDeviceSessions (ac_deviceSessionRepo (rec_account s)) k = recorded (ListedDevices k) (dr_GetDeviceSessions (ac_deviceSessionRepo s) k)"
  by (simp_all add: rec_account_def)

lemma try_recorded_wp:
  "(\<And>e w'. Q (Inl (Errorf m [e])) (w', snd wl @ [ev (Inl e)])) \<Longrightarrow> (\<And>a w'. wp (f a) Q (w', snd wl @ [ev (Inr a)])) \<Longrightarrow>
   wp (try_io (wrap_io m (recorded ev x)) f) Q wl"
  by (intro wp_tryI wp_wrapI recorded_wp) (auto simp: wrap_error_def split: sum.splits)

text \<open>The logouts of a list of sessions, each attempted once and in order.\<close>

definition logouts :: "string list \<Rightarrow> account_call list \<Rightarrow> bool" where
  "logouts is l \<longleftrightarrow> (\<exists>rs. length rs = length is \<and> l = map2 LoggedOut is rs)"

lemma logouts_simps [simp]: "logouts [] []" "logouts is l \<Longrightarrow> logouts (i # is) (LoggedOut i r # l)"
proof -
  show "logouts [] []" by (simp add: logouts_def)
  assume "logouts is l"
  then obtain rs where "length rs = length is" "l = map2 LoggedOut is rs"
    by (auto simp: logouts_def)
  then show "logouts (i # is) (LoggedOut i r # l)"
    by (auto simp: logouts_def intro!: exI [of _ "r # rs"])
qed

lemma logout_each_wp:
  assumes "\<And>w' l. logouts (map bs_SessionID (filter wanted bs)) l \<Longrightarrow> Q () (w', snd wl @ l)"
  shows "wp (logout_each (rec_account s) wanted bs) Q wl"
  using assms
proof (induction bs arbitrary: wl)
  case Nil
  then show ?case using Nil [of "[]" "fst wl"] by (simp add: wp_return)
next
  case (Cons b bs)
  show ?case
  proof (cases "wanted b")
    case True
    show ?thesis
      unfolding logout_each.simps rec_account_simps
      using True Cons.prems by (auto intro!: wp_steps recorded_wp Cons.IH)
  qed (use Cons in simp)
qed

text \<open>
  C34. Ending other devices: \<open>LogoutDevices\<close> logs out exactly the listed sessions of the caller
  whose device was asked for and is not the device of the caller, in order and each once,
  whether or not the earlier ones succeeded; foreign identifiers do nothing. When the
  caller's session does not resolve or its sessions cannot be listed, nothing is logged out.
\<close>

theorem account_logout_devices_runs:
  "wp (account_LogoutDevices (rec_account s) sid deviceIDs) (\<lambda>r wl. case r of
     Inl _ \<Rightarrow> \<forall>i e. LoggedOut i e \<notin> set (snd wl)
   | Inr _ \<Rightarrow> \<exists>k cur sessions l. logouts (map bs_SessionID (filter (\<lambda>b. bs_DeviceID b \<in> set deviceIDs \<and> bs_DeviceID b \<noteq> cur) sessions)) l \<and>
       snd wl = [AskedWhoAmI sid (Inr (k, cur)), ListedSessions k (Inr sessions)] @ l) (w, [])"
proof -
  have req: "bs_DeviceID b \<in> set (filter (\<lambda>i. i \<noteq> cur) deviceIDs) \<longleftrightarrow> bs_DeviceID b \<in> set deviceIDs \<and> bs_DeviceID b \<noteq> cur" for b cur
    by auto
  show ?thesis
    unfolding account_LogoutDevices_def Let_def rec_account_simps req
    by (intro try_recorded_wp) (auto intro!: try_recorded_wp wp_bindI logout_each_wp wp_returnI)
qed

text \<open>
  \<open>LogoutOtherDevices\<close> logs out every listed session of the caller on another device and
  none on the device of the caller.
\<close>

theorem account_logout_others_runs:
  "wp (account_LogoutOtherDevices (rec_account s) sid) (\<lambda>r wl. case r of
     Inl _ \<Rightarrow> \<forall>i e. LoggedOut i e \<notin> set (snd wl)
   | Inr _ \<Rightarrow> \<exists>k cur sessions l. logouts (map bs_SessionID (filter (\<lambda>b. bs_DeviceID b \<noteq> cur) sessions)) l \<and>
       snd wl = [AskedWhoAmI sid (Inr (k, cur)), ListedSessions k (Inr sessions)] @ l) (w, [])"
  unfolding account_LogoutOtherDevices_def rec_account_simps
  by (intro try_recorded_wp) (auto intro!: try_recorded_wp wp_bindI logout_each_wp wp_returnI)

definition shown :: "bff_session list \<Rightarrow> device_session \<Rightarrow> bool" where
  "shown sessions pg \<longleftrightarrow> ds_DeviceID pg \<in> bs_DeviceID ` set sessions \<and> \<not> ds_Revoked pg"

lemma collect_devices_spec:
  "collect_devices (map bs_DeviceID sessions) cur pgs (c, others) =
     (case rev (filter (\<lambda>pg. shown sessions pg \<and> ds_DeviceID pg = cur) pgs) of [] \<Rightarrow> c | pg # _ \<Rightarrow> Some (device_info_of cur pg),
      others @ map (device_info_of cur) (filter (\<lambda>pg. shown sessions pg \<and> ds_DeviceID pg \<noteq> cur) pgs))"
proof (induction pgs arbitrary: c others)
  case (Cons pg pgs)
  have hd_append: "(case xs @ [x] of [] \<Rightarrow> c | y # _ \<Rightarrow> f y) = (case xs of [] \<Rightarrow> f x | y # _ \<Rightarrow> f y)" for xs x and f :: "device_session \<Rightarrow> device_info option" and c
    by (cases xs) simp_all
  show ?case
    by (cases "shown sessions pg"; cases "ds_DeviceID pg = cur") (auto simp: Cons.IH shown_def Let_def hd_append)
qed simp

text \<open>
  The device list shows the rows of Postgres that are not revoked and whose device has a
  live BFF session, once each, the caller's device apart from the others.
\<close>

theorem account_sessions_listed:
  "wp (account_GetSessions (rec_account s) sid) (\<lambda>r wl. case r of
     Inl _ \<Rightarrow> True
   | Inr resp \<Rightarrow> \<exists>k cur pgs sessions.
       snd wl = [AskedWhoAmI sid (Inr (k, cur)), ListedDevices k (Inr pgs), ListedSessions k (Inr sessions)] \<and>
       sr_OtherDevices resp = map (device_info_of cur) (filter (\<lambda>pg. shown sessions pg \<and> ds_DeviceID pg \<noteq> cur) pgs) \<and>
       sr_CurrentDevice resp = (case rev (filter (\<lambda>pg. shown sessions pg \<and> ds_DeviceID pg = cur) pgs) of
         [] \<Rightarrow> None | pg # _ \<Rightarrow> Some (device_info_of cur pg))) (w, [])"
  unfolding account_GetSessions_def Let_def rec_account_simps
  by (intro try_recorded_wp) (auto intro!: try_recorded_wp wp_returnI simp: collect_devices_spec)

section \<open>Global blocks\<close>

definition rec_admin :: "'w admin_service \<Rightarrow> 'w traced admin_service" where
  "rec_admin s = \<lparr>ad_repo = rec_global (ad_repo s), ad_deviceSessionRepo = rec_devices (ad_deviceSessionRepo s),
     ad_publisher = rec_publisher (ad_publisher s)\<rparr>"

text \<open>
  A block is published only after it has been persisted: when the insert fails nothing else
  happens; otherwise the devices of a blocked user are marked revoked (best effort) and one
  event with the target goes out, which expires 30 days from now.
\<close>

theorem admin_block_runs:
  "wp (admin_Block (silent_env E) (rec_admin s) tt tv reason) (\<lambda>r wl. case r of
     Some e \<Rightarrow> \<exists>x. snd wl = [GlobalAdd tt tv reason (Some x)] \<and> e = Errorf ''admin blacklist: persist block'' [x]
   | None \<Rightarrow> \<exists>ev l now. snd wl = GlobalAdd tt tv reason None # l @ [PublishBlacklistSync ev] \<and>
       (if target_type_string tt = ''USER'' then \<exists>x. l = [RevokeAllDevices tv x] else l = []) \<and>
       be_EventType ev = ''blacklist.sync'' \<and> be_TargetType ev = target_type_string tt \<and> be_TargetValue ev = tv \<and>
       clock_reading E now \<and> be_ExpiresAt ev = env_format E (now + adminBlockTTL)) (w, [])"
proof -
  have s: "gb_Add (ad_repo (rec_admin s)) a b c = recorded (GlobalAdd a b c) (gb_Add (ad_repo s) a b c)"
    "dr_RevokeAllDevices (ad_deviceSessionRepo (rec_admin s)) k = recorded (RevokeAllDevices k) (dr_RevokeAllDevices (ad_deviceSessionRepo s) k)"
    "pub_PublishBlacklistSync (ad_publisher (rec_admin s)) e = recorded (\<lambda>_. PublishBlacklistSync e) (pub_PublishBlacklistSync (ad_publisher s) e)" for a b c k e
    by (simp_all add: rec_admin_def recorders)
  show ?thesis
    unfolding admin_Block_def s rec_env_simps
    by (intro wp_steps recorded_wp silent_wp) (auto dest: clock_readingI)
qed

text \<open>
  A blocked user stays signed in here: after an administrator blocks the user, the user's
  BFF session still resolves to its access token, because no request path of this service
  reads the table of global blocks.
\<close>

theorem admin_block_leaves_session_usable:
  "let s1 = sample_session ''1'' 2592000000000000;
       admin = \<lparr>ad_repo = NewPostgresGlobalBlacklistRepository sim_pool, ad_deviceSessionRepo = NewPostgresDeviceSessionRepository sim_pool,
         ad_publisher = NoopPublisher\<rparr> in
   fst (run_state (do {
     ss_Create sim_store s1;
     err \<leftarrow> admin_Block (ext_env sim_env) admin TargetTypeUser ''u'' ''abuse'';
     r \<leftarrow> bi_ResolveSession (NewBFFService (ext_env sim_env) sim_bff) ''1'';
     State_Monad.return (err, r) }) sim_start) = (None, Some (Inr (forwarded s1)))"
proof -
  obtain b1 where b1: "session_text (ext_env sim_env) text_codec (sample_session ''1'' 2592000000000000) = Inr b1"
      "session_of_text (ext_env sim_env) text_codec b1 = Inr (sample_session ''1'' 2592000000000000)"
    by (rule sample_session_text [of 2592000000000000]) (simp_all add: duration_defs)
  have f: "bs_SessionID (sample_session i t) = i" "bs_KratosID (sample_session i t) = ''u''" "bs_ExpiresAt (sample_session i t) = t"
      "bs_AccessTokenExp (sample_session i t) = 0" "bs_HydraRefreshToken (sample_session i t) = ''r''" for i t
    by (simp_all add: sample_session_def)
  show ?thesis
    unfolding Let_def NewBFFService_def bff_service_i.simps sim_bff_def bff_ResolveSession_def admin_Block_def admin_service.simps
      check_session_def doRefresh_def refresh_locked_def forwarded_def bff_service.simps
      NewRedisStore_def rs_Create_def rs_Get_def rs_AcquireRefreshLock_def rs_ReleaseRefreshLock_def time_until_def time_sub_def
      NewRedisBlacklist_def rb_IsBlacklisted_def NewPostgresGlobalBlacklistRepository_def NewPostgresDeviceSessionRepository_def
      refusing_hydra_def idle_kratos_def NoopPublisher_def
    by (simp add: b1 b1 f sim_redis_def sim_exec_def time_sub_def sim_start_def sim0_def sim_env_simps duration_defs
      set_deadline_def set_ttl_def expire_ttl_def go_div_def key_defs db_deadline_def live_def db_get_def reply_defs
      blacklistKey_def zset_range_def sim_pool_def lockTTL_def refused_def adminBlockTTL_def)
qed

end
