(* ===== verification/Config.thy ===== *)
theory Config imports Go_Encoding Interfaces begin

text \<open>
  \<open>internal/config\<close>: the loaders that turn environment variables into the configuration of the
  components. \<open>os_Getenv\<close> answers the empty string for an unset variable, as \<open>os.Getenv\<close>
  does; \<open>os_ParseDuration\<close> is \<open>time.ParseDuration\<close>, whose fractions go through floating
  point. \<open>log.Fatalf\<close> ends the process: such a load is an error here. White space is ASCII.
\<close>

record os_env =
  os_Getenv :: "string \<Rightarrow> string"
  os_ParseDuration :: "string \<Rightarrow> int option"

section \<open>Strings and numbers\<close>

definition is_space :: "char \<Rightarrow> bool" where
  "is_space c \<longleftrightarrow> c \<in> {CHR '' '', CHR 0x09, CHR 0x0A, CHR 0x0B, CHR 0x0C, CHR 0x0D}"

definition trim_space :: "string \<Rightarrow> string" where
  "trim_space s = rev (dropWhile is_space (rev (dropWhile is_space s)))"

definition to_lower :: "char \<Rightarrow> char" where
  "to_lower c = (if 65 \<le> code_of c \<and> code_of c \<le> 90 then char_of (code_of c + 32) else c)"

definition equal_fold :: "string \<Rightarrow> string \<Rightarrow> bool" where
  "equal_fold s t \<longleftrightarrow> map to_lower s = map to_lower t"

text \<open>\<open>strconv.Atoi\<close>: decimal, with a sign, in the range of \<open>int64\<close>.\<close>

definition atoi :: "string \<Rightarrow> int option" where
  "atoi s = (case read_int s of None \<Rightarrow> None | Some n \<Rightarrow> if - (2 ^ 63) \<le> n \<and> n < 2 ^ 63 then Some n else None)"

definition envInt :: "os_env \<Rightarrow> string \<Rightarrow> int \<Rightarrow> int" where
  "envInt os key fallback =
     (if os_Getenv os key \<noteq> [] then (case atoi (os_Getenv os key) of Some n \<Rightarrow> if n > 0 then n else fallback | None \<Rightarrow> fallback)
      else fallback)"

definition splitAndTrim :: "string \<Rightarrow> string list" where
  "splitAndTrim s = filter (\<lambda>t. t \<noteq> []) (map trim_space (split_on (CHR '','') s))"

definition env_duration :: "os_env \<Rightarrow> string \<Rightarrow> int \<Rightarrow> int" where
  "env_duration os key fallback =
     (if os_Getenv os key \<noteq> [] then (case os_ParseDuration os (os_Getenv os key) of Some d \<Rightarrow> d | None \<Rightarrow> fallback) else fallback)"

definition env_default :: "os_env \<Rightarrow> string \<Rightarrow> string \<Rightarrow> string" where
  "env_default os key fallback = (if os_Getenv os key = [] then fallback else os_Getenv os key)"

definition fatal :: "string \<Rightarrow> 'a result" where
  "fatal msg = Inl (Errorf msg [])"

section \<open>Kafka\<close>

record kafka_config =
  kf_Brokers :: "string list"
  kf_Topic :: string
  kf_BlacklistSyncTopic :: string
  kf_ChannelSize :: int
  kf_WriteTimeout :: int
  kf_IsProduction :: bool

definition LoadKafkaConfig :: "os_env \<Rightarrow> kafka_config" where
  "LoadKafkaConfig os =
     (let brokersRaw = env_default os ''KAFKA_BROKERS'' ''kafka:9092'';
          v = os_Getenv os ''KAFKA_CHANNEL_SIZE'';
          channelSize =
            (if v \<noteq> [] then
               (case atoi v of
                  Some n \<Rightarrow> if n < 64 then 64 else if n > 65536 then 65536 else n
                | None \<Rightarrow> 4096)
             else 4096)
      in \<lparr>kf_Brokers = filter (\<lambda>t. t \<noteq> []) (map trim_space (split_on (CHR '','') brokersRaw)),
          kf_Topic = env_default os ''KAFKA_TOPIC'' ''access-logs'',
          kf_BlacklistSyncTopic = env_default os ''KAFKA_BLACKLIST_SYNC_TOPIC'' ''blacklist-sync'',
          kf_ChannelSize = channelSize, kf_WriteTimeout = 5 * second,
          kf_IsProduction = equal_fold (os_Getenv os ''IS_PRODUCTION'') ''true''\<rparr>)"

section \<open>The BFF\<close>

record bff_config =
  bc_CookieDomain :: string
  bc_CookieSecure :: bool
  bc_SessionTTL :: int
  bc_CSRFSecret :: string
  bc_JWKSGracePeriod :: int
  bc_AccessTokenRefreshBuffer :: int

definition maxGracePeriod :: int where "maxGracePeriod = 2 * hour"

definition LoadBFFConfig :: "os_env \<Rightarrow> bff_config result" where
  "LoadBFFConfig os =
     (if os_Getenv os ''BFF_CSRF_SECRET'' = [] then fatal ''BFF_CSRF_SECRET env var must be set''
      else if os_Getenv os ''BFF_COOKIE_DOMAIN'' = [] then fatal ''BFF_COOKIE_DOMAIN env var must be set''
      else
        (let gracePeriod = env_duration os ''BFF_JWKS_GRACE_PERIOD'' (30 * minute) in
         if gracePeriod > maxGracePeriod then fatal ''BFF_JWKS_GRACE_PERIOD exceeds maximum allowed value of 2h''
         else Inr
           \<lparr>bc_CookieDomain = os_Getenv os ''BFF_COOKIE_DOMAIN'',
            bc_CookieSecure = (os_Getenv os ''BFF_COOKIE_SECURE'' \<noteq> ''false''),
            bc_SessionTTL = env_duration os ''BFF_SESSION_TTL'' (7 * 24 * hour),
            bc_CSRFSecret = os_Getenv os ''BFF_CSRF_SECRET'',
            bc_JWKSGracePeriod = gracePeriod,
            bc_AccessTokenRefreshBuffer = env_duration os ''BFF_ACCESS_TOKEN_REFRESH_BUFFER'' (60 * second)\<rparr>))"

section \<open>The server\<close>

record server_config =
  sc_ServiceAPIKey :: string
  sc_AppEnv :: string
  sc_MetricsBasicAuthUser :: string
  sc_MetricsBasicAuthPassword :: string
  sc_TrustedProxyCIDRs :: "string list"
  sc_RateLimitRequestsPerMin :: int

definition LoadServerConfig :: "os_env \<Rightarrow> server_config result" where
  "LoadServerConfig os =
     (let key = os_Getenv os ''CENTRAL_AUTH_SERVICE_KEY'';
          appEnv = os_Getenv os ''APP_ENV'';
          dbPass = os_Getenv os ''POSTGRES_PASSWORD'';
          metricsUser = os_Getenv os ''METRICS_BASIC_AUTH_USER'';
          metricsPass = os_Getenv os ''METRICS_BASIC_AUTH_PASSWORD'' in
      if key = [] then fatal ''CENTRAL_AUTH_SERVICE_KEY env var must be set''
      else if appEnv = ''production'' \<and> length key < 32 then
        fatal ''CENTRAL_AUTH_SERVICE_KEY must be at least 32 characters in production''
      else if appEnv = ''production'' \<and> dbPass = [] then fatal ''POSTGRES_PASSWORD must be set in production''
      else if appEnv = ''production'' \<and> length dbPass < 12 then
        fatal ''POSTGRES_PASSWORD must be at least 12 characters in production''
      else if appEnv = ''production'' \<and> (metricsUser = [] \<or> metricsPass = []) then
        fatal ''METRICS_BASIC_AUTH_USER and METRICS_BASIC_AUTH_PASSWORD must be set in production''
      else if appEnv = ''production'' \<and> os_Getenv os ''METRICS_ALLOWED_CIDR'' = [] then
        fatal ''METRICS_ALLOWED_CIDR must be set in production''
      else
        (let cidrs = os_Getenv os ''TRUSTED_PROXY_CIDRS'';
             v = os_Getenv os ''RATE_LIMIT_REQUESTS_PER_MIN'';
             rateLimitRPM = (if v \<noteq> [] then (case atoi v of Some n \<Rightarrow> if n \<ge> 0 then n else 0 | None \<Rightarrow> 0) else 0)
         in Inr
           \<lparr>sc_ServiceAPIKey = key, sc_AppEnv = appEnv, sc_MetricsBasicAuthUser = metricsUser,
            sc_MetricsBasicAuthPassword = metricsPass,
            sc_TrustedProxyCIDRs = (if cidrs \<noteq> [] then splitAndTrim cidrs else [''172.16.0.0/12'']),
            sc_RateLimitRequestsPerMin = rateLimitRPM\<rparr>))"

section \<open>Proxy, resilience, Ory and the databases\<close>

record proxy_config =
  px_KotlinURL :: string
  px_DialTimeout :: int
  px_KotlinServiceKey :: string

definition LoadProxyConfig :: "os_env \<Rightarrow> proxy_config result" where
  "LoadProxyConfig os =
     (if os_Getenv os ''KOTLIN_URL'' = [] then Inl (Errorf ''KOTLIN_URL is required'' [])
      else if os_Getenv os ''KOTLIN_SERVICE_KEY'' = [] then Inl (Errorf ''KOTLIN_SERVICE_KEY is required'' [])
      else Inr \<lparr>px_KotlinURL = os_Getenv os ''KOTLIN_URL'', px_DialTimeout = 3 * second,
        px_KotlinServiceKey = os_Getenv os ''KOTLIN_SERVICE_KEY''\<rparr>)"

record resilience_config =
  rc_FailureThreshold :: int
  rc_ProbeBaseSeconds :: int
  rc_ProbeMaxSeconds :: int
  rc_JitterPct :: int

definition LoadResilienceConfig :: "os_env \<Rightarrow> resilience_config" where
  "LoadResilienceConfig os = \<lparr>
     rc_FailureThreshold = envInt os ''REDIS_CB_FAILURE_THRESHOLD'' 5,
     rc_ProbeBaseSeconds = envInt os ''REDIS_CB_PROBE_BASE_SECONDS'' 60,
     rc_ProbeMaxSeconds = envInt os ''REDIS_CB_PROBE_MAX_SECONDS'' 300,
     rc_JitterPct = envInt os ''REDIS_CB_JITTER_PCT'' 15\<rparr>"

record ory_config =
  oc_KratosPublicURL :: string
  oc_KratosAdminURL :: string
  oc_HydraPublicURL :: string
  oc_HydraAdminURL :: string
  oc_HydraClientID :: string
  oc_HydraClientSecret :: string
  oc_HydraRedirectURI :: string
  oc_HydraJWTAudience :: string

text \<open>The loop over the map of required variables fails whichever order it takes; the text names one of them.\<close>

definition ory_required :: "string list" where
  "ory_required = [''KRATOS_PUBLIC_URL'', ''KRATOS_ADMIN_URL'', ''HYDRA_PUBLIC_URL'', ''HYDRA_ADMIN_URL'', ''HYDRA_CLIENT_ID'',
     ''HYDRA_CLIENT_SECRET'']"

definition LoadOryConfig :: "os_env \<Rightarrow> ory_config result" where
  "LoadOryConfig os =
     (case filter (\<lambda>k. os_Getenv os k = []) ory_required of
        k # _ \<Rightarrow> fatal (''missing required env var: '' @ k)
      | [] \<Rightarrow> Inr
          \<lparr>oc_KratosPublicURL = os_Getenv os ''KRATOS_PUBLIC_URL'', oc_KratosAdminURL = os_Getenv os ''KRATOS_ADMIN_URL'',
           oc_HydraPublicURL = os_Getenv os ''HYDRA_PUBLIC_URL'', oc_HydraAdminURL = os_Getenv os ''HYDRA_ADMIN_URL'',
           oc_HydraClientID = os_Getenv os ''HYDRA_CLIENT_ID'', oc_HydraClientSecret = os_Getenv os ''HYDRA_CLIENT_SECRET'',
           oc_HydraRedirectURI = env_default os ''HYDRA_REDIRECT_URI'' ''http://auth-server:8081/internal/oauth/callback'',
           oc_HydraJWTAudience = env_default os ''HYDRA_JWT_AUDIENCE'' (os_Getenv os ''HYDRA_CLIENT_ID'')\<rparr>)"

definition PostgresDSN :: "os_env \<Rightarrow> string" where
  "PostgresDSN os =
     ''postgres://'' @ os_Getenv os ''POSTGRES_USER'' @ '':'' @ os_Getenv os ''POSTGRES_PASSWORD'' @ ''@''
     @ env_default os ''POSTGRES_HOST'' ''localhost'' @ '':'' @ os_Getenv os ''POSTGRES_PORT'' @ ''/'' @ os_Getenv os ''POSTGRES_DB''
     @ ''?sslmode='' @ env_default os ''POSTGRES_SSLMODE'' ''require''"

record redis_options =
  ro_Addr :: string
  ro_DialTimeout :: int
  ro_ReadTimeout :: int
  ro_WriteTimeout :: int

text \<open>\<open>time.Duration\<close> arithmetic wraps.\<close>

definition NewRedisClient_options :: "os_env \<Rightarrow> redis_options" where
  "NewRedisClient_options os = \<lparr>
     ro_Addr = env_default os ''REDIS_ADDR'' ''localhost:6379'',
     ro_DialTimeout = i64 (envInt os ''REDIS_DIAL_TIMEOUT_MS'' 100 * millisecond),
     ro_ReadTimeout = i64 (envInt os ''REDIS_READ_TIMEOUT_MS'' 500 * millisecond),
     ro_WriteTimeout = i64 (envInt os ''REDIS_WRITE_TIMEOUT_MS'' 500 * millisecond)\<rparr>"

record pool_options =
  po_DSN :: string
  po_MaxConns :: int
  po_MinConns :: int
  po_MaxConnLifetime :: int
  po_MaxConnIdleTime :: int
  po_HealthCheckPeriod :: int

text \<open>\<open>pgxpool.ParseConfig\<close> is the driver's; it may refuse the string.\<close>

definition NewPostgresConn_options :: "os_env \<Rightarrow> (string \<Rightarrow> error option) \<Rightarrow> pool_options result" where
  "NewPostgresConn_options os ParseConfig =
     (case ParseConfig (PostgresDSN os) of
        Some err \<Rightarrow> Inl (Errorf ''postgres: parse config'' [err])
      | None \<Rightarrow> Inr
          \<lparr>po_DSN = PostgresDSN os, po_MaxConns = i32 (envInt os ''POSTGRES_POOL_MAX_CONNS'' 25),
           po_MinConns = i32 (envInt os ''POSTGRES_POOL_MIN_CONNS'' 5), po_MaxConnLifetime = 30 * minute,
           po_MaxConnIdleTime = 5 * minute, po_HealthCheckPeriod = 1 * minute\<rparr>)"

section \<open>Properties\<close>

lemma envInt_pos: "0 < fallback \<Longrightarrow> 0 < envInt os key fallback"
  by (auto simp: envInt_def split: option.splits)

lemma envInt_i64: "0 < fallback \<Longrightarrow> fallback < 2 ^ 63 \<Longrightarrow> envInt os key fallback < 2 ^ 63"
  by (auto simp: envInt_def atoi_def split: option.splits)

text \<open>
  Whatever the environment holds, the loaded configuration is within its bounds: the
  channel of the producer has between 64 and 65536 places, the circuit-breaker settings are
  positive, and the JWKS grace period is at most two hours.
\<close>

theorem config_within_bounds:
  "64 \<le> kf_ChannelSize (LoadKafkaConfig os) \<and> kf_ChannelSize (LoadKafkaConfig os) \<le> 65536 \<and>
   0 < rc_FailureThreshold (LoadResilienceConfig os) \<and> 0 < rc_ProbeBaseSeconds (LoadResilienceConfig os) \<and>
   0 < rc_ProbeMaxSeconds (LoadResilienceConfig os) \<and> 0 < rc_JitterPct (LoadResilienceConfig os) \<and>
   (case LoadBFFConfig os of Inr c \<Rightarrow> bc_JWKSGracePeriod c \<le> maxGracePeriod | Inl _ \<Rightarrow> True)"
  by (auto simp: LoadKafkaConfig_def LoadResilienceConfig_def LoadBFFConfig_def Let_def envInt_pos fatal_def split: option.splits)

text \<open>
  A server that starts in production has a service key of at least 32 bytes, a database
  password of at least 12, credentials for the metrics endpoint and a metrics allow list;
  in every environment the service key is not empty.
\<close>

theorem production_secrets_present:
  "case LoadServerConfig os of
     Inl _ \<Rightarrow> True
   | Inr c \<Rightarrow> sc_ServiceAPIKey c \<noteq> [] \<and> 0 \<le> sc_RateLimitRequestsPerMin c \<and>
       (if sc_AppEnv c = ''production'' then
          32 \<le> length (sc_ServiceAPIKey c) \<and> 12 \<le> length (os_Getenv os ''POSTGRES_PASSWORD'') \<and>
          sc_MetricsBasicAuthUser c \<noteq> [] \<and> sc_MetricsBasicAuthPassword c \<noteq> [] \<and> os_Getenv os ''METRICS_ALLOWED_CIDR'' \<noteq> []
        else True)"
  by (auto simp: LoadServerConfig_def Let_def fatal_def split: option.splits)

text \<open>
  A broker list of separators only is accepted and empty, although the producer dials its
  first element without looking.
\<close>

theorem broker_list_may_be_empty:
  "kf_Brokers (LoadKafkaConfig \<lparr>os_Getenv = (\<lambda>k. if k = ''KAFKA_BROKERS'' then '', '' else []), os_ParseDuration = (\<lambda>_. None)\<rparr>) = []"
  by (simp add: LoadKafkaConfig_def Let_def env_default_def trim_space_def is_space_def)

text \<open>
  The parts of the connection string are not escaped, so different settings can give the
  same string: a password that contains an at sign moves the host.
\<close>

theorem dsn_not_injective:
  "let env = (\<lambda>p h k. if k = ''POSTGRES_PASSWORD'' then p else if k = ''POSTGRES_HOST'' then h else ''x'') in
   PostgresDSN \<lparr>os_Getenv = env ''p@evil'' ''db'', os_ParseDuration = (\<lambda>_. None)\<rparr> =
   PostgresDSN \<lparr>os_Getenv = env ''p'' ''evil@db'', os_ParseDuration = (\<lambda>_. None)\<rparr>"
  by (simp add: PostgresDSN_def env_default_def Let_def)

end
