(* ===== verification/Http_Context.thy ===== *)
theory Http_Context imports Go_Encoding Call_Trace Http_Client begin

text \<open>
  One HTTP request as the gin handlers see it.

  gin is not under \<open>src/\<close>. A handler is modelled as a function from what it can read (the
  request, the values that earlier handlers stored with \<open>c.Set\<close>) to what it has written
  (status, headers, cookies, body). \<open>c.Next()\<close> runs the handlers that follow in the chain and
  returning without aborting does the same, so a middleware is a function of its successor
  and one that aborts does not call it. The record \<open>gin_lib\<close> holds the library results that the
  code only passes on: the JSON reader, the e-mail validator, the rune count, the text of an
  error, HMAC-SHA256.

  \<open>http.Header\<close> is written out: its keys are in canonical form, and every access goes through
  \<open>canonical_key\<close>.
\<close>

section \<open>Headers\<close>

type_synonym header = "string \<rightharpoonup> string list"

definition to_upper :: "char \<Rightarrow> char" where
  "to_upper c = (if 97 \<le> code_of c \<and> code_of c \<le> 122 then char_of (code_of c - 32) else c)"

definition to_lower_char :: "char \<Rightarrow> char" where
  "to_lower_char c = (if 65 \<le> code_of c \<and> code_of c \<le> 90 then char_of (code_of c + 32) else c)"

definition token_char :: "char \<Rightarrow> bool" where
  "token_char c \<longleftrightarrow>
     (let n = code_of c in 48 \<le> n \<and> n \<le> 57 \<or> 65 \<le> n \<and> n \<le> 90 \<or> 97 \<le> n \<and> n \<le> 122
        \<or> n \<in> {33, 35, 36, 37, 38, 39, 42, 43, 45, 46, 94, 95, 96, 124, 126})"

fun recase :: "bool \<Rightarrow> string \<Rightarrow> string" where
  "recase up [] = []"
| "recase up (c # cs) = (if up then to_upper c else to_lower_char c) # recase (c = CHR ''-'') cs"

text \<open>\<open>textproto.CanonicalMIMEHeaderKey\<close>.\<close>

definition canonical_key :: "string \<Rightarrow> string" where
  "canonical_key s = (if list_all token_char s then recase True s else s)"

definition header_Get :: "header \<Rightarrow> string \<Rightarrow> string" where
  "header_Get h k = (case h (canonical_key k) of Some (v # _) \<Rightarrow> v | _ \<Rightarrow> [])"

definition header_Set :: "string \<Rightarrow> string \<Rightarrow> header \<Rightarrow> header" where
  "header_Set k v h = h(canonical_key k \<mapsto> [v])"

definition header_Del :: "string \<Rightarrow> header \<Rightarrow> header" where
  "header_Del k h = h(canonical_key k := None)"

lemmas header_ops = header_Get_def header_Set_def header_Del_def

section \<open>The context of a request\<close>

datatype same_site = SameSiteStrictMode | SameSiteLaxMode

record set_cookie =
  ck_Name :: string
  ck_Value :: string
  ck_Path :: string
  ck_Domain :: string
  ck_MaxAge :: int
  ck_ExpiresAtEpoch :: bool
  ck_Secure :: bool
  ck_HttpOnly :: bool
  ck_SameSite :: same_site

text \<open>
  The first group of fields is the request: \<open>gx_Cookie\<close> is \<open>c.Cookie\<close> (\<open>None\<close> is
  \<open>http.ErrNoCookie\<close>), \<open>gx_FullPath\<close> the route template. The second group is what has been
  written, \<open>gx_Keys\<close> by \<open>c.Set\<close>.
\<close>

record gin_ctx =
  gx_Method :: string
  gx_Path :: string
  gx_FullPath :: string
  gx_Header :: header
  gx_Cookie :: "string \<Rightarrow> string option"
  gx_ClientIP :: string
  gx_Body :: string
  gx_Keys :: "string \<rightharpoonup> string"
  gx_Status :: int
  gx_ResponseHeader :: header
  gx_SetCookies :: "set_cookie list"
  gx_Response :: "json option"

type_synonym 'w handler = "gin_ctx \<Rightarrow> ('w, gin_ctx) io"
type_synonym 'w middleware = "'w handler \<Rightarrow> 'w handler"

record gin_lib =
  gn_Decode :: "string \<Rightarrow> json result"
  gn_IsEmail :: "string \<Rightarrow> bool"
  gn_RuneCount :: "string \<Rightarrow> nat"
  gn_ErrorText :: "error \<Rightarrow> string"
  gn_HMAC :: "nat list \<Rightarrow> nat list \<Rightarrow> nat list"

text \<open>A request on which nothing has been done yet.\<close>

definition fresh_ctx :: "gin_ctx \<Rightarrow> bool" where
  "fresh_ctx c \<longleftrightarrow> gx_Keys c = Map.empty \<and> gx_Status c = 200 \<and> gx_ResponseHeader c = Map.empty \<and> gx_SetCookies c = [] \<and>
     gx_Response c = None"

definition c_GetHeader :: "gin_ctx \<Rightarrow> string \<Rightarrow> string" where
  "c_GetHeader c k = header_Get (gx_Header c) k"

definition c_JSON :: "int \<Rightarrow> json \<Rightarrow> gin_ctx \<Rightarrow> gin_ctx" where
  "c_JSON code body c = c\<lparr>gx_Status := code, gx_Response := Some body\<rparr>"

definition c_AbortWithStatus :: "int \<Rightarrow> gin_ctx \<Rightarrow> gin_ctx" where
  "c_AbortWithStatus code c = c\<lparr>gx_Status := code\<rparr>"

definition c_Header :: "string \<Rightarrow> string \<Rightarrow> gin_ctx \<Rightarrow> gin_ctx" where
  "c_Header k v c = c\<lparr>gx_ResponseHeader := header_Set k v (gx_ResponseHeader c)\<rparr>"

definition c_Set :: "string \<Rightarrow> string \<Rightarrow> gin_ctx \<Rightarrow> gin_ctx" where
  "c_Set k v c = c\<lparr>gx_Keys := (gx_Keys c)(k \<mapsto> v)\<rparr>"

definition http_SetCookie :: "set_cookie \<Rightarrow> gin_ctx \<Rightarrow> gin_ctx" where
  "http_SetCookie k c = c\<lparr>gx_SetCookies := gx_SetCookies c @ [k]\<rparr>"

definition gin_error :: "string \<Rightarrow> json" where
  "gin_error msg = JObj [(''error'', JStr msg)]"

lemmas c_defs = c_JSON_def c_AbortWithStatus_def c_Header_def c_Set_def http_SetCookie_def

text \<open>The string a handler finds under a key, with \<open>v, _ := c.Get(k); s, _ := v.(string)\<close>.\<close>

definition c_GetString :: "gin_ctx \<Rightarrow> string \<Rightarrow> string" where
  "c_GetString c k = (case gx_Keys c k of Some v \<Rightarrow> v | None \<Rightarrow> [])"

text \<open>A chain of middleware around a handler, outermost first.\<close>

definition gin_chain :: "'w middleware list \<Rightarrow> 'w handler \<Rightarrow> 'w handler" where
  "gin_chain ms h = foldr (\<lambda>m k. m k) ms h"

lemma gin_chain_simps [simp]:
  "gin_chain [] h = h" "gin_chain (m # ms) h = m (gin_chain ms h)"
  by (simp_all add: gin_chain_def)

text \<open>A handler whose invocations are observable.\<close>

definition rec_handler :: "'w handler \<Rightarrow> ('w \<times> gin_ctx list) handler" where
  "rec_handler h c = State (\<lambda>(w, l). case run_state (h c) w of (c', w') \<Rightarrow> (c', (w', l @ [c])))"

lemma run_rec_handler: "run_state (rec_handler h c) (w, l) = (case run_state (h c) w of (c', w') \<Rightarrow> (c', (w', l @ [c])))"
  by (simp add: rec_handler_def)

lemma rec_handler_wp: "(\<And>c' w'. Q c' (w', snd wl @ [c])) \<Longrightarrow> wp (rec_handler h c) Q wl"
  by (cases wl) (auto intro!: wpI simp: run_rec_handler split: prod.splits)

section \<open>Binding request bodies\<close>

text \<open>
  \<open>ShouldBindJSON\<close> decodes the body into the struct and then checks its \<open>binding\<close> tags;
  \<open>required\<close> refuses the zero value.
\<close>

definition check :: "string \<Rightarrow> bool \<Rightarrow> 'a result \<Rightarrow> 'a result" where
  "check tag ok r = (if ok then r else Inl (Errorf (''validation failed on '' @ tag) []))"

definition bind_json :: "gin_lib \<Rightarrow> gin_ctx \<Rightarrow> ((string \<times> json) list \<Rightarrow> 'a result) \<Rightarrow> 'a result" where
  "bind_json G c f = res_bind (gn_Decode G (gx_Body c)) (\<lambda>j. res_bind (unmarshal_object j) f)"

lemma check_Inr [simp]: "check tag ok r = Inr x \<longleftrightarrow> ok \<and> r = Inr x"
  by (simp add: check_def)

end
