(* ===== verification/Rate_Limiter.thy ===== *)
theory Rate_Limiter imports Config Http_Context Complex_Main begin

text \<open>
  The two rate limiters: the fixed window per client address of
  \<open>internal/http/middleware/rate_limit.go\<close> and the token bucket of
  \<open>internal/grpc/interceptor/token_bucket.go\<close>.

  A call of \<open>allow\<close> and a sweep of the eviction goroutine are atomic steps on the map of
  buckets; the clock reading of a call is an argument. The token bucket computes in
  \<open>float64\<close>; here its quantities are exact rationals, so rounding is left out.
\<close>

section \<open>The fixed window\<close>

definition rateLimitRequests :: "os_env \<Rightarrow> int" where
  "rateLimitRequests os =
     (if os_Getenv os ''RATE_LIMIT_REQUESTS_PER_MIN'' \<noteq> [] then
        (case atoi (os_Getenv os ''RATE_LIMIT_REQUESTS_PER_MIN'') of Some n \<Rightarrow> if n \<ge> 0 then n else 20 | None \<Rightarrow> 20)
      else 20)"

definition rateLimitWindow :: int where "rateLimitWindow = minute"

record bucket =
  bk_count :: int
  bk_windowStart :: int

type_synonym rate_limiter = "string \<rightharpoonup> bucket"

definition rl_allow :: "int \<Rightarrow> int \<Rightarrow> string \<Rightarrow> rate_limiter \<Rightarrow> bool \<times> rate_limiter" where
  "rl_allow requests now ip rl =
     (if requests = 0 then (True, rl)
      else
        let b = (case rl ip of Some b \<Rightarrow> b | None \<Rightarrow> \<lparr>bk_count = 0, bk_windowStart = now\<rparr>);
            b1 = (if time_sub now (bk_windowStart b) \<ge> rateLimitWindow then \<lparr>bk_count = 0, bk_windowStart = now\<rparr> else b);
            b2 = b1\<lparr>bk_count := i64 (bk_count b1 + 1)\<rparr>
        in (bk_count b2 \<le> requests, rl(ip \<mapsto> b2)))"

text \<open>One tick of \<open>evictLoop\<close>.\<close>

definition evict_tick :: "int \<Rightarrow> rate_limiter \<Rightarrow> rate_limiter" where
  "evict_tick now rl =
     (\<lambda>ip. case rl ip of
        None \<Rightarrow> None
      | Some b \<Rightarrow> if time_sub now (bk_windowStart b) > 2 * rateLimitWindow then None else Some b)"

datatype limiter_event = Request int string | EvictTick int

fun event_time :: "limiter_event \<Rightarrow> int" where
  "event_time (Request now ip) = now"
| "event_time (EvictTick now) = now"

text \<open>A run answers each request, in order, with its time and address.\<close>

fun limiter_run :: "int \<Rightarrow> limiter_event list \<Rightarrow> rate_limiter \<Rightarrow> (int \<times> string \<times> bool) list" where
  "limiter_run requests [] rl = []"
| "limiter_run requests (Request now ip # evs) rl =
     (case rl_allow requests now ip rl of (ok, rl') \<Rightarrow> (now, ip, ok) # limiter_run requests evs rl')"
| "limiter_run requests (EvictTick now # evs) rl = limiter_run requests evs (evict_tick now rl)"

definition allowed_in :: "string \<Rightarrow> int \<Rightarrow> int \<Rightarrow> (int \<times> string \<times> bool) list \<Rightarrow> nat" where
  "allowed_in ip a b out = length (filter (\<lambda>(now, i, ok). i = ip \<and> ok \<and> a \<le> now \<and> now < b) out)"

lemma allowed_in_simps [simp]:
  "allowed_in ip a b [] = 0"
  "allowed_in ip a b ((now, i, ok) # out) = (if i = ip \<and> ok \<and> a \<le> now \<and> now < b then 1 else 0) + allowed_in ip a b out"
  by (simp_all add: allowed_in_def)

text \<open>The clock does not go back; its readings lie between 1970 and 2116.\<close>

definition clocked :: "limiter_event list \<Rightarrow> bool" where
  "clocked evs \<longleftrightarrow> sorted (map event_time evs) \<and> list_all (\<lambda>e. 0 \<le> event_time e \<and> event_time e < 2 ^ 62) evs"

lemma clocked_Cons: "clocked (e # evs) \<longleftrightarrow>
  0 \<le> event_time e \<and> event_time e < 2 ^ 62 \<and> (\<forall>e'\<in>set evs. event_time e \<le> event_time e') \<and> clocked evs"
  by (auto simp: clocked_def list_all_iff)

subsection \<open>At most twice the limit in any minute\<close>

text \<open>
  What is known of an address between two steps, for an interval \<open>[t, t + window)\<close>: \<open>tot\<close>
  requests of it have been allowed in the interval, the last step was at \<open>prev\<close>, and its
  bucket is \<open>b\<close>. Windows start at least a window apart, so only one of them starts inside.
\<close>

definition window_inv :: "int \<Rightarrow> int \<Rightarrow> nat \<Rightarrow> int \<Rightarrow> bucket option \<Rightarrow> int \<Rightarrow> bool" where
  "window_inv requests t k prev b tot \<longleftrightarrow>
     0 \<le> tot \<and> (prev < t \<longrightarrow> tot = 0) \<and>
     (case b of
        None \<Rightarrow> tot \<le> requests \<or> t + rateLimitWindow \<le> prev \<and> tot \<le> 2 * requests
      | Some b \<Rightarrow> 0 \<le> bk_windowStart b \<and> bk_windowStart b \<le> prev \<and> 0 \<le> bk_count b \<and> bk_count b \<le> int k \<and>
          (if bk_windowStart b < t then tot \<le> min (bk_count b) requests
           else if bk_windowStart b < t + rateLimitWindow then tot \<le> requests + min (bk_count b) requests
           else tot \<le> 2 * requests))"

lemma window_inv_le: "0 < requests \<Longrightarrow> window_inv requests t k prev b tot \<Longrightarrow> tot \<le> 2 * requests"
  by (auto simp: window_inv_def split: option.splits if_splits)

lemma window_inv_later: "window_inv requests t k prev b tot \<Longrightarrow> prev \<le> now \<Longrightarrow> k \<le> k' \<Longrightarrow> 0 \<le> now \<Longrightarrow> (now < t \<longrightarrow> tot = 0) \<Longrightarrow>
    window_inv requests t k' now b tot"
  by (auto simp: window_inv_def split: option.splits if_splits)

lemma window_inv_evict:
  assumes "window_inv requests t k prev (rl ip) tot" "prev \<le> now" "0 < requests" "now < 2 ^ 62"
  shows "window_inv requests t k now (evict_tick now rl ip) tot"
  using assms
  by (auto simp: window_inv_def evict_tick_def time_sub_def rateLimitWindow_def duration_defs split: option.splits if_splits)

lemma window_inv_allow:
  assumes inv: "window_inv requests t k prev (rl ip) tot" and "prev \<le> now" "0 \<le> now" "now < 2 ^ 62" "0 < requests" "int k < 2 ^ 62"
    and r: "rl_allow requests now ip rl = (ok, rl')"
  shows "window_inv requests t (Suc k) now (rl' ip) (tot + (if ok \<and> t \<le> now \<and> now < t + rateLimitWindow then 1 else 0))"
proof (cases "rl ip")
  case None
  then show ?thesis
    using assms by (auto simp: window_inv_def rl_allow_def Let_def time_sub_def rateLimitWindow_def duration_defs i64_def split: if_splits)
next
  case (Some b)
  have i64: "i64 (bk_count b + 1) = bk_count b + 1"
    using inv Some assms(6) by (intro i64_id) (auto simp: window_inv_def)
  have sub: "time_sub now (bk_windowStart b) = now - bk_windowStart b"
    using inv Some assms(2,3,4) by (intro time_sub_exact) (auto simp: window_inv_def split: if_splits)
  have one: "i64 (0 + 1) = 1" by (simp add: i64_def)
  show ?thesis
  proof (cases "now - bk_windowStart b \<ge> rateLimitWindow")
    case True
    then show ?thesis
      using assms Some sub one by (auto simp: window_inv_def rl_allow_def Let_def split: if_splits)
  next
    case False
    then show ?thesis
      using assms Some sub i64 by (auto simp: window_inv_def rl_allow_def Let_def split: if_splits)
  qed
qed

lemma rl_allow_other: "rl_allow requests now ip rl = (ok, rl') \<Longrightarrow> i \<noteq> ip \<Longrightarrow> rl' i = rl i"
  by (auto simp: rl_allow_def Let_def split: if_splits)

lemma limiter_run_bound:
  assumes "clocked evs" "\<forall>e\<in>set evs. prev \<le> event_time e" "0 < requests" "int (k + length evs) < 2 ^ 62"
    and "window_inv requests t k prev (rl ip) tot"
  shows "tot + int (allowed_in ip t (t + rateLimitWindow) (limiter_run requests evs rl)) \<le> 2 * requests"
  using assms
proof (induction evs arbitrary: k prev rl tot)
  case Nil
  then show ?case using window_inv_le by simp
next
  case (Cons e evs)
  have rest: "clocked evs" "\<forall>e'\<in>set evs. event_time e \<le> event_time e'" "0 \<le> event_time e" "event_time e < 2 ^ 62" "prev \<le> event_time e"
    using Cons.prems by (auto simp: clocked_Cons)
  have len: "int k < 2 ^ 62" "int (Suc k + length evs) < 2 ^ 62" "int (k + length evs) < 2 ^ 62"
    using Cons.prems(4) by simp_all
  show ?case
  proof (cases e)
    case (EvictTick now)
    with Cons.IH [where rl = "evict_tick now rl", OF rest(1) rest(2) Cons.prems(3) len(3)] window_inv_evict [where rl = rl and ip = ip and now = now, OF Cons.prems(5)] rest Cons.prems(3)
    show ?thesis by simp
  next
    case (Request now i)
    obtain ok rl' where r: "rl_allow requests now i rl = (ok, rl')" by fastforce
    show ?thesis
    proof (cases "i = ip")
      case True
      have "window_inv requests t (Suc k) now (rl' ip) (tot + (if ok \<and> t \<le> now \<and> now < t + rateLimitWindow then 1 else 0))"
        using window_inv_allow [where rl = rl and ip = ip and now = now and ok = ok and rl' = rl', OF Cons.prems(5)] r True Request rest Cons.prems(3) len by simp
      from Cons.IH [where rl = rl', OF rest(1) _ Cons.prems(3) len(2) this] rest Request r True
      show ?thesis by (auto split: if_splits)
    next
      case False
      have "now < t \<longrightarrow> tot = 0"
        using Cons.prems(5) rest Request by (auto simp: window_inv_def)
      then have "window_inv requests t (Suc k) now (rl' ip) tot"
        using window_inv_later [where now = now and k' = "Suc k", OF Cons.prems(5)] rl_allow_other [OF r, of ip] False rest Request by simp
      from Cons.IH [where rl = rl', OF rest(1) _ Cons.prems(3) len(2) this] rest Request r False
      show ?thesis by simp
    qed
  qed
qed



subsection \<open>No request is refused without cause\<close>

fun limiter_state :: "int \<Rightarrow> limiter_event list \<Rightarrow> rate_limiter \<Rightarrow> rate_limiter" where
  "limiter_state requests [] rl = rl"
| "limiter_state requests (Request now ip # evs) rl = limiter_state requests evs (snd (rl_allow requests now ip rl))"
| "limiter_state requests (EvictTick now # evs) rl = limiter_state requests evs (evict_tick now rl)"

lemma limiter_state_append: "limiter_state requests (evs @ evs') rl = limiter_state requests evs' (limiter_state requests evs rl)"
  by (induction requests evs rl rule: limiter_state.induct) simp_all

lemma limiter_run_append:
  "limiter_run requests (evs @ evs') rl = limiter_run requests evs rl @ limiter_run requests evs' (limiter_state requests evs rl)"
  by (induction requests evs rl rule: limiter_state.induct) (auto simp: case_prod_unfold)

lemma allowed_in_append [simp]: "allowed_in ip a b (xs @ ys) = allowed_in ip a b xs + allowed_in ip a b ys"
  by (simp add: allowed_in_def)

lemma allowed_in_mono: "a' \<le> a \<Longrightarrow> b \<le> b' \<Longrightarrow> allowed_in ip a b out \<le> allowed_in ip a' b' out"
  unfolding allowed_in_def by (induction out) auto

text \<open>The counter of a bucket counts allowed requests of its window, up to the limit.\<close>

definition counted :: "int \<Rightarrow> nat \<Rightarrow> (int \<times> string \<times> bool) list \<Rightarrow> int \<Rightarrow> string \<Rightarrow> bucket option \<Rightarrow> bool" where
  "counted requests k out prev ip b \<longleftrightarrow>
     (case b of None \<Rightarrow> True
      | Some b \<Rightarrow> 0 \<le> bk_windowStart b \<and> bk_windowStart b \<le> prev \<and> 0 \<le> bk_count b \<and> bk_count b \<le> int k \<and>
          min (bk_count b) requests \<le> int (allowed_in ip (bk_windowStart b) (prev + 1) out))"

lemma counted_later:
  assumes "counted requests k out prev ip b" "prev \<le> now" "k \<le> k'"
  shows "counted requests k' (out @ later) now ip b"
proof (cases b)
  case (Some x)
  have "allowed_in ip (bk_windowStart x) (prev + 1) out \<le> allowed_in ip (bk_windowStart x) (now + 1) (out @ later)"
    using assms(2) allowed_in_mono [of "bk_windowStart x" "bk_windowStart x" "prev + 1" "now + 1" ip out] by simp
  with assms Some show ?thesis by (auto simp: counted_def)
qed (simp add: counted_def)

lemma counted_allow:
  assumes c: "counted requests k out prev ip (rl ip)" and "prev \<le> now" "0 \<le> now" "now < 2 ^ 62" "0 < requests" "int k < 2 ^ 62"
    and r: "rl_allow requests now ip rl = (ok, rl')"
  shows "counted requests (Suc k) (out @ [(now, ip, ok)]) now ip (rl' ip)"
    and "\<not> ok \<Longrightarrow> requests \<le> int (allowed_in ip (now - rateLimitWindow + 1) (now + 1) out)"
proof -
  have one: "i64 (0 + 1) = 1" by (simp add: i64_def)
  have win: "rateLimitWindow = 60000000000" by (simp add: rateLimitWindow_def duration_defs)
  have fresh: "counted requests (Suc k) (out @ [(now, ip, ok)]) now ip (rl' ip) \<and> ok"
    if "rl ip = None \<or> (\<exists>b. rl ip = Some b \<and> time_sub now (bk_windowStart b) \<ge> rateLimitWindow)"
    using that r one assms(3,5) by (auto simp: rl_allow_def Let_def counted_def time_sub_def win split: if_splits)
  show "counted requests (Suc k) (out @ [(now, ip, ok)]) now ip (rl' ip)"
    and "\<not> ok \<Longrightarrow> requests \<le> int (allowed_in ip (now - rateLimitWindow + 1) (now + 1) out)"
  proof (atomize (full), cases "rl ip")
    case (Some b)
    have b: "0 \<le> bk_windowStart b" "bk_windowStart b \<le> now" "0 \<le> bk_count b" "bk_count b \<le> int k"
        "min (bk_count b) requests \<le> int (allowed_in ip (bk_windowStart b) (prev + 1) out)"
      using c Some assms(2) by (auto simp: counted_def)
    have sub: "time_sub now (bk_windowStart b) = now - bk_windowStart b"
      using b assms(3,4) by (intro time_sub_exact) auto
    have i64: "i64 (bk_count b + 1) = bk_count b + 1"
      using b assms(6) by (intro i64_id) auto
    have le: "allowed_in ip (bk_windowStart b) (prev + 1) out \<le> allowed_in ip (bk_windowStart b) (now + 1) out"
      using assms(2) by (intro allowed_in_mono) auto
    show "counted requests (Suc k) (out @ [(now, ip, ok)]) now ip (rl' ip) \<and>
        (\<not> ok \<longrightarrow> requests \<le> int (allowed_in ip (now - rateLimitWindow + 1) (now + 1) out))"
    proof (cases "now - bk_windowStart b \<ge> rateLimitWindow")
      case True
      with fresh Some sub show ?thesis by auto
    next
      case False
      have le': "allowed_in ip (bk_windowStart b) (now + 1) out \<le> allowed_in ip (now - rateLimitWindow + 1) (now + 1) out"
        using False by (intro allowed_in_mono) auto
      show ?thesis
        using r Some sub i64 False b le le' assms(5) by (auto simp: rl_allow_def Let_def counted_def split: if_splits)
    qed
  qed (use fresh in auto)
qed

lemma counted_run:
  assumes "clocked evs" "0 < requests" "int (length evs) < 2 ^ 62" "\<forall>e\<in>set evs. event_time e \<le> now" "0 \<le> now"
  shows "counted requests (length evs) (limiter_run requests evs Map.empty) now ip (limiter_state requests evs Map.empty ip)"
  using assms
proof (induction evs arbitrary: now rule: rev_induct)
  case Nil
  then show ?case by (simp add: counted_def)
next
  case (snoc e evs)
  have e: "clocked evs" "\<forall>e'\<in>set evs. event_time e' \<le> event_time e" "0 \<le> event_time e" "event_time e < 2 ^ 62" "event_time e \<le> now"
    using snoc.prems by (auto simp: clocked_def sorted_append)
  have IH: "counted requests (length evs) (limiter_run requests evs Map.empty) (event_time e) ip (limiter_state requests evs Map.empty ip)"
    using snoc.IH [OF e(1) snoc.prems(2) _ e(2,3)] snoc.prems(3) by simp
  show ?case
  proof (cases e)
    case (EvictTick t)
    then show ?thesis
      using counted_later [OF IH, of now "length (evs @ [e])" "[]"] e(5)
      by (auto simp: limiter_run_append limiter_state_append evict_tick_def counted_def split: option.splits)
  next
    case (Request t i)
    obtain ok rl' where r: "rl_allow requests t i (limiter_state requests evs Map.empty) = (ok, rl')" by fastforce
    show ?thesis
    proof (cases "i = ip")
      case True
      have "counted requests (Suc (length evs)) (limiter_run requests evs Map.empty @ [(t, ip, ok)]) t ip (rl' ip)"
        using counted_allow(1) [OF IH _ _ _ snoc.prems(2) _ r [unfolded True]] Request e snoc.prems(3) by simp
      from counted_later [OF this, of now "length (evs @ [e])" "[]"] show ?thesis
        using Request True r e(5) by (simp add: limiter_run_append limiter_state_append)
    next
      case False
      then show ?thesis
        using counted_later [OF IH, of now "length (evs @ [e])" "[(t, i, ok)]"] Request r e(5) rl_allow_other [OF r, of ip]
        by (simp add: limiter_run_append limiter_state_append)
    qed
  qed
qed

text \<open>
  A request is refused only if its own address used up the limit: when the last request
  of a run is refused, at least the configured number of requests of the same address were
  allowed in the minute before it.
\<close>

theorem rate_limit_refuses_with_cause:
  assumes "clocked (evs @ [Request now ip])" "0 < requests" "int (length evs) < 2 ^ 62"
    and "\<not> fst (rl_allow requests now ip (limiter_state requests evs Map.empty))"
  shows "requests \<le> int (allowed_in ip (now - rateLimitWindow + 1) (now + 1) (limiter_run requests evs Map.empty))"
proof -
  have e: "clocked evs" "\<forall>e\<in>set evs. event_time e \<le> now" "0 \<le> now" "now < 2 ^ 62"
    using assms(1) by (auto simp: clocked_def sorted_append)
  have c: "counted requests (length evs) (limiter_run requests evs Map.empty) now ip (limiter_state requests evs Map.empty ip)"
    by (rule counted_run [OF e(1) assms(2,3) e(2,3)])
  obtain ok rl' where r: "rl_allow requests now ip (limiter_state requests evs Map.empty) = (ok, rl')" by fastforce
  show ?thesis
    using counted_allow(2) [OF c _ e(3,4) assms(2,3) r] assms(4) r by simp
qed

lemma rate_limit_refuses_with_cause_witness:
  "1 \<le> int (allowed_in ''10.0.0.9'' (7 - rateLimitWindow + 1) 8 (limiter_run 1 [Request 5 ''10.0.0.9''] Map.empty))"
  using rate_limit_refuses_with_cause [of "[Request 5 ''10.0.0.9'']" 7 "''10.0.0.9''" 1]
  by (simp add: clocked_def rl_allow_def Let_def time_sub_def rateLimitWindow_def duration_defs i64_def)

subsection \<open>Addresses do not share a budget\<close>

fun own_request :: "string \<Rightarrow> limiter_event \<Rightarrow> bool" where
  "own_request ip (Request now i) = (i = ip)"
| "own_request ip (EvictTick now) = False"

text \<open>A bucket that was swept, against one that was not: the latter is due for a reset.\<close>

definition same_bucket :: "int \<Rightarrow> bucket option \<Rightarrow> bucket option \<Rightarrow> bool" where
  "same_bucket prev x y \<longleftrightarrow>
     (case y of None \<Rightarrow> True | Some b \<Rightarrow> 0 \<le> bk_windowStart b \<and> bk_windowStart b \<le> prev) \<and>
     (x = y \<or> x = None \<and> (\<exists>b. y = Some b \<and> rateLimitWindow \<le> prev - bk_windowStart b))"

lemma same_bucket_later: "same_bucket prev x y \<Longrightarrow> prev \<le> now \<Longrightarrow> same_bucket now x y"
  by (auto simp: same_bucket_def split: option.splits)

lemma same_bucket_evict:
  assumes "same_bucket prev (rl ip) y" "prev \<le> now" "now < 2 ^ 62"
  shows "same_bucket now (evict_tick now rl ip) y"
  using assms
  by (auto simp: same_bucket_def evict_tick_def time_sub_def rateLimitWindow_def duration_defs split: option.splits if_splits)

lemma same_bucket_allow:
  assumes "same_bucket prev (rl ip) (rl' ip)" "prev \<le> now" "0 \<le> now" "now < 2 ^ 62"
    and "rl_allow requests now ip rl = (ok, rl1)" "rl_allow requests now ip rl' = (ok', rl1')"
  shows "ok = ok' \<and> same_bucket now (rl1 ip) (rl1' ip)"
proof (cases "rl ip = rl' ip")
  case True
  then show ?thesis
    using assms by (auto simp: same_bucket_def rl_allow_def Let_def split: option.splits if_splits)
next
  case False
  then obtain b where b: "rl ip = None" "rl' ip = Some b" "0 \<le> bk_windowStart b" "bk_windowStart b \<le> prev"
      "rateLimitWindow \<le> prev - bk_windowStart b"
    using assms(1) by (auto simp: same_bucket_def)
  moreover have "time_sub now (bk_windowStart b) = now - bk_windowStart b" "\<not> rateLimitWindow \<le> time_sub now now"
    using b assms(2,4) by (auto simp: time_sub_exact rateLimitWindow_def duration_defs)
  ultimately show ?thesis
    using assms(2-) by (auto simp: same_bucket_def rl_allow_def Let_def split: if_splits)
qed

lemma limiter_run_own:
  assumes "clocked evs" "\<forall>e\<in>set evs. prev \<le> event_time e" "same_bucket prev (rl ip) (rl' ip)"
  shows "filter (\<lambda>(now, i, ok). i = ip) (limiter_run requests evs rl) = limiter_run requests (filter (own_request ip) evs) rl'"
  using assms
proof (induction evs arbitrary: prev rl rl')
  case (Cons e evs)
  have rest: "clocked evs" "\<forall>e'\<in>set evs. event_time e \<le> event_time e'" "0 \<le> event_time e" "event_time e < 2 ^ 62" "prev \<le> event_time e"
    using Cons.prems by (auto simp: clocked_Cons)
  show ?case
  proof (cases e)
    case (EvictTick now)
    then show ?thesis
      using Cons.IH [OF rest(1,2), of "evict_tick now rl" rl'] same_bucket_evict [of prev rl ip "rl' ip" now] Cons.prems(3) rest by simp
  next
    case (Request now i)
    obtain ok rl1 where r: "rl_allow requests now i rl = (ok, rl1)" by fastforce
    show ?thesis
    proof (cases "i = ip")
      case True
      obtain ok' rl1' where r': "rl_allow requests now ip rl' = (ok', rl1')" by fastforce
      from same_bucket_allow [OF Cons.prems(3) _ _ _ r [unfolded True] r'] rest Request
      have "ok = ok'" "same_bucket now (rl1 ip) (rl1' ip)" by simp_all
      with Cons.IH [OF rest(1,2), of rl1 rl1'] Request True r r' show ?thesis by simp
    next
      case False
      have "same_bucket now (rl1 ip) (rl' ip)"
        using same_bucket_later [OF Cons.prems(3)] rl_allow_other [OF r, of ip] False rest Request by simp
      with Cons.IH [OF rest(1,2), of rl1 rl'] Request False r show ?thesis by simp
    qed
  qed
qed simp

text \<open>
  The answers an address gets are those it would get alone and without the eviction
  goroutine: other addresses cannot use up its budget, and a sweep never gives anybody a
  second one.
\<close>

theorem rate_limit_per_address:
  assumes "clocked evs"
  shows "filter (\<lambda>(now, i, ok). i = ip) (limiter_run requests evs Map.empty) =
    limiter_run requests (filter (own_request ip) evs) Map.empty"
  using limiter_run_own [OF assms, of 0 Map.empty ip Map.empty] assms
  by (auto simp: same_bucket_def clocked_def list_all_iff)

lemma rate_limit_per_address_witness:
  "filter (\<lambda>(now, i, ok). i = ''10.0.0.9'')
     (limiter_run 1 [Request 5 ''10.0.0.8'', Request 6 ''10.0.0.9'', EvictTick (200 * second), Request (300 * second) ''10.0.0.9''] Map.empty) =
   limiter_run 1 [Request 6 ''10.0.0.9'', Request (300 * second) ''10.0.0.9''] Map.empty"
  using rate_limit_per_address [of "[Request 5 ''10.0.0.8'', Request 6 ''10.0.0.9'', EvictTick (200 * second), Request (300 * second) ''10.0.0.9'']" "''10.0.0.9''" 1]
  by (simp add: clocked_def second_def)

section \<open>The middleware\<close>

text \<open>\<open>RateLimitMiddleware\<close>: \<open>allow\<close> is the method of the shared limiter.\<close>

definition RateLimitMiddleware :: "(string \<Rightarrow> ('w, bool) io) \<Rightarrow> 'w middleware" where
  "RateLimitMiddleware allow next c = do {
     ok \<leftarrow> allow (gx_ClientIP c);
     if \<not> ok then State_Monad.return (c_JSON 429 (gin_error ''rate limit exceeded'') (c_Header ''Retry-After'' ''1m0s'' c))
     else next c
   }"

section \<open>The token bucket\<close>

record token_bucket =
  tb_tokens :: rat
  tb_max :: rat
  tb_refillPS :: rat
  tb_lastTick :: int

definition newTokenBucket :: "int \<Rightarrow> int \<Rightarrow> token_bucket" where
  "newTokenBucket now requestsPerMinute = \<lparr>tb_tokens = of_int requestsPerMinute, tb_max = of_int requestsPerMinute,
     tb_refillPS = of_int requestsPerMinute / 60, tb_lastTick = now\<rparr>"

definition seconds :: "int \<Rightarrow> rat" where "seconds d = of_int d / of_int second"

definition tb_Allow :: "int \<Rightarrow> token_bucket \<Rightarrow> bool \<times> token_bucket" where
  "tb_Allow now tb =
     (let elapsed = seconds (time_sub now (tb_lastTick tb));
          refilled = tb_tokens tb + elapsed * tb_refillPS tb;
          tokens = (if refilled > tb_max tb then tb_max tb else refilled);
          tb1 = tb\<lparr>tb_lastTick := now, tb_tokens := tokens\<rparr>
      in if tokens < 1 then (False, tb1) else (True, tb1\<lparr>tb_tokens := tokens - 1\<rparr>))"

fun tb_run :: "int list \<Rightarrow> token_bucket \<Rightarrow> nat \<times> token_bucket" where
  "tb_run [] tb = (0, tb)"
| "tb_run (now # rest) tb =
     (case tb_Allow now tb of (ok, tb1) \<Rightarrow> (case tb_run rest tb1 of (n, tb2) \<Rightarrow> ((if ok then 1 else 0) + n, tb2)))"

definition tb_ok :: "token_bucket \<Rightarrow> bool" where
  "tb_ok tb \<longleftrightarrow> 0 \<le> tb_tokens tb \<and> tb_tokens tb \<le> tb_max tb \<and> 0 \<le> tb_refillPS tb \<and> 0 \<le> tb_lastTick tb"

lemma tb_Allow_step:
  assumes "tb_ok tb" "tb_lastTick tb \<le> now" "now < 2 ^ 62" "tb_Allow now tb = (ok, tb1)"
  shows "tb_ok tb1" "tb_lastTick tb1 = now" "tb_max tb1 = tb_max tb" "tb_refillPS tb1 = tb_refillPS tb"
    "(if ok then 1 else 0) + tb_tokens tb1 \<le> tb_tokens tb + seconds (now - tb_lastTick tb) * tb_refillPS tb"
proof -
  have sub: "time_sub now (tb_lastTick tb) = now - tb_lastTick tb"
    using assms(1-3) by (intro time_sub_exact) (auto simp: tb_ok_def)
  have "0 \<le> seconds (now - tb_lastTick tb) * tb_refillPS tb"
    using assms(1,2) by (simp add: tb_ok_def seconds_def second_def)
  then show "tb_ok tb1" "tb_lastTick tb1 = now" "tb_max tb1 = tb_max tb" "tb_refillPS tb1 = tb_refillPS tb"
      "(if ok then 1 else 0) + tb_tokens tb1 \<le> tb_tokens tb + seconds (now - tb_lastTick tb) * tb_refillPS tb"
    using assms by (auto simp: tb_Allow_def sub Let_def tb_ok_def split: if_splits)
qed

lemma tb_run_bound:
  assumes "tb_ok tb" "sorted (tb_lastTick tb # ts)" "\<forall>t\<in>set ts. t < 2 ^ 62" "tb_run ts tb = (n, tb')"
  shows "of_nat n + tb_tokens tb' \<le> tb_tokens tb + seconds (tb_lastTick tb' - tb_lastTick tb) * tb_refillPS tb \<and> tb_ok tb' \<and>
    tb_lastTick tb' = (if ts = [] then tb_lastTick tb else List.last ts)"
  using assms
proof (induction ts arbitrary: tb n tb')
  case Nil
  then show ?case by (simp add: seconds_def)
next
  case (Cons now ts)
  obtain ok tb1 where a: "tb_Allow now tb = (ok, tb1)" by fastforce
  obtain m where m: "tb_run ts tb1 = (m, tb')" "n = (if ok then 1 else 0) + m"
    using Cons.prems(4) a by (auto split: prod.splits)
  note step = tb_Allow_step [OF Cons.prems(1) _ _ a]
  have now: "tb_lastTick tb \<le> now" "now < 2 ^ 62"
    using Cons.prems(2,3) by auto
  have IH: "of_nat m + tb_tokens tb' \<le> tb_tokens tb1 + seconds (tb_lastTick tb' - now) * tb_refillPS tb" "tb_ok tb'"
      "tb_lastTick tb' = (if ts = [] then now else List.last ts)"
    using Cons.IH [OF step(1) [OF now] _ _ m(1)] step [OF now] Cons.prems(2,3) by auto
  have "seconds (tb_lastTick tb' - now) + seconds (now - tb_lastTick tb) = seconds (tb_lastTick tb' - tb_lastTick tb)"
    by (simp add: seconds_def add_divide_distrib [symmetric])
  then have "seconds (tb_lastTick tb' - now) * tb_refillPS tb + seconds (now - tb_lastTick tb) * tb_refillPS tb
      = seconds (tb_lastTick tb' - tb_lastTick tb) * tb_refillPS tb"
    by (simp add: distrib_right [symmetric])
  then show ?case
    using IH m(2) step(5) [OF now] by auto
qed

text \<open>
  The gRPC limiter never lets through more than a full bucket plus what has flowed in: over
  any sequence of calls that ends \<open>d\<close> nanoseconds after the bucket was made, at most
  \<open>rpm + rpm * d / minute\<close> are allowed.
\<close>

theorem token_bucket_bound:
  assumes "0 < rpm" "sorted (t0 # ts)" "ts \<noteq> []" "0 \<le> t0" "\<forall>t\<in>set ts. t < 2 ^ 62"
  shows "of_nat (fst (tb_run ts (newTokenBucket t0 rpm))) \<le> (of_int rpm + of_int rpm * of_int (List.last ts - t0) / of_int minute :: rat)"
proof -
  obtain n tb' where r: "tb_run ts (newTokenBucket t0 rpm) = (n, tb')" by fastforce
  have ok: "tb_ok (newTokenBucket t0 rpm)"
    using assms by (simp add: tb_ok_def newTokenBucket_def)
  have "of_nat n + tb_tokens tb' \<le> of_int rpm + seconds (List.last ts - t0) * (of_int rpm / 60)" "tb_ok tb'"
    using tb_run_bound [OF ok _ _ r] assms by (auto simp: newTokenBucket_def)
  moreover have "seconds (List.last ts - t0) * (of_int rpm / 60) = of_int rpm * of_int (List.last ts - t0) / of_int minute"
    by (simp add: seconds_def minute_def mult.commute)
  ultimately show ?thesis
    using r by (simp add: tb_ok_def)
qed

lemma token_bucket_bound_witness:
  "of_nat (fst (tb_run [1, 2, 3] (newTokenBucket 0 2))) \<le> (of_int 2 + of_int 2 * of_int (3 - 0) / of_int minute :: rat)"
  using token_bucket_bound [of 2 0 "[1, 2, 3]"] by simp

lemma token_bucket_refills:
  assumes "tb_ok tb" "tb_refillPS tb = tb_max tb / 60" "tb_lastTick tb + minute \<le> now" "now < 2 ^ 62" "1 \<le> tb_max tb"
  shows "fst (tb_Allow now tb) \<and> tb_tokens (snd (tb_Allow now tb)) = tb_max tb - 1"
proof -
  have sub: "time_sub now (tb_lastTick tb) = now - tb_lastTick tb"
    using assms by (intro time_sub_exact) (auto simp: tb_ok_def minute_def second_def)
  have "60 \<le> seconds (now - tb_lastTick tb)"
    using assms(3) by (simp add: seconds_def minute_def second_def le_divide_eq)
  then have "tb_max tb \<le> seconds (now - tb_lastTick tb) * tb_refillPS tb"
    using assms(1,2) mult_right_mono [of 60 "seconds (now - tb_lastTick tb)" "tb_refillPS tb"] by (simp add: tb_ok_def)
  then have "\<not> tb_tokens tb + seconds (now - tb_lastTick tb) * tb_refillPS tb < tb_max tb"
    using assms(1) by (simp add: tb_ok_def)
  then have full: "(if tb_max tb < tb_tokens tb + seconds (now - tb_lastTick tb) * tb_refillPS tb then tb_max tb
      else tb_tokens tb + seconds (now - tb_lastTick tb) * tb_refillPS tb) = tb_max tb"
    by auto
  show ?thesis
    unfolding tb_Allow_def sub Let_def full using assms(5) by simp
qed

end
