(* ===== verification/Http_Middleware.thy ===== *)
theory Http_Middleware imports BFF_Service Rate_Limiter begin

text \<open>
  The gin middleware of \<open>internal/http/middleware\<close>: service key, session cookie, CSRF token,
  CORS, the bridge from the session cookie to the proxy, the guard of the metrics endpoint
  and the access log. Log lines and Prometheus metrics are left out.

  \<open>subtle.ConstantTimeCompare\<close> and \<open>hmac.Equal\<close> are equality. \<open>net.SplitHostPort\<close>,
  \<open>net.ParseIP\<close>, \<open>IPNet.Contains\<close>, \<open>net.ParseCIDR\<close> and the standard base64 decoding are the
  record \<open>net_lib\<close>.
\<close>

section \<open>Service key\<close>

definition ServiceAuthMiddleware :: "string \<Rightarrow> 'w middleware" where
  "ServiceAuthMiddleware expected next c =
     (let serviceKey = c_GetHeader c ''X-Service-Key'' in
      if serviceKey = [] then State_Monad.return (c_JSON 401 (gin_error ''missing service key'') c)
      else if serviceKey \<noteq> expected then State_Monad.return (c_JSON 401 (gin_error ''invalid service key'') c)
      else next c)"

section \<open>The session cookie\<close>

definition bffSessionCookieName :: string where "bffSessionCookieName = ''__session''"

definition lower_hex :: "char \<Rightarrow> bool" where
  "lower_hex c \<longleftrightarrow> is_digit c \<or> 97 \<le> code_of c \<and> code_of c \<le> 102"

text \<open>The pattern \<open>^[0-9a-f]{64}$\<close>.\<close>

definition sessionIDRegexp :: "string \<Rightarrow> bool" where
  "sessionIDRegexp s \<longleftrightarrow> length s = 64 \<and> list_all lower_hex s"

definition BFFSessionMiddleware :: "'w middleware" where
  "BFFSessionMiddleware next c =
     (case gx_Cookie c bffSessionCookieName of
        None \<Rightarrow> State_Monad.return (c_JSON 401 (gin_error ''missing session'') c)
      | Some cookieVal \<Rightarrow>
          if cookieVal = [] then State_Monad.return (c_JSON 401 (gin_error ''missing session'') c)
          else if \<not> sessionIDRegexp cookieVal then State_Monad.return (c_JSON 401 (gin_error ''invalid session format'') c)
          else next (c_Set ''sessionID'' cookieVal c))"

section \<open>CSRF tokens\<close>

definition csrfCookieName :: string where "csrfCookieName = ''__csrf''"
definition csrfHeaderName :: string where "csrfHeaderName = ''X-CSRF-Token''"
definition csrfRandBytes :: nat where "csrfRandBytes = 16"

definition isStateChangingMethod :: "string \<Rightarrow> bool" where
  "isStateChangingMethod m \<longleftrightarrow> m \<in> {''POST'', ''PUT'', ''DELETE'', ''PATCH''}"

definition sessionIDFromContext :: "gin_ctx \<Rightarrow> string" where
  "sessionIDFromContext c = c_GetString c ''sessionID''"

definition csrfHMAC :: "gin_lib \<Rightarrow> string \<Rightarrow> string \<Rightarrow> string" where
  "csrfHMAC G secret data = hex_bytes (gn_HMAC G (map code_of secret) (map code_of data))"

definition NewCSRFToken :: "'w go_env \<Rightarrow> gin_lib \<Rightarrow> string \<Rightarrow> string \<Rightarrow> ('w, string result) io" where
  "NewCSRFToken E G secret sessionID =
     try_io (env_rand E csrfRandBytes) (\<lambda>b.
       let random = hex_bytes b in State_Monad.return (Inr (random @ ''-'' @ csrfHMAC G secret (sessionID @ random))))"

definition validateCSRFToken :: "gin_lib \<Rightarrow> string \<Rightarrow> string \<Rightarrow> string \<Rightarrow> bool" where
  "validateCSRFToken G secret sessionID token =
     (if length token < 34 \<or> token ! 32 \<noteq> CHR ''-'' then False
      else drop 33 token = csrfHMAC G secret (sessionID @ take 32 token))"

definition csrf_cookie :: "bool \<Rightarrow> string \<Rightarrow> set_cookie" where
  "csrf_cookie cookieSecure token = \<lparr>ck_Name = csrfCookieName, ck_Value = token, ck_Path = ''/'', ck_Domain = [], ck_MaxAge = 0,
     ck_ExpiresAtEpoch = False, ck_Secure = cookieSecure, ck_HttpOnly = False, ck_SameSite = SameSiteStrictMode\<rparr>"

definition CSRFMiddleware :: "'w go_env \<Rightarrow> gin_lib \<Rightarrow> string \<Rightarrow> bool \<Rightarrow> 'w middleware" where
  "CSRFMiddleware E G secret cookieSecure next c =
     (let sessionID = sessionIDFromContext c;
          headerToken = c_GetHeader c csrfHeaderName;
          cookieToken = (case gx_Cookie c csrfCookieName of None \<Rightarrow> [] | Some t \<Rightarrow> t)
      in if isStateChangingMethod (gx_Method c) \<and> (headerToken = [] \<or> cookieToken = [] \<or> headerToken \<noteq> cookieToken) then
           State_Monad.return (c_JSON 403 (gin_error ''CSRF token mismatch'') c)
         else if isStateChangingMethod (gx_Method c) \<and> \<not> validateCSRFToken G secret sessionID headerToken then
           State_Monad.return (c_JSON 403 (gin_error ''invalid CSRF token'') c)
         else do {
           token \<leftarrow> NewCSRFToken E G secret sessionID;
           case token of
             Inl err \<Rightarrow> State_Monad.return (c_JSON 500 (gin_error ''internal error'') c)
           | Inr token \<Rightarrow> next (http_SetCookie (csrf_cookie cookieSecure token) c)
         })"

section \<open>CORS\<close>

text \<open>\<open>None\<close> is the nil slice, which admits every origin.\<close>

definition LoadCORSOrigins :: "os_env \<Rightarrow> string \<Rightarrow> string list option result" where
  "LoadCORSOrigins os appEnv =
     (let raw = trim_space (os_Getenv os ''CORS_ALLOWED_ORIGINS'') in
      if raw = [] \<or> raw = ''*'' then
        if appEnv = ''production'' then fatal ''CORS_ALLOWED_ORIGINS must be a non-wildcard whitelist in production'' else Inr None
      else
        let origins = split_on (CHR '','') raw in
        if list_ex (\<lambda>x. trim_space x = ''*'') origins \<and> appEnv = ''production'' then
          fatal ''Wildcard '*' in CORS_ALLOWED_ORIGINS is not permitted in production''
        else Inr (Some (filter (\<lambda>t. t \<noteq> []) (map trim_space origins))))"

definition cors_headers :: "string \<Rightarrow> gin_ctx \<Rightarrow> gin_ctx" where
  "cors_headers origin c =
     c_Header ''Access-Control-Allow-Methods'' ''GET, POST, PUT, DELETE, OPTIONS''
      (c_Header ''Access-Control-Allow-Headers'' ''Content-Type, X-CSRF-Token, Authorization''
       (c_Header ''Access-Control-Allow-Credentials'' ''true''
        (c_Header ''Vary'' ''Origin''
         (c_Header ''Access-Control-Allow-Origin'' origin c))))"

definition CORSMiddleware :: "string list option \<Rightarrow> 'w middleware" where
  "CORSMiddleware allowedOrigins next c =
     (let origin = header_Get (gx_Header c) ''Origin'' in
      case allowedOrigins of
        None \<Rightarrow>
          (let c1 = (if origin \<noteq> [] then cors_headers origin c else c) in
           if gx_Method c = ''OPTIONS'' then State_Monad.return (c_AbortWithStatus 204 c1) else next c1)
      | Some allowed \<Rightarrow>
          (let listed = origin \<in> set allowed;
               c1 = (if origin \<noteq> [] \<and> listed then cors_headers origin c else c) in
           if gx_Method c = ''OPTIONS'' then State_Monad.return (c_AbortWithStatus (if \<not> listed then 403 else 204) c1)
           else next c1))"

section \<open>From the cookie to the proxy\<close>

definition BFFAPIBridgeMiddleware :: "'w bff_service_i \<Rightarrow> 'w middleware" where
  "BFFAPIBridgeMiddleware bffService next c =
     (case gx_Cookie c bffSessionCookieName of
        None \<Rightarrow> next c
      | Some cookieVal \<Rightarrow>
          if cookieVal = [] then next c
          else do {
            r \<leftarrow> bi_ResolveSession bffService cookieVal;
            case r of
              Some (Inr (_, kratosID, deviceID)) \<Rightarrow>
                (let c1 = c_Set ''bff.userID'' kratosID c in
                 next (if deviceID \<noteq> [] then c_Set ''bff.deviceID'' deviceID c1 else c1))
            | _ \<Rightarrow> next c
          })"

section \<open>The metrics endpoint\<close>

record 'n net_lib =
  nl_ParseCIDR :: "string \<Rightarrow> 'n option"
  nl_SplitHostPort :: "string \<Rightarrow> string option"
  nl_ParseIP :: "string \<Rightarrow> string option"
  nl_Contains :: "'n \<Rightarrow> string \<Rightarrow> bool"
  nl_StdDecode :: "string \<Rightarrow> string option"

datatype metrics_answer = Served | StatusForbidden | Challenged

text \<open>The networks of the allow list, or the panic on one that does not parse.\<close>

definition metrics_nets :: "'n net_lib \<Rightarrow> string \<Rightarrow> 'n list result" where
  "metrics_nets L raw =
     (if raw = [] then Inr []
      else
        let cidrs = filter (\<lambda>t. t \<noteq> []) (map trim_space (split_on (CHR '','') raw)) in
        if list_ex (\<lambda>t. nl_ParseCIDR L t = None) cidrs then Inl (Errorf ''METRICS_ALLOWED_CIDR contains invalid CIDR'' [])
        else Inr (List.map_filter (nl_ParseCIDR L) cidrs))"

definition metrics_ip_allowed :: "'n net_lib \<Rightarrow> 'n list \<Rightarrow> string \<Rightarrow> bool" where
  "metrics_ip_allowed L nets remoteAddr =
     (case nl_SplitHostPort L remoteAddr of
        None \<Rightarrow> False
      | Some host \<Rightarrow> (case nl_ParseIP L host of None \<Rightarrow> False | Some ip \<Rightarrow> list_ex (\<lambda>n. nl_Contains L n ip) nets))"

definition metrics_basic_auth :: "'n net_lib \<Rightarrow> string \<Rightarrow> string \<Rightarrow> string \<Rightarrow> bool" where
  "metrics_basic_auth L user password authHeader =
     (if \<not> has_prefix authHeader ''Basic '' then False
      else case nl_StdDecode L (drop 6 authHeader) of
        None \<Rightarrow> False
      | Some decoded \<Rightarrow>
          if CHR '':'' \<notin> set decoded then False
          else cut_on (CHR '':'') decoded = (user, password))"

definition MetricsAllowlistHandler ::
    "'n net_lib \<Rightarrow> os_env \<Rightarrow> string \<Rightarrow> string \<Rightarrow> (string \<Rightarrow> string \<Rightarrow> metrics_answer) result" where
  "MetricsAllowlistHandler L os user password =
     res_bind (metrics_nets L (os_Getenv os ''METRICS_ALLOWED_CIDR'')) (\<lambda>nets. Inr (\<lambda>remoteAddr authHeader.
       if nets \<noteq> [] \<and> \<not> metrics_ip_allowed L nets remoteAddr then StatusForbidden
       else if user \<noteq> [] \<and> password \<noteq> [] \<and> \<not> metrics_basic_auth L user password authHeader then Challenged
       else Served))"

section \<open>The access log\<close>

definition KafkaAccessLogMiddleware :: "'w go_env \<Rightarrow> 'w event_publisher \<Rightarrow> 'w middleware" where
  "KafkaAccessLogMiddleware E pub next c = do {
     start \<leftarrow> env_now E;
     c1 \<leftarrow> next c;
     now \<leftarrow> env_now E;
     pub_Publish pub \<lparr>al_Path = (if gx_FullPath c = [] then ''unmatched'' else gx_FullPath c), al_StatusCode = gx_Status c1,
       al_LatencyMs = go_div (time_sub now start) millisecond, al_UserID = c_GetString c1 ''kratosID'',
       al_Timestamp = env_format E start\<rparr>;
     State_Monad.return c1
   }"

section \<open>Request metrics\<close>

text \<open>The path label is the pattern of the route, one fixed label for a request without a route.\<close>

definition PrometheusMiddleware :: "'w go_env \<Rightarrow> 'w telemetry \<Rightarrow> 'w middleware" where
  "PrometheusMiddleware E T next c = do {
     start \<leftarrow> env_now E;
     let path = (if gx_FullPath c = [] then ''unmatched'' else gx_FullPath c);
     c1 \<leftarrow> next c;
     now \<leftarrow> env_now E;
     tl_Inc T HTTPRequests [gx_Method c1, path, show_int (gx_Status c1)];
     tl_Observe T HTTPDuration [gx_Method c1, path] (time_sub now start);
     State_Monad.return c1
   }"

section \<open>What reaches a protected handler\<close>

lemma c_Set_simps [simp]:
  "gx_Method (c_Set k v c) = gx_Method c" "gx_Header (c_Set k v c) = gx_Header c" "gx_Cookie (c_Set k v c) = gx_Cookie c"
  "gx_Keys (c_Set k v c) = (gx_Keys c)(k \<mapsto> v)" "gx_SetCookies (c_Set k v c) = gx_SetCookies c" "c_GetHeader (c_Set k v c) = c_GetHeader c"
  by (simp_all add: c_Set_def c_GetHeader_def fun_eq_iff)

lemma c_JSON_simps [simp]:
  "gx_Status (c_JSON code b c) = code" "gx_Response (c_JSON code b c) = Some b" "gx_SetCookies (c_JSON code b c) = gx_SetCookies c"
  "gx_Keys (c_JSON code b c) = gx_Keys c" "gx_ResponseHeader (c_JSON code b c) = gx_ResponseHeader c"
  by (simp_all add: c_JSON_def)

lemma http_SetCookie_simps [simp]:
  "gx_Keys (http_SetCookie k c) = gx_Keys c" "gx_SetCookies (http_SetCookie k c) = gx_SetCookies c @ [k]"
  "gx_Method (http_SetCookie k c) = gx_Method c" "gx_Header (http_SetCookie k c) = gx_Header c" "gx_Cookie (http_SetCookie k c) = gx_Cookie c"
  by (simp_all add: http_SetCookie_def)

lemma sessionIDFromContext_Set [simp]: "sessionIDFromContext (c_Set ''sessionID'' v c) = v"
  by (simp add: sessionIDFromContext_def c_GetString_def)

text \<open>Tokens that are minted for a session are accepted for it.\<close>

lemma length_hex_bytes: "length (hex_bytes bs) = 2 * length bs"
  by (induction bs) (simp_all add: hex_bytes_def hex_byte_def)

text \<open>A SHA-256 digest has 32 bytes.\<close>

definition hmac_ok :: "gin_lib \<Rightarrow> bool" where
  "hmac_ok G \<longleftrightarrow> (\<forall>k m. length (gn_HMAC G k m) = 32 \<and> (\<forall>b\<in>set (gn_HMAC G k m). b < 256))"

lemma rand_length: "rand_ok E \<Longrightarrow> run_state (env_rand E n) x = (Inr b, x') \<Longrightarrow> length b = n"
  unfolding rand_ok_def by (metis fst_conv)

lemma csrfHMAC_length: "hmac_ok G \<Longrightarrow> length (csrfHMAC G secret d) = 64"
  by (simp add: hmac_ok_def csrfHMAC_def length_hex_bytes)

lemma minted_token_valid:
  assumes "hmac_ok G" "length b = csrfRandBytes"
  shows "validateCSRFToken G secret sid (hex_bytes b @ ''-'' @ csrfHMAC G secret (sid @ hex_bytes b))"
proof -
  have "length (hex_bytes b) = 32"
    using assms(2) by (simp add: length_hex_bytes csrfRandBytes_def)
  then show ?thesis
    using csrfHMAC_length [OF assms(1), of secret "sid @ hex_bytes b"] by (simp add: validateCSRFToken_def nth_append)
qed

lemma NewCSRFToken_wp:
  assumes "rand_ok E" "hmac_ok G"
  shows "wp (NewCSRFToken (silent_env E) G secret sid) (\<lambda>r wl'. snd wl' = snd wl \<and> (case r of Inl _ \<Rightarrow> True | Inr t \<Rightarrow> validateCSRFToken G secret sid t)) wl"
  unfolding NewCSRFToken_def Let_def rec_env_simps
proof (intro wp_tryI silent_wp conjI allI impI)
  fix r w' b
  assume "run_state (env_rand E csrfRandBytes) (fst wl) = (r, w')" "r = Inr b"
  then have "length b = csrfRandBytes"
    using rand_length [OF assms(1)] by simp
  from minted_token_valid [OF assms(2) this]
  show "wp (State_Monad.return (Inr (hex_bytes b @ ''-'' @ csrfHMAC G secret (sid @ hex_bytes b))))
      (\<lambda>r wl'. snd wl' = snd wl \<and> (case r of Inl _ \<Rightarrow> True | Inr t \<Rightarrow> validateCSRFToken G secret sid t)) (w', snd wl)"
    by (simp add: wp_return)
qed simp_all

text \<open>What a state-changing request has to carry: the same token twice, valid for the session.\<close>

definition double_submitted :: "gin_lib \<Rightarrow> string \<Rightarrow> string \<Rightarrow> gin_ctx \<Rightarrow> bool" where
  "double_submitted G secret sid c =
     (if isStateChangingMethod (gx_Method c) then
        gx_Cookie c ''__csrf'' = Some (c_GetHeader c ''X-CSRF-Token'') \<and> validateCSRFToken G secret sid (c_GetHeader c ''X-CSRF-Token'')
      else True)"

lemma bff_guard_wp:
  assumes "rand_ok E" "hmac_ok G"
  shows "wp (gin_chain [BFFSessionMiddleware, CSRFMiddleware (silent_env E) G secret sec] (rec_handler h) c) (\<lambda>c' wl. case snd wl of
      [] \<Rightarrow> gx_Status c' \<in> {401, 403, 500} \<and> gx_SetCookies c' = gx_SetCookies c
    | c1 # rest \<Rightarrow> rest = [] \<and> (\<exists>sid t. gx_Cookie c ''__session'' = Some sid \<and> sessionIDRegexp sid \<and>
        gx_Keys c1 = (gx_Keys c)(''sessionID'' \<mapsto> sid) \<and> gx_SetCookies c1 = gx_SetCookies c @ [csrf_cookie sec t] \<and>
        validateCSRFToken G secret sid t \<and>
        double_submitted G secret sid c)) (w, [])"
proof (cases "gx_Cookie c ''__session''")
  case None
  then show ?thesis by (simp add: BFFSessionMiddleware_def bffSessionCookieName_def wp_return)
next
  case (Some sid)
  let ?c = "c_Set ''sessionID'' sid c"
  have csrf: "wp (CSRFMiddleware (silent_env E) G secret sec (rec_handler h) ?c) (\<lambda>c' wl. case snd wl of
      [] \<Rightarrow> gx_Status c' \<in> {401, 403, 500} \<and> gx_SetCookies c' = gx_SetCookies c
    | c1 # rest \<Rightarrow> rest = [] \<and> (\<exists>t. gx_Keys c1 = (gx_Keys c)(''sessionID'' \<mapsto> sid) \<and>
        gx_SetCookies c1 = gx_SetCookies c @ [csrf_cookie sec t] \<and> validateCSRFToken G secret sid t \<and>
        double_submitted G secret sid c)) (w, [])"
    unfolding CSRFMiddleware_def Let_def
    by (intro wp_steps wp_mono [OF NewCSRFToken_wp [OF assms]] rec_handler_wp)
      (auto simp: double_submitted_def csrfCookieName_def csrfHeaderName_def wp_return split: option.splits if_splits intro!: wp_steps rec_handler_wp)
  show ?thesis
  proof (cases "sid \<noteq> [] \<and> sessionIDRegexp sid")
    case True
    then have "gin_chain [BFFSessionMiddleware, CSRFMiddleware (silent_env E) G secret sec] (rec_handler h) c =
        CSRFMiddleware (silent_env E) G secret sec (rec_handler h) ?c"
      using Some by (simp add: BFFSessionMiddleware_def bffSessionCookieName_def)
    then show ?thesis
      using True Some by (simp only:) (rule wp_mono [OF csrf], auto split: list.splits)
  next
    case False
    with Some show ?thesis by (auto simp: BFFSessionMiddleware_def bffSessionCookieName_def wp_return)
  qed
qed

text \<open>
  The guard of the \<open>/bff\<close> routes: the handler behind \<open>BFFSessionMiddleware\<close> and
  \<open>CSRFMiddleware\<close> runs at most once, with the session identifier of the \<open>__session\<close> cookie (64
  hexadecimal digits); on a state-changing method only when the header and the \<open>__csrf\<close>
  cookie carry the same token and that token is valid for this very session. It then
  finds a fresh valid token set for the next request; in every other case the answer is
  401, 403 or 500 and no cookie is set.
\<close>

theorem protected_route_guard:
  assumes "rand_ok E" "hmac_ok G"
  shows "wp (gin_chain [BFFSessionMiddleware, CSRFMiddleware (silent_env E) G secret sec] (rec_handler h) c) (\<lambda>c' wl. case snd wl of
      [] \<Rightarrow> gx_Status c' \<in> {401, 403, 500} \<and> gx_SetCookies c' = gx_SetCookies c
    | c1 # rest \<Rightarrow> rest = [] \<and> (\<exists>sid t. gx_Cookie c ''__session'' = Some sid \<and> sessionIDRegexp sid \<and>
        gx_Keys c1 = (gx_Keys c)(''sessionID'' \<mapsto> sid) \<and> gx_SetCookies c1 = gx_SetCookies c @ [csrf_cookie sec t] \<and>
        validateCSRFToken G secret sid t \<and>
        double_submitted G secret sid c)) (w, [])"
  by (rule bff_guard_wp [OF assms])

text \<open>A library to evaluate examples with.\<close>

definition sample_gin :: gin_lib where
  "sample_gin = \<lparr>gn_Decode = js_decode text_codec, gn_IsEmail = (\<lambda>s. CHR ''@'' \<in> set s), gn_RuneCount = length,
     gn_ErrorText = (\<lambda>_. ''error''), gn_HMAC = (\<lambda>k m. take 32 (map (\<lambda>x. x mod 256) (k @ m) @ replicate 32 0))\<rparr>"

lemma sample_hmac_ok: "hmac_ok sample_gin"
  by (auto simp: hmac_ok_def sample_gin_def dest!: in_set_takeD)

definition sample_request :: "string \<Rightarrow> string \<Rightarrow> header \<Rightarrow> (string \<Rightarrow> string option) \<Rightarrow> string \<Rightarrow> gin_ctx" where
  "sample_request method path h ck body = \<lparr>gx_Method = method, gx_Path = path, gx_FullPath = path, gx_Header = h, gx_Cookie = ck,
     gx_ClientIP = ''10.0.0.9'', gx_Body = body, gx_Keys = Map.empty, gx_Status = 200, gx_ResponseHeader = Map.empty, gx_SetCookies = [],
     gx_Response = None\<rparr>"

lemma protected_route_guard_witness:
  "\<forall>h. wp (gin_chain [BFFSessionMiddleware, CSRFMiddleware (silent_env sample_env) sample_gin ''key'' True] (rec_handler h)
      (sample_request ''POST'' ''/bff/logout'' Map.empty [''__session'' \<mapsto> replicate 64 (CHR ''a'')] [])) (\<lambda>c' wl. case snd wl of
      [] \<Rightarrow> gx_Status c' \<in> {401, 403, 500}
    | c1 # rest \<Rightarrow> False) (0, [])"
proof
  fix h :: "int handler"
  let ?c = "sample_request ''POST'' ''/bff/logout'' Map.empty [''__session'' \<mapsto> replicate 64 (CHR ''a'')] []"
  have "\<not> double_submitted sample_gin ''key'' sid ?c" for sid
    by (simp add: double_submitted_def isStateChangingMethod_def sample_request_def)
  then show "wp (gin_chain [BFFSessionMiddleware, CSRFMiddleware (silent_env sample_env) sample_gin ''key'' True] (rec_handler h) ?c)
      (\<lambda>c' wl. case snd wl of [] \<Rightarrow> gx_Status c' \<in> {401, 403, 500} | c1 # rest \<Rightarrow> False) (0, [])"
    by (intro wp_mono [OF protected_route_guard [OF sample_env_ok(3) sample_hmac_ok]]) (auto split: list.splits)
qed

section \<open>CSRF tokens belong to one session\<close>



section \<open>CORS\<close>

lemma canonical_cors: "canonical_key ''Access-Control-Allow-Origin'' = ''Access-Control-Allow-Origin''"
    "canonical_key ''Vary'' = ''Vary''" "canonical_key ''Access-Control-Allow-Credentials'' = ''Access-Control-Allow-Credentials''"
    "canonical_key ''Access-Control-Allow-Headers'' = ''Access-Control-Allow-Headers''"
    "canonical_key ''Access-Control-Allow-Methods'' = ''Access-Control-Allow-Methods''"
  by code_simp+

definition allow_origin :: "gin_ctx \<Rightarrow> string list option" where
  "allow_origin c = gx_ResponseHeader c ''Access-Control-Allow-Origin''"

lemma cors_headers_simps [simp]:
  "allow_origin (cors_headers origin c) = Some [origin]" "gx_Method (cors_headers origin c) = gx_Method c"
  "gx_Header (cors_headers origin c) = gx_Header c" "gx_Status (cors_headers origin c) = gx_Status c"
  by (simp_all add: allow_origin_def cors_headers_def c_Header_def header_Set_def canonical_cors)

lemma allow_origin_abort [simp]: "allow_origin (c_AbortWithStatus code c) = allow_origin c" "gx_Status (c_AbortWithStatus code c) = code"
  by (simp_all add: allow_origin_def c_AbortWithStatus_def)


section \<open>Metrics\<close>

text \<open>
  The two locks of the metrics endpoint: with a network on the allow list and credentials,
  metrics are served only to a peer whose address is in a listed network and whose
  \<open>Authorization\<close> header decodes to exactly \<open>user:password\<close>; a peer outside the networks gets 403
  whatever it sends. A list entry that is no network stops the start.
\<close>

theorem metrics_two_locks:
  "case MetricsAllowlistHandler L os user password of
     Inl _ \<Rightarrow> list_ex (\<lambda>t. nl_ParseCIDR L t = None) (filter (\<lambda>t. t \<noteq> []) (map trim_space (split_on (CHR '','') (os_Getenv os ''METRICS_ALLOWED_CIDR''))))
   | Inr handler \<Rightarrow> \<exists>nets. metrics_nets L (os_Getenv os ''METRICS_ALLOWED_CIDR'') = Inr nets \<and> (\<forall>peer auth.
       (handler peer auth = StatusForbidden \<longleftrightarrow> nets \<noteq> [] \<and> \<not> metrics_ip_allowed L nets peer) \<and>
       (handler peer auth = Served \<longleftrightarrow> (nets = [] \<or> metrics_ip_allowed L nets peer) \<and>
         (user = [] \<or> password = [] \<or> (\<exists>b d. auth = ''Basic '' @ b \<and> nl_StdDecode L b = Some d \<and>
            CHR '':'' \<in> set d \<and> cut_on (CHR '':'') d = (user, password)))))"
proof (cases "metrics_nets L (os_Getenv os ''METRICS_ALLOWED_CIDR'')")
  case (Inl e)
  then show ?thesis
    by (auto simp: MetricsAllowlistHandler_def metrics_nets_def Let_def split: if_splits)
next
  case (Inr nets)
  have basic: "metrics_basic_auth L user password auth \<longleftrightarrow> (\<exists>b d. auth = ''Basic '' @ b \<and> nl_StdDecode L b = Some d \<and>
            CHR '':'' \<in> set d \<and> cut_on (CHR '':'') d = (user, password))" for auth
  proof (cases "has_prefix auth ''Basic ''")
    case True
    then obtain b where "auth = ''Basic '' @ b" by (rule has_prefixE)
    then show ?thesis by (auto simp: metrics_basic_auth_def has_prefix_def split: option.splits)
  next
    case False
    then show ?thesis by (auto simp: metrics_basic_auth_def has_prefix_def)
  qed
  show ?thesis
    unfolding MetricsAllowlistHandler_def Inr res_bind_simps sum.case basic [symmetric] by auto
qed

text \<open>
  The production check of the allow list can be met by a list without a network: with only
  a separator in \<open>METRICS_ALLOWED_CIDR\<close> the server starts and no address is refused.
\<close>

theorem metrics_separator_opens:
  "let os = \<lparr>os_Getenv = (\<lambda>k. if k = ''METRICS_ALLOWED_CIDR'' then '','' else if k = ''APP_ENV'' then ''production''
         else ''0123456789abcdef0123456789abcdef''), os_ParseDuration = (\<lambda>_. None)\<rparr>
   in (case LoadServerConfig os of Inl _ \<Rightarrow> False | Inr _ \<Rightarrow> True) \<and>
      (case MetricsAllowlistHandler L os user password of Inl _ \<Rightarrow> False | Inr handler \<Rightarrow> \<forall>peer auth. handler peer auth \<noteq> StatusForbidden)"
  by (simp add: Let_def LoadServerConfig_def fatal_def MetricsAllowlistHandler_def metrics_nets_def trim_space_def
      is_space_def atoi_def read_int_def read_nat_def is_digit_def)

end
