(* ===== verification/Http_Handlers.thy ===== *)
theory Http_Handlers imports Account_Service Http_Middleware begin

text \<open>
  The handlers of \<open>internal/http/handler\<close>: the service-to-service endpoints \<open>/auth\<close>, the browser
  endpoints \<open>/bff\<close>, the proxy to the Kotlin backend and the administration. A handler reads
  the request, calls one method of a service and writes one JSON answer. Log lines are left
  out.
\<close>

section \<open>Shared pieces\<close>

definition gin_result :: "string \<Rightarrow> string \<Rightarrow> json" where
  "gin_result k v = JObj [(k, JStr v)]"

text \<open>\<open>return\<close> after \<open>c.JSON\<close>.\<close>

definition answer :: "int \<Rightarrow> json \<Rightarrow> gin_ctx \<Rightarrow> ('w, gin_ctx) io" where
  "answer code body c = State_Monad.return (c_JSON code body c)"

definition login_response :: "string \<times> string \<Rightarrow> json" where
  "login_response ts = JObj [(''access_token'', JStr (fst ts)), (''refresh_token'', JStr (snd ts))]"

section \<open>AuthHandler\<close>

definition bearerToken :: "gin_ctx \<Rightarrow> string option" where
  "bearerToken c =
     (let h = c_GetHeader c ''Authorization'' in
      if h = [] then None
      else if CHR '' '' \<notin> set h \<or> fst (cut_on (CHR '' '') h) \<noteq> ''Bearer'' then None
      else Some (snd (cut_on (CHR '' '') h)))"

definition isTokenError :: "error \<Rightarrow> bool" where
  "isTokenError err \<longleftrightarrow> errors_Is err ErrInvalidToken"

definition missing_header :: json where
  "missing_header = gin_error ''missing or invalid Authorization header''"

definition token_failure :: "gin_lib \<Rightarrow> string \<Rightarrow> error \<Rightarrow> gin_ctx \<Rightarrow> gin_ctx" where
  "token_failure G what err c =
     (if isTokenError err then
        c_JSON 401 (JObj [(''error'', JStr what), (''error_code'', JStr ''token_invalid''), (''reason'', JStr (gn_ErrorText G err))]) c
      else c_JSON 500 (JObj [(''error'', JStr what), (''error_code'', JStr ''server_error'')]) c)"

definition auth_handler_Logout :: "gin_lib \<Rightarrow> 'w auth_service_i \<Rightarrow> 'w handler" where
  "auth_handler_Logout G svc c =
     (case bearerToken c of
        None \<Rightarrow> answer 401 missing_header c
      | Some refreshToken \<Rightarrow> do {
          err \<leftarrow> au_Logout svc refreshToken;
          case err of
            Some e \<Rightarrow> State_Monad.return (token_failure G ''logout_failed'' e c)
          | None \<Rightarrow> answer 200 (gin_result ''result'' ''logged_out'') c
        })"

definition auth_handler_LogoutAll :: "gin_lib \<Rightarrow> 'w auth_service_i \<Rightarrow> 'w handler" where
  "auth_handler_LogoutAll G svc c =
     (case bearerToken c of
        None \<Rightarrow> answer 401 missing_header c
      | Some refreshToken \<Rightarrow> do {
          err \<leftarrow> au_LogoutAll svc refreshToken;
          case err of
            Some e \<Rightarrow> State_Monad.return (token_failure G ''logout_all_failed'' e c)
          | None \<Rightarrow> answer 200 (gin_result ''result'' ''logged_out_all'') c
        })"

definition auth_handler_Refresh :: "gin_lib \<Rightarrow> 'w auth_service_i \<Rightarrow> 'w handler" where
  "auth_handler_Refresh G svc c =
     (case bearerToken c of
        None \<Rightarrow> answer 401 missing_header c
      | Some refreshToken \<Rightarrow> do {
          r \<leftarrow> au_Refresh svc refreshToken;
          case r of
            Inl e \<Rightarrow> State_Monad.return (token_failure G ''refresh_failed'' e c)
          | Inr ts \<Rightarrow> answer 200 (login_response ts) c
        })"

definition bind_email :: "gin_lib \<Rightarrow> (string \<times> json) list \<Rightarrow> string result" where
  "bind_email G kvs =
     res_bind (unmarshal_string ''email'' kvs) (\<lambda>email.
       check ''Email'' (email \<noteq> [] \<and> gn_IsEmail G email) (Inr email))"

definition auth_handler_Signup :: "gin_lib \<Rightarrow> 'w auth_service_i \<Rightarrow> 'w handler" where
  "auth_handler_Signup G svc c =
     (case bind_json G c (bind_email G) of
        Inl err \<Rightarrow> answer 400 (gin_error (gn_ErrorText G err)) c
      | Inr email \<Rightarrow> do {
          r \<leftarrow> au_Signup svc email;
          case r of
            Inl e \<Rightarrow>
              if errors_Is e ErrEmailConflict then answer 409 (gin_error ''email already registered'') c
              else answer 500 (gin_error ''signup failed'') c
          | Inr kratosID \<Rightarrow> answer 201 (JObj [(''ory_id'', JStr kratosID), (''email'', JStr email)]) c
        })"

record google_login_request =
  gl_Email :: string
  gl_DeviceID :: string
  gl_RememberMe :: bool

definition bind_google_login :: "gin_lib \<Rightarrow> (string \<times> json) list \<Rightarrow> google_login_request result" where
  "bind_google_login G kvs =
     res_bind (unmarshal_string ''email'' kvs) (\<lambda>email.
     res_bind (unmarshal_string ''device_id'' kvs) (\<lambda>deviceID.
     res_bind (unmarshal_bool ''remember_me'' kvs) (\<lambda>rememberMe.
       check ''Email'' (email \<noteq> [] \<and> gn_IsEmail G email) (check ''DeviceID'' (deviceID \<noteq> [])
         (Inr \<lparr>gl_Email = email, gl_DeviceID = deviceID, gl_RememberMe = rememberMe\<rparr>)))))"

definition auth_handler_GoogleLogin :: "gin_lib \<Rightarrow> 'w auth_service_i \<Rightarrow> 'w handler" where
  "auth_handler_GoogleLogin G svc c =
     (case bind_json G c (bind_google_login G) of
        Inl err \<Rightarrow> answer 400 (gin_error (gn_ErrorText G err)) c
      | Inr req \<Rightarrow> do {
          r \<leftarrow> au_GoogleLogin svc (gl_Email req) (gl_DeviceID req) (gl_RememberMe req)
                 (strPtrIfNonEmpty (c_GetHeader c ''User-Agent'')) (strPtrIfNonEmpty (gx_ClientIP c));
          case r of
            Inl e \<Rightarrow>
              if errors_Is e ErrInvalidCredentials then answer 401 (gin_error ''google account not registered'') c
              else answer 500 (gin_error ''internal server error'') c
          | Inr ts \<Rightarrow> answer 200 (login_response ts) c
        })"

definition auth_handler_Verify :: "'w auth_service_i \<Rightarrow> 'w handler" where
  "auth_handler_Verify svc c =
     (case bearerToken c of
        None \<Rightarrow> answer 401 (gin_error ''missing token'') c
      | Some tokenStr \<Rightarrow> do {
          r \<leftarrow> au_VerifyToken svc tokenStr;
          case r of
            Inl e \<Rightarrow> answer 401 (gin_error ''invalid token'') c
          | Inr v \<Rightarrow> answer 200 (JObj [(''user_id'', JStr (vr_KratosID v)), (''device_id'', JStr (vr_DeviceID v)), (''exp'', JNum (vr_ExpiresAt v))]) c
        })"

section \<open>BFFHandler\<close>

definition bffSessionID :: "gin_ctx \<Rightarrow> string" where
  "bffSessionID c = c_GetString c ''sessionID''"

definition bff_status :: "string \<Rightarrow> json" where "bff_status s = JObj [(''status'', JStr s)]"

record bff_login_request =
  lr_KratosID :: string
  lr_DeviceID :: string
  lr_RememberMe :: bool

definition bind_bff_login :: "(string \<times> json) list \<Rightarrow> bff_login_request result" where
  "bind_bff_login kvs =
     res_bind (unmarshal_string ''user_id'' kvs) (\<lambda>kratosID.
     res_bind (unmarshal_string ''device_id'' kvs) (\<lambda>deviceID.
     res_bind (unmarshal_bool ''remember_me'' kvs) (\<lambda>rememberMe.
       check ''KratosID'' (kratosID \<noteq> []) (check ''DeviceID'' (deviceID \<noteq> [])
         (Inr \<lparr>lr_KratosID = kratosID, lr_DeviceID = deviceID, lr_RememberMe = rememberMe\<rparr>)))))"

definition session_cookie :: "bff_config \<Rightarrow> string \<Rightarrow> set_cookie" where
  "session_cookie cfg sessionID = \<lparr>ck_Name = ''__session'', ck_Value = sessionID, ck_Path = ''/'', ck_Domain = bc_CookieDomain cfg,
     ck_MaxAge = go_div (bc_SessionTTL cfg) second, ck_ExpiresAtEpoch = False, ck_Secure = bc_CookieSecure cfg, ck_HttpOnly = True,
     ck_SameSite = SameSiteStrictMode\<rparr>"

definition bff_handler_Login :: "'w go_env \<Rightarrow> gin_lib \<Rightarrow> bff_config \<Rightarrow> 'w bff_service_i \<Rightarrow> 'w handler" where
  "bff_handler_Login E G cfg svc c =
     (case bind_json G c bind_bff_login of
        Inl err \<Rightarrow> answer 400 (gin_error (gn_ErrorText G err)) c
      | Inr req \<Rightarrow> do {
          r \<leftarrow> bi_Login svc (lr_KratosID req) (lr_DeviceID req) (lr_RememberMe req)
                 (case gx_Cookie c ''ory_kratos_session'' of None \<Rightarrow> [] | Some t \<Rightarrow> t)
                 (Some (c_GetHeader c ''User-Agent'')) (Some (gx_ClientIP c));
          case r of
            Inl e \<Rightarrow> answer 500 (gin_error ''login failed'') c
          | Inr sessionID \<Rightarrow>
              (let c1 = http_SetCookie (session_cookie cfg sessionID) c in do {
                 token \<leftarrow> NewCSRFToken E G (bc_CSRFSecret cfg) sessionID;
                 case token of
                   Inl e \<Rightarrow> answer 500 (gin_error ''login failed'') c1
                 | Inr csrfToken \<Rightarrow>
                     answer 200 (bff_status ''authenticated'') (http_SetCookie (csrf_cookie (bc_CookieSecure cfg) csrfToken) c1)
               })
        })"

definition deleted_cookie :: "string \<Rightarrow> string \<Rightarrow> bool \<Rightarrow> bool \<Rightarrow> same_site \<Rightarrow> set_cookie" where
  "deleted_cookie name domain secure httpOnly sameSite = \<lparr>ck_Name = name, ck_Value = [], ck_Path = ''/'', ck_Domain = domain, ck_MaxAge = - 1,
     ck_ExpiresAtEpoch = True, ck_Secure = secure, ck_HttpOnly = httpOnly, ck_SameSite = sameSite\<rparr>"

definition clearBFFCookie :: "bff_config \<Rightarrow> gin_ctx \<Rightarrow> gin_ctx" where
  "clearBFFCookie cfg c =
     http_SetCookie (deleted_cookie ''ory_kratos_session'' (bc_CookieDomain cfg) (bc_CookieSecure cfg) True SameSiteLaxMode)
      (http_SetCookie (deleted_cookie ''__csrf'' [] (bc_CookieSecure cfg) False SameSiteStrictMode)
       (http_SetCookie (deleted_cookie ''__session'' (bc_CookieDomain cfg) (bc_CookieSecure cfg) True SameSiteStrictMode) c))"

definition bff_handler_Logout :: "bff_config \<Rightarrow> 'w bff_service_i \<Rightarrow> 'w handler" where
  "bff_handler_Logout cfg svc c = do {
     err \<leftarrow> bi_Logout svc (bffSessionID c);
     if (case err of Some e \<Rightarrow> \<not> errors_Is e ErrSessionNotFound | None \<Rightarrow> False) then answer 500 (gin_error ''logout failed'') c
     else answer 200 (bff_status ''logged_out'') (clearBFFCookie cfg c)
   }"

definition bff_handler_LogoutAll :: "bff_config \<Rightarrow> 'w bff_service_i \<Rightarrow> 'w handler" where
  "bff_handler_LogoutAll cfg svc c = do {
     err \<leftarrow> bi_LogoutAll svc (bffSessionID c);
     if (case err of Some e \<Rightarrow> \<not> errors_Is e ErrSessionNotFound | None \<Rightarrow> False) then answer 500 (gin_error ''logout-all failed'') c
     else answer 200 (bff_status ''logged_out_all'') (clearBFFCookie cfg c)
   }"

definition session_gone :: "error \<Rightarrow> bool" where
  "session_gone e \<longleftrightarrow> errors_Is e ErrSessionBlacklisted \<or> errors_Is e ErrSessionNotFound"

definition bff_handler_WhoAmI :: "bff_config \<Rightarrow> 'w bff_service_i \<Rightarrow> 'w handler" where
  "bff_handler_WhoAmI cfg svc c = do {
     r \<leftarrow> bi_WhoAmI svc (bffSessionID c);
     case r of
       Inl e \<Rightarrow>
         if session_gone e then answer 401 (gin_error ''session invalid'') (clearBFFCookie cfg c)
         else answer 500 (gin_error ''internal error'') c
     | Inr (kratosID, deviceID) \<Rightarrow> answer 200 (JObj [(''kratos_id'', JStr kratosID), (''device_id'', JStr deviceID)]) c
   }"

section \<open>AccountHandler\<close>

record 'w account_service_i =
  ai_GetMe :: "string \<Rightarrow> ('w, account_me result) io"
  ai_GetSessions :: "string \<Rightarrow> ('w, sessions_response result) io"
  ai_LogoutDevices :: "string \<Rightarrow> string list \<Rightarrow> ('w, unit result) io"
  ai_LogoutOtherDevices :: "string \<Rightarrow> ('w, unit result) io"

definition NewAccountService :: "json_codec \<Rightarrow> 'w account_service \<Rightarrow> 'w account_service_i" where
  "NewAccountService J s = \<lparr>ai_GetMe = account_GetMe J s, ai_GetSessions = account_GetSessions s,
     ai_LogoutDevices = account_LogoutDevices s, ai_LogoutOtherDevices = account_LogoutOtherDevices s\<rparr>"

definition account_me_json :: "account_me \<Rightarrow> json" where
  "account_me_json m = JObj [(''email'', JStr (me_Email m)), (''name'', JStr (me_Name m)), (''loginProvider'', JStr (me_LoginProvider m))]"

definition device_info_json :: "'w go_env \<Rightarrow> device_info \<Rightarrow> json" where
  "device_info_json E d = JObj [(''deviceId'', JStr (di_DeviceID d)), (''browser'', JStr (di_Browser d)), (''os'', JStr (di_OS d)),
     (''lastUsedAt'', case di_LastUsedAt d of None \<Rightarrow> JNull | Some t \<Rightarrow> JStr (env_format E t)), (''isCurrent'', JBool (di_IsCurrent d))]"

definition sessions_json :: "'w go_env \<Rightarrow> sessions_response \<Rightarrow> json" where
  "sessions_json E r = JObj [(''currentDevice'', case sr_CurrentDevice r of None \<Rightarrow> JNull | Some d \<Rightarrow> device_info_json E d),
     (''otherDevices'', JArr (map (device_info_json E) (sr_OtherDevices r)))]"

definition account_failure :: "string \<Rightarrow> error \<Rightarrow> gin_ctx \<Rightarrow> ('w, gin_ctx) io" where
  "account_failure what e c =
     (if session_gone e then answer 401 (gin_error ''session invalid'') c else answer 500 (gin_error what) c)"

definition account_handler_GetMe :: "'w account_service_i \<Rightarrow> 'w handler" where
  "account_handler_GetMe svc c =
     (if bffSessionID c = [] then answer 401 (gin_error ''session invalid'') c
      else do {
        r \<leftarrow> ai_GetMe svc (bffSessionID c);
        case r of Inl e \<Rightarrow> account_failure ''failed to fetch account info'' e c | Inr me \<Rightarrow> answer 200 (account_me_json me) c
      })"

definition account_handler_GetSessions :: "'w go_env \<Rightarrow> 'w account_service_i \<Rightarrow> 'w handler" where
  "account_handler_GetSessions E svc c =
     (if bffSessionID c = [] then answer 401 (gin_error ''session invalid'') c
      else do {
        r \<leftarrow> ai_GetSessions svc (bffSessionID c);
        case r of Inl e \<Rightarrow> account_failure ''failed to fetch sessions'' e c | Inr sessions \<Rightarrow> answer 200 (sessions_json E sessions) c
      })"

text \<open>\<open>binding:"required,min=1"\<close> on a slice of strings.\<close>

definition unmarshal_plain_string :: "json \<Rightarrow> string result" where
  "unmarshal_plain_string j = (case j of JStr s \<Rightarrow> Inr s | JNull \<Rightarrow> Inr [] | _ \<Rightarrow> Inl (unmarshal_error ''string''))"

definition bind_device_ids :: "(string \<times> json) list \<Rightarrow> string list result" where
  "bind_device_ids kvs =
     res_bind (case js_field ''deviceIds'' kvs of None \<Rightarrow> Inr [] | Some j \<Rightarrow> unmarshal_list unmarshal_plain_string j) (\<lambda>is.
       check ''DeviceIDs'' (is \<noteq> []) (Inr is))"

definition account_handler_LogoutDevices :: "gin_lib \<Rightarrow> 'w account_service_i \<Rightarrow> 'w handler" where
  "account_handler_LogoutDevices G svc c =
     (case bind_json G c bind_device_ids of
        Inl _ \<Rightarrow> answer 400 (gin_error ''invalid request: deviceIds must be a non-empty array'') c
      | Inr deviceIDs \<Rightarrow>
          if bffSessionID c = [] then answer 401 (gin_error ''session invalid'') c
          else do {
            r \<leftarrow> ai_LogoutDevices svc (bffSessionID c) deviceIDs;
            case r of Inl e \<Rightarrow> account_failure ''failed to logout devices'' e c | Inr _ \<Rightarrow> answer 200 (bff_status ''devices_logged_out'') c
          })"

definition account_handler_LogoutOtherDevices :: "'w account_service_i \<Rightarrow> 'w handler" where
  "account_handler_LogoutOtherDevices svc c =
     (if bffSessionID c = [] then answer 401 (gin_error ''session invalid'') c
      else do {
        r \<leftarrow> ai_LogoutOtherDevices svc (bffSessionID c);
        case r of Inl e \<Rightarrow> account_failure ''failed to logout other devices'' e c
        | Inr _ \<Rightarrow> answer 200 (bff_status ''other_devices_logged_out'') c
      })"

section \<open>ProxyHandler\<close>

definition authFreePrefixes :: "string list" where "authFreePrefixes = [''/api/auth/'']"

definition isAuthFree :: "string \<Rightarrow> bool" where
  "isAuthFree path \<longleftrightarrow> list_ex (has_prefix path) authFreePrefixes"

definition newCorrelationID :: "'w go_env \<Rightarrow> ('w, string) io" where
  "newCorrelationID E = do {
     b \<leftarrow> env_rand E 16;
     State_Monad.return (case b of Inl _ \<Rightarrow> ''fallback-correlation-id'' | Inr b \<Rightarrow> hex_bytes b)
   }"

record proxy_handler =
  ph_target :: string
  ph_dialTimeout :: int
  ph_serviceKey :: string

definition NewProxyHandler :: "'w net \<Rightarrow> string \<Rightarrow> int \<Rightarrow> string \<Rightarrow> proxy_handler result" where
  "NewProxyHandler N kotlinURL dialTimeout serviceKey =
     (if serviceKey = [] then Inl (Errorf ''proxy: serviceKey must not be empty'' [])
      else case nt_ParseURL N kotlinURL of
        Some err \<Rightarrow> Inl (Errorf (''proxy: invalid KOTLIN_URL '' @ kotlinURL) [err])
      | None \<Rightarrow> Inr \<lparr>ph_target = kotlinURL, ph_dialTimeout = dialTimeout, ph_serviceKey = serviceKey\<rparr>)"

definition set_request_header :: "string \<Rightarrow> string \<Rightarrow> gin_ctx \<Rightarrow> gin_ctx" where
  "set_request_header k v c = c\<lparr>gx_Header := header_Set k v (gx_Header c)\<rparr>"

definition del_request_header :: "string \<Rightarrow> gin_ctx \<Rightarrow> gin_ctx" where
  "del_request_header k c = c\<lparr>gx_Header := header_Del k (gx_Header c)\<rparr>"

text \<open>\<open>forward\<close> is \<open>ReverseProxy.ServeHTTP\<close>.\<close>

definition proxy_Handle :: "'w go_env \<Rightarrow> proxy_handler \<Rightarrow> 'w handler \<Rightarrow> 'w handler" where
  "proxy_Handle E h forward c0 =
     (let c1 = del_request_header ''Authorization'' (del_request_header ''X-Service-Key''
                (del_request_header ''X-Device-ID'' (del_request_header ''X-User-ID'' c0)))
      in do {
        c2 \<leftarrow> (if header_Get (gx_Header c1) ''X-Correlation-ID'' = []
               then do { i \<leftarrow> newCorrelationID E; State_Monad.return (set_request_header ''X-Correlation-ID'' i c1) }
               else State_Monad.return c1);
        let c3 = set_request_header ''X-Service-Key'' (ph_serviceKey h) c2 in
        if \<not> isAuthFree (gx_Path c0) then
          (case gx_Keys c3 ''bff.userID'' of
             None \<Rightarrow> answer 401 (gin_error ''authentication required'') c3
           | Some userID \<Rightarrow>
               if userID = [] then answer 401 (gin_error ''authentication required'') c3
               else
                 let c4 = set_request_header ''X-User-ID'' userID c3 in
                 forward (case gx_Keys c4 ''bff.deviceID'' of
                    None \<Rightarrow> c4
                  | Some deviceID \<Rightarrow> if deviceID \<noteq> [] then set_request_header ''X-Device-ID'' deviceID c4 else c4))
        else forward c3
      })"

section \<open>Administration\<close>

definition admin_handler_RefreshJWKS :: "gin_lib \<Rightarrow> 'w hydra_client \<Rightarrow> 'w handler" where
  "admin_handler_RefreshJWKS G hydra c = do {
     err \<leftarrow> hy_ForceRefreshJWKS hydra;
     case err of
       Some e \<Rightarrow> answer 500 (gin_error (''JWKS refresh failed: '' @ gn_ErrorText G e)) c
     | None \<Rightarrow> answer 200 (bff_status ''jwks_refreshed'') c
   }"

record block_request =
  br_TargetType :: string
  br_TargetValue :: string
  br_Reason :: string

definition target_types :: "string list" where "target_types = [''USER'', ''JTI'', ''SERVICE_KEY'']"

definition bind_block :: "gin_lib \<Rightarrow> (string \<times> json) list \<Rightarrow> block_request result" where
  "bind_block G kvs =
     res_bind (unmarshal_string ''target_type'' kvs) (\<lambda>tt.
     res_bind (unmarshal_string ''target_value'' kvs) (\<lambda>tv.
     res_bind (unmarshal_string ''reason'' kvs) (\<lambda>reason.
       check ''TargetType'' (tt \<in> set target_types)
        (check ''TargetValue'' (tv \<noteq> [] \<and> gn_RuneCount G tv \<le> 512)
         (check ''Reason'' (gn_RuneCount G reason \<le> 1024)
          (Inr \<lparr>br_TargetType = tt, br_TargetValue = tv, br_Reason = reason\<rparr>))))))"

definition bind_unblock :: "gin_lib \<Rightarrow> (string \<times> json) list \<Rightarrow> (string \<times> string) result" where
  "bind_unblock G kvs =
     res_bind (unmarshal_string ''target_type'' kvs) (\<lambda>tt.
     res_bind (unmarshal_string ''target_value'' kvs) (\<lambda>tv.
       check ''TargetType'' (tt \<in> set target_types)
        (check ''TargetValue'' (tv \<noteq> [] \<and> gn_RuneCount G tv \<le> 512) (Inr (tt, tv)))))"

text \<open>The conversion \<open>repository.BlacklistTargetType(s)\<close>.\<close>

definition target_type_of :: "string \<Rightarrow> blacklist_target_type" where
  "target_type_of s =
     (if s = ''USER'' then TargetTypeUser else if s = ''JTI'' then TargetTypeJTI
      else if s = ''SERVICE_KEY'' then TargetTypeServiceKey else TargetTypeOther s)"

definition target_answer :: "string \<Rightarrow> string \<Rightarrow> string \<Rightarrow> json" where
  "target_answer status tt tv = JObj [(''status'', JStr status), (''target_type'', JStr tt), (''target_value'', JStr tv)]"

definition admin_handler_Block :: "'w go_env \<Rightarrow> gin_lib \<Rightarrow> 'w admin_service \<Rightarrow> 'w handler" where
  "admin_handler_Block E G svc c =
     (case bind_json G c (bind_block G) of
        Inl _ \<Rightarrow> answer 400 (gin_error ''invalid request body'') c
      | Inr req \<Rightarrow> do {
          err \<leftarrow> admin_Block E svc (target_type_of (br_TargetType req)) (br_TargetValue req) (br_Reason req);
          case err of
            Some _ \<Rightarrow> answer 500 (gin_error ''block failed'') c
          | None \<Rightarrow> answer 200 (target_answer ''blocked'' (br_TargetType req) (br_TargetValue req)) c
        })"

definition admin_handler_Unblock :: "'w go_env \<Rightarrow> gin_lib \<Rightarrow> 'w admin_service \<Rightarrow> 'w handler" where
  "admin_handler_Unblock E G svc c =
     (case bind_json G c (bind_unblock G) of
        Inl _ \<Rightarrow> answer 400 (gin_error ''invalid request body'') c
      | Inr (tt, tv) \<Rightarrow> do {
          err \<leftarrow> admin_Unblock E svc (target_type_of tt) tv;
          case err of
            Some _ \<Rightarrow> answer 500 (gin_error ''unblock failed'') c
          | None \<Rightarrow> answer 200 (target_answer ''unblocked'' tt tv) c
        })"

section \<open>Lemmas about contexts\<close>

lemma answer_wp: "Q (c_JSON code b c) w \<Longrightarrow> wp (answer code b c) Q w"
  by (simp add: answer_def wp_return)

lemma run_answer [simp]: "run_state (answer code b c) w = (c_JSON code b c, w)"
  by (simp add: answer_def)

lemma canonical_proxy:
  "canonical_key ''X-User-ID'' = ''X-User-Id''" "canonical_key ''X-Device-ID'' = ''X-Device-Id''"
  "canonical_key ''X-Service-Key'' = ''X-Service-Key''" "canonical_key ''Authorization'' = ''Authorization''"
  "canonical_key ''X-Correlation-ID'' = ''X-Correlation-Id''"
  by code_simp+

lemma request_header_simps [simp]:
  "gx_Header (set_request_header k v c) = (gx_Header c)(canonical_key k \<mapsto> [v])" "gx_Keys (set_request_header k v c) = gx_Keys c"
  "gx_Path (set_request_header k v c) = gx_Path c"
  "gx_Header (del_request_header k c) = (gx_Header c)(canonical_key k := None)" "gx_Keys (del_request_header k c) = gx_Keys c"
  "gx_Path (del_request_header k c) = gx_Path c"
  by (simp_all add: set_request_header_def del_request_header_def header_Set_def header_Del_def)

section \<open>The proxy\<close>

definition silent_bff :: "'w bff_service_i \<Rightarrow> ('w \<times> 'e list) bff_service_i" where
  "silent_bff b = \<lparr>bi_Login = (\<lambda>k d rm t ua ip. silent (bi_Login b k d rm t ua ip)), bi_Logout = (\<lambda>i. silent (bi_Logout b i)),
     bi_LogoutAll = (\<lambda>i. silent (bi_LogoutAll b i)), bi_ResolveSession = (\<lambda>i. silent (bi_ResolveSession b i)),
     bi_WhoAmI = (\<lambda>i. silent (bi_WhoAmI b i))\<rparr>"

text \<open>Whom the session cookie of a request stands for.\<close>

definition resolved_caller :: "'w bff_service_i \<Rightarrow> gin_ctx \<Rightarrow> 'w \<Rightarrow> (string \<times> string) option" where
  "resolved_caller bff c w =
     (case gx_Cookie c ''__session'' of
        None \<Rightarrow> None
      | Some cookie \<Rightarrow>
          if cookie = [] then None
          else (case fst (run_state (bi_ResolveSession bff cookie) w) of Some (Inr (_, k, d)) \<Rightarrow> Some (k, d) | _ \<Rightarrow> None))"

definition bridged :: "(string \<times> string) option \<Rightarrow> (string \<rightharpoonup> string) \<Rightarrow> bool" where
  "bridged caller ks \<longleftrightarrow>
     ks ''bff.userID'' = map_option fst caller \<and>
     ks ''bff.deviceID'' = (case caller of None \<Rightarrow> None | Some (_, d) \<Rightarrow> if d = [] then None else Some d)"

lemma bridge_wp:
  assumes "gx_Keys c = Map.empty"
    and "\<And>c1 w1. bridged (resolved_caller bff c w) (gx_Keys c1) \<Longrightarrow> gx_Header c1 = gx_Header c \<Longrightarrow> gx_Path c1 = gx_Path c \<Longrightarrow> wp (next c1) Q (w1, l)"
  shows "wp (BFFAPIBridgeMiddleware (silent_bff bff) next c) Q (w, l)"
proof (cases "gx_Cookie c ''__session'' = None \<or> gx_Cookie c ''__session'' = Some []")
  case True
  then show ?thesis
    using assms by (auto simp: BFFAPIBridgeMiddleware_def bffSessionCookieName_def resolved_caller_def bridged_def)
next
  case False
  then obtain cookie where ck: "gx_Cookie c ''__session'' = Some cookie" "cookie \<noteq> []" by auto
  show ?thesis
    unfolding BFFAPIBridgeMiddleware_def bffSessionCookieName_def ck(1) option.case if_not_P [OF ck(2)] silent_bff_def bff_service_i.simps
    by (intro wp_bindI silent_wp)
      (auto intro!: assms(2) simp: bridged_def resolved_caller_def ck c_Set_def assms(1) Let_def split: option.splits sum.splits)
qed

text \<open>What reaches the backend, given what the bridge found.\<close>

lemma proxy_wp:
  assumes "bridged caller (gx_Keys c)"
    and "\<And>c' w'. \<not> isAuthFree (gx_Path c) \<Longrightarrow> (caller = None \<or> (\<exists>d. caller = Some ([], d))) \<Longrightarrow> gx_Status c' = 401 \<Longrightarrow> Q c' (w', l)"
    and "\<And>c1 c' w'. gx_Header c1 ''Authorization'' = None \<Longrightarrow> gx_Header c1 ''X-Service-Key'' = Some [ph_serviceKey h] \<Longrightarrow>
      (if isAuthFree (gx_Path c) then gx_Header c1 ''X-User-Id'' = None \<and> gx_Header c1 ''X-Device-Id'' = None
       else \<exists>k d. caller = Some (k, d) \<and> k \<noteq> [] \<and> gx_Header c1 ''X-User-Id'' = Some [k] \<and>
         gx_Header c1 ''X-Device-Id'' = (if d = [] then None else Some [d])) \<Longrightarrow> Q c' (w', l @ [c1])"
  shows "wp (proxy_Handle (silent_env E) h (rec_handler forward) c) Q (w, l)"
proof -
  have rh: "(\<And>c' w'. Q c' (w', l @ [c1])) \<Longrightarrow> wp (rec_handler forward c1) Q (w1, l)" for c1 w1
    by (rule rec_handler_wp) simp
  have fwd: "wp (let c3 = set_request_header ''X-Service-Key'' (ph_serviceKey h) c2 in
        if \<not> isAuthFree (gx_Path c) then
          (case gx_Keys c3 ''bff.userID'' of
             None \<Rightarrow> answer 401 (gin_error ''authentication required'') c3
           | Some userID \<Rightarrow>
               if userID = [] then answer 401 (gin_error ''authentication required'') c3
               else
                 let c4 = set_request_header ''X-User-ID'' userID c3 in
                 rec_handler forward (case gx_Keys c4 ''bff.deviceID'' of
                    None \<Rightarrow> c4
                  | Some deviceID \<Rightarrow> if deviceID \<noteq> [] then set_request_header ''X-Device-ID'' deviceID c4 else c4))
        else rec_handler forward c3) Q (w', l)"
    if c2: "gx_Header c2 ''Authorization'' = None" "gx_Header c2 ''X-User-Id'' = None" "gx_Header c2 ''X-Device-Id'' = None"
      "gx_Keys c2 = gx_Keys c" for c2 w'
  proof (cases "isAuthFree (gx_Path c)")
    case True
    then show ?thesis
      by (simp add: Let_def) (rule rh, rule assms(3); simp add: canonical_proxy c2)
  next
    case free: False
    show ?thesis
    proof (cases "caller = None \<or> (\<exists>d. caller = Some ([], d))")
      case True
      then have "gx_Keys c ''bff.userID'' = None \<or> gx_Keys c ''bff.userID'' = Some []"
        using assms(1) by (auto simp: bridged_def)
      with free True show ?thesis
        by (auto simp: Let_def c2 answer_def wp_return intro!: assms(2))
    next
      case False
      then obtain k d where kd: "caller = Some (k, d)" "k \<noteq> []" by (cases caller) auto
      then have keys: "gx_Keys c ''bff.userID'' = Some k" "gx_Keys c ''bff.deviceID'' = (if d = [] then None else Some d)"
        using assms(1) by (simp_all add: bridged_def)
      show ?thesis
        using free kd(2) by (simp add: Let_def c2 keys) (intro conjI impI; rule rh, rule assms(3); simp add: canonical_proxy c2 kd)
    qed
  qed
  show ?thesis
    unfolding proxy_Handle_def Let_def [of "del_request_header _ _"] newCorrelationID_def rec_env_simps
    by (intro wp_steps silent_wp; (simp only: snd_conv)?; rule fwd; simp add: canonical_proxy)
qed

text \<open>
  C12. The proxy vouches only for the session: whatever identity, service or authorisation
  headers a request arrives with, the backend receives the server's own service key, no
  \<open>Authorization\<close> header, and as \<open>X-User-ID\<close> and \<open>X-Device-ID\<close> exactly the user and device
  the \<open>__session\<close> cookie resolved to, on an auth-free path neither. Without a resolved
  session every other path is answered 401 and nothing is forwarded.
\<close>

theorem proxy_identity_from_session:
  assumes "gx_Keys c = Map.empty"
  shows "wp (BFFAPIBridgeMiddleware (silent_bff bff) (proxy_Handle (silent_env E) h (rec_handler forward)) c) (\<lambda>c' wl. case snd wl of
      [] \<Rightarrow> gx_Status c' = 401 \<and> \<not> isAuthFree (gx_Path c) \<and>
        (resolved_caller bff c w = None \<or> (\<exists>d. resolved_caller bff c w = Some ([], d)))
    | c1 # rest \<Rightarrow> rest = [] \<and> gx_Header c1 ''Authorization'' = None \<and> gx_Header c1 ''X-Service-Key'' = Some [ph_serviceKey h] \<and>
        (if isAuthFree (gx_Path c) then gx_Header c1 ''X-User-Id'' = None \<and> gx_Header c1 ''X-Device-Id'' = None
         else \<exists>k d. resolved_caller bff c w = Some (k, d) \<and> k \<noteq> [] \<and> gx_Header c1 ''X-User-Id'' = Some [k] \<and>
           gx_Header c1 ''X-Device-Id'' = (if d = [] then None else Some [d]))) (w, [])"
  by (rule bridge_wp [OF assms], rule proxy_wp [where caller = "resolved_caller bff c w"]) auto

lemma proxy_identity_from_session_witness:
  "\<forall>bff h forward. wp (BFFAPIBridgeMiddleware (silent_bff bff) (proxy_Handle (silent_env sample_env) h (rec_handler forward))
      (sample_request ''GET'' ''/api/auth/x'' [''X-User-Id'' \<mapsto> [''root''], ''Authorization'' \<mapsto> [''Bearer x'']] Map.empty []))
    (\<lambda>c' wl. list_all (\<lambda>c1. gx_Header c1 ''X-User-Id'' = None \<and> gx_Header c1 ''Authorization'' = None) (snd wl)) (0, [])"
proof (intro allI)
  fix bff h forward
  let ?c = "sample_request ''GET'' ''/api/auth/x'' [''X-User-Id'' \<mapsto> [''root''], ''Authorization'' \<mapsto> [''Bearer x'']] Map.empty []"
  have "gx_Keys ?c = Map.empty" "isAuthFree (gx_Path ?c)"
    by (simp_all add: sample_request_def isAuthFree_def authFreePrefixes_def has_prefix_def)
  then show "wp (BFFAPIBridgeMiddleware (silent_bff bff) (proxy_Handle (silent_env sample_env) h (rec_handler forward)) ?c)
    (\<lambda>c' wl. list_all (\<lambda>c1. gx_Header c1 ''X-User-Id'' = None \<and> gx_Header c1 ''Authorization'' = None) (snd wl)) (0, [])"
    by (intro wp_mono [OF proxy_identity_from_session]) (auto split: list.splits)
qed

section \<open>Tokens of service-to-service calls\<close>

lemma bearerToken_iff: "bearerToken c = Some tok \<longleftrightarrow> c_GetHeader c ''Authorization'' = ''Bearer '' @ tok"
proof -
  let ?h = "c_GetHeader c ''Authorization''"
  have cut: "?h = fst (cut_on (CHR '' '') ?h) @ CHR '' '' # snd (cut_on (CHR '' '') ?h)" if "CHR '' '' \<in> set ?h"
  proof -
    from that obtain p r where p: "?h = p @ CHR '' '' # r" "CHR '' '' \<notin> set p"
      by (meson split_list_first)
    then show ?thesis by simp
  qed
  have sp: "cut_on (CHR '' '') (''Bearer '' @ tok) = (''Bearer'', tok)"
    using cut_on_append [of "CHR '' ''" "''Bearer''" tok] by simp
  show ?thesis
  proof
    assume "bearerToken c = Some tok"
    then have "CHR '' '' \<in> set ?h" "fst (cut_on (CHR '' '') ?h) = ''Bearer''" "snd (cut_on (CHR '' '') ?h) = tok"
      by (auto simp: bearerToken_def Let_def split: if_splits)
    with cut show "?h = ''Bearer '' @ tok" by simp
  next
    assume h: "?h = ''Bearer '' @ tok"
    show "bearerToken c = Some tok"
      unfolding bearerToken_def h Let_def sp by simp
  qed
qed

text \<open>
  The verification endpoint fails closed: it answers 200 or 401, and 200 exactly when the
  request carries \<open>Authorization: Bearer tok\<close> and the service verifies \<open>tok\<close>; the answer then
  names the user, device and expiry of the verified token. Every error of the service,
  infrastructure errors included, is a 401.
\<close>

theorem verify_endpoint_fail_closed:
  "wp (auth_handler_Verify svc c) (\<lambda>c' w'. (gx_Status c' = 200 \<or> gx_Status c' = 401) \<and>
     (gx_Status c' = 200 \<longleftrightarrow> (\<exists>tok v. c_GetHeader c ''Authorization'' = ''Bearer '' @ tok \<and> fst (run_state (au_VerifyToken svc tok) w) = Inr v \<and>
        gx_Response c' = Some (JObj [(''user_id'', JStr (vr_KratosID v)), (''device_id'', JStr (vr_DeviceID v)), (''exp'', JNum (vr_ExpiresAt v))])))) w"
proof (cases "bearerToken c")
  case None
  then have "c_GetHeader c ''Authorization'' \<noteq> ''Bearer '' @ tok" for tok
    using bearerToken_iff [of c tok] by auto
  with None show ?thesis
    by (simp add: auth_handler_Verify_def wp_def)
next
  case (Some tok)
  then have h: "c_GetHeader c ''Authorization'' = ''Bearer '' @ tok"
    by (simp only: bearerToken_iff)
  show ?thesis
    unfolding auth_handler_Verify_def Some option.case h
    by (auto simp: wp_def c_JSON_def split: prod.splits sum.splits)
qed

section \<open>The browser's login\<close>

text \<open>Every request that sends session and token back gets through the guard, unless the random source fails.\<close>

definition admitted :: "'w go_env \<Rightarrow> gin_lib \<Rightarrow> string \<Rightarrow> bool \<Rightarrow> string \<Rightarrow> string \<Rightarrow> bool" where
  "admitted E G secret sec sid t \<longleftrightarrow>
     (\<forall>c2 h w2. gx_Cookie c2 ''__session'' = Some sid \<longrightarrow> gx_Cookie c2 ''__csrf'' = Some t \<longrightarrow> c_GetHeader c2 ''X-CSRF-Token'' = t \<longrightarrow>
        wp (gin_chain [BFFSessionMiddleware, CSRFMiddleware (silent_env E) G secret sec] (rec_handler h) c2)
          (\<lambda>c3 wl2. snd wl2 \<noteq> [] \<or> gx_Status c3 = 500) (w2, []))"

lemma csrf_cookie_inject [simp]: "csrf_cookie s a = csrf_cookie s b \<longleftrightarrow> a = b"
  by (simp add: csrf_cookie_def)



end
