(* ===== verification/Kafka_Producer.thy ===== *)
theory Kafka_Producer imports Config "HOL-Library.Multiset" "HOL-Library.Sublist" begin

text \<open>
  \<open>internal/kafka/producer.go\<close> and \<open>startup.go\<close>: three buffered channels, each drained by its own
  worker goroutine, and a \<open>Close\<close> that lets the workers finish.

  A channel with its worker is a \<open>lane\<close>. The goroutines interleave: a run of the producer is a
  sequence of \<open>producer_event\<close>s, each an atomic step of one goroutine, and \<open>producer_step\<close> says
  which steps are possible. A broker write may succeed or fail at every attempt. Marshalling
  the three flat structs cannot fail, so the workers' marshal errors do not occur. Metrics
  and log lines are left out; \<open>ln_sent\<close>, \<open>ln_handled\<close> and \<open>ln_refused\<close> are ghost state that
  records the accepted events, what the worker did with them, and the dropped ones.
\<close>

section \<open>Channels\<close>

record 'e lane =
  ln_cap :: nat
  ln_buf :: "'e list"
  ln_hand :: "'e option"
  ln_closed :: bool
  ln_done :: bool
  ln_dropped :: int
  ln_sent :: "'e list"
  ln_handled :: "('e \<times> bool) list"
  ln_refused :: "'e list"

definition new_lane :: "nat \<Rightarrow> 'e lane" where
  "new_lane cap = \<lparr>ln_cap = cap, ln_buf = [], ln_hand = None, ln_closed = False, ln_done = False, ln_dropped = 0,
     ln_sent = [], ln_handled = [], ln_refused = []\<rparr>"

text \<open>
  \<open>select { case ch <- e: default: dropped.Add(1) }\<close>. Sending on a closed channel panics. An
  event handed directly to a waiting worker is the same as one that is buffered and taken.
\<close>

definition lane_send :: "'e \<Rightarrow> 'e lane \<Rightarrow> 'e lane result" where
  "lane_send e l =
     (if ln_closed l then Inl (Errorf ''send on closed channel'' [])
      else if length (ln_buf l) < ln_cap l then Inr (l\<lparr>ln_buf := ln_buf l @ [e], ln_sent := ln_sent l @ [e]\<rparr>)
      else Inr (l\<lparr>ln_dropped := i64 (ln_dropped l + 1), ln_refused := ln_refused l @ [e]\<rparr>))"

text \<open>The worker: receive, write, and leave the loop when the channel is closed and empty.\<close>

definition lane_take :: "'e lane \<Rightarrow> 'e lane option" where
  "lane_take l =
     (case (ln_done l, ln_hand l, ln_buf l) of
        (False, None, e # r) \<Rightarrow> Some (l\<lparr>ln_hand := Some e, ln_buf := r\<rparr>)
      | _ \<Rightarrow> None)"

definition lane_write :: "bool \<Rightarrow> 'e lane \<Rightarrow> 'e lane option" where
  "lane_write ok l =
     (case ln_hand l of None \<Rightarrow> None | Some e \<Rightarrow> Some (l\<lparr>ln_hand := None, ln_handled := ln_handled l @ [(e, ok)]\<rparr>))"

definition lane_exit :: "'e lane \<Rightarrow> 'e lane option" where
  "lane_exit l = (if ln_closed l \<and> ln_buf l = [] \<and> ln_hand l = None \<and> \<not> ln_done l then Some (l\<lparr>ln_done := True\<rparr>) else None)"

definition lane_close :: "'e lane \<Rightarrow> 'e lane" where
  "lane_close l = l\<lparr>ln_closed := True\<rparr>"

lemmas lane_defs = lane_send_def lane_take_def lane_write_def lane_exit_def lane_close_def

section \<open>The producer\<close>

datatype lane_id = AccessLane | AuthLane | BlacklistLane

datatype producer_event =
    PublishCall access_log_event
  | PublishAuthSessionCall auth_session_event
  | PublishBlacklistSyncCall blacklist_sync_event
  | CloseCall
  | WorkerTakes lane_id
  | WorkerWrites lane_id bool
  | WorkerExits lane_id

record producer =
  pd_ch :: "access_log_event lane"
  pd_authCh :: "auth_session_event lane"
  pd_blacklistCh :: "blacklist_sync_event lane"
  pd_closeOnce :: bool

definition producer_Publish :: "access_log_event \<Rightarrow> producer \<Rightarrow> producer result" where
  "producer_Publish e p = res_bind (lane_send e (pd_ch p)) (\<lambda>l. Inr (p\<lparr>pd_ch := l\<rparr>))"

definition producer_PublishAuthSession :: "auth_session_event \<Rightarrow> producer \<Rightarrow> producer result" where
  "producer_PublishAuthSession e p = res_bind (lane_send e (pd_authCh p)) (\<lambda>l. Inr (p\<lparr>pd_authCh := l\<rparr>))"

definition producer_PublishBlacklistSync :: "blacklist_sync_event \<Rightarrow> producer \<Rightarrow> producer result" where
  "producer_PublishBlacklistSync e p = res_bind (lane_send e (pd_blacklistCh p)) (\<lambda>l. Inr (p\<lparr>pd_blacklistCh := l\<rparr>))"

text \<open>The \<open>closeOnce.Do\<close> of \<open>Close\<close>.\<close>

definition producer_close_channels :: "producer \<Rightarrow> producer" where
  "producer_close_channels p =
     (if pd_closeOnce p then p
      else p\<lparr>pd_closeOnce := True, pd_ch := lane_close (pd_ch p), pd_authCh := lane_close (pd_authCh p),
             pd_blacklistCh := lane_close (pd_blacklistCh p)\<rparr>)"

text \<open>
  The rest of \<open>Close\<close>, after each of the three waits has ended (because its worker is done or
  because the context is): both writers are closed and the first error is returned.
\<close>

definition producer_close_result :: "error option \<Rightarrow> error option \<Rightarrow> error option" where
  "producer_close_result blacklistCloseErr writerCloseErr =
     (case blacklistCloseErr of Some e \<Rightarrow> Some e | None \<Rightarrow> writerCloseErr)"

definition producer_close_warns :: "bool \<Rightarrow> bool \<Rightarrow> bool \<Rightarrow> bool" where
  "producer_close_warns d1 d2 d3 \<longleftrightarrow> \<not> d1 \<or> \<not> d2 \<or> \<not> d3"

text \<open>One iteration step of a worker.\<close>

definition runWorker :: "(access_log_event lane \<Rightarrow> access_log_event lane option) \<Rightarrow> producer \<Rightarrow> producer option" where
  "runWorker f p = map_option (\<lambda>l. p\<lparr>pd_ch := l\<rparr>) (f (pd_ch p))"

definition runAuthWorker :: "(auth_session_event lane \<Rightarrow> auth_session_event lane option) \<Rightarrow> producer \<Rightarrow> producer option" where
  "runAuthWorker f p = map_option (\<lambda>l. p\<lparr>pd_authCh := l\<rparr>) (f (pd_authCh p))"

definition runBlacklistWorker :: "(blacklist_sync_event lane \<Rightarrow> blacklist_sync_event lane option) \<Rightarrow> producer \<Rightarrow> producer option" where
  "runBlacklistWorker f p = map_option (\<lambda>l. p\<lparr>pd_blacklistCh := l\<rparr>) (f (pd_blacklistCh p))"

inductive producer_step :: "producer \<Rightarrow> producer_event \<Rightarrow> producer \<Rightarrow> bool" where
  publish: "producer_Publish e p = Inr p' \<Longrightarrow> producer_step p (PublishCall e) p'"
| publish_auth: "producer_PublishAuthSession a p = Inr p' \<Longrightarrow> producer_step p (PublishAuthSessionCall a) p'"
| publish_sync: "producer_PublishBlacklistSync b p = Inr p' \<Longrightarrow> producer_step p (PublishBlacklistSyncCall b) p'"
| close: "producer_step p CloseCall (producer_close_channels p)"
| takes: "runWorker lane_take p = Some p' \<Longrightarrow> producer_step p (WorkerTakes AccessLane) p'"
| takes_auth: "runAuthWorker lane_take p = Some p' \<Longrightarrow> producer_step p (WorkerTakes AuthLane) p'"
| takes_sync: "runBlacklistWorker lane_take p = Some p' \<Longrightarrow> producer_step p (WorkerTakes BlacklistLane) p'"
| writes: "runWorker (lane_write ok) p = Some p' \<Longrightarrow> producer_step p (WorkerWrites AccessLane ok) p'"
| writes_auth: "runAuthWorker (lane_write ok) p = Some p' \<Longrightarrow> producer_step p (WorkerWrites AuthLane ok) p'"
| writes_sync: "runBlacklistWorker (lane_write ok) p = Some p' \<Longrightarrow> producer_step p (WorkerWrites BlacklistLane ok) p'"
| exits: "runWorker lane_exit p = Some p' \<Longrightarrow> producer_step p (WorkerExits AccessLane) p'"
| exits_auth: "runAuthWorker lane_exit p = Some p' \<Longrightarrow> producer_step p (WorkerExits AuthLane) p'"
| exits_sync: "runBlacklistWorker lane_exit p = Some p' \<Longrightarrow> producer_step p (WorkerExits BlacklistLane) p'"

inductive_cases producer_stepE: "producer_step p ev p'"

inductive producer_run :: "producer \<Rightarrow> producer_event list \<Rightarrow> producer \<Rightarrow> bool" where
  start: "producer_run p [] p"
| step: "producer_run p evs p1 \<Longrightarrow> producer_step p1 ev p' \<Longrightarrow> producer_run p (evs @ [ev]) p'"

text \<open>\<open>NewProducer\<close>: \<open>probe\<close> is the dial of the first broker. \<open>os.Exit\<close> ends the process.\<close>

datatype new_producer = ExitsProcess | NoopAndError error | RunningProducer producer

definition start_producer :: "kafka_config \<Rightarrow> producer" where
  "start_producer cfg = \<lparr>pd_ch = new_lane (nat (kf_ChannelSize cfg)), pd_authCh = new_lane 512, pd_blacklistCh = new_lane 128,
     pd_closeOnce = False\<rparr>"

definition NewProducer :: "kafka_config \<Rightarrow> (string \<Rightarrow> error option) \<Rightarrow> new_producer result" where
  "NewProducer cfg probe =
     (case kf_Brokers cfg of
        [] \<Rightarrow> Inl (Errorf ''index out of range [0] with length 0'' [])
      | broker # _ \<Rightarrow>
          (case probe broker of
             Some err \<Rightarrow> if kf_IsProduction cfg then Inr ExitsProcess else Inr (NoopAndError err)
           | None \<Rightarrow> Inr (RunningProducer (start_producer cfg))))"

definition ShouldStartConsumer :: "new_producer \<Rightarrow> bool" where
  "ShouldStartConsumer pub = (case pub of RunningProducer _ \<Rightarrow> True | _ \<Rightarrow> False)"

section \<open>Invariants of one channel\<close>

definition in_hand :: "'e lane \<Rightarrow> 'e list" where
  "in_hand l = (case ln_hand l of None \<Rightarrow> [] | Some e \<Rightarrow> [e])"

definition lane_ok :: "'e lane \<Rightarrow> bool" where
  "lane_ok l \<longleftrightarrow>
     ln_sent l = map fst (ln_handled l) @ in_hand l @ ln_buf l \<and> length (ln_buf l) \<le> ln_cap l \<and>
     ln_dropped l = i64 (int (length (ln_refused l))) \<and>
     (ln_done l \<longrightarrow> ln_closed l \<and> ln_buf l = [] \<and> ln_hand l = None)"

lemma i64_succ: "i64 (i64 x + 1) = i64 (1 + x)"
proof -
  have "(i64 x + 1 + 2 ^ 63) mod 2 ^ 64 = ((x + 2 ^ 63) mod 2 ^ 64 + 1) mod 2 ^ 64"
    by (simp add: i64_def algebra_simps)
  also have "\<dots> = (1 + x + 2 ^ 63) mod 2 ^ 64"
    by (simp only: mod_add_left_eq) (simp add: algebra_simps)
  finally show ?thesis by (simp add: i64_def)
qed

lemma lane_ok_new [simp]: "lane_ok (new_lane n)"
  by (simp add: lane_ok_def new_lane_def in_hand_def i64_def)

lemma lane_ok_send: "lane_ok l \<Longrightarrow> lane_send e l = Inr l' \<Longrightarrow> lane_ok l'"
  by (auto simp: lane_ok_def lane_send_def in_hand_def i64_succ split: if_splits option.splits)

lemma lane_ok_take: "lane_ok l \<Longrightarrow> lane_take l = Some l' \<Longrightarrow> lane_ok l'"
  by (auto simp: lane_ok_def lane_take_def in_hand_def split: bool.splits option.splits list.splits)

lemma lane_ok_write: "lane_ok l \<Longrightarrow> lane_write ok l = Some l' \<Longrightarrow> lane_ok l'"
  by (auto simp: lane_ok_def lane_write_def in_hand_def split: option.splits)

lemma lane_ok_exit: "lane_ok l \<Longrightarrow> lane_exit l = Some l' \<Longrightarrow> lane_ok l'"
  by (auto simp: lane_ok_def lane_exit_def in_hand_def split: if_splits)

lemma lane_ok_close: "lane_ok l \<Longrightarrow> lane_ok (lane_close l)"
  by (auto simp: lane_ok_def lane_close_def in_hand_def)

lemmas lane_ok_ops = lane_ok_send lane_ok_take lane_ok_write lane_ok_exit lane_ok_close

text \<open>What a step of the worker or of \<open>Close\<close> leaves alone, and what a send adds.\<close>

lemma lane_worker_keeps:
  "lane_take l = Some l' \<Longrightarrow> ln_sent l' = ln_sent l \<and> ln_refused l' = ln_refused l \<and> ln_closed l' = ln_closed l"
  "lane_write ok l = Some l' \<Longrightarrow> ln_sent l' = ln_sent l \<and> ln_refused l' = ln_refused l \<and> ln_closed l' = ln_closed l"
  "lane_exit l = Some l' \<Longrightarrow> ln_sent l' = ln_sent l \<and> ln_refused l' = ln_refused l \<and> ln_closed l' = ln_closed l"
  "ln_sent (lane_close l) = ln_sent l \<and> ln_refused (lane_close l) = ln_refused l"
  by (auto simp: lane_defs split: bool.splits option.splits list.splits if_splits)

text \<open>The history of a channel: what was offered is what was accepted, in order, and what was refused.\<close>

definition history :: "'e list \<Rightarrow> 'e lane \<Rightarrow> bool" where
  "history offered l \<longleftrightarrow> subseq (ln_sent l) offered \<and> mset offered = mset (ln_sent l) + mset (ln_refused l)"

lemma history_send: "history xs l \<Longrightarrow> lane_send e l = Inr l' \<Longrightarrow> history (xs @ [e]) l'"
  by (auto simp: history_def lane_send_def split: if_splits intro: list_emb_append_mono list_emb_prefix)

lemma history_worker:
  "lane_take l = Some l' \<Longrightarrow> history xs l' = history xs l" "lane_write ok l = Some l' \<Longrightarrow> history xs l' = history xs l"
  "lane_exit l = Some l' \<Longrightarrow> history xs l' = history xs l" "history xs (lane_close l) = history xs l"
  using lane_worker_keeps(4) [of l] by (auto simp: history_def dest!: lane_worker_keeps(1-3))

section \<open>Invariants of the producer\<close>

definition offered_access :: "producer_event list \<Rightarrow> access_log_event list" where
  "offered_access = List.map_filter (\<lambda>ev. case ev of PublishCall e \<Rightarrow> Some e | _ \<Rightarrow> None)"

definition offered_auth :: "producer_event list \<Rightarrow> auth_session_event list" where
  "offered_auth = List.map_filter (\<lambda>ev. case ev of PublishAuthSessionCall e \<Rightarrow> Some e | _ \<Rightarrow> None)"

definition offered_sync :: "producer_event list \<Rightarrow> blacklist_sync_event list" where
  "offered_sync = List.map_filter (\<lambda>ev. case ev of PublishBlacklistSyncCall e \<Rightarrow> Some e | _ \<Rightarrow> None)"

lemma offered_simps:
  "offered_access (evs @ [ev]) = offered_access evs @ (case ev of PublishCall e \<Rightarrow> [e] | _ \<Rightarrow> [])"
  "offered_auth (evs @ [ev]) = offered_auth evs @ (case ev of PublishAuthSessionCall e \<Rightarrow> [e] | _ \<Rightarrow> [])"
  "offered_sync (evs @ [ev]) = offered_sync evs @ (case ev of PublishBlacklistSyncCall e \<Rightarrow> [e] | _ \<Rightarrow> [])"
  "offered_access [] = []" "offered_auth [] = []" "offered_sync [] = []"
  by (simp_all add: offered_access_def offered_auth_def offered_sync_def List.map_filter_def split: producer_event.splits)

definition channel_inv :: "'e list \<Rightarrow> bool \<Rightarrow> 'e lane \<Rightarrow> bool" where
  "channel_inv offered closed l \<longleftrightarrow> lane_ok l \<and> history offered l \<and> ln_closed l = closed"

definition producer_inv :: "producer_event list \<Rightarrow> producer \<Rightarrow> bool" where
  "producer_inv evs p \<longleftrightarrow>
     channel_inv (offered_access evs) (pd_closeOnce p) (pd_ch p) \<and>
     channel_inv (offered_auth evs) (pd_closeOnce p) (pd_authCh p) \<and>
     channel_inv (offered_sync evs) (pd_closeOnce p) (pd_blacklistCh p)"

lemma channel_inv_new: "channel_inv [] False (new_lane n)"
  unfolding channel_inv_def by (simp add: history_def) (simp add: new_lane_def)

lemma channel_inv_send: "channel_inv xs c l \<Longrightarrow> lane_send e l = Inr l' \<Longrightarrow> channel_inv (xs @ [e]) c l'"
  using lane_ok_send [of l e l'] history_send [of xs l e l'] by (auto simp: channel_inv_def lane_send_def split: if_splits)

lemma channel_inv_worker:
  "channel_inv xs c l \<Longrightarrow> lane_take l = Some l' \<Longrightarrow> channel_inv xs c l'"
  "channel_inv xs c l \<Longrightarrow> lane_write ok l = Some l' \<Longrightarrow> channel_inv xs c l'"
  "channel_inv xs c l \<Longrightarrow> lane_exit l = Some l' \<Longrightarrow> channel_inv xs c l'"
    apply (metis channel_inv_def history_worker(1) lane_ok_take lane_worker_keeps(1))
   apply (metis channel_inv_def history_worker(2) lane_ok_write lane_worker_keeps(2))
  apply (metis channel_inv_def history_worker(3) lane_ok_exit lane_worker_keeps(3))
  done

lemma channel_inv_close: "channel_inv xs c l \<Longrightarrow> channel_inv xs True (lane_close l)"
  using lane_ok_close [of l] by (simp add: channel_inv_def history_worker(4)) (simp add: lane_close_def)

lemmas runners = producer_Publish_def producer_PublishAuthSession_def producer_PublishBlacklistSync_def
  runWorker_def runAuthWorker_def runBlacklistWorker_def res_bind_Inr_iff

lemma producer_inv_step:
  assumes "producer_inv evs p" "producer_step p ev p'"
  shows "producer_inv (evs @ [ev]) p'"
  using assms(2,1)
proof (cases rule: producer_step.cases)
  case close
  then show ?thesis
    using assms(1) by (auto simp: producer_inv_def producer_close_channels_def offered_simps intro: channel_inv_close)
qed (auto simp: producer_inv_def runners offered_simps intro: channel_inv_send channel_inv_worker)

lemma producer_run_inv: "producer_run p0 evs p \<Longrightarrow> producer_inv [] p0 \<Longrightarrow> producer_inv evs p"
  by (induction rule: producer_run.induct) (auto intro: producer_inv_step)

lemma producer_inv_start: "producer_inv [] (start_producer cfg)"
  by (simp add: producer_inv_def start_producer_def channel_inv_new offered_simps)

definition delivered :: "'e lane \<Rightarrow> 'e list" where
  "delivered l = map fst (filter snd (ln_handled l))"

lemma delivered_subseq: "channel_inv xs c l \<Longrightarrow> subseq (delivered l) xs"
proof -
  assume "channel_inv xs c l"
  then have "subseq (ln_sent l) xs" "ln_sent l = map fst (ln_handled l) @ in_hand l @ ln_buf l"
    unfolding channel_inv_def history_def lane_ok_def by blast+
  moreover have "subseq (delivered l) (map fst (ln_handled l))"
    unfolding delivered_def by (intro subseq_map subseq_filter_left)
  ultimately show ?thesis
    by (metis list_emb_prefix subseq_order.order_trans)
qed


section \<open>Shutdown\<close>

definition worker_event :: "producer_event \<Rightarrow> bool" where
  "worker_event ev \<longleftrightarrow> (case ev of WorkerTakes _ \<Rightarrow> True | WorkerWrites _ _ \<Rightarrow> True | WorkerExits _ \<Rightarrow> True | _ \<Rightarrow> False)"

text \<open>Each buffered event costs a receive and a write, and leaving the loop one step.\<close>

definition lane_work :: "'e lane \<Rightarrow> nat" where
  "lane_work l = 2 * length (ln_buf l) + (if ln_hand l = None then 0 else 1) + (if ln_done l then 0 else 1)"

definition producer_work :: "producer \<Rightarrow> nat" where
  "producer_work p = lane_work (pd_ch p) + lane_work (pd_authCh p) + lane_work (pd_blacklistCh p)"

definition workers_done :: "producer \<Rightarrow> bool" where
  "workers_done p \<longleftrightarrow> ln_done (pd_ch p) \<and> ln_done (pd_authCh p) \<and> ln_done (pd_blacklistCh p)"

lemma lane_work_decreases:
  "lane_take l = Some l' \<Longrightarrow> Suc (lane_work l') = lane_work l" "lane_write ok l = Some l' \<Longrightarrow> Suc (lane_work l') = lane_work l"
  "lane_exit l = Some l' \<Longrightarrow> Suc (lane_work l') = lane_work l"
  by (auto simp: lane_work_def lane_defs split: bool.splits option.splits list.splits if_splits)

lemma worker_step_decreases: "producer_step p ev p' \<Longrightarrow> worker_event ev \<Longrightarrow> Suc (producer_work p') = producer_work p"
  by (induction rule: producer_step.induct)
    (auto simp: worker_event_def producer_work_def runWorker_def runAuthWorker_def runBlacklistWorker_def dest: lane_work_decreases)

lemma worker_step_keeps_once: "producer_step p ev p' \<Longrightarrow> worker_event ev \<Longrightarrow> pd_closeOnce p' = pd_closeOnce p"
  by (induction rule: producer_step.induct) (auto simp: worker_event_def runWorker_def runAuthWorker_def runBlacklistWorker_def)

text \<open>A worker whose channel is closed can always move until it is done.\<close>

lemma lane_progress:
  assumes "ln_closed l" "\<not> ln_done l"
  shows "(\<exists>l'. lane_take l = Some l') \<or> (\<exists>l'. lane_write ok l = Some l') \<or> (\<exists>l'. lane_exit l = Some l')"
  using assms by (cases "ln_hand l"; cases "ln_buf l") (auto simp: lane_defs)

lemma worker_progress:
  assumes "producer_inv evs p" "pd_closeOnce p" "\<not> workers_done p"
  shows "\<exists>ev p'. worker_event ev \<and> producer_step p ev p'"
proof -
  have closed: "ln_closed (pd_ch p)" "ln_closed (pd_authCh p)" "ln_closed (pd_blacklistCh p)"
    using assms by (auto simp: producer_inv_def channel_inv_def)
  have w: "worker_event (WorkerTakes i)" "worker_event (WorkerWrites i b)" "worker_event (WorkerExits i)" for i b
    by (simp_all add: worker_event_def)
  consider "\<not> ln_done (pd_ch p)" | "\<not> ln_done (pd_authCh p)" | "\<not> ln_done (pd_blacklistCh p)"
    using assms(3) by (auto simp: workers_done_def)
  then show ?thesis
  proof cases
    case 1
    from lane_progress [OF closed(1) 1, of True] show ?thesis
      using w producer_step.takes [of p] producer_step.writes [of True p] producer_step.exits [of p] by (auto simp: runWorker_def) blast+
  next
    case 2
    from lane_progress [OF closed(2) 2, of True] show ?thesis
      using w producer_step.takes_auth [of p] producer_step.writes_auth [of True p] producer_step.exits_auth [of p]
      by (auto simp: runAuthWorker_def) blast+
  next
    case 3
    from lane_progress [OF closed(3) 3, of True] show ?thesis
      using w producer_step.takes_sync [of p] producer_step.writes_sync [of True p] producer_step.exits_sync [of p]
      by (auto simp: runBlacklistWorker_def) blast+
  qed
qed

lemma done_handled: "channel_inv xs c l \<Longrightarrow> ln_done l \<Longrightarrow> map fst (ln_handled l) = ln_sent l"
  by (simp add: channel_inv_def lane_ok_def in_hand_def)

lemma worker_run:
  "producer_run p evs p' \<Longrightarrow> list_all worker_event evs \<Longrightarrow> length evs + producer_work p' = producer_work p \<and> pd_closeOnce p' = pd_closeOnce p"
  by (induction rule: producer_run.induct) (auto dest: worker_step_decreases worker_step_keeps_once)

lemma producer_run_trans: "producer_run p1 evs2 p2 \<Longrightarrow> producer_run p0 evs1 p1 \<Longrightarrow> producer_run p0 (evs1 @ evs2) p2"
  by (induction rule: producer_run.induct) (auto intro: producer_run.step simp flip: append_assoc)

text \<open>
  C27. A closed producer drains: once \<open>Close\<close> has closed the channels, the workers take at most
  \<open>producer_work\<close> further steps in any schedule and whatever the broker answers; a schedule
  stops only when all three workers are done, so the wait of \<open>Close\<close> ends, and then every
  event that was accepted has been written or has failed at the broker.
\<close>

theorem close_drains:
  assumes "producer_run (start_producer cfg) evs p" "pd_closeOnce p"
    and "producer_run p evs' p'" "list_all worker_event evs'"
  shows "length evs' \<le> producer_work p \<and>
    (workers_done p' \<or> (\<exists>ev p''. worker_event ev \<and> producer_step p' ev p'')) \<and>
    (if workers_done p' then
       map fst (ln_handled (pd_ch p')) = ln_sent (pd_ch p') \<and> map fst (ln_handled (pd_authCh p')) = ln_sent (pd_authCh p') \<and>
       map fst (ln_handled (pd_blacklistCh p')) = ln_sent (pd_blacklistCh p')
     else True)"
proof -
  have inv: "producer_inv (evs @ evs') p'"
    by (rule producer_run_inv [OF producer_run_trans [OF assms(3,1)] producer_inv_start])
  have "length evs' + producer_work p' = producer_work p" "pd_closeOnce p'"
    using worker_run [OF assms(3,4)] assms(2) by simp_all
  then show ?thesis
    using worker_progress [OF inv] inv by (auto simp: workers_done_def producer_inv_def dest: done_handled)
qed

text \<open>
  Publishing after \<open>Close\<close> panics, which is why the servers are drained first; a second
  \<open>Close\<close> changes nothing.
\<close>

theorem publish_after_close_panics:
  assumes "producer_run (start_producer cfg) evs p" "pd_closeOnce p"
  shows "producer_Publish e p = Inl (Errorf ''send on closed channel'' []) \<and>
    producer_PublishAuthSession a p = Inl (Errorf ''send on closed channel'' []) \<and>
    producer_PublishBlacklistSync b p = Inl (Errorf ''send on closed channel'' []) \<and> producer_close_channels p = p"
  using producer_run_inv [OF assms(1) producer_inv_start] assms(2)
  by (simp add: producer_inv_def channel_inv_def producer_Publish_def producer_PublishAuthSession_def producer_PublishBlacklistSync_def
      lane_send_def producer_close_channels_def)

text \<open>
  Start-up: without a reachable broker a production process exits and any other one runs
  with a publisher that drops every event and without the consumer; an empty broker list
  crashes it.
\<close>

theorem new_producer_outcomes:
  "NewProducer cfg probe = (case kf_Brokers cfg of
     [] \<Rightarrow> Inl (Errorf ''index out of range [0] with length 0'' [])
   | b # _ \<Rightarrow> Inr (if probe b = None then RunningProducer (start_producer cfg)
       else if kf_IsProduction cfg then ExitsProcess else NoopAndError (the (probe b)))) \<and>
   (case NewProducer cfg probe of Inr pub \<Rightarrow> ShouldStartConsumer pub \<longleftrightarrow> probe (hd (kf_Brokers cfg)) = None | Inl _ \<Rightarrow> kf_Brokers cfg = [])"
  by (auto simp: NewProducer_def ShouldStartConsumer_def split: list.splits option.splits)

section \<open>A concrete run\<close>

definition sample_kafka :: kafka_config where
  "sample_kafka = \<lparr>kf_Brokers = [''kafka:9092''], kf_Topic = ''access-logs'', kf_BlacklistSyncTopic = ''blacklist-sync'',
     kf_ChannelSize = 64, kf_WriteTimeout = 5 * second, kf_IsProduction = False\<rparr>"

definition sample_auth_event :: auth_session_event where
  "sample_auth_event = \<lparr>as_EventType = ''auth.session.created'', as_KratosID = ''k'', as_IPAddress = ''i'', as_UserAgent = ''u'',
     as_HydraJTI = ''j'', as_DeviceID = ''d'', as_Timestamp = ''5000''\<rparr>"

definition sample_closed :: producer where
  "sample_closed = producer_close_channels (case producer_PublishAuthSession sample_auth_event (start_producer sample_kafka) of Inr p \<Rightarrow> p)"

lemma sample_closed_run: "producer_run (start_producer sample_kafka) [PublishAuthSessionCall sample_auth_event, CloseCall] sample_closed"
proof -
  obtain p where p: "producer_PublishAuthSession sample_auth_event (start_producer sample_kafka) = Inr p"
    by (simp add: producer_PublishAuthSession_def lane_send_def start_producer_def new_lane_def)
  have "producer_run (start_producer sample_kafka) ([] @ [PublishAuthSessionCall sample_auth_event]) p"
    by (rule producer_run.step [OF producer_run.start producer_step.publish_auth [OF p]])
  then have "producer_run (start_producer sample_kafka) (([] @ [PublishAuthSessionCall sample_auth_event]) @ [CloseCall]) (producer_close_channels p)"
    by (rule producer_run.step [OF _ producer_step.close])
  then show ?thesis
    by (simp add: sample_closed_def p)
qed

lemma sample_closed_simps: "pd_closeOnce sample_closed" "producer_work sample_closed = 5"
  by (simp_all add: sample_closed_def producer_close_channels_def producer_PublishAuthSession_def lane_send_def start_producer_def
      new_lane_def producer_work_def lane_work_def lane_close_def)


theorem close_drains_witness: "workers_done sample_closed \<or> (\<exists>ev p''. worker_event ev \<and> producer_step sample_closed ev p'')"
  using close_drains [OF sample_closed_run sample_closed_simps(1) producer_run.start] by simp

theorem publish_after_close_panics_witness:
  "producer_PublishAuthSession sample_auth_event sample_closed = Inl (Errorf ''send on closed channel'' [])"
  using publish_after_close_panics [OF sample_closed_run sample_closed_simps(1)] by simp

end
