(* ===== verification/Kafka_Consumer.thy ===== *)
theory Kafka_Consumer imports Kafka_Producer Http_Client Test_World begin

text \<open>
  \<open>internal/kafka/consumer.go\<close>: the loop that turns login events into rows of
  \<open>device_sessions\<close>, and the JSON form of the events that both sides of the topic share.

  The Kafka reader is the parameter \<open>kafka_reader\<close>. \<open>process\<close> returns nothing in the code; here
  it returns which of its exits it took, the one the error and skip counters tell apart.
  The loop ends only when the context is cancelled, so it runs on fuel; a run that used up
  its fuel is one that has not returned yet. The sampling of the lag metric is left out.
\<close>

section \<open>Events as documents\<close>

definition access_log_doc :: "access_log_event \<Rightarrow> json" where
  "access_log_doc e = JObj [(''path'', JStr (al_Path e)), (''status_code'', JNum (al_StatusCode e)), (''latency_ms'', JNum (al_LatencyMs e)),
     (''user_id'', JStr (al_UserID e)), (''timestamp'', JStr (al_Timestamp e))]"

definition auth_session_doc :: "auth_session_event \<Rightarrow> json" where
  "auth_session_doc e = JObj [(''event_type'', JStr (as_EventType e)), (''kratos_id'', JStr (as_KratosID e)),
     (''ip_address'', JStr (as_IPAddress e)), (''user_agent'', JStr (as_UserAgent e)), (''hydra_jti'', JStr (as_HydraJTI e)),
     (''device_id'', JStr (as_DeviceID e)), (''timestamp'', JStr (as_Timestamp e))]"

definition blacklist_sync_doc :: "blacklist_sync_event \<Rightarrow> json" where
  "blacklist_sync_doc e = JObj ([(''event_type'', JStr (be_EventType e)), (''target_type'', JStr (be_TargetType e)),
     (''target_value'', JStr (be_TargetValue e))]
     @ (if be_Reason e = [] then [] else [(''reason'', JStr (be_Reason e))])
     @ [(''expires_at'', JStr (be_ExpiresAt e)), (''timestamp'', JStr (be_Timestamp e))])"

definition unmarshal_envelope :: "json \<Rightarrow> string result" where
  "unmarshal_envelope j = res_bind (unmarshal_object j) (unmarshal_string ''event_type'')"

definition unmarshal_auth_session :: "json \<Rightarrow> auth_session_event result" where
  "unmarshal_auth_session j =
     res_bind (unmarshal_object j) (\<lambda>o1.
     res_bind (unmarshal_string ''event_type'' o1) (\<lambda>et.
     res_bind (unmarshal_string ''kratos_id'' o1) (\<lambda>k.
     res_bind (unmarshal_string ''ip_address'' o1) (\<lambda>ip.
     res_bind (unmarshal_string ''user_agent'' o1) (\<lambda>ua.
     res_bind (unmarshal_string ''hydra_jti'' o1) (\<lambda>jti.
     res_bind (unmarshal_string ''device_id'' o1) (\<lambda>d.
     res_bind (unmarshal_string ''timestamp'' o1) (\<lambda>ts.
       Inr \<lparr>as_EventType = et, as_KratosID = k, as_IPAddress = ip, as_UserAgent = ua, as_HydraJTI = jti, as_DeviceID = d,
         as_Timestamp = ts\<rparr>))))))))"

section \<open>One message\<close>

definition authSessionEventType :: string where "authSessionEventType = ''auth.session.created''"

datatype process_outcome =
    UnmarshalEnvelopeError | OtherEventType | UnmarshalEventError | SaveError error | DeviceSessionPersisted

definition event_session :: "auth_session_event \<Rightarrow> int \<Rightarrow> device_session" where
  "event_session e issuedAt = \<lparr>ds_ID = 0, ds_KratosID = as_KratosID e, ds_DeviceID = as_DeviceID e,
     ds_HydraJTI = strPtrIfNonEmpty (as_HydraJTI e), ds_IssuedAt = issuedAt, ds_LastUsedAt = Some issuedAt, ds_Revoked = False,
     ds_UserAgent = strPtrIfNonEmpty (as_UserAgent e), ds_IP = strPtrIfNonEmpty (as_IPAddress e)\<rparr>"

definition consumer_process ::
    "'w go_env \<Rightarrow> json_codec \<Rightarrow> 'w device_session_repo \<Rightarrow> string \<Rightarrow> ('w, process_outcome) io" where
  "consumer_process E J repo payload =
     (case res_bind (js_decode J payload) unmarshal_envelope of
        Inl _ \<Rightarrow> State_Monad.return UnmarshalEnvelopeError
      | Inr eventType \<Rightarrow>
          if eventType \<noteq> authSessionEventType then State_Monad.return OtherEventType
          else
            (case res_bind (js_decode J payload) unmarshal_auth_session of
               Inl _ \<Rightarrow> State_Monad.return UnmarshalEventError
             | Inr event \<Rightarrow> do {
                 issuedAt \<leftarrow> (case env_parse E (as_Timestamp event) of Inr t \<Rightarrow> State_Monad.return t | Inl _ \<Rightarrow> env_now E);
                 err \<leftarrow> dr_SaveDeviceSession repo (event_session event issuedAt);
                 State_Monad.return (case err of Some e \<Rightarrow> SaveError e | None \<Rightarrow> DeviceSessionPersisted)
               }))"

section \<open>The loop\<close>

text \<open>\<open>kd_Fetch\<close> is \<open>FetchMessage\<close> (a message is its offset and its value), \<open>kd_Commit\<close> \<open>CommitMessages\<close>.\<close>

record 'w kafka_reader =
  kd_Fetch :: "('w, (int \<times> string) result) io"
  kd_Commit :: "int \<Rightarrow> ('w, error option) io"
  kd_Close :: "('w, error option) io"

definition backoffMin :: int where "backoffMin = 100 * millisecond"
definition backoffMax :: int where "backoffMax = 30 * second"

text \<open>
  \<open>time.Duration(float64(backoff) * 1.5)\<close>: every value below \<open>backoffMax\<close> and its product are
  exact in \<open>float64\<close>, and the conversion truncates.
\<close>

definition next_backoff :: "int \<Rightarrow> int" where
  "next_backoff backoff = (let n = backoff * 3 div 2 in if n < backoffMax then n else backoffMax)"

text \<open>The value \<open>True\<close>: the loop has returned.\<close>

fun consumer_loop ::
    "nat \<Rightarrow> 'w go_env \<Rightarrow> json_codec \<Rightarrow> 'w kafka_reader \<Rightarrow> 'w device_session_repo \<Rightarrow> int \<Rightarrow> ('w, bool) io" where
  "consumer_loop 0 E J reader repo backoff = State_Monad.return False"
| "consumer_loop (Suc n) E J reader repo backoff = do {
     m \<leftarrow> kd_Fetch reader;
     case m of
       Inl err \<Rightarrow>
         if errors_Is err ContextCanceled \<or> errors_Is err IoEOF then State_Monad.return True
         else do {
           cancelled \<leftarrow> env_wait E backoff;
           case cancelled of
             Some _ \<Rightarrow> State_Monad.return True
           | None \<Rightarrow> consumer_loop n E J reader repo (next_backoff backoff)
         }
     | Inr msg \<Rightarrow> do {
         consumer_process E J repo (snd msg);
         kd_Commit reader (fst msg);
         consumer_loop n E J reader repo backoffMin
       }
   }"

text \<open>\<open>Run\<close>: \<open>None\<close> is the consumer without a reader that the unit tests build.\<close>

definition consumer_Run ::
    "nat \<Rightarrow> 'w go_env \<Rightarrow> json_codec \<Rightarrow> 'w kafka_reader option \<Rightarrow> 'w device_session_repo \<Rightarrow> ('w, bool) io" where
  "consumer_Run n E J reader repo =
     (case reader of None \<Rightarrow> State_Monad.return True | Some r \<Rightarrow> consumer_loop n E J r repo backoffMin)"

definition consumer_Close :: "'w kafka_reader \<Rightarrow> ('w, error option) io" where
  "consumer_Close reader = kd_Close reader"

section \<open>Properties\<close>


datatype consumer_call =
    Fetched "(int \<times> string) result"
  | Saved device_session "error option"
  | Committed int "error option"

definition rec_reader :: "'w kafka_reader \<Rightarrow> ('w \<times> consumer_call list) kafka_reader" where
  "rec_reader r = \<lparr>kd_Fetch = recorded Fetched (kd_Fetch r), kd_Commit = (\<lambda>i. recorded (Committed i) (kd_Commit r i)),
     kd_Close = silent (kd_Close r)\<rparr>"

definition rec_saver :: "'w device_session_repo \<Rightarrow> ('w \<times> consumer_call list) device_session_repo" where
  "rec_saver r = \<lparr>
     dr_SaveDeviceSession = (\<lambda>s. recorded (Saved s) (dr_SaveDeviceSession r s)),
     dr_UpdateLastUsedAt = (\<lambda>k d. silent (dr_UpdateLastUsedAt r k d)), dr_RevokeDevice = (\<lambda>k d. silent (dr_RevokeDevice r k d)),
     dr_RevokeAllDevices = (\<lambda>k. silent (dr_RevokeAllDevices r k)), dr_GetDeviceSessions = (\<lambda>k. silent (dr_GetDeviceSessions r k)),
     dr_CountActiveDevices = (\<lambda>k. silent (dr_CountActiveDevices r k))\<rparr>"

text \<open>A log of whole rounds: a failed fetch, or a message with at most one save and one commit.\<close>

inductive consumer_log :: "consumer_call list \<Rightarrow> bool" where
  none: "consumer_log []"
| failed: "consumer_log l \<Longrightarrow> consumer_log (Fetched (Inl e) # l)"
| skipped: "consumer_log l \<Longrightarrow> consumer_log (Fetched (Inr m) # Committed (fst m) r # l)"
| saved: "consumer_log l \<Longrightarrow> consumer_log (Fetched (Inr m) # Saved s x # Committed (fst m) r # l)"

lemma consumer_log_pair:
  "consumer_log l \<Longrightarrow> consumer_log (Fetched (Inr (i, v)) # Committed i r # l)"
  "consumer_log l \<Longrightarrow> consumer_log (Fetched (Inr (i, v)) # Saved s x # Committed i r # l)"
  using consumer_log.skipped [of l "(i, v)" r] consumer_log.saved [of l "(i, v)" s x r] by simp_all

lemma consumer_process_wp:
  assumes "\<And>r w'. Q r (w', snd wl)" "\<And>r w' s x. Q r (w', snd wl @ [Saved s x])"
  shows "wp (consumer_process (silent_env E) J (rec_saver repo) payload) Q wl"
proof -
  have same: "Q r wl" for r
    using assms(1) [of r "fst wl"] by simp
  show ?thesis
    unfolding consumer_process_def rec_env_simps rec_saver_def device_session_repo.simps
    by (intro wp_steps recorded_wp silent_wp; simp add: same assms)
qed

lemma consumer_loop_log:
  "wp (consumer_loop n (silent_env E) J (rec_reader reader) (rec_saver repo) b) (\<lambda>_ wl'. \<exists>l. snd wl' = snd wl @ l \<and> consumer_log l) wl"
proof (induction n arbitrary: b wl)
  case 0
  show ?case by (simp add: wp_return consumer_log.none)
next
  case (Suc n)
  have fetch: "kd_Fetch (rec_reader reader) = recorded Fetched (kd_Fetch reader)"
      "kd_Commit (rec_reader reader) i = recorded (Committed i) (kd_Commit reader i)"
      "env_wait (silent_env E) d = silent (env_wait E d)" for i d
    by (simp_all add: rec_reader_def silent_env_def)
  have go: "wp (consumer_loop n (silent_env E) J (rec_reader reader) (rec_saver repo) b')
      (\<lambda>_ wl'. \<exists>l. snd wl' = snd wl @ l \<and> consumer_log l) (w', snd wl @ l0)"
    if "\<And>l. consumer_log l \<Longrightarrow> consumer_log (l0 @ l)" for b' w' l0
    by (rule wp_mono [OF Suc.IH]) (use that in \<open>auto simp: append_assoc\<close>)
  show ?case
    unfolding consumer_loop.simps fetch
    apply (intro wp_steps recorded_wp silent_wp consumer_process_wp)
        apply (auto simp: append_assoc intro!: go consumer_log.intros consumer_log_pair)
    done
qed

text \<open>
  The consumer logs and commits: every message it fetched is committed exactly once, before
  the next fetch and after at most one write, whether or not that write succeeded. So one
  bad message or an outage of Postgres never stalls the topic, and a login whose row could
  not be written is not retried.
\<close>

theorem consumer_commits_each_message:
  "wp (consumer_Run n (silent_env E) J (Some (rec_reader reader)) (rec_saver repo)) (\<lambda>_ wl. consumer_log (snd wl)) (w, [])"
  unfolding consumer_Run_def option.case by (rule wp_mono [OF consumer_loop_log]) simp

lemma next_backoff_bounds: "backoffMin \<le> b \<Longrightarrow> b \<le> backoffMax \<Longrightarrow> b \<le> next_backoff b \<and> next_backoff b \<le> backoffMax"
  by (auto simp: next_backoff_def Let_def backoffMin_def duration_defs)

lemma backoff_iterated: "backoffMin \<le> (next_backoff ^^ n) backoffMin \<and> (next_backoff ^^ n) backoffMin \<le> backoffMax"
proof (induction n)
  case 0
  show ?case by (simp add: backoffMin_def backoffMax_def duration_defs)
next
  case (Suc n)
  then show ?case
    using next_backoff_bounds [of "(next_backoff ^^ n) backoffMin"] by simp
qed

text \<open>
  The pause after a failed fetch starts at 100 milliseconds, never shrinks until a fetch
  succeeds, stays within 100 milliseconds and 30 seconds, and reaches 30 seconds after
  fifteen failures in a row.
\<close>

theorem consumer_backoff_bounded:
  "backoffMin \<le> (next_backoff ^^ n) backoffMin \<and> (next_backoff ^^ n) backoffMin \<le> (next_backoff ^^ Suc n) backoffMin \<and>
   (next_backoff ^^ n) backoffMin \<le> backoffMax \<and> (next_backoff ^^ (15 + n)) backoffMin = backoffMax"
proof -
  have "(next_backoff ^^ 15) backoffMin = backoffMax"
    by (simp add: eval_nat_numeral next_backoff_def Let_def backoffMin_def backoffMax_def duration_defs)
  then have "(next_backoff ^^ (n + 15)) backoffMin = (next_backoff ^^ n) backoffMax"
    by (simp add: funpow_add)
  moreover have "(next_backoff ^^ n) backoffMax = backoffMax"
    by (induction n) (simp_all add: next_backoff_def Let_def backoffMax_def duration_defs)
  moreover have "(next_backoff ^^ n) backoffMin \<le> (next_backoff ^^ Suc n) backoffMin"
    using next_backoff_bounds [of "(next_backoff ^^ n) backoffMin"] backoff_iterated [of n] by simp
  ultimately show ?thesis
    using backoff_iterated [of n] by (simp add: add.commute)
qed

definition login_event :: "string \<Rightarrow> int \<Rightarrow> auth_session_event" where
  "login_event jti t = \<lparr>as_EventType = ''auth.session.created'', as_KratosID = ''k'', as_IPAddress = [], as_UserAgent = [],
     as_HydraJTI = jti, as_DeviceID = ''d'', as_Timestamp = show_int t\<rparr>"


text \<open>
  A redelivered login undoes a revocation: after a user logged in twice on a device and the
  device was revoked, the delivery of the first login event once more makes the row active
  again and moves its issue time back.
\<close>

theorem redelivered_login_reactivates:
  "let repo = NewPostgresDeviceSessionRepository sim_pool;
       consume = (\<lambda>jti t. consumer_process (ext_env sim_env) text_codec repo (js_encode text_codec (auth_session_doc (login_event jti t))))
   in fst (run_state (do {
        consume ''j1'' 5000; consume ''j2'' 9000; dr_RevokeDevice repo ''k'' ''d'';
        before \<leftarrow> dr_GetDeviceSessions repo ''k'';
        consume ''j1'' 5000;
        after \<leftarrow> dr_GetDeviceSessions repo ''k'';
        State_Monad.return (map_sum (\<lambda>e. e) (map (\<lambda>r. (ds_Revoked r, ds_IssuedAt r))) before,
                            map_sum (\<lambda>e. e) (map (\<lambda>r. (ds_Revoked r, ds_IssuedAt r))) after) }) sim_start)
      = (Inr [(True, 9000)], Inr [(False, 5000)])"
proof -
  have dec: "js_decode text_codec (js_encode text_codec d) = Inr d" for d
    using text_codec_ok by (simp add: json_codec_ok_def)
  have docs: "unmarshal_envelope (auth_session_doc (login_event j t)) = Inr authSessionEventType"
      "unmarshal_auth_session (auth_session_doc (login_event j t)) = Inr (login_event j t)" for j t
    by (simp_all add: unmarshal_envelope_def unmarshal_auth_session_def auth_session_doc_def unmarshal_object_def unmarshal_string_def
        js_field_def login_event_def authSessionEventType_def)
  have parse: "env_parse (ext_env sim_env) (show_int t) = Inr t" for t
    by (simp add: ext_env_def sim_env_def read_show_int)
  have step: "consumer_process (ext_env sim_env) text_codec repo (js_encode text_codec (auth_session_doc (login_event j t))) =
      do { err \<leftarrow> dr_SaveDeviceSession repo (event_session (login_event j t) t);
           State_Monad.return (case err of Some e \<Rightarrow> SaveError e | None \<Rightarrow> DeviceSessionPersisted) }" for repo :: "sim_proc device_session_repo" and j t
    by (simp add: consumer_process_def dec docs) (simp add: login_event_def parse)
  show ?thesis
    unfolding Let_def step
    by (simp add: NewPostgresDeviceSessionRepository_def sim_pool_def sim_start_def sim0_def empty_pg_def event_session_def login_event_def
        stored_device_def same_device_def merge_device_def strPtrIfNonEmpty_def pg_time_def)
qed

end
