(* ===== verification/Grpc_Server.thy ===== *)
theory Grpc_Server imports Auth_Service Kafka_Consumer Rate_Limiter begin

text \<open>
  The gRPC side: \<open>internal/grpc/interceptor\<close>, \<open>internal/grpc/server\<close> and
  \<open>internal/resilience/idempotency_guard.go\<close>.

  The message types are generated code; \<open>grpc_req\<close> and \<open>grpc_resp\<close> list the fields the handlers
  read and set. A handler either returns, a response or a status error, or panics; an
  interceptor is a function of the handler it wraps.
\<close>

section \<open>Calls and outcomes\<close>

datatype grpc_code =
    OK | Canceled | Unknown | InvalidArgument | DeadlineExceeded | NotFound | AlreadyExists | PermissionDenied
  | ResourceExhausted | FailedPrecondition | Aborted | OutOfRange | Unimplemented | Internal | Unavailable | DataLoss
  | Unauthenticated

fun code_int :: "grpc_code \<Rightarrow> int" where
  "code_int OK = 0" | "code_int Canceled = 1" | "code_int Unknown = 2" | "code_int InvalidArgument = 3"
| "code_int DeadlineExceeded = 4" | "code_int NotFound = 5" | "code_int AlreadyExists = 6" | "code_int PermissionDenied = 7"
| "code_int ResourceExhausted = 8" | "code_int FailedPrecondition = 9" | "code_int Aborted = 10" | "code_int OutOfRange = 11"
| "code_int Unimplemented = 12" | "code_int Internal = 13" | "code_int Unavailable = 14" | "code_int DataLoss = 15"
| "code_int Unauthenticated = 16"

text \<open>A status error carries its code as a number, which need not be one of the named ones.\<close>

record grpc_status =
  st_Code :: int
  st_Message :: string

definition status_Error :: "grpc_code \<Rightarrow> string \<Rightarrow> grpc_status" where
  "status_Error c msg = \<lparr>st_Code = code_int c, st_Message = msg\<rparr>"

datatype login_method = LOGIN_METHOD_KRATOS_ID | LOGIN_METHOD_GOOGLE | OtherLoginMethod

record login_request =
  lq_Method :: login_method
  lq_KratosId :: string
  lq_Email :: string
  lq_DeviceId :: string
  lq_RememberMe :: bool
  lq_UserAgent :: string
  lq_Ip :: string

datatype grpc_req =
    SignupRequest string
  | LoginRequest login_request
  | RefreshRequest string
  | LogoutRequest string
  | LogoutAllRequest string
  | VerifyRequest string
  | GoogleLoginRequest login_request

datatype grpc_resp =
    SignupResponse string string
  | LoginResponse string string
  | RefreshResponse string string
  | LogoutResponse
  | LogoutAllResponse
  | VerifyResponse string string int
  | GoogleLoginResponse string string

record grpc_call =
  gc_FullMethod :: string
  gc_Metadata :: "(string \<Rightarrow> string list) option"
  gc_RequestID :: string
  gc_Req :: grpc_req

datatype outcome = Returned "grpc_status + grpc_resp" | Panicked string

type_synonym 'w unary_handler = "grpc_call \<Rightarrow> ('w, outcome) io"
type_synonym 'w interceptor = "'w unary_handler \<Rightarrow> 'w unary_handler"

definition fails :: "grpc_code \<Rightarrow> string \<Rightarrow> ('w, outcome) io" where
  "fails c msg = State_Monad.return (Returned (Inl (status_Error c msg)))"

definition chain :: "'w interceptor list \<Rightarrow> 'w unary_handler \<Rightarrow> 'w unary_handler" where
  "chain is h = foldr (\<lambda>i k. i k) is h"

lemma chain_simps [simp]: "chain [] h = h" "chain (i # is) h = i (chain is h)"
  by (simp_all add: chain_def)

text \<open>\<open>md.Get\<close> on the metadata of the call; without metadata there is no value.\<close>

definition md_values :: "grpc_call \<Rightarrow> string \<Rightarrow> string list" where
  "md_values c k = (case gc_Metadata c of None \<Rightarrow> [] | Some md \<Rightarrow> md k)"

definition md_first :: "grpc_call \<Rightarrow> string \<Rightarrow> string" where
  "md_first c k = (case md_values c k of v # _ \<Rightarrow> v | [] \<Rightarrow> [])"

section \<open>Interceptors\<close>

definition Recovery :: "'w interceptor" where
  "Recovery handler c = do {
     r \<leftarrow> handler c;
     State_Monad.return (case r of Panicked _ \<Rightarrow> Returned (Inl (status_Error Internal ''internal server error'')) | _ \<Rightarrow> r)
   }"

definition newRequestID :: "'w go_env \<Rightarrow> ('w, string) io" where
  "newRequestID E = do {
     b \<leftarrow> env_rand E 8;
     State_Monad.return (hex_bytes (case b of Inl _ \<Rightarrow> replicate 8 0 | Inr b \<Rightarrow> b))
   }"

definition WithRequestID :: "string \<Rightarrow> grpc_call \<Rightarrow> grpc_call" where
  "WithRequestID i c = c\<lparr>gc_RequestID := i\<rparr>"

definition RequestID :: "'w go_env \<Rightarrow> 'w interceptor" where
  "RequestID E handler c = do {
     rid \<leftarrow> (if md_first c ''x-request-id'' = [] then newRequestID E else State_Monad.return (md_first c ''x-request-id''));
     handler (WithRequestID rid c)
   }"

definition ServiceAuth :: "string \<Rightarrow> 'w interceptor" where
  "ServiceAuth expected handler c =
     (case gc_Metadata c of
        None \<Rightarrow> fails Unauthenticated ''missing metadata''
      | Some md \<Rightarrow>
          (case md ''x-service-key'' of
             [] \<Rightarrow> fails Unauthenticated ''missing x-service-key''
           | v # _ \<Rightarrow> if v \<noteq> expected then fails Unauthenticated ''invalid service key'' else handler c))"

definition status_Code :: "(grpc_status + grpc_resp) \<Rightarrow> int" where
  "status_Code r = (case r of Inl st \<Rightarrow> st_Code st | Inr _ \<Rightarrow> 0)"

text \<open>
  The two interceptors that only watch. A panic of the handler unwinds through both: nothing is
  counted and nothing is logged then.
\<close>

definition Prometheus :: "'w go_env \<Rightarrow> 'w telemetry \<Rightarrow> 'w interceptor" where
  "Prometheus E T handler c = do {
     start \<leftarrow> env_now E;
     r \<leftarrow> handler c;
     case r of
       Panicked p \<Rightarrow> State_Monad.return (Panicked p)
     | Returned res \<Rightarrow> do {
         now \<leftarrow> env_now E;
         tl_Inc T grpcRequestsTotal [gc_FullMethod c, tl_Code T (status_Code res)];
         tl_Observe T grpcRequestDuration [gc_FullMethod c] (time_sub now start);
         State_Monad.return (Returned res)
       }
   }"

definition Logging :: "'w go_env \<Rightarrow> 'w telemetry \<Rightarrow> 'w interceptor" where
  "Logging E T handler c = do {
     start \<leftarrow> env_now E;
     r \<leftarrow> handler c;
     case r of
       Panicked p \<Rightarrow> State_Monad.return (Panicked p)
     | Returned res \<Rightarrow> do {
         now \<leftarrow> env_now E;
         tl_Printf T [gc_FullMethod c, gc_RequestID c, tl_Code T (status_Code res)] (time_sub now start);
         State_Monad.return (Returned res)
       }
   }"

definition grpcCodeToHTTP :: "int \<Rightarrow> int" where
  "grpcCodeToHTTP code =
     (if code = code_int OK then 200
      else if code = code_int InvalidArgument \<or> code = code_int FailedPrecondition \<or> code = code_int OutOfRange then 400
      else if code = code_int Unauthenticated then 401
      else if code = code_int PermissionDenied then 403
      else if code = code_int NotFound then 404
      else if code = code_int AlreadyExists then 409
      else if code = code_int ResourceExhausted then 429
      else if code = code_int Unimplemented then 501
      else if code = code_int Unavailable then 503
      else 500)"

definition KafkaAccessLog :: "'w go_env \<Rightarrow> 'w event_publisher \<Rightarrow> 'w interceptor" where
  "KafkaAccessLog E publisher handler c = do {
     start \<leftarrow> env_now E;
     r \<leftarrow> handler c;
     case r of
       Panicked p \<Rightarrow> State_Monad.return (Panicked p)
     | Returned res \<Rightarrow> do {
         done_at \<leftarrow> env_now E;
         now \<leftarrow> env_now E;
         pub_Publish publisher \<lparr>al_Path = gc_FullMethod c, al_StatusCode = grpcCodeToHTTP (status_Code res),
           al_LatencyMs = go_div (time_sub done_at start) millisecond, al_UserID = md_first c ''x-kratos-id'',
           al_Timestamp = env_format E now\<rparr>;
         State_Monad.return (Returned res)
       }
   }"

text \<open>\<open>allow\<close> is the \<open>Allow\<close> of the token bucket that the interceptor created.\<close>

definition RateLimit :: "int \<Rightarrow> ('w, bool) io \<Rightarrow> 'w interceptor" where
  "RateLimit requestsPerMinute allow handler c =
     (if requestsPerMinute \<le> 0 then handler c
      else do {
        ok \<leftarrow> allow;
        if \<not> ok then fails ResourceExhausted ''rate limit exceeded'' else handler c
      })"

definition RateLimitMethods :: "(string \<times> int) list \<Rightarrow> (string \<Rightarrow> ('w, bool) io) \<Rightarrow> 'w interceptor" where
  "RateLimitMethods methodLimits allow handler c =
     (case map_of (filter (\<lambda>(m, rpm). rpm > 0) methodLimits) (gc_FullMethod c) of
        None \<Rightarrow> handler c
      | Some _ \<Rightarrow> do {
          ok \<leftarrow> allow (gc_FullMethod c);
          if \<not> ok then fails ResourceExhausted ''rate limit exceeded'' else handler c
        })"

subsection \<open>Idempotency\<close>

record 'w idempotency_cache =
  ic_Get :: "string \<Rightarrow> ('w, string result) io"
  ic_Set :: "string \<Rightarrow> string \<Rightarrow> int \<Rightarrow> ('w, error option) io"

definition idempotencyTTL :: int where "idempotencyTTL = 5 * minute"

definition idempotencyMethods :: "string list" where
  "idempotencyMethods = [''/auth.v1.AuthService/Signup'', ''/auth.v1.AuthService/Login'']"

text \<open>\<open>cachedResponse\<close>: the code is an \<open>int32\<close>; the body is never set, and a nil slice is \<open>null\<close>.\<close>

definition cached_doc :: "int \<Rightarrow> json" where
  "cached_doc code = JObj [(''code'', JNum code), (''body'', JNull)]"

definition unmarshal_cached :: "(string \<Rightarrow> bool) \<Rightarrow> json \<Rightarrow> int result" where
  "unmarshal_cached is_base64 j =
     res_bind (unmarshal_object j) (\<lambda>kvs.
     res_bind (unmarshal_int64 ''code'' kvs) (\<lambda>code.
       if code < - (2 ^ 31) \<or> 2 ^ 31 \<le> code then Inl (unmarshal_error ''int32'')
       else case js_field ''body'' kvs of
         None \<Rightarrow> Inr code
       | Some JNull \<Rightarrow> Inr code
       | Some (JStr s) \<Rightarrow> if is_base64 s then Inr code else Inl (unmarshal_error ''[]uint8'')
       | Some (JArr xs) \<Rightarrow> if list_all (\<lambda>x. x = JNull \<or> (case x of JNum n \<Rightarrow> 0 \<le> n \<and> n < 256 | _ \<Rightarrow> False)) xs then Inr code
           else Inl (unmarshal_error ''[]uint8'')
       | Some _ \<Rightarrow> Inl (unmarshal_error ''[]uint8'')))"

definition idempotency_key :: "grpc_call \<Rightarrow> string \<Rightarrow> string" where
  "idempotency_key c k = ''idempotency:'' @ gc_FullMethod c @ '':'' @ k"

definition run_and_cache :: "json_codec \<Rightarrow> 'w idempotency_cache \<Rightarrow> string \<Rightarrow> ('w, outcome) io \<Rightarrow> ('w, outcome) io" where
  "run_and_cache J rdb ikey handle = do {
     r \<leftarrow> handle;
     case r of
       Panicked p \<Rightarrow> State_Monad.return (Panicked p)
     | Returned res \<Rightarrow> do {
         (if status_Code res \<noteq> code_int Internal then ic_Set rdb ikey (js_encode J (cached_doc (i32 (status_Code res)))) idempotencyTTL
          else State_Monad.return None);
         State_Monad.return (Returned res)
       }
   }"

definition Idempotency :: "json_codec \<Rightarrow> (string \<Rightarrow> bool) \<Rightarrow> 'w idempotency_cache \<Rightarrow> 'w interceptor" where
  "Idempotency J is_base64 rdb handler c =
     (if gc_FullMethod c \<notin> set idempotencyMethods then handler c
      else if md_first c ''x-idempotency-key'' = [] then handler c
      else
        let ikey = idempotency_key c (md_first c ''x-idempotency-key'') in do {
          raw \<leftarrow> ic_Get rdb ikey;
          case raw of
            Inl err \<Rightarrow> if \<not> errors_Is err RedisNil then handler c else run_and_cache J rdb ikey (handler c)
          | Inr text \<Rightarrow>
              (case res_bind (js_decode J text) (unmarshal_cached is_base64) of
                 Inl _ \<Rightarrow> run_and_cache J rdb ikey (handler c)
               | Inr code \<Rightarrow>
                   if code = 0 then run_and_cache J rdb ikey (handler c)
                   else State_Monad.return (Returned (Inl \<lparr>st_Code = code mod 2 ^ 32, st_Message = ''idempotent replay''\<rparr>)))
        })"

text \<open>\<open>ResilientIdempotencyCache\<close>.\<close>

definition ric_Get :: "('d, 'w) redis_client \<Rightarrow> 'w circuit_breaker \<Rightarrow> string \<Rightarrow> ('w, string result) io" where
  "ric_Get rdb cb key = do {
     allowed \<leftarrow> cbi_Allow cb;
     if \<not> allowed then State_Monad.return (Inl (Sentinel RedisNil))
     else do {
       r \<leftarrow> rc_do rdb (CGet key);
       (case cmd_err r of
          Some err \<Rightarrow> if \<not> errors_Is err RedisNil \<and> is_infra_error (Some err) then cbi_RecordFailure cb else cbi_RecordSuccess cb
        | None \<Rightarrow> cbi_RecordSuccess cb);
       State_Monad.return (bulk_of r)
     }
   }"

definition ric_Set :: "('d, 'w) redis_client \<Rightarrow> 'w circuit_breaker \<Rightarrow> string \<Rightarrow> string \<Rightarrow> int \<Rightarrow> ('w, error option) io" where
  "ric_Set rdb cb key value expiration = do {
     allowed \<leftarrow> cbi_Allow cb;
     if \<not> allowed then State_Monad.return None
     else do {
       r \<leftarrow> rc_do rdb (CSet key value expiration);
       (if is_infra_error (cmd_err r) then cbi_RecordFailure cb else cbi_RecordSuccess cb);
       State_Monad.return (cmd_err r)
     }
   }"

definition NewResilientIdempotencyCache :: "('d, 'w) redis_client \<Rightarrow> 'w circuit_breaker \<Rightarrow> 'w idempotency_cache" where
  "NewResilientIdempotencyCache rdb cb = \<lparr>ic_Get = ric_Get rdb cb, ic_Set = ric_Set rdb cb\<rparr>"

section \<open>AuthServer\<close>

definition domainToGRPCStatus :: "error \<Rightarrow> grpc_status" where
  "domainToGRPCStatus err =
     (if errors_Is err ErrInvalidCredentials then status_Error Unauthenticated ''invalid credentials''
      else if errors_Is err ErrInvalidToken then status_Error Unauthenticated ''invalid or expired token''
      else if errors_Is err ErrEmailConflict then status_Error AlreadyExists ''email already registered''
      else status_Error Internal ''internal server error'')"

definition nilIfEmpty :: "string \<Rightarrow> string option" where
  "nilIfEmpty s = (if s = [] then None else Some s)"

text \<open>The masked address is only logged.\<close>

definition maskEmail :: "string \<Rightarrow> string" where
  "maskEmail email =
     (if CHR ''@'' \<notin> set email then ''***''
      else
        let (local_part, domain) = cut_on (CHR ''@'') email in
        if length local_part > 3 then take 3 email @ ''...@'' @ domain else ''***@'' @ domain)"

definition answers_with :: "('a \<Rightarrow> grpc_resp) \<Rightarrow> 'a result \<Rightarrow> outcome" where
  "answers_with f r = Returned (case r of Inl err \<Rightarrow> Inl (domainToGRPCStatus err) | Inr x \<Rightarrow> Inr (f x))"

definition server_Signup :: "'w auth_service_i \<Rightarrow> string \<Rightarrow> ('w, outcome) io" where
  "server_Signup svc email =
     (if email = [] then fails InvalidArgument ''email is required''
      else do { r \<leftarrow> au_Signup svc email; State_Monad.return (answers_with (\<lambda>i. SignupResponse i email) r) })"

definition server_Login :: "'w auth_service_i \<Rightarrow> login_request \<Rightarrow> ('w, outcome) io" where
  "server_Login svc req =
     (case lq_Method req of
        LOGIN_METHOD_KRATOS_ID \<Rightarrow>
          if lq_KratosId req = [] then fails InvalidArgument ''kratos_id is required for KRATOS_ID method''
          else do {
            r \<leftarrow> au_Login svc (lq_KratosId req) (lq_DeviceId req) (lq_RememberMe req) (nilIfEmpty (lq_UserAgent req)) (nilIfEmpty (lq_Ip req));
            State_Monad.return (answers_with (\<lambda>(a, t). LoginResponse a t) r)
          }
      | LOGIN_METHOD_GOOGLE \<Rightarrow>
          if lq_Email req = [] then fails InvalidArgument ''email is required for GOOGLE method''
          else do {
            r \<leftarrow> au_GoogleLogin svc (lq_Email req) (lq_DeviceId req) (lq_RememberMe req) (nilIfEmpty (lq_UserAgent req)) (nilIfEmpty (lq_Ip req));
            State_Monad.return (answers_with (\<lambda>(a, t). LoginResponse a t) r)
          }
      | OtherLoginMethod \<Rightarrow> fails InvalidArgument ''login method is required'')"

definition server_Refresh :: "'w auth_service_i \<Rightarrow> string \<Rightarrow> ('w, outcome) io" where
  "server_Refresh svc tok =
     (if tok = [] then fails InvalidArgument ''refresh_token is required''
      else do { r \<leftarrow> au_Refresh svc tok; State_Monad.return (answers_with (\<lambda>(a, t). RefreshResponse a t) r) })"

definition unit_result :: "error option \<Rightarrow> unit result" where
  "unit_result err = (case err of Some e \<Rightarrow> Inl e | None \<Rightarrow> Inr ())"

definition server_Logout :: "'w auth_service_i \<Rightarrow> string \<Rightarrow> ('w, outcome) io" where
  "server_Logout svc tok =
     (if tok = [] then fails InvalidArgument ''refresh_token is required''
      else do { err \<leftarrow> au_Logout svc tok; State_Monad.return (answers_with (\<lambda>_. LogoutResponse) (unit_result err)) })"

definition server_LogoutAll :: "'w auth_service_i \<Rightarrow> string \<Rightarrow> ('w, outcome) io" where
  "server_LogoutAll svc tok =
     (if tok = [] then fails InvalidArgument ''refresh_token is required''
      else do { err \<leftarrow> au_LogoutAll svc tok; State_Monad.return (answers_with (\<lambda>_. LogoutAllResponse) (unit_result err)) })"

definition server_Verify :: "'w auth_service_i \<Rightarrow> string \<Rightarrow> ('w, outcome) io" where
  "server_Verify svc tok =
     (if tok = [] then fails InvalidArgument ''access_token is required''
      else do {
        r \<leftarrow> au_VerifyToken svc tok;
        State_Monad.return (answers_with (\<lambda>v. VerifyResponse (vr_KratosID v) (vr_DeviceID v) (vr_ExpiresAt v)) r)
      })"

definition server_GoogleLogin :: "'w auth_service_i \<Rightarrow> login_request \<Rightarrow> ('w, outcome) io" where
  "server_GoogleLogin svc req =
     (if lq_Email req = [] then fails InvalidArgument ''email is required''
      else do {
        r \<leftarrow> au_GoogleLogin svc (lq_Email req) (lq_DeviceId req) (lq_RememberMe req) (nilIfEmpty (lq_UserAgent req)) (nilIfEmpty (lq_Ip req));
        State_Monad.return (answers_with (\<lambda>(a, t). GoogleLoginResponse a t) r)
      })"

text \<open>The generated dispatch hands each request message to its method.\<close>

definition AuthServer :: "'w auth_service_i \<Rightarrow> 'w unary_handler" where
  "AuthServer svc c =
     (case gc_Req c of
        SignupRequest email \<Rightarrow> server_Signup svc email
      | LoginRequest r \<Rightarrow> server_Login svc r
      | RefreshRequest tok \<Rightarrow> server_Refresh svc tok
      | LogoutRequest tok \<Rightarrow> server_Logout svc tok
      | LogoutAllRequest tok \<Rightarrow> server_LogoutAll svc tok
      | VerifyRequest tok \<Rightarrow> server_Verify svc tok
      | GoogleLoginRequest r \<Rightarrow> server_GoogleLogin svc r)"

section \<open>The interceptor chain\<close>

text \<open>
  The nine stages of \<open>main\<close>; \<open>allow\<close> and \<open>allow_method\<close> are the token buckets that the two
  limiters made.
\<close>

definition grpc_interceptors ::
    "'w go_env \<Rightarrow> 'w telemetry \<Rightarrow> string \<Rightarrow> 'w event_publisher \<Rightarrow> int \<Rightarrow> ('w, bool) io \<Rightarrow> (string \<Rightarrow> ('w, bool) io) \<Rightarrow> json_codec \<Rightarrow>
      (string \<Rightarrow> bool) \<Rightarrow> 'w idempotency_cache \<Rightarrow> 'w interceptor list" where
  "grpc_interceptors E T key publisher rpm allow allow_method J is_base64 cache =
     [Recovery, Prometheus E T, RequestID E, Logging E T, ServiceAuth key, KafkaAccessLog E publisher, RateLimit rpm allow,
      RateLimitMethods [(''/auth.v1.AuthService/Logout'', 10), (''/auth.v1.AuthService/LogoutAll'', 5)] allow_method,
      Idempotency J is_base64 cache]"

text \<open>What a call does, as events.\<close>

datatype grpc_event =
    HandlerRun grpc_call outcome
  | Published access_log_event
  | LimiterAsked bool
  | CacheGet string "string result"
  | CacheSet string string int "error option"

definition rec_unary :: "'w unary_handler \<Rightarrow> ('w \<times> grpc_event list) unary_handler" where
  "rec_unary h c = recorded (HandlerRun c) (h c)"

definition rec_access :: "'w event_publisher \<Rightarrow> ('w \<times> grpc_event list) event_publisher" where
  "rec_access p = \<lparr>pub_Publish = (\<lambda>e. recorded (\<lambda>_. Published e) (pub_Publish p e)),
     pub_PublishAuthSession = (\<lambda>e. silent (pub_PublishAuthSession p e)),
     pub_PublishBlacklistSync = (\<lambda>e. silent (pub_PublishBlacklistSync p e)), pub_Close = silent (pub_Close p)\<rparr>"

definition rec_cache :: "'w idempotency_cache \<Rightarrow> ('w \<times> grpc_event list) idempotency_cache" where
  "rec_cache r = \<lparr>ic_Get = (\<lambda>k. recorded (CacheGet k) (ic_Get r k)), ic_Set = (\<lambda>k v t. recorded (CacheSet k v t) (ic_Set r k v t))\<rparr>"

definition rec_chain ::
    "'w go_env \<Rightarrow> 'w telemetry \<Rightarrow> string \<Rightarrow> 'w event_publisher \<Rightarrow> int \<Rightarrow> ('w, bool) io \<Rightarrow> (string \<Rightarrow> ('w, bool) io) \<Rightarrow> json_codec \<Rightarrow>
      (string \<Rightarrow> bool) \<Rightarrow> 'w idempotency_cache \<Rightarrow> ('w \<times> grpc_event list) interceptor list" where
  "rec_chain E T key publisher rpm allow allow_method J b64 cache =
     grpc_interceptors (silent_env E) (silent_telemetry T) key (rec_access publisher) rpm (recorded LimiterAsked allow)
       (\<lambda>m. recorded LimiterAsked (allow_method m)) J b64 (rec_cache cache)"

fun published :: "grpc_event \<Rightarrow> bool" where
  "published (Published e) = True" | "published _ = False"

fun handled :: "grpc_event \<Rightarrow> bool" where
  "handled (HandlerRun c r) = True" | "handled _ = False"

fun panicked :: "grpc_event \<Rightarrow> bool" where
  "panicked (HandlerRun c (Panicked p)) = True" | "panicked _ = False"

definition count :: "('e \<Rightarrow> bool) \<Rightarrow> 'e list \<Rightarrow> nat" where
  "count P l = length (filter P l)"

lemma count_simps [simp]:
  "count P [] = 0" "count P (e # l) = (if P e then 1 else 0) + count P l" "count P (l @ l') = count P l + count P l'"
  by (simp_all add: count_def)

text \<open>
  Inside the access log: the handler runs at most once, nothing is published, and a panic is a
  panic of the handler.
\<close>

definition inside :: "grpc_event list \<Rightarrow> outcome \<Rightarrow> grpc_event list \<Rightarrow> bool" where
  "inside l0 r l \<longleftrightarrow> (\<exists>l1. l = l0 @ l1 \<and> count published l1 = 0 \<and> count handled l1 \<le> 1 \<and>
     count panicked l1 = (case r of Panicked _ \<Rightarrow> 1 | Returned _ \<Rightarrow> 0))"

definition quiet :: "('w \<times> grpc_event list) unary_handler \<Rightarrow> bool" where
  "quiet h \<longleftrightarrow> (\<forall>c w l0. wp (h c) (\<lambda>r wl. inside l0 r (snd wl)) (w, l0))"

lemma quietD: "quiet h \<Longrightarrow> wp (h c) (\<lambda>r wl. inside l0 r (snd wl)) (w, l0)"
  by (simp add: quiet_def)

lemma inside_return [simp]: "inside l0 (Returned x) l0"
  by (simp add: inside_def)

lemma inside_snoc: "inside (l0 @ [e]) r l \<Longrightarrow> \<not> published e \<Longrightarrow> \<not> handled e \<Longrightarrow> inside l0 r l"
  unfolding inside_def by (elim exE, rule_tac x = "e # l1" in exI) (cases e; simp)

lemma inside_end: "inside l0 (Returned x) l \<Longrightarrow> \<not> published e \<Longrightarrow> \<not> handled e \<Longrightarrow> inside l0 (Returned x) (l @ [e])"
  unfolding inside_def by (cases e) auto

lemma quiet_unary: "quiet (rec_unary h)"
proof -
  have "inside l0 r (l0 @ [HandlerRun c r])" for l0 c r
    by (cases r) (auto simp: inside_def)
  then show ?thesis
    by (simp add: quiet_def rec_unary_def wp_def run_recorded split: prod.splits)
qed

text \<open>An event in front of the handler, and an answer given without it.\<close>

lemma quiet_after: "quiet h \<Longrightarrow> \<not> published e \<Longrightarrow> \<not> handled e \<Longrightarrow> wp (h c) (\<lambda>r wl. inside l0 r (snd wl)) (w, l0 @ [e])"
  by (rule wp_mono [OF quietD [of h]]) (auto dest: inside_snoc)

lemma inside_refused: "\<not> published e \<Longrightarrow> \<not> handled e \<Longrightarrow> inside l0 (Returned x) (l0 @ [e])"
  by (rule inside_end) simp_all

lemmas inside_events =
  quiet_after [where e = "LimiterAsked b" for b, simplified] quiet_after [where e = "CacheGet k x" for k x, simplified]
  inside_refused [where e = "LimiterAsked b" for b, simplified] inside_refused [where e = "CacheGet k x" for k x, simplified]
  inside_end [where e = "CacheSet k v t x" for k v t x, simplified]

lemma quiet_RateLimit: "quiet h \<Longrightarrow> quiet (RateLimit rpm (recorded LimiterAsked allow) h)"
  unfolding quiet_def [of "RateLimit rpm (recorded LimiterAsked allow) h"] RateLimit_def fails_def
  by (auto intro!: wp_steps recorded_wp intro: quietD inside_events)

lemma quiet_RateLimitMethods: "quiet h \<Longrightarrow> quiet (RateLimitMethods ms (\<lambda>m. recorded LimiterAsked (allow m)) h)"
  unfolding quiet_def [of "RateLimitMethods ms (\<lambda>m. recorded LimiterAsked (allow m)) h"] RateLimitMethods_def fails_def
  by (auto intro!: wp_steps recorded_wp intro: quietD inside_events)

lemma run_and_cache_inside:
  assumes "quiet h"
  shows "wp (run_and_cache J (rec_cache cache) k (h c)) (\<lambda>r wl. inside l0 r (snd wl)) (w, l0 @ [CacheGet k' x])"
  unfolding run_and_cache_def rec_cache_def idempotency_cache.simps
proof (rule wp_bindI, rule wp_mono [OF quiet_after [OF assms, of "CacheGet k' x"]])
  fix r and wl :: "'a \<times> grpc_event list"
  assume "inside l0 r (snd wl)"
  then show "wp (case r of Panicked p \<Rightarrow> State_Monad.return (Panicked p)
      | Returned res \<Rightarrow> do {
          (if status_Code res \<noteq> code_int Internal then recorded (CacheSet k (js_encode J (cached_doc (i32 (status_Code res)))) idempotencyTTL)
              (ic_Set cache k (js_encode J (cached_doc (i32 (status_Code res)))) idempotencyTTL)
           else State_Monad.return None);
          State_Monad.return (Returned res)
        }) (\<lambda>r wl. inside l0 r (snd wl)) wl"
    by (cases r) (auto intro!: wp_steps recorded_wp intro: inside_events)
qed simp_all

lemma quiet_Idempotency: "quiet h \<Longrightarrow> quiet (Idempotency J b64 (rec_cache cache) h)"
  unfolding quiet_def [of "Idempotency J b64 (rec_cache cache) h"] Idempotency_def Let_def
  apply (intro allI wp_steps)
   apply (auto intro: quietD)[2]
  apply (simp only: rec_cache_def idempotency_cache.simps)
  apply (rule recorded_wp)
  apply (auto intro!: wp_steps intro: inside_events run_and_cache_inside [unfolded rec_cache_def])
  done

text \<open>The access log around a quiet handler.\<close>

definition logged :: "grpc_call \<Rightarrow> outcome \<Rightarrow> grpc_event list \<Rightarrow> bool" where
  "logged c r l \<longleftrightarrow> count handled l \<le> 1 \<and>
     (case r of
        Panicked p \<Rightarrow> count panicked l = 1 \<and> count published l = 0
      | Returned res \<Rightarrow> count panicked l = 0 \<and> (\<exists>pre e. l = pre @ [Published e] \<and> count published pre = 0 \<and>
          al_Path e = gc_FullMethod c \<and> al_StatusCode e = grpcCodeToHTTP (status_Code res) \<and> al_UserID e = md_first c ''x-kratos-id''))"

lemma access_log_wp:
  assumes "quiet h"
  shows "wp (KafkaAccessLog (silent_env E) (rec_access p) h c) (\<lambda>r wl. logged c r (snd wl)) (w, [])"
  unfolding KafkaAccessLog_def
proof (rule wp_bindI, simp only: silent_env_def go_env.simps, rule silent_wp, rule wp_bindI, simp only: snd_conv,
    rule wp_mono [OF quietD [OF assms]])
  fix start r and wl :: "'a \<times> grpc_event list"
  assume "inside [] r (snd wl)"
  then show "wp (case r of Panicked p \<Rightarrow> State_Monad.return (Panicked p)
      | Returned res \<Rightarrow> do {
          done_at \<leftarrow> silent (env_now E);
          now \<leftarrow> silent (env_now E);
          pub_Publish (rec_access p) \<lparr>al_Path = gc_FullMethod c, al_StatusCode = grpcCodeToHTTP (status_Code res),
            al_LatencyMs = go_div (time_sub done_at start) millisecond, al_UserID = md_first c ''x-kratos-id'',
            al_Timestamp = env_format E now\<rparr>;
          State_Monad.return (Returned res)
        }) (\<lambda>r wl. logged c r (snd wl)) wl"
    by (cases r) (auto intro!: wp_steps silent_wp recorded_wp simp: rec_access_def logged_def inside_def)
qed

definition presents_key :: "string \<Rightarrow> grpc_call \<Rightarrow> bool" where
  "presents_key key c \<longleftrightarrow> (case md_values c ''x-service-key'' of v # _ \<Rightarrow> v = key | [] \<Rightarrow> False)"

text \<open>What a caller sees of a call and what the call did.\<close>

definition accounted :: "string \<Rightarrow> grpc_call \<Rightarrow> outcome \<Rightarrow> grpc_event list \<Rightarrow> bool" where
  "accounted key c r l \<longleftrightarrow>
     (if \<not> presents_key key c then l = [] \<and> (\<exists>msg. r = Returned (Inl (status_Error Unauthenticated msg)))
      else count handled l \<le> 1 \<and>
        (if count panicked l = 0 then \<exists>res pre e. r = Returned res \<and> l = pre @ [Published e] \<and> count published pre = 0 \<and>
            al_Path e = gc_FullMethod c \<and> al_StatusCode e = grpcCodeToHTTP (status_Code res) \<and> al_UserID e = md_first c ''x-kratos-id''
         else r = Returned (Inl (status_Error Internal ''internal server error'')) \<and> count published l = 0))"

lemma service_auth_wp:
  assumes "\<And>w. wp (h c) (\<lambda>r wl. logged c r (snd wl)) (w, [])"
  shows "wp (ServiceAuth key h c) (\<lambda>r wl. if presents_key key c then logged c r (snd wl)
      else snd wl = [] \<and> (\<exists>msg. r = Returned (Inl (status_Error Unauthenticated msg)))) (w, [])"
  unfolding ServiceAuth_def fails_def presents_key_def md_values_def
  using assms by (auto simp: wp_return split: option.split list.split)

text \<open>The observers keep what is known of the handler's outcome and of what it did.\<close>

lemma observers_wp:
  assumes "\<And>w. wp (h c) (\<lambda>r wl. Q r (snd wl)) (w, l)"
  shows "wp (Prometheus (silent_env E) (silent_telemetry T) h c) (\<lambda>r wl. Q r (snd wl)) (w, l)"
    and "wp (Logging (silent_env E) (silent_telemetry T) h c) (\<lambda>r wl. Q r (snd wl)) (w, l)"
proof -
  have tail: "wp (case r of Panicked p \<Rightarrow> State_Monad.return (Panicked p)
      | Returned res \<Rightarrow> State_Monad.bind (silent m) (\<lambda>t. f t res)) (\<lambda>r wl. Q r (snd wl)) wl"
    if "Q r (snd wl)" "\<And>t res w. Q (Returned res) (snd wl) \<Longrightarrow> wp (f t res) (\<lambda>r wl. Q r (snd wl)) (w, snd wl)"
    for r m f and wl :: "'a \<times> 'b list"
    using that by (cases r) (auto intro!: wp_steps silent_wp)
  show "wp (Prometheus (silent_env E) (silent_telemetry T) h c) (\<lambda>r wl. Q r (snd wl)) (w, l)"
    unfolding Prometheus_def silent_env_def silent_telemetry_def go_env.simps telemetry.simps
    by (rule wp_bindI, rule silent_wp, rule wp_bindI, simp only: snd_conv, rule wp_mono [OF assms], rule tail, assumption)
      (intro wp_steps silent_wp, simp)
  show "wp (Logging (silent_env E) (silent_telemetry T) h c) (\<lambda>r wl. Q r (snd wl)) (w, l)"
    unfolding Logging_def silent_env_def silent_telemetry_def go_env.simps telemetry.simps
    by (rule wp_bindI, rule silent_wp, rule wp_bindI, simp only: snd_conv, rule wp_mono [OF assms], rule tail, assumption)
      (intro wp_steps silent_wp, simp)
qed

lemma WithRequestID_facts:
  "gc_FullMethod (WithRequestID i c) = gc_FullMethod c" "md_values (WithRequestID i c) = md_values c"
  "md_first (WithRequestID i c) = md_first c"
  by (simp_all add: WithRequestID_def md_first_def md_values_def fun_eq_iff)

text \<open>
  C17. Every gRPC call passes the service key first and is accounted for. Without the key the
  answer is \<open>Unauthenticated\<close> and nothing else happens: no limiter, cache, handler or access
  log entry. With it the handler runs at most once, no call ends in a panic, and exactly one
  access log entry is published, last, with the status the caller gets; only when the handler
  panics is the entry missing, and the answer is \<open>Internal\<close>.
\<close>

theorem grpc_call_accounted:
  "wp (chain (rec_chain E T key publisher rpm allow allow_method J b64 cache) (rec_unary h) c)
     (\<lambda>r wl. accounted key c r (snd wl)) (w, [])"
proof -
  let ?inner = "RateLimit rpm (recorded LimiterAsked allow) (RateLimitMethods [(''/auth.v1.AuthService/Logout'', 10),
      (''/auth.v1.AuthService/LogoutAll'', 5)] (\<lambda>m. recorded LimiterAsked (allow_method m)) (Idempotency J b64 (rec_cache cache) (rec_unary h)))"
  have q: "quiet ?inner"
    by (intro quiet_RateLimit quiet_RateLimitMethods quiet_Idempotency quiet_unary)
  have auth: "wp (ServiceAuth key (KafkaAccessLog (silent_env E) (rec_access publisher) ?inner) c')
      (\<lambda>r wl. if presents_key key c' then logged c' r (snd wl)
        else snd wl = [] \<and> (\<exists>msg. r = Returned (Inl (status_Error Unauthenticated msg)))) (w, [])" for c' w
    by (rule service_auth_wp, rule access_log_wp [OF q])
  have rid: "presents_key key (WithRequestID i c) = presents_key key c" "logged (WithRequestID i c) = logged c" for i
    unfolding presents_key_def logged_def WithRequestID_facts by (rule refl)+
  let ?Q = "\<lambda>r l. if presents_key key c then logged c r l else l = [] \<and> (\<exists>msg. r = Returned (Inl (status_Error Unauthenticated msg)))"
  let ?auth = "ServiceAuth key (KafkaAccessLog (silent_env E) (rec_access publisher) ?inner)"
  have auth': "wp (Logging (silent_env E) (silent_telemetry T) ?auth (WithRequestID i c)) (\<lambda>r wl. ?Q r (snd wl)) (w, [])" for i w
    by (rule observers_wp(2) [where Q = ?Q and h = ?auth]) (rule auth [of "WithRequestID i c", unfolded rid])
  let ?rid = "RequestID (silent_env E) (Logging (silent_env E) (silent_telemetry T) ?auth)"
  have step: "wp (?rid c) (\<lambda>r wl. ?Q r (snd wl)) (w, [])" for w
    unfolding RequestID_def newRequestID_def silent_env_def [THEN arg_cong, of env_rand] go_env.simps
    by (intro wp_steps silent_wp; (simp only: snd_conv)?, rule auth')
  show ?thesis
    unfolding rec_chain_def grpc_interceptors_def chain_simps Recovery_def
    by (rule wp_bindI, rule wp_mono [OF observers_wp(1) [where Q = ?Q and h = ?rid, OF step]]) (auto simp: wp_return accounted_def logged_def split: outcome.splits if_splits)
qed

section \<open>Idempotent calls\<close>

definition uses_key :: "grpc_call \<Rightarrow> bool" where
  "uses_key c \<longleftrightarrow> gc_FullMethod c \<in> set idempotencyMethods \<and> md_first c ''x-idempotency-key'' \<noteq> []"

definition call_key :: "grpc_call \<Rightarrow> string" where
  "call_key c = idempotency_key c (md_first c ''x-idempotency-key'')"

text \<open>The failure a cache answer stands for, if any.\<close>

definition cached_failure :: "json_codec \<Rightarrow> (string \<Rightarrow> bool) \<Rightarrow> string result \<Rightarrow> int option" where
  "cached_failure J b64 got =
     (case res_bind got (\<lambda>text. res_bind (js_decode J text) (unmarshal_cached b64)) of
        Inl _ \<Rightarrow> None | Inr code \<Rightarrow> if code = 0 then None else Some code)"

definition cache_broken :: "string result \<Rightarrow> bool" where
  "cache_broken got \<longleftrightarrow> (case got of Inl err \<Rightarrow> \<not> errors_Is err RedisNil | Inr _ \<Rightarrow> False)"

definition cacheable :: "outcome \<Rightarrow> int option" where
  "cacheable r = (case r of Panicked _ \<Rightarrow> None | Returned res \<Rightarrow> if status_Code res = code_int Internal then None else Some (status_Code res))"

definition replay_of :: "int \<Rightarrow> outcome" where
  "replay_of code = Returned (Inl \<lparr>st_Code = code mod 2 ^ 32, st_Message = ''idempotent replay''\<rparr>)"

definition idempotent_trace :: "json_codec \<Rightarrow> (string \<Rightarrow> bool) \<Rightarrow> grpc_call \<Rightarrow> outcome \<Rightarrow> grpc_event list \<Rightarrow> bool" where
  "idempotent_trace J b64 c r l \<longleftrightarrow>
     (if \<not> uses_key c then l = [HandlerRun c r]
      else \<exists>got. case cached_failure J b64 got of
        Some code \<Rightarrow> l = [CacheGet (call_key c) got] \<and> r = replay_of code
      | None \<Rightarrow>
          (case (if cache_broken got then None else cacheable r) of
             None \<Rightarrow> l = [CacheGet (call_key c) got, HandlerRun c r]
           | Some code \<Rightarrow> \<exists>e. l = [CacheGet (call_key c) got, HandlerRun c r,
               CacheSet (call_key c) (js_encode J (cached_doc (i32 code))) idempotencyTTL e]))"

lemma run_and_cache_wp:
  assumes "\<not> cache_broken got" "cached_failure J b64 got = None" "uses_key c"
  shows "wp (run_and_cache J (rec_cache cache) (call_key c) (rec_unary h c)) (\<lambda>r wl. idempotent_trace J b64 c r (snd wl))
     (w, [CacheGet (call_key c) got])"
  unfolding run_and_cache_def rec_cache_def idempotency_cache.simps rec_unary_def
proof (rule wp_bindI, rule recorded_wp, unfold snd_conv)
  fix r w'
  have trace: "idempotent_trace J b64 c r l" if "case cacheable r of
      None \<Rightarrow> l = [CacheGet (call_key c) got, HandlerRun c r]
    | Some code \<Rightarrow> \<exists>e. l = [CacheGet (call_key c) got, HandlerRun c r,
        CacheSet (call_key c) (js_encode J (cached_doc (i32 code))) idempotencyTTL e]" for l
    unfolding idempotent_trace_def using assms that by (auto intro!: exI [of _ got])
  show "wp (case r of Panicked p \<Rightarrow> State_Monad.return (Panicked p)
      | Returned res \<Rightarrow> do {
          (if status_Code res \<noteq> code_int Internal
           then recorded (CacheSet (call_key c) (js_encode J (cached_doc (i32 (status_Code res)))) idempotencyTTL)
              (ic_Set cache (call_key c) (js_encode J (cached_doc (i32 (status_Code res)))) idempotencyTTL)
           else State_Monad.return None);
          State_Monad.return (Returned res)
        }) (\<lambda>r wl. idempotent_trace J b64 c r (snd wl)) (w', [CacheGet (call_key c) got] @ [HandlerRun c r])"
  proof (cases r)
    case (Returned res)
    show ?thesis
      unfolding Returned outcome.case
      by (intro wp_steps recorded_wp; rule trace [unfolded Returned]) (auto simp: cacheable_def)
  next
    case (Panicked p)
    show ?thesis
      unfolding Panicked outcome.case
      by (intro wp_steps; rule trace [unfolded Panicked]) (auto simp: cacheable_def)
  qed
qed


end
