(* ===== verification/Server_Main.thy ===== *)
theory Server_Main imports Http_Handlers Hydra_Client Kratos_Client Grpc_Server Resilient_Sessions Blacklist Device_Repository begin

text \<open>
  \<open>cmd/server/main.go\<close>: which component is built from which, the route table with the
  middleware of every route, and the order of the shutdown.

  Listening, logging and Sentry are left out. The components \<open>main\<close> obtains from outside (the Redis client, the Postgres pool, the
  cache, the network, the JWT library) are the fields of \<open>outside\<close>.
\<close>

section \<open>Wiring\<close>

record ('d, 'x) outside =
  ot_env :: "'x go_env"
  ot_json :: json_codec
  ot_redis :: "('d, 'x proc) redis_client"
  ot_pool :: "'x proc pg_pool"
  ot_l1 :: "'x proc l1_cache"
  ot_net :: "'x net"
  ot_jwt :: "'x proc jwt_lib"
  ot_gin :: gin_lib
  ot_telemetry :: "'x proc telemetry"
  ot_publisher :: "'x proc event_publisher"
  ot_forward :: "'x proc handler"

record configs =
  cf_server :: server_config
  cf_bff :: bff_config
  cf_resilience :: resilience_config
  cf_ory :: ory_config
  cf_proxy :: proxy_config
  cf_origins :: "string list option"

definition main_cb_config :: "resilience_config \<Rightarrow> cb_config" where
  "main_cb_config c = \<lparr>FailureThreshold = rc_FailureThreshold c, ProbeBaseNanos = i64 (rc_ProbeBaseSeconds c * second),
     ProbeMaxNanos = i64 (rc_ProbeMaxSeconds c * second), JitterPct = rc_JitterPct c\<rparr>"

definition main_breaker :: "('d, 'x) outside \<Rightarrow> configs \<Rightarrow> 'x proc circuit_breaker" where
  "main_breaker X C = NewCircuitBreaker (ot_env X) (main_cb_config (cf_resilience C))"

definition main_session_store :: "('d, 'x) outside \<Rightarrow> configs \<Rightarrow> 'x proc session_store" where
  "main_session_store X C =
     NewResilientSessionStore (NewRedisStore (ext_env (ot_env X)) (ot_json X) (ot_redis X) (bc_SessionTTL (cf_bff C))) (main_breaker X C) (ot_l1 X)"

definition main_blacklist :: "('d, 'x) outside \<Rightarrow> configs \<Rightarrow> 'x proc blacklist" where
  "main_blacklist X C =
     NewResilientBlacklist (ext_env (ot_env X)) (NewRedisBlacklist (ot_redis X)) (main_breaker X C) (ot_l1 X) (NewPostgresBlacklistRepository (ot_pool X))"

definition main_redis_repo :: "('d, 'x) outside \<Rightarrow> configs \<Rightarrow> 'x proc redis_repo" where
  "main_redis_repo X C =
     NewInstrumentedRedisRepo (ext_env (ot_env X)) (ot_telemetry X) (NewResilientRedisRepo (NewRedisRepository (ext_env (ot_env X)) (ot_redis X)) (main_breaker X C) (ot_l1 X))"

definition main_idempotency_cache :: "('d, 'x) outside \<Rightarrow> configs \<Rightarrow> 'x proc idempotency_cache" where
  "main_idempotency_cache X C = NewResilientIdempotencyCache (ot_redis X) (main_breaker X C)"

definition main_device_repo :: "('d, 'x) outside \<Rightarrow> 'x proc device_session_repo" where
  "main_device_repo X = NewInstrumentedDeviceSessionRepository (ext_env (ot_env X)) (ot_telemetry X) (NewPostgresDeviceSessionRepository (ot_pool X))"

text \<open>The options of \<open>hydraclient.New\<close> in \<open>main\<close>; \<open>snd\<close> is the key cache the process starts with.\<close>

definition main_hydra_config :: "configs \<Rightarrow> hydra_config \<times> jwks_cache" where
  "main_hydra_config C = (let o1 = cf_ory C in
     hydra_New (oc_HydraPublicURL o1) (oc_HydraAdminURL o1) (oc_HydraClientID o1) (oc_HydraClientSecret o1) (oc_HydraRedirectURI o1)
       [WithGracePeriod (bc_JWKSGracePeriod (cf_bff C)), WithExpectedIssuer (oc_HydraPublicURL o1 @ ''/''),
        WithExpectedAudience (oc_HydraJWTAudience o1)])"

definition main_hydra :: "('d, 'x) outside \<Rightarrow> configs \<Rightarrow> 'x proc hydra_client" where
  "main_hydra X C = HydraClient (ot_env X) (ot_net X) (ot_jwt X) (fst (main_hydra_config C))"

definition main_kratos :: "('d, 'x) outside \<Rightarrow> configs \<Rightarrow> 'x proc kratos_client" where
  "main_kratos X C = KratosClient (ext_net (ot_net X)) (kratos_New (oc_KratosAdminURL (cf_ory C)) (oc_KratosPublicURL (cf_ory C)))"

definition main_ory_service :: "'w hydra_client \<Rightarrow> 'w redis_repo \<Rightarrow> 'w device_session_repo \<Rightarrow> 'w kratos_client \<Rightarrow> 'w event_publisher \<Rightarrow> 'w ory_service" where
  "main_ory_service hydra redisRepo deviceRepo kratos publisher =
     NewOryAuthService hydra redisRepo deviceRepo [WithKratosClient kratos, WithEventPublisher publisher]"

definition main_auth_service :: "('d, 'x) outside \<Rightarrow> configs \<Rightarrow> 'x proc auth_service_i" where
  "main_auth_service X C = NewInstrumentedAuthService (ext_env (ot_env X)) (ot_telemetry X) (OryAuthService (ext_env (ot_env X))
     (main_ory_service (main_hydra X C) (main_redis_repo X C) (main_device_repo X) (main_kratos X C) (ot_publisher X)))"

definition main_bff_service :: "('d, 'x) outside \<Rightarrow> configs \<Rightarrow> 'x proc bff_service_i" where
  "main_bff_service X C = NewBFFService (ext_env (ot_env X)) \<lparr>bf_hydra = main_hydra X C, bf_kratosClient = main_kratos X C,
     bf_sessionStore = main_session_store X C, bf_blacklist = main_blacklist X C, bf_redisRepo = main_redis_repo X C,
     bf_deviceSessionRepo = main_device_repo X, bf_AccessTokenRefreshBuffer = bc_AccessTokenRefreshBuffer (cf_bff C),
     bf_publisher = ot_publisher X\<rparr>"

definition main_account_service :: "('d, 'x) outside \<Rightarrow> configs \<Rightarrow> 'x proc account_service_i" where
  "main_account_service X C = NewAccountService (ot_json X) \<lparr>ac_bff = main_bff_service X C, ac_kratosClient = main_kratos X C,
     ac_sessionStore = main_session_store X C, ac_deviceSessionRepo = main_device_repo X\<rparr>"

definition main_admin_service :: "('d, 'x) outside \<Rightarrow> 'x proc admin_service" where
  "main_admin_service X = \<lparr>ad_repo = NewPostgresGlobalBlacklistRepository (ot_pool X), ad_deviceSessionRepo = main_device_repo X,
     ad_publisher = ot_publisher X\<rparr>"

section \<open>The router\<close>

text \<open>The handlers of \<open>main\<close>, and the middleware they share.\<close>

record 'w http_handlers =
  hh_Health :: "'w handler"
  hh_Refresh :: "'w handler"
  hh_Logout :: "'w handler"
  hh_LogoutAll :: "'w handler"
  hh_Verify :: "'w handler"
  hh_GoogleLogin :: "'w handler"
  hh_Signup :: "'w handler"
  hh_BFFLogin :: "'w handler"
  hh_BFFLogout :: "'w handler"
  hh_BFFLogoutAll :: "'w handler"
  hh_WhoAmI :: "'w handler"
  hh_GetMe :: "'w handler"
  hh_GetSessions :: "'w handler"
  hh_LogoutDevices :: "'w handler"
  hh_LogoutOtherDevices :: "'w handler"
  hh_Proxy :: "'w handler"
  hh_RefreshJWKS :: "'w handler"
  hh_Block :: "'w handler"
  hh_Unblock :: "'w handler"

definition health :: "'w handler" where
  "health c = answer 200 (JObj [(''status'', JStr ''ok'')]) c"

definition main_handlers ::
    "'w go_env \<Rightarrow> gin_lib \<Rightarrow> configs \<Rightarrow> 'w auth_service_i \<Rightarrow> 'w bff_service_i \<Rightarrow> 'w account_service_i \<Rightarrow> 'w hydra_client \<Rightarrow>
      'w admin_service \<Rightarrow> proxy_handler \<Rightarrow> 'w handler \<Rightarrow> 'w http_handlers" where
  "main_handlers E G C auth bff account hydra admin proxy forward = \<lparr>
     hh_Health = health,
     hh_Refresh = auth_handler_Refresh G auth, hh_Logout = auth_handler_Logout G auth, hh_LogoutAll = auth_handler_LogoutAll G auth,
     hh_Verify = auth_handler_Verify auth, hh_GoogleLogin = auth_handler_GoogleLogin G auth, hh_Signup = auth_handler_Signup G auth,
     hh_BFFLogin = bff_handler_Login E G (cf_bff C) bff, hh_BFFLogout = bff_handler_Logout (cf_bff C) bff,
     hh_BFFLogoutAll = bff_handler_LogoutAll (cf_bff C) bff, hh_WhoAmI = bff_handler_WhoAmI (cf_bff C) bff,
     hh_GetMe = account_handler_GetMe account, hh_GetSessions = account_handler_GetSessions E account,
     hh_LogoutDevices = account_handler_LogoutDevices G account, hh_LogoutOtherDevices = account_handler_LogoutOtherDevices account,
     hh_Proxy = proxy_Handle E proxy forward,
     hh_RefreshJWKS = admin_handler_RefreshJWKS G hydra, hh_Block = admin_handler_Block E G admin,
     hh_Unblock = admin_handler_Unblock E G admin\<rparr>"

record 'w http_deps =
  hd_env :: "'w go_env"
  hd_telemetry :: "'w telemetry"
  hd_gin :: gin_lib
  hd_configs :: configs
  hd_publisher :: "'w event_publisher"
  hd_allow :: "string \<Rightarrow> ('w, bool) io"
  hd_bff :: "'w bff_service_i"

record 'w route =
  rt_Method :: string
  rt_Path :: string
  rt_Chain :: "'w middleware list"
  rt_Handler :: "'w handler"

text \<open>
  \<open>r.Use\<close> affects the routes registered after it, so \<open>/health\<close> has no middleware. The
  limiter is one for all routes: \<open>RateLimitMiddleware\<close> hands out the limiter of its package.
\<close>

definition engine_chain :: "'w http_deps \<Rightarrow> 'w middleware list" where
  "engine_chain D = [KafkaAccessLogMiddleware (hd_env D) (hd_publisher D), PrometheusMiddleware (hd_env D) (hd_telemetry D),
     CORSMiddleware (cf_origins (hd_configs D))]"

definition s2s_chain :: "'w http_deps \<Rightarrow> 'w middleware list" where
  "s2s_chain D = engine_chain D @ [ServiceAuthMiddleware (sc_ServiceAPIKey (cf_server (hd_configs D)))]"

definition bff_chain :: "'w http_deps \<Rightarrow> 'w middleware list" where
  "bff_chain D = engine_chain D @ [CORSMiddleware (cf_origins (hd_configs D))]"

definition protected_chain :: "'w http_deps \<Rightarrow> 'w middleware list" where
  "protected_chain D = bff_chain D @ [BFFSessionMiddleware,
     CSRFMiddleware (hd_env D) (hd_gin D) (bc_CSRFSecret (cf_bff (hd_configs D))) (bc_CookieSecure (cf_bff (hd_configs D)))]"

definition api_chain :: "'w http_deps \<Rightarrow> 'w middleware list" where
  "api_chain D = bff_chain D @ [RateLimitMiddleware (hd_allow D), BFFAPIBridgeMiddleware (hd_bff D)]"

definition any_methods :: "string list" where
  "any_methods = [''GET'', ''POST'', ''PUT'', ''PATCH'', ''HEAD'', ''OPTIONS'', ''DELETE'', ''CONNECT'', ''TRACE'']"

definition route_of :: "string \<Rightarrow> string \<Rightarrow> 'w middleware list \<Rightarrow> 'w handler \<Rightarrow> 'w route" where
  "route_of m p ms h = \<lparr>rt_Method = m, rt_Path = p, rt_Chain = ms, rt_Handler = h\<rparr>"

lemma route_of_simps [simp]:
  "rt_Method (route_of m p ms h) = m" "rt_Path (route_of m p ms h) = p" "rt_Chain (route_of m p ms h) = ms"
  "rt_Handler (route_of m p ms h) = h"
  by (simp_all add: route_of_def)

definition http_routes :: "'w http_deps \<Rightarrow> 'w http_handlers \<Rightarrow> 'w route list" where
  "http_routes D H =
     [route_of ''GET'' ''/health'' [] (hh_Health H),
      route_of ''POST'' ''/auth/refresh'' (s2s_chain D @ [RateLimitMiddleware (hd_allow D)]) (hh_Refresh H),
      route_of ''POST'' ''/auth/logout'' (s2s_chain D) (hh_Logout H),
      route_of ''POST'' ''/auth/logout-all'' (s2s_chain D) (hh_LogoutAll H),
      route_of ''POST'' ''/auth/verify'' (s2s_chain D) (hh_Verify H),
      route_of ''POST'' ''/auth/google/login'' (s2s_chain D) (hh_GoogleLogin H),
      route_of ''POST'' ''/auth/signup'' (engine_chain D @ [RateLimitMiddleware (hd_allow D)]) (hh_Signup H),
      route_of ''POST'' ''/bff/login'' (bff_chain D @ [RateLimitMiddleware (hd_allow D)]) (hh_BFFLogin H),
      route_of ''POST'' ''/bff/logout'' (protected_chain D) (hh_BFFLogout H),
      route_of ''POST'' ''/bff/logout-all'' (protected_chain D) (hh_BFFLogoutAll H),
      route_of ''GET'' ''/bff/whoami'' (protected_chain D) (hh_WhoAmI H),
      route_of ''GET'' ''/bff/account/me'' (protected_chain D) (hh_GetMe H),
      route_of ''GET'' ''/bff/account/sessions'' (protected_chain D) (hh_GetSessions H),
      route_of ''POST'' ''/bff/logout-devices'' (protected_chain D) (hh_LogoutDevices H),
      route_of ''POST'' ''/bff/logout-other-devices'' (protected_chain D) (hh_LogoutOtherDevices H)] @
     map (\<lambda>m. route_of m ''/api/*path'' (api_chain D) (hh_Proxy H)) any_methods @
     [route_of ''POST'' ''/admin/jwks/refresh'' (s2s_chain D) (hh_RefreshJWKS H),
      route_of ''POST'' ''/admin/blacklist/block'' (s2s_chain D) (hh_Block H),
      route_of ''DELETE'' ''/admin/blacklist/block'' (s2s_chain D) (hh_Unblock H)]"

text \<open>
  gin's dispatch, without its redirects for trailing slashes: \<open>*path\<close> matches any rest of the
  path, no other route has parameters, and a request without a route passes the middleware of
  the engine and is answered 404.
\<close>

definition route_matches :: "gin_ctx \<Rightarrow> 'w route \<Rightarrow> bool" where
  "route_matches c rt \<longleftrightarrow> rt_Method rt = gx_Method c \<and>
     (if rt_Path rt = ''/api/*path'' then has_prefix (gx_Path c) ''/api/'' else rt_Path rt = gx_Path c)"

definition serve :: "'w http_deps \<Rightarrow> 'w http_handlers \<Rightarrow> 'w handler" where
  "serve D H c =
     (case List.find (route_matches c) (http_routes D H) of
        Some rt \<Rightarrow> gin_chain (rt_Chain rt) (rt_Handler rt) (c\<lparr>gx_FullPath := rt_Path rt\<rparr>)
      | None \<Rightarrow> gin_chain (engine_chain D) (\<lambda>c. State_Monad.return (c_AbortWithStatus 404 c)) (c\<lparr>gx_FullPath := []\<rparr>))"

definition main_http :: "('d, 'x) outside \<Rightarrow> configs \<Rightarrow> (string \<Rightarrow> ('x proc, bool) io) \<Rightarrow> proxy_handler \<Rightarrow> 'x proc handler" where
  "main_http X C allow proxy =
     serve \<lparr>hd_env = ext_env (ot_env X), hd_telemetry = ot_telemetry X, hd_gin = ot_gin X, hd_configs = C, hd_publisher = ot_publisher X, hd_allow = allow,
         hd_bff = main_bff_service X C\<rparr>
       (main_handlers (ext_env (ot_env X)) (ot_gin X) C (main_auth_service X C) (main_bff_service X C) (main_account_service X C)
          (main_hydra X C) (main_admin_service X) proxy (ot_forward X))"

definition main_grpc :: "('d, 'x) outside \<Rightarrow> configs \<Rightarrow> ('x proc, bool) io \<Rightarrow> (string \<Rightarrow> ('x proc, bool) io) \<Rightarrow> (string \<Rightarrow> bool) \<Rightarrow>
    'x proc unary_handler" where
  "main_grpc X C allow allow_method is_base64 =
     chain (grpc_interceptors (ext_env (ot_env X)) (ot_telemetry X) (sc_ServiceAPIKey (cf_server C)) (ot_publisher X) (sc_RateLimitRequestsPerMin (cf_server C))
         allow allow_method (ot_json X) is_base64 (main_idempotency_cache X C))
       (AuthServer (main_auth_service X C))"

section \<open>Who reaches which handler\<close>

definition silent_publisher :: "'w event_publisher \<Rightarrow> ('w \<times> 'e list) event_publisher" where
  "silent_publisher p = \<lparr>pub_Publish = (\<lambda>e. silent (pub_Publish p e)), pub_PublishAuthSession = (\<lambda>e. silent (pub_PublishAuthSession p e)),
     pub_PublishBlacklistSync = (\<lambda>e. silent (pub_PublishBlacklistSync p e)), pub_Close = silent (pub_Close p)\<rparr>"

definition silent_deps :: "'w http_deps \<Rightarrow> ('w \<times> 'e list) http_deps" where
  "silent_deps D = \<lparr>hd_env = silent_env (hd_env D), hd_telemetry = silent_telemetry (hd_telemetry D), hd_gin = hd_gin D, hd_configs = hd_configs D,
     hd_publisher = silent_publisher (hd_publisher D), hd_allow = (\<lambda>ip. silent (hd_allow D ip)), hd_bff = silent_bff (hd_bff D)\<rparr>"

definition rec_handlers :: "'w http_handlers \<Rightarrow> ('w \<times> gin_ctx list) http_handlers" where
  "rec_handlers H = \<lparr>
     hh_Health = rec_handler (hh_Health H), hh_Refresh = rec_handler (hh_Refresh H), hh_Logout = rec_handler (hh_Logout H),
     hh_LogoutAll = rec_handler (hh_LogoutAll H), hh_Verify = rec_handler (hh_Verify H), hh_GoogleLogin = rec_handler (hh_GoogleLogin H),
     hh_Signup = rec_handler (hh_Signup H), hh_BFFLogin = rec_handler (hh_BFFLogin H), hh_BFFLogout = rec_handler (hh_BFFLogout H),
     hh_BFFLogoutAll = rec_handler (hh_BFFLogoutAll H), hh_WhoAmI = rec_handler (hh_WhoAmI H), hh_GetMe = rec_handler (hh_GetMe H),
     hh_GetSessions = rec_handler (hh_GetSessions H), hh_LogoutDevices = rec_handler (hh_LogoutDevices H),
     hh_LogoutOtherDevices = rec_handler (hh_LogoutOtherDevices H), hh_Proxy = rec_handler (hh_Proxy H),
     hh_RefreshJWKS = rec_handler (hh_RefreshJWKS H), hh_Block = rec_handler (hh_Block H), hh_Unblock = rec_handler (hh_Unblock H)\<rparr>"

text \<open>What a client sends, whatever has been written since.\<close>

definition same_request :: "gin_ctx \<Rightarrow> gin_ctx \<Rightarrow> bool" where
  "same_request c c' \<longleftrightarrow> gx_Method c' = gx_Method c \<and> gx_Path c' = gx_Path c \<and> gx_Header c' = gx_Header c \<and> gx_Cookie c' = gx_Cookie c"

definition of_request :: "(gin_ctx \<Rightarrow> bool) \<Rightarrow> bool" where
  "of_request P \<longleftrightarrow> (\<forall>c c'. same_request c c' \<longrightarrow> P c' = P c)"

text \<open>The handler behind ran at most once, and only if \<open>b\<close>.\<close>

definition once_if :: "bool \<Rightarrow> gin_ctx list \<Rightarrow> bool" where
  "once_if b l \<longleftrightarrow> l = [] \<or> (\<exists>c1. l = [c1]) \<and> b"

lemma once_if_Nil [simp]: "once_if b []"
  by (simp add: once_if_def)

definition guarded :: "(gin_ctx \<Rightarrow> bool) \<Rightarrow> ('w \<times> gin_ctx list) handler \<Rightarrow> bool" where
  "guarded P h \<longleftrightarrow> (\<forall>c w. wp (h c) (\<lambda>_ wl. once_if (P c) (snd wl)) (w, []))"

lemma guardedI: "(\<And>c w. wp (h c) (\<lambda>_ wl. once_if (P c) (snd wl)) (w, [])) \<Longrightarrow> guarded P h"
  by (simp add: guarded_def)

lemma guardedD: "guarded P h \<Longrightarrow> wp (h c) (\<lambda>_ wl. once_if (P c) (snd wl)) (w, [])"
  by (simp add: guarded_def)

lemma guarded_later: "of_request P \<Longrightarrow> guarded P h \<Longrightarrow> same_request c c' \<Longrightarrow> wp (h c') (\<lambda>_ wl. once_if (P c) (snd wl)) (w, [])"
  by (rule wp_mono [OF guardedD [of P h c']]) (auto simp: of_request_def)

lemma guarded_mono: "guarded P h \<Longrightarrow> (\<And>c. P c \<Longrightarrow> Q c) \<Longrightarrow> guarded Q h"
  by (rule guardedI, rule wp_mono, erule guardedD) (auto simp: once_if_def)

lemma guarded_rec: "guarded (\<lambda>_. True) (rec_handler h)"
  by (simp add: guarded_def wp_def run_rec_handler once_if_def split: prod.splits)

lemma same_request_simps [simp]:
  "same_request c c" "same_request c (cors_headers o1 c)" "same_request c (c_Set k v c)" "same_request c (c\<lparr>gx_FullPath := p\<rparr>)"
  "same_request c (c_Set k' v' (c_Set k v c))"
  by (simp_all add: same_request_def cors_headers_def c_Header_def c_Set_def)

lemma guarded_cors: "of_request P \<Longrightarrow> guarded P h \<Longrightarrow> guarded P (CORSMiddleware origins h)"
  by (rule guardedI) (auto simp: CORSMiddleware_def Let_def wp_return split: option.split intro: guardedD guarded_later)

lemma guarded_log:
  assumes "guarded P h"
  shows "guarded P (KafkaAccessLogMiddleware (silent_env E) (silent_publisher p) h)"
proof (rule guardedI)
  show "wp (KafkaAccessLogMiddleware (silent_env E) (silent_publisher p) h c) (\<lambda>_ wl. once_if (P c) (snd wl)) (w, [])" for c w
    unfolding KafkaAccessLogMiddleware_def silent_env_def silent_publisher_def go_env.simps event_publisher.simps
    by (rule wp_bindI, rule silent_wp, rule wp_bindI, simp only: snd_conv, rule wp_mono [OF guardedD [OF assms]])
      (intro wp_steps silent_wp, simp)
qed

lemma guarded_metrics:
  assumes "guarded P h"
  shows "guarded P (PrometheusMiddleware (silent_env E) (silent_telemetry T) h)"
proof (rule guardedI)
  show "wp (PrometheusMiddleware (silent_env E) (silent_telemetry T) h c) (\<lambda>_ wl. once_if (P c) (snd wl)) (w, [])" for c w
    unfolding PrometheusMiddleware_def silent_env_def silent_telemetry_def go_env.simps telemetry.simps Let_def
    by (rule wp_bindI, rule silent_wp, rule wp_bindI, simp only: snd_conv, rule wp_mono [OF guardedD [OF assms]])
      (intro wp_steps silent_wp, simp)
qed

lemma guarded_limit: "guarded P h \<Longrightarrow> guarded P (RateLimitMiddleware (\<lambda>ip. silent (allow ip)) h)"
  by (rule guardedI) (auto simp: RateLimitMiddleware_def intro!: wp_steps silent_wp guardedD [of P h])

lemma guarded_bridge: "of_request P \<Longrightarrow> guarded P h \<Longrightarrow> guarded P (BFFAPIBridgeMiddleware (silent_bff b) h)"
  by (rule guardedI)
    (auto simp: BFFAPIBridgeMiddleware_def silent_bff_def Let_def split: option.split sum.split intro!: wp_bindI silent_wp guardedD [of P h] guarded_later [of P h])

lemma guarded_service: "guarded P h \<Longrightarrow> guarded (\<lambda>c. P c \<and> c_GetHeader c ''X-Service-Key'' = key) (ServiceAuthMiddleware key h)"
  by (rule guardedI) (auto simp: ServiceAuthMiddleware_def Let_def wp_return dest: guardedD)

text \<open>The guard of the browser routes, from \<open>Http_Middleware\<close>.\<close>

definition session_and_token :: "gin_lib \<Rightarrow> string \<Rightarrow> gin_ctx \<Rightarrow> bool" where
  "session_and_token G secret c \<longleftrightarrow>
     (case gx_Cookie c ''__session'' of None \<Rightarrow> False | Some sid \<Rightarrow> sessionIDRegexp sid \<and> double_submitted G secret sid c)"

lemma guarded_browser:
  assumes "rand_ok E" "hmac_ok G"
  shows "guarded (session_and_token G secret) (BFFSessionMiddleware (CSRFMiddleware (silent_env E) G secret sec (rec_handler h)))"
proof (rule guardedI)
  show "wp (BFFSessionMiddleware (CSRFMiddleware (silent_env E) G secret sec (rec_handler h)) c)
      (\<lambda>_ wl. once_if (session_and_token G secret c) (snd wl)) (w, [])" for c w
    by (rule wp_mono [OF bff_guard_wp [OF assms, unfolded gin_chain_simps]])
      (auto simp: once_if_def session_and_token_def split: list.splits)
qed

text \<open>What a request has to prove before a handler sees it, by its path.\<close>

definition entitled :: "configs \<Rightarrow> gin_lib \<Rightarrow> gin_ctx \<Rightarrow> bool" where
  "entitled C G c =
     (let p = gx_Path c in
      if p \<in> {''/health'', ''/auth/signup'', ''/bff/login''} \<or> has_prefix p ''/api/'' then True
      else if has_prefix p ''/auth/'' \<or> has_prefix p ''/admin/'' then c_GetHeader c ''X-Service-Key'' = sc_ServiceAPIKey (cf_server C)
      else if has_prefix p ''/bff/'' then session_and_token G (bc_CSRFSecret (cf_bff C)) c
      else False)"

lemma of_request_entitled: "of_request (entitled C G)"
  by (auto simp: of_request_def same_request_def entitled_def session_and_token_def c_GetHeader_def double_submitted_def
      split: option.split)

lemma of_request_const [simp]: "of_request (\<lambda>_. b)"
  by (simp add: of_request_def)

lemma of_request_guards:
  "of_request (session_and_token G secret)" "of_request (\<lambda>c. c_GetHeader c k = v)"
  by (auto simp: of_request_def same_request_def session_and_token_def c_GetHeader_def double_submitted_def split: option.split)

lemma gin_chain_append [simp]: "gin_chain (as @ bs) h = gin_chain as (gin_chain bs h)"
  by (induction as) simp_all

lemmas chain_defs = engine_chain_def s2s_chain_def bff_chain_def protected_chain_def api_chain_def

lemma guarded_chains:
  fixes D :: "'w http_deps" and h :: "'w handler"
  defines "D' \<equiv> silent_deps D"
  shows "guarded (\<lambda>_. True) (gin_chain (engine_chain D' @ [RateLimitMiddleware (hd_allow D')]) (rec_handler h))"
    and "guarded (\<lambda>_. True) (gin_chain (bff_chain D' @ [RateLimitMiddleware (hd_allow D')]) (rec_handler h))"
    and "guarded (\<lambda>_. True) (gin_chain (api_chain D') (rec_handler h))"
    and "guarded (\<lambda>c. c_GetHeader c ''X-Service-Key'' = sc_ServiceAPIKey (cf_server (hd_configs D))) (gin_chain (s2s_chain D') (rec_handler h))"
    and "guarded (\<lambda>c. c_GetHeader c ''X-Service-Key'' = sc_ServiceAPIKey (cf_server (hd_configs D)))
      (gin_chain (s2s_chain D' @ [RateLimitMiddleware (hd_allow D')]) (rec_handler h))"
  unfolding D'_def chain_defs silent_deps_def http_deps.simps gin_chain_append gin_chain_simps
  by (intro guarded_log guarded_metrics guarded_cors guarded_limit guarded_bridge guarded_rec of_request_const of_request_guards
      guarded_mono [OF guarded_service [OF guarded_rec]] guarded_mono [OF guarded_service [OF guarded_limit [OF guarded_rec]]]; simp)+

lemma guarded_protected:
  assumes "rand_ok (hd_env D)" "hmac_ok (hd_gin D)"
  shows "guarded (session_and_token (hd_gin D) (bc_CSRFSecret (cf_bff (hd_configs D)))) (gin_chain (protected_chain (silent_deps D)) (rec_handler h))"
  unfolding chain_defs silent_deps_def http_deps.simps gin_chain_append gin_chain_simps
  by (intro guarded_log guarded_metrics guarded_cors guarded_browser [OF assms] of_request_guards)

text \<open>A route whose chain enforces what its path asks for.\<close>

definition safe_route :: "configs \<Rightarrow> gin_lib \<Rightarrow> ('w \<times> gin_ctx list) route \<Rightarrow> bool" where
  "safe_route C G rt \<longleftrightarrow> (\<exists>P. guarded P (gin_chain (rt_Chain rt) (rt_Handler rt)) \<and> (\<forall>c. route_matches c rt \<longrightarrow> P c \<longrightarrow> entitled C G c))"

lemma safe_routeI:
  "guarded P (gin_chain ms h) \<Longrightarrow> (\<And>c. route_matches c (route_of m p ms h) \<Longrightarrow> P c \<Longrightarrow> entitled C G c) \<Longrightarrow> safe_route C G (route_of m p ms h)"
  unfolding safe_route_def by auto

lemma served_route:
  assumes "safe_route C G rt" "route_matches c rt"
  shows "wp (gin_chain (rt_Chain rt) (rt_Handler rt) (c\<lparr>gx_FullPath := p\<rparr>)) (\<lambda>_ wl. once_if (entitled C G c) (snd wl)) (w, [])"
proof -
  obtain P where P: "guarded P (gin_chain (rt_Chain rt) (rt_Handler rt))" "\<And>c. route_matches c rt \<Longrightarrow> P c \<Longrightarrow> entitled C G c"
    using assms(1) by (auto simp: safe_route_def)
  have same: "route_matches (c\<lparr>gx_FullPath := p\<rparr>) rt" "entitled C G (c\<lparr>gx_FullPath := p\<rparr>) = entitled C G c"
    using assms(2) of_request_entitled [of C G] by (auto simp: route_matches_def of_request_def)
  show ?thesis
    by (rule wp_mono [OF guardedD [OF P(1)]]) (use P(2) same in \<open>auto simp: once_if_def\<close>)
qed

lemma bff_prefix: "has_prefix p ''/bff/'' \<Longrightarrow> \<not> has_prefix p ''/auth/'' \<and> \<not> has_prefix p ''/admin/''"
  by (elim has_prefixE) (simp add: has_prefix_def)

lemma safe_routes:
  assumes "rand_ok (hd_env D)" "hmac_ok (hd_gin D)"
  shows "list_all (safe_route (hd_configs D) (hd_gin D)) (http_routes (silent_deps D) (rec_handlers H))"
proof -
  let ?D = "silent_deps D" and ?safe = "safe_route (hd_configs D) (hd_gin D)"
  have s2s: "?safe (route_of m p (s2s_chain ?D) (rec_handler h))" "?safe (route_of m p (s2s_chain ?D @ [RateLimitMiddleware (hd_allow ?D)]) (rec_handler h))"
    if "has_prefix p ''/auth/'' \<or> has_prefix p ''/admin/''" for m p h
    using that by (auto intro!: safe_routeI [OF guarded_chains(4)] safe_routeI [OF guarded_chains(5)]
        simp: route_matches_def entitled_def has_prefix_def Let_def split: if_splits)
  have prot: "?safe (route_of m p (protected_chain ?D) (rec_handler h))" if "has_prefix p ''/bff/''" for m p h
    using that bff_prefix [of p] by (auto intro!: safe_routeI [OF guarded_protected [OF assms]]
        simp: route_matches_def entitled_def Let_def split: if_splits)
  have api: "?safe (route_of m ''/api/*path'' (api_chain ?D) (rec_handler h))" for m h
    by (auto intro!: safe_routeI [OF guarded_chains(3)] simp: route_matches_def entitled_def Let_def)
  have open_routes: "?safe (route_of m ''/health'' [] (rec_handler h))"
      "?safe (route_of m ''/auth/signup'' (engine_chain ?D @ [RateLimitMiddleware (hd_allow ?D)]) (rec_handler h))"
      "?safe (route_of m ''/bff/login'' (bff_chain ?D @ [RateLimitMiddleware (hd_allow ?D)]) (rec_handler h))" for m h
    using guarded_rec [of h]
    by (auto intro!: safe_routeI [where ms = "[]" and P = "\<lambda>_. True"] safe_routeI [OF guarded_chains(1)] safe_routeI [OF guarded_chains(2)]
        simp: route_matches_def entitled_def Let_def)
  show ?thesis
    unfolding http_routes_def rec_handlers_def http_handlers.simps list_all_append list.pred_inject list.pred_map
    by (intro conjI open_routes s2s prot; simp add: has_prefix_def list_all_iff api)
qed

text \<open>
  C1. Who reaches which handler of the HTTP server, over the whole route table and every middleware of
  every route. A request runs at most one handler, once. A handler under \<open>/admin\<close>, and one under \<open>/auth\<close> other than the
  signup, runs only for a request with the configured service key; one under \<open>/bff\<close> other than the login
  only with a well-formed session cookie and, for a state-changing method, the double-submitted CSRF token of that
  session. The paths that ask for nothing are \<open>/health\<close>, \<open>/auth/signup\<close>, \<open>/bff/login\<close> and \<open>/api\<close>,
  whose proxy decides itself.
\<close>

theorem http_handlers_guarded:
  assumes "rand_ok (hd_env D)" "hmac_ok (hd_gin D)"
  shows "wp (serve (silent_deps D) (rec_handlers H) c) (\<lambda>_ wl. once_if (entitled (hd_configs D) (hd_gin D) c) (snd wl)) (w, [])"
proof (cases "List.find (route_matches c) (http_routes (silent_deps D) (rec_handlers H))")
  case None
  have "guarded (entitled (hd_configs D) (hd_gin D)) (gin_chain (engine_chain (silent_deps D)) (\<lambda>c. State_Monad.return (c_AbortWithStatus 404 c)))"
    unfolding chain_defs silent_deps_def http_deps.simps gin_chain_simps
    by (intro guarded_log guarded_metrics guarded_cors of_request_entitled) (simp add: guarded_def wp_return)
  from guarded_later [OF of_request_entitled this same_request_simps(4)] None show ?thesis
    by (simp add: serve_def)
next
  case (Some rt)
  then have "rt \<in> set (http_routes (silent_deps D) (rec_handlers H))" "route_matches c rt"
    by (auto simp: find_Some_iff)
  with safe_routes [OF assms, of H] have "safe_route (hd_configs D) (hd_gin D) rt"
    by (simp add: list_all_iff)
  from served_route [OF this \<open>route_matches c rt\<close>] Some show ?thesis
    by (simp add: serve_def)
qed

definition sample_configs :: configs where
  "sample_configs = \<lparr>cf_server = \<lparr>sc_ServiceAPIKey = ''service-key'', sc_AppEnv = ''development'', sc_MetricsBasicAuthUser = [],
       sc_MetricsBasicAuthPassword = [], sc_TrustedProxyCIDRs = [], sc_RateLimitRequestsPerMin = 60\<rparr>,
     cf_bff = \<lparr>bc_CookieDomain = ''example.org'', bc_CookieSecure = True, bc_SessionTTL = 168 * hour, bc_CSRFSecret = ''csrf-secret'',
       bc_JWKSGracePeriod = 30 * minute, bc_AccessTokenRefreshBuffer = minute\<rparr>,
     cf_resilience = \<lparr>rc_FailureThreshold = 5, rc_ProbeBaseSeconds = 60, rc_ProbeMaxSeconds = 300, rc_JitterPct = 15\<rparr>,
     cf_ory = \<lparr>oc_KratosPublicURL = ''http://kratos:4433'', oc_KratosAdminURL = ''http://kratos:4434'', oc_HydraPublicURL = ''http://hydra:4444'',
       oc_HydraAdminURL = ''http://hydra:4445'', oc_HydraClientID = ''central-auth'', oc_HydraClientSecret = ''secret'',
       oc_HydraRedirectURI = ''http://localhost/callback'', oc_HydraJWTAudience = ''central-auth''\<rparr>,
     cf_proxy = \<lparr>px_KotlinURL = ''http://kotlin:8080'', px_DialTimeout = 5 * second, px_KotlinServiceKey = ''kotlin-key''\<rparr>,
     cf_origins = Some [''https://example.org'']\<rparr>"

definition sample_deps :: "'w go_env \<Rightarrow> 'w bff_service_i \<Rightarrow> 'w http_deps" where
  "sample_deps E bff = \<lparr>hd_env = E, hd_telemetry = no_telemetry show_int, hd_gin = sample_gin, hd_configs = sample_configs, hd_publisher = NoopPublisher,
     hd_allow = (\<lambda>_. State_Monad.return True), hd_bff = bff\<rparr>"

theorem http_handlers_guarded_witness:
  "\<forall>H bff. wp (serve (silent_deps (sample_deps sample_env bff)) (rec_handlers H) (sample_request ''POST'' ''/admin/blacklist/block'' Map.empty Map.empty []))
     (\<lambda>_ wl. snd wl = []) (0, [])"
proof (intro allI)
  fix H :: "int http_handlers" and bff
  let ?c = "sample_request ''POST'' ''/admin/blacklist/block'' Map.empty Map.empty []"
  have "\<not> entitled sample_configs sample_gin ?c"
    by (simp add: entitled_def has_prefix_def sample_request_def c_GetHeader_def header_Get_def sample_configs_def)
  then show "wp (serve (silent_deps (sample_deps sample_env bff)) (rec_handlers H) ?c) (\<lambda>_ wl. snd wl = []) (0, [])"
    using http_handlers_guarded [of "sample_deps sample_env bff" H ?c 0] sample_env_ok(3) sample_hmac_ok
    by (simp add: sample_deps_def) (erule wp_mono, simp add: once_if_def)
qed

section \<open>What the services of the process do not do\<close>

text \<open>The calls of the service that \<open>main\<close> builds for the S2S endpoints and gRPC.\<close>

definition asks_blacklist :: "call \<Rightarrow> bool" where
  "asks_blacklist e \<longleftrightarrow> (case e of BlacklistAdd _ _ _ \<Rightarrow> True | BlacklistCheck _ _ \<Rightarrow> True | BlacklistBatch _ _ _ \<Rightarrow> True | _ \<Rightarrow> False)"

definition verdict :: "access_token_claims result \<Rightarrow> verify_result result" where
  "verdict r = (case r of
     Inl err \<Rightarrow> Inl err
   | Inr c \<Rightarrow> if cl_Subject c = [] \<or> claims_DeviceID c = [] then Inl (Errorf ''missing subject or device_id in token'' [])
       else Inr \<lparr>vr_KratosID = cl_Subject c, vr_DeviceID = claims_DeviceID c,
         vr_ExpiresAt = (case cl_ExpiresAt c of None \<Rightarrow> 0 | Some t \<Rightarrow> t div second)\<rparr>)"

lemma main_ory_blacklist: "sv_blacklist (main_ory_service h r d k p) = None"
  by (simp add: main_ory_service_def NewOryAuthService_def WithKratosClient_def WithEventPublisher_def)

lemma rec_main_service: "sv_blacklist (rec_service (main_ory_service h r d k p)) = None"
  by (simp add: rec_service_def main_ory_blacklist)

text \<open>
  C36. Logging out through the S2S endpoints or gRPC does not revoke the access token. \<open>main\<close>
  builds the service without \<open>WithBlacklist\<close>, so \<open>Logout\<close> and \<open>LogoutAll\<close> write no
  revocation key and \<open>VerifyToken\<close> consults none: its answer is a function of the signature
  check alone, before a logout as after it.
\<close>

theorem s2s_logout_keeps_access_token:
  "wp (au_Logout (OryAuthService (silent_env E) (rec_service (main_ory_service h r d k p))) tok) (\<lambda>_ wl. \<not> list_ex asks_blacklist (snd wl)) (w, []) \<and>
   wp (au_LogoutAll (OryAuthService (silent_env E) (rec_service (main_ory_service h r d k p))) tok) (\<lambda>_ wl. \<not> list_ex asks_blacklist (snd wl)) (w, []) \<and>
   wp (au_VerifyToken (OryAuthService (silent_env E) (rec_service (main_ory_service h r d k p))) tok)
     (\<lambda>res wl. \<exists>x. snd wl = [ValidateAccessToken tok x] \<and> res = verdict x) (w, [])"
  unfolding OryAuthService_def auth_service_i.simps ory_Logout_def ory_LogoutAll_def ory_VerifyToken_def rec_main_service Let_def
    option.case rec_service_simps
  by (intro conjI wp_steps run_wp)
    (auto simp: main_ory_blacklist asks_blacklist_def verdict_def)

section \<open>A login without credentials\<close>

text \<open>A Hydra that issues tokens for whatever subject the server accepts for it, and a device registry that only says yes.\<close>

definition issuing_hydra :: "'w hydra_client" where
  "issuing_hydra = refusing_hydra\<lparr>
     hy_IssueTokens := (\<lambda>_ _ _. State_Monad.return (Inr \<lparr>ts_AccessToken = ''at'', ts_RefreshToken = ''rt'', ts_IDToken = [],
        ts_TokenType = ''bearer'', ts_ExpiresIn = 900\<rparr>)),
     hy_ValidateAccessToken := (\<lambda>_. State_Monad.return (Inr \<lparr>cl_Subject = [], cl_Ext = None, cl_ClientID = [], cl_ID = ''jti'',
        cl_ExpiresAt = None\<rparr>))\<rparr>"

definition agreeing_repo :: "'w redis_repo" where
  "agreeing_repo = \<lparr>rr_SaveLogin = (\<lambda>_ _ _ _. State_Monad.return None), rr_GetDeviceRefreshToken = (\<lambda>_ _. State_Monad.return (Inl refused)),
     rr_RotateRefreshToken = (\<lambda>_ _ _ _. State_Monad.return None), rr_LogoutDevice = (\<lambda>_ _. State_Monad.return None),
     rr_LogoutAll = (\<lambda>_. State_Monad.return None)\<rparr>"

definition trusting_bff :: "sim_proc bff_service_i" where
  "trusting_bff = NewBFFService (ext_env sim_env) (sim_bff\<lparr>bf_hydra := issuing_hydra, bf_redisRepo := agreeing_repo\<rparr>)"

definition zero_id :: string where "zero_id = replicate 64 (CHR ''0'')"

lemma zero_id: "hex_bytes (replicate 32 0) = zero_id" "sessionIDRegexp zero_id" "zero_id \<noteq> []"
  by code_simp+

lemma trusting_login:
  "\<exists>w1. run_state (bi_Login trusting_bff k d False [] ua ip) sim_start = (Inr zero_id, w1) \<and>
     fst (run_state (bi_WhoAmI trusting_bff zero_id) w1) = Inr (k, d)"
proof -
  let ?sess = "\<lparr>bs_SessionID = zero_id, bs_KratosID = k, bs_DeviceID = d, bs_KratosSessionID = [], bs_HydraAccessToken = ''at'',
      bs_HydraRefreshToken = ''rt'', bs_AccessTokenExp = 1000 + 15 * minute, bs_CreatedAt = 1000, bs_ExpiresAt = 1000 + RefreshTTLShort\<rparr>"
  have "\<exists>b. session_text (ext_env sim_env) text_codec ?sess = Inr b"
    by (simp add: session_text_def marshal_session_def session_times_ok_def json_time_ok_def year_0_def year_10000_def duration_defs
        RefreshTTLShort_def)
  then obtain b where b: "session_text (ext_env sim_env) text_codec ?sess = Inr b" ..
  note b' = session_of_session_text [OF sim_sessions.times sim_sessions.codec b]
  have clock: "env_now (ext_env sim_env) = State (\<lambda>p. (max 0 (min (sm_now (pr_ext p)) (2 ^ 62 - 1)), p))"
    by (rule state.expand) (auto simp: sim_env_simps ext_def)
  have now: "max 0 (min (sm_now (pr_ext sim_start)) 4611686018427387903) = 1000"
    by (simp add: sim_start_def sim0_def)
  have login: "run_state (bi_Login trusting_bff k d False [] ua ip) sim_start =
     run_state (do { created \<leftarrow> ss_Create sim_store ?sess;
       State_Monad.return (case created of Some err \<Rightarrow> Inl (Errorf ''bff login: store session'' [err]) | None \<Rightarrow> Inr zero_id) }) sim_start"
    unfolding trusting_bff_def NewBFFService_def bff_service_i.simps sim_bff_def bff_Login_def Let_def
      bff_service.simps randomSessionID_def issuing_hydra_def agreeing_repo_def refusing_hydra_def idle_kratos_def NoopPublisher_def
    by (simp add: zero_id clock now sim_env_simps cong: option.case_cong) (auto split: prod.splits option.splits)
  obtain w1 where w1: "run_state (ss_Create sim_store ?sess) sim_start = (None, w1)"
      "fst (run_state (bi_WhoAmI trusting_bff zero_id) w1) = Inr (k, d)"
    unfolding trusting_bff_def NewBFFService_def bff_service_i.simps sim_bff_def bff_WhoAmI_def check_session_def
      bff_service.simps NewRedisStore_def rs_Create_def rs_Get_def time_until_def NewRedisBlacklist_def rb_IsBlacklisted_def session_store.simps
      b [unfolded bff_session.simps] sum.case
    apply (simp add: b' clock now sim_redis_def sim_exec_def sim_start_def sim0_def time_sub_def duration_defs
        set_deadline_def set_ttl_def expire_ttl_def go_div_def key_defs db_deadline_def live_def db_get_def reply_defs blacklistKey_def
        RefreshTTLShort_def Let_def)
    done
  show ?thesis
    using w1 by (simp add: login)
qed

definition trusting_server :: "sim_proc auth_service_i \<Rightarrow> sim_proc account_service_i \<Rightarrow> sim_proc hydra_client \<Rightarrow> sim_proc admin_service \<Rightarrow>
    proxy_handler \<Rightarrow> sim_proc handler \<Rightarrow> sim_proc handler" where
  "trusting_server auth account hydra admin proxy forward = serve (sample_deps (ext_env sim_env) trusting_bff)
     (main_handlers (ext_env sim_env) sample_gin sample_configs auth trusting_bff account hydra admin proxy forward)"

definition login_request_for :: "string \<Rightarrow> string \<Rightarrow> gin_ctx" where
  "login_request_for k d = sample_request ''POST'' ''/bff/login'' Map.empty Map.empty
     (js_encode text_codec (JObj [(''user_id'', JStr k), (''device_id'', JStr d)]))"

lemma login_body: "k \<noteq> [] \<Longrightarrow> d \<noteq> [] \<Longrightarrow> bind_json sample_gin (login_request_for k d\<lparr>gx_FullPath := p\<rparr>) bind_bff_login =
    Inr \<lparr>lr_KratosID = k, lr_DeviceID = d, lr_RememberMe = False\<rparr>"
  using text_codec_ok
  by (simp add: bind_json_def login_request_for_def sample_request_def sample_gin_def json_codec_ok_def unmarshal_object_def bind_bff_login_def
      unmarshal_string_def unmarshal_bool_def js_field_def check_def)

lemma quiet_chain:
  assumes "gx_Header c = Map.empty" "gx_Method c \<noteq> ''OPTIONS''"
  shows "CORSMiddleware (cf_origins sample_configs) h c = h c"
  using assms by (simp add: CORSMiddleware_def sample_configs_def header_Get_def Let_def)

lemma csrf_token_run: "\<exists>t. run_state (NewCSRFToken (ext_env sim_env) sample_gin secret sid) w = (Inr t, w)"
  by (simp add: NewCSRFToken_def try_io_def sim_env_simps Let_def)

lemma served_login:
  assumes "k \<noteq> []" "d \<noteq> []"
  shows "\<exists>c1 w1. run_state (trusting_server auth account hydra admin proxy forward (login_request_for k d)) sim_start = (c1, w1) \<and>
    gx_Status c1 = 200 \<and> session_cookie (cf_bff sample_configs) zero_id \<in> set (gx_SetCookies c1) \<and>
    fst (run_state (bi_WhoAmI trusting_bff zero_id) w1) = Inr (k, d)"
proof -
  let ?c = "login_request_for k d\<lparr>gx_FullPath := ''/bff/login''\<rparr>"
  let ?ua = "Some (c_GetHeader ?c ''User-Agent'')" and ?ip = "Some (gx_ClientIP ?c)"
  have c: "gx_Header ?c = Map.empty" "gx_Method ?c \<noteq> ''OPTIONS''" "gx_Cookie ?c ''ory_kratos_session'' = None" "gx_SetCookies ?c = []"
    by (simp_all add: login_request_for_def sample_request_def)
  have route: "trusting_server auth account hydra admin proxy forward (login_request_for k d) =
      KafkaAccessLogMiddleware (ext_env sim_env) NoopPublisher (PrometheusMiddleware (ext_env sim_env) (no_telemetry show_int)
       (CORSMiddleware (cf_origins sample_configs) (CORSMiddleware (cf_origins sample_configs)
        (RateLimitMiddleware (\<lambda>_. State_Monad.return True) (bff_handler_Login (ext_env sim_env) sample_gin (cf_bff sample_configs) trusting_bff))))) ?c"
    by (simp add: trusting_server_def serve_def http_routes_def route_matches_def login_request_for_def sample_request_def
        chain_defs sample_deps_def main_handlers_def)
  obtain w1 where w1: "run_state (bi_Login trusting_bff k d False [] ?ua ?ip) sim_start = (Inr zero_id, w1)"
      "fst (run_state (bi_WhoAmI trusting_bff zero_id) w1) = Inr (k, d)"
    using trusting_login by blast
  obtain t where t: "run_state (NewCSRFToken (ext_env sim_env) sample_gin (bc_CSRFSecret (cf_bff sample_configs)) zero_id) w1 = (Inr t, w1)"
    using csrf_token_run by blast
  show ?thesis
    unfolding route KafkaAccessLogMiddleware_def PrometheusMiddleware_def no_telemetry_def telemetry.simps quiet_chain [OF c(1,2)] RateLimitMiddleware_def bff_handler_Login_def
    using w1 t c by (simp add: login_body [OF assms] sim_env_simps NoopPublisher_def Let_def)
qed

lemma served_whoami:
  assumes "fst (run_state (bi_WhoAmI trusting_bff zero_id) w1) = Inr (k, d)"
  shows "let c2 = fst (run_state (trusting_server auth account hydra admin proxy forward
       (sample_request ''GET'' ''/bff/whoami'' Map.empty [''__session'' \<mapsto> zero_id] [])) w1) in
     gx_Status c2 = 200 \<and> gx_Response c2 = Some (JObj [(''kratos_id'', JStr k), (''device_id'', JStr d)])"
proof -
  let ?c = "sample_request ''GET'' ''/bff/whoami'' Map.empty [''__session'' \<mapsto> zero_id] []\<lparr>gx_FullPath := ''/bff/whoami''\<rparr>"
  have c: "gx_Header ?c = Map.empty" "gx_Method ?c \<noteq> ''OPTIONS''" "gx_Cookie ?c ''__session'' = Some zero_id" "gx_Method ?c = ''GET''"
    by (simp_all add: sample_request_def)
  have route: "trusting_server auth account hydra admin proxy forward (sample_request ''GET'' ''/bff/whoami'' Map.empty [''__session'' \<mapsto> zero_id] []) =
      KafkaAccessLogMiddleware (ext_env sim_env) NoopPublisher (PrometheusMiddleware (ext_env sim_env) (no_telemetry show_int)
       (CORSMiddleware (cf_origins sample_configs) (CORSMiddleware (cf_origins sample_configs)
        (BFFSessionMiddleware (CSRFMiddleware (ext_env sim_env) sample_gin (bc_CSRFSecret (cf_bff sample_configs)) (bc_CookieSecure (cf_bff sample_configs))
          (bff_handler_WhoAmI (cf_bff sample_configs) trusting_bff)))))) ?c"
    by (simp add: trusting_server_def serve_def http_routes_def route_matches_def sample_request_def chain_defs sample_deps_def main_handlers_def)
  obtain t where t: "run_state (NewCSRFToken (ext_env sim_env) sample_gin (bc_CSRFSecret (cf_bff sample_configs)) zero_id) w1 = (Inr t, w1)"
    using csrf_token_run by blast
  obtain w2 where w2: "run_state (bi_WhoAmI trusting_bff zero_id) w1 = (Inr (k, d), w2)"
    using assms by (metis prod.collapse)
  show ?thesis
    unfolding route KafkaAccessLogMiddleware_def PrometheusMiddleware_def no_telemetry_def telemetry.simps quiet_chain [OF c(1,2)]
    using w2 t c by (simp add: BFFSessionMiddleware_def CSRFMiddleware_def bffSessionCookieName_def zero_id isStateChangingMethod_def
        sim_env_simps NoopPublisher_def bff_handler_WhoAmI_def bffSessionID_def c_GetString_def Let_def)
qed

text \<open>
  C14. \<open>POST /bff/login\<close> asks for no credentials. Kratos recognises nobody in this run, and the
  request carries no service key, no cookie and no password, only the identifiers of a user
  and a device, whatever they are. It is answered with a session cookie, and a \<open>whoami\<close> with
  that cookie answers with the user the body named.
\<close>

theorem login_needs_no_credentials:
  "let server = trusting_server auth account hydra admin proxy forward;
       (c1, w1) = run_state (server (login_request_for (a # k) (b # d))) sim_start;
       (c2, w2) = run_state (server (sample_request ''GET'' ''/bff/whoami'' Map.empty [''__session'' \<mapsto> zero_id] [])) w1
   in gx_Status c1 = 200 \<and> session_cookie (cf_bff sample_configs) zero_id \<in> set (gx_SetCookies c1) \<and>
      gx_Status c2 = 200 \<and> gx_Response c2 = Some (JObj [(''kratos_id'', JStr (a # k)), (''device_id'', JStr (b # d))])"
proof -
  obtain c1 w1 where c1: "run_state (trusting_server auth account hydra admin proxy forward (login_request_for (a # k) (b # d))) sim_start = (c1, w1)"
      "gx_Status c1 = 200" "session_cookie (cf_bff sample_configs) zero_id \<in> set (gx_SetCookies c1)"
      "fst (run_state (bi_WhoAmI trusting_bff zero_id) w1) = Inr (a # k, b # d)"
    using served_login [of "a # k" "b # d" auth account hydra admin proxy forward] by auto
  show ?thesis
    using c1 served_whoami [OF c1(4), of auth account hydra admin proxy forward] by (simp add: Let_def case_prod_unfold)
qed

section \<open>Shutdown\<close>

text \<open>
  The goroutine that \<open>main\<close> starts for \<open>SIGTERM\<close>, \<open>SIGINT\<close> and a failed metrics server: it
  stops the three servers and waits for them, stops the two background goroutines, and then
  closes the Kafka producer. The state counts the requests and calls in flight;
  \<open>sh_expired\<close> is the shared ten-second context of the HTTP servers. A handler whose publication
  panics is ended and its event is lost; the ghost field \<open>sh_lost\<close> records it.
\<close>

datatype phase = Serving | Draining | StoppingBackground | ClosingProducer | Finished

text \<open>The phases are ordered.\<close>

fun phase_rank :: "phase \<Rightarrow> nat" where
  "phase_rank Serving = 0" | "phase_rank Draining = 1" | "phase_rank StoppingBackground = 2"
| "phase_rank ClosingProducer = 3" | "phase_rank Finished = 4"

instantiation phase :: linorder
begin

definition less_eq_phase :: "phase \<Rightarrow> phase \<Rightarrow> bool" where "less_eq_phase a b \<longleftrightarrow> phase_rank a \<le> phase_rank b"
definition less_phase :: "phase \<Rightarrow> phase \<Rightarrow> bool" where "less_phase a b \<longleftrightarrow> phase_rank a < phase_rank b"

instance
proof
  show "a = b" if "a \<le> b" "b \<le> a" for a b :: phase
    using that by (cases a; cases b) (simp_all add: less_eq_phase_def)
qed (auto simp: less_eq_phase_def less_phase_def)

end

datatype publication = AccessLog access_log_event | AuthSession auth_session_event | BlacklistSync blacklist_sync_event

record shutdown_state =
  sh_phase :: phase
  sh_http :: nat
  sh_rpc :: nat
  sh_httpListening :: bool
  sh_grpcListening :: bool
  sh_expired :: bool
  sh_mainDone :: bool
  sh_metricsDone :: bool
  sh_grpcDone :: bool
  sh_bgSync :: bool
  sh_consumer :: bool
  sh_producer :: producer
  sh_lost :: "publication list"

datatype shutdown_event =
    HTTPStarts | HTTPPublishes publication | HTTPEnds
  | RPCStarts | RPCPublishes publication | RPCEnds
  | SignalReceived | HTTPStopsListening | GRPCStopsListening | DeadlineExpires
  | MainShutdownReturns | MetricsShutdownReturns | GracefulStopReturns
  | ServersStopped | ConsumerReturns | ProducerCloses | ProducerClosed
  | WorkerMoves producer_event

text \<open>Publishing from a handler: the producer afterwards, or the panic.\<close>

definition publish_to :: "publication \<Rightarrow> producer \<Rightarrow> producer result" where
  "publish_to x p = (case x of
     AccessLog e \<Rightarrow> producer_Publish e p
   | AuthSession a \<Rightarrow> producer_PublishAuthSession a p
   | BlacklistSync b \<Rightarrow> producer_PublishBlacklistSync b p)"

definition handler_publishes :: "publication \<Rightarrow> shutdown_state \<Rightarrow> (shutdown_state \<Rightarrow> shutdown_state) \<Rightarrow> shutdown_state" where
  "handler_publishes e s end_handler =
     (case publish_to e (sh_producer s) of
        Inr p \<Rightarrow> s\<lparr>sh_producer := p\<rparr>
      | Inl _ \<Rightarrow> (end_handler s)\<lparr>sh_lost := sh_lost s @ [e]\<rparr>)"

definition guard :: "bool \<Rightarrow> 'a \<Rightarrow> 'a option" where
  "guard b x = (if b then Some x else None)"

lemma guard_Some [simp]: "guard b x = Some y \<longleftrightarrow> b \<and> x = y"
  by (simp add: guard_def)

definition worker_moves :: "producer_event \<Rightarrow> producer \<Rightarrow> producer option" where
  "worker_moves ev p = (case ev of
     WorkerTakes AccessLane \<Rightarrow> runWorker lane_take p
   | WorkerWrites AccessLane ok \<Rightarrow> runWorker (lane_write ok) p
   | WorkerExits AccessLane \<Rightarrow> runWorker lane_exit p
   | WorkerTakes AuthLane \<Rightarrow> runAuthWorker lane_take p
   | WorkerWrites AuthLane ok \<Rightarrow> runAuthWorker (lane_write ok) p
   | WorkerExits AuthLane \<Rightarrow> runAuthWorker lane_exit p
   | WorkerTakes BlacklistLane \<Rightarrow> runBlacklistWorker lane_take p
   | WorkerWrites BlacklistLane ok \<Rightarrow> runBlacklistWorker (lane_write ok) p
   | WorkerExits BlacklistLane \<Rightarrow> runBlacklistWorker lane_exit p
   | _ \<Rightarrow> None)"

fun shutdown_step :: "shutdown_event \<Rightarrow> shutdown_state \<Rightarrow> shutdown_state option" where
  "shutdown_step HTTPStarts s = guard (sh_httpListening s) (s\<lparr>sh_http := sh_http s + 1\<rparr>)"
| "shutdown_step (HTTPPublishes e) s = guard (0 < sh_http s \<and> sh_phase s \<noteq> Finished) (handler_publishes e s (\<lambda>s. s\<lparr>sh_http := sh_http s - 1\<rparr>))"
| "shutdown_step HTTPEnds s = guard (0 < sh_http s \<and> sh_phase s \<noteq> Finished) (s\<lparr>sh_http := sh_http s - 1\<rparr>)"
| "shutdown_step RPCStarts s = guard (sh_grpcListening s) (s\<lparr>sh_rpc := sh_rpc s + 1\<rparr>)"
| "shutdown_step (RPCPublishes e) s = guard (0 < sh_rpc s) (handler_publishes e s (\<lambda>s. s\<lparr>sh_rpc := sh_rpc s - 1\<rparr>))"
| "shutdown_step RPCEnds s = guard (0 < sh_rpc s) (s\<lparr>sh_rpc := sh_rpc s - 1\<rparr>)"
| "shutdown_step SignalReceived s = guard (sh_phase s = Serving) (s\<lparr>sh_phase := Draining\<rparr>)"
| "shutdown_step HTTPStopsListening s = guard (sh_phase s = Draining) (s\<lparr>sh_httpListening := False\<rparr>)"
| "shutdown_step GRPCStopsListening s = guard (sh_phase s = Draining) (s\<lparr>sh_grpcListening := False\<rparr>)"
| "shutdown_step DeadlineExpires s = guard (sh_phase s = Draining) (s\<lparr>sh_expired := True\<rparr>)"
| "shutdown_step MainShutdownReturns s =
     guard (sh_phase s = Draining \<and> \<not> sh_httpListening s \<and> (sh_http s = 0 \<or> sh_expired s)) (s\<lparr>sh_mainDone := True\<rparr>)"
| "shutdown_step MetricsShutdownReturns s = guard (sh_phase s = Draining) (s\<lparr>sh_metricsDone := True\<rparr>)"
| "shutdown_step GracefulStopReturns s =
     guard (sh_phase s = Draining \<and> \<not> sh_grpcListening s \<and> sh_rpc s = 0) (s\<lparr>sh_grpcDone := True\<rparr>)"
| "shutdown_step ServersStopped s =
     guard (sh_phase s = Draining \<and> sh_mainDone s \<and> sh_metricsDone s \<and> sh_grpcDone s)
       (s\<lparr>sh_phase := StoppingBackground, sh_bgSync := False\<rparr>)"
| "shutdown_step ConsumerReturns s = guard (sh_phase s = StoppingBackground) (s\<lparr>sh_consumer := False\<rparr>)"
| "shutdown_step ProducerCloses s =
     guard (sh_phase s = StoppingBackground \<and> \<not> sh_consumer s)
       (s\<lparr>sh_phase := ClosingProducer, sh_producer := producer_close_channels (sh_producer s)\<rparr>)"
| "shutdown_step ProducerClosed s = guard (sh_phase s = ClosingProducer) (s\<lparr>sh_phase := Finished\<rparr>)"
| "shutdown_step (WorkerMoves ev) s = map_option (\<lambda>p. s\<lparr>sh_producer := p\<rparr>) (worker_moves ev (sh_producer s))"

inductive shutdown_run :: "shutdown_state \<Rightarrow> shutdown_event list \<Rightarrow> shutdown_state \<Rightarrow> bool" where
  shutdown_start: "shutdown_run s [] s"
| shutdown_next: "shutdown_run s evs s1 \<Longrightarrow> shutdown_step ev s1 = Some s' \<Longrightarrow> shutdown_run s (evs @ [ev]) s'"

text \<open>The process after start-up; \<open>consumer\<close> says whether the device-session consumer was started.\<close>

definition running :: "kafka_config \<Rightarrow> bool \<Rightarrow> shutdown_state" where
  "running cfg consumer = \<lparr>sh_phase = Serving, sh_http = 0, sh_rpc = 0, sh_httpListening = True, sh_grpcListening = True,
     sh_expired = False, sh_mainDone = False, sh_metricsDone = False, sh_grpcDone = False, sh_bgSync = True, sh_consumer = consumer,
     sh_producer = start_producer cfg, sh_lost = []\<rparr>"


subsection \<open>What the order of the phases gives\<close>

definition lanes_closed :: "producer \<Rightarrow> bool" where
  "lanes_closed p \<longleftrightarrow> ln_closed (pd_ch p) = pd_closeOnce p \<and> ln_closed (pd_authCh p) = pd_closeOnce p \<and>
     ln_closed (pd_blacklistCh p) = pd_closeOnce p"

lemma publish_to_keeps: "publish_to x p = Inr p' \<Longrightarrow> pd_closeOnce p' = pd_closeOnce p \<and> lanes_closed p' = lanes_closed p"
  by (auto simp: publish_to_def runners lane_send_def lanes_closed_def split: publication.splits if_splits)

lemma publish_to_panics: "publish_to x p = Inl e \<Longrightarrow> lanes_closed p \<Longrightarrow> pd_closeOnce p"
  by (auto simp: publish_to_def producer_Publish_def producer_PublishAuthSession_def producer_PublishBlacklistSync_def res_bind_def
      lane_send_def lanes_closed_def split: publication.splits if_splits sum.splits)

lemma worker_moves_keeps: "worker_moves ev p = Some p' \<Longrightarrow> pd_closeOnce p' = pd_closeOnce p \<and> lanes_closed p' = lanes_closed p"
  by (auto simp: worker_moves_def runWorker_def runAuthWorker_def runBlacklistWorker_def lanes_closed_def
      split: producer_event.splits lane_id.splits dest!: lane_worker_keeps(1-3))

lemma lanes_closed_close: "lanes_closed p \<Longrightarrow> lanes_closed (producer_close_channels p) \<and> pd_closeOnce (producer_close_channels p)"
  by (auto simp: lanes_closed_def producer_close_channels_def lane_close_def)

definition drained :: "shutdown_state \<Rightarrow> bool" where
  "drained s \<longleftrightarrow> \<not> sh_grpcListening s \<and> sh_rpc s = 0 \<and> \<not> sh_httpListening s \<and> (sh_http s = 0 \<or> sh_expired s)"

definition shutdown_inv :: "shutdown_state \<Rightarrow> bool" where
  "shutdown_inv s \<longleftrightarrow>
     lanes_closed (sh_producer s) \<and> (pd_closeOnce (sh_producer s) \<longrightarrow> sh_phase s = ClosingProducer \<or> sh_phase s = Finished) \<and>
     (sh_mainDone s \<longrightarrow> \<not> sh_httpListening s \<and> (sh_http s = 0 \<or> sh_expired s)) \<and>
     (sh_grpcDone s \<longrightarrow> \<not> sh_grpcListening s \<and> sh_rpc s = 0) \<and>
     (sh_phase s \<noteq> Serving \<and> sh_phase s \<noteq> Draining \<longrightarrow> drained s \<and> \<not> sh_bgSync s) \<and>
     (sh_phase s = ClosingProducer \<or> sh_phase s = Finished \<longrightarrow> \<not> sh_consumer s) \<and>
     (sh_lost s \<noteq> [] \<longrightarrow> sh_expired s)"

lemma shutdown_inv_closed: "shutdown_inv s \<Longrightarrow> pd_closeOnce (sh_producer s) \<Longrightarrow> drained s"
  by (auto simp: shutdown_inv_def)

lemma shutdown_inv_producer:
  assumes "shutdown_inv s" "pd_closeOnce p = pd_closeOnce (sh_producer s) \<and> lanes_closed p = lanes_closed (sh_producer s)"
  shows "shutdown_inv (s\<lparr>sh_producer := p\<rparr>)"
proof -
  have "drained (s\<lparr>sh_producer := p\<rparr>) = drained s"
    by (simp add: drained_def)
  with assms show ?thesis
    by (simp add: shutdown_inv_def)
qed

lemma shutdown_inv_http_ends:
  assumes "shutdown_inv s" "0 < sh_http s" "sh_expired s \<or> ls = sh_lost s"
  shows "shutdown_inv (s\<lparr>sh_http := sh_http s - 1, sh_lost := ls\<rparr>)"
  using assms unfolding shutdown_inv_def drained_def by (cases "sh_expired s") auto

lemma handler_publishes_http:
  assumes "shutdown_inv s" "0 < sh_http s"
  shows "shutdown_inv (handler_publishes e s (\<lambda>s. s\<lparr>sh_http := sh_http s - 1\<rparr>))"
proof (cases "publish_to e (sh_producer s)")
  case (Inl x)
  have "drained s"
    using publish_to_panics [OF Inl] assms(1) by (auto simp: shutdown_inv_def)
  then have "sh_expired s"
    using assms(2) by (auto simp: drained_def)
  then show ?thesis
    using shutdown_inv_http_ends [OF assms] Inl by (simp add: handler_publishes_def)
next
  case (Inr p)
  show ?thesis
    using shutdown_inv_producer [OF assms(1) publish_to_keeps [OF Inr]] Inr by (simp add: handler_publishes_def)
qed

lemma handler_publishes_rpc:
  assumes "shutdown_inv s" "0 < sh_rpc s"
  shows "shutdown_inv (handler_publishes e s (\<lambda>s. s\<lparr>sh_rpc := sh_rpc s - 1\<rparr>))"
proof (cases "publish_to e (sh_producer s)")
  case (Inl x)
  have "drained s"
    using publish_to_panics [OF Inl] assms(1) by (auto simp: shutdown_inv_def)
  then show ?thesis
    using assms(2) by (simp add: drained_def)
next
  case (Inr p)
  show ?thesis
    using shutdown_inv_producer [OF assms(1) publish_to_keeps [OF Inr]] Inr by (simp add: handler_publishes_def)
qed

lemma shutdown_step_inv:
  assumes "shutdown_step ev s = Some s'" "shutdown_inv s"
  shows "shutdown_inv s'"
proof (insert assms, cases ev)
  case (HTTPPublishes e)
  then show ?thesis using handler_publishes_http [of s e] assms by (simp only: shutdown_step.simps guard_Some)
next
  case HTTPEnds
  then show ?thesis using shutdown_inv_http_ends [of s "sh_lost s"] assms by auto
next
  case (RPCPublishes e)
  then show ?thesis using handler_publishes_rpc [of s e] assms by (simp only: shutdown_step.simps guard_Some)
next
  case ProducerCloses
  then show ?thesis using assms lanes_closed_close [of "sh_producer s"]
    by (simp only: shutdown_step.simps guard_Some shutdown_inv_def) (clarsimp simp: drained_def)
next
  case (WorkerMoves ev)
  then show ?thesis using shutdown_inv_producer [OF assms(2) worker_moves_keeps] assms by (simp only: shutdown_step.simps) auto
qed (simp only: shutdown_step.simps guard_Some shutdown_inv_def; clarsimp simp: drained_def; blast?)+

lemma shutdown_inv_running: "shutdown_inv (running cfg b)"
  by (simp add: shutdown_inv_def running_def lanes_closed_def start_producer_def new_lane_def)

lemma shutdown_run_inv: "shutdown_run s evs s' \<Longrightarrow> shutdown_inv s \<Longrightarrow> shutdown_inv s'"
  by (induction rule: shutdown_run.induct) (auto intro: shutdown_step_inv)

text \<open>No event takes the shutdown back to an earlier phase.\<close>

lemma shutdown_step_forward: "shutdown_step ev s = Some s' \<Longrightarrow> sh_phase s \<le> sh_phase s'"
  by (induction ev s rule: shutdown_step.induct) (auto simp: less_eq_phase_def handler_publishes_def split: sum.splits)

lemma shutdown_run_forward: "shutdown_run s evs s' \<Longrightarrow> sh_phase s \<le> sh_phase s'"
  by (induction rule: shutdown_run.induct) (auto dest: shutdown_step_forward intro: order_trans)

text \<open>Executing a schedule.\<close>

fun shutdown_exec :: "shutdown_event list \<Rightarrow> shutdown_state \<Rightarrow> shutdown_state option" where
  "shutdown_exec [] s = Some s"
| "shutdown_exec (ev # evs) s = Option.bind (shutdown_step ev s) (shutdown_exec evs)"

lemma shutdown_run_Cons: "shutdown_run s1 evs s' \<Longrightarrow> shutdown_step ev s = Some s1 \<Longrightarrow> shutdown_run s (ev # evs) s'"
proof (induction rule: shutdown_run.induct)
  case (shutdown_start s1)
  then show ?case using shutdown_run.shutdown_next [OF shutdown_run.shutdown_start, of ev s] by simp
next
  case (shutdown_next s1 evs s2 ev' s')
  then show ?case using shutdown_run.shutdown_next [of s "ev # evs" s2 ev' s'] by simp
qed

lemma shutdown_exec_run: "shutdown_exec evs s = Some s' \<Longrightarrow> shutdown_run s evs s'"
proof (induction evs arbitrary: s)
  case Nil
  then show ?case by (simp add: shutdown_run.shutdown_start)
next
  case (Cons ev evs)
  then show ?case by (auto simp: Option.bind_eq_Some_conv intro: shutdown_run_Cons)
qed

text \<open>
  C16. The order of the shutdown, in every interleaving of requests, calls, workers and the
  shutdown goroutine: the phases only go forward; after the drain no RPC is in flight, none
  can start and no request either, the background synchronisation is cancelled, and an HTTP
  request can only be in flight when the ten-second budget has expired; when the channels of
  the producer are closed the consumer has stopped too. So without an expired budget no
  event is ever lost to a closed channel.
\<close>

theorem shutdown_order:
  assumes "shutdown_run (running cfg consumer) evs1 s1" "shutdown_run s1 evs2 s"
  shows "sh_phase s1 \<le> sh_phase s \<and>
    (if Draining < sh_phase s then sh_rpc s = 0 \<and> \<not> sh_grpcListening s \<and> \<not> sh_httpListening s \<and> \<not> sh_bgSync s \<and>
       (if sh_expired s then True else sh_http s = 0) else True) \<and>
    (if pd_closeOnce (sh_producer s) then StoppingBackground < sh_phase s \<and> \<not> sh_consumer s else True) \<and>
    (if sh_expired s then True else sh_lost s = [])"
proof -
  have inv: "shutdown_inv s"
    by (rule shutdown_run_inv [OF assms(2) shutdown_run_inv [OF assms(1) shutdown_inv_running]])
  have "Draining < sh_phase s \<Longrightarrow> drained s \<and> \<not> sh_bgSync s"
    "pd_closeOnce (sh_producer s) \<Longrightarrow> StoppingBackground < sh_phase s \<and> \<not> sh_consumer s" "sh_lost s \<noteq> [] \<Longrightarrow> sh_expired s"
    using inv unfolding shutdown_inv_def by (cases "sh_phase s"; simp add: less_phase_def)+
  then show ?thesis
    using shutdown_run_forward [OF assms(2)] by (simp add: drained_def) blast
qed

text \<open>A complete shutdown with one request in flight.\<close>

definition clean_shutdown :: "publication \<Rightarrow> shutdown_event list" where
  "clean_shutdown x = [HTTPStarts, SignalReceived, HTTPStopsListening, GRPCStopsListening, GracefulStopReturns, MetricsShutdownReturns,
     HTTPPublishes x, HTTPEnds, MainShutdownReturns, ServersStopped, ConsumerReturns, ProducerCloses]"

definition sample_publication :: publication where
  "sample_publication = AuthSession sample_auth_event"

lemmas shutdown_run_simps = running_def handler_publishes_def publish_to_def producer_PublishAuthSession_def start_producer_def
  new_lane_def lane_send_def producer_close_channels_def lane_close_def

theorem shutdown_order_witness:
  "case shutdown_exec (clean_shutdown sample_publication) (running sample_kafka True) of
     Some s \<Rightarrow> pd_closeOnce (sh_producer s) \<and> sh_http s = 0 \<and> sh_lost s = []
   | None \<Rightarrow> False"
proof -
  obtain s where s: "shutdown_exec (clean_shutdown sample_publication) (running sample_kafka True) = Some s"
    and c: "pd_closeOnce (sh_producer s)" "\<not> sh_expired s"
    by (simp add: clean_shutdown_def sample_publication_def shutdown_run_simps guard_def)
  from shutdown_order [OF shutdown_run.shutdown_start shutdown_exec_run [OF s]] c show ?thesis
    by (simp add: s less_phase_def)
qed

text \<open>
  The budget is not a guarantee: when it expires with a request still in flight, the
  goroutine closes the producer under that request, whose publication then panics, and the
  event is lost, although the wait before is meant to exclude it.
\<close>

theorem expired_budget_loses_event:
  "\<exists>evs s. shutdown_run (running cfg consumer) evs s \<and> sh_phase s = ClosingProducer \<and> sh_lost s = [x] \<and>
     publish_to x (sh_producer s) = Inl (Errorf ''send on closed channel'' [])"
proof -
  let ?evs = "[HTTPStarts, SignalReceived, HTTPStopsListening, GRPCStopsListening, GracefulStopReturns, MetricsShutdownReturns,
     DeadlineExpires, MainShutdownReturns, ServersStopped, ConsumerReturns, ProducerCloses, HTTPPublishes x]"
  have "\<exists>s. shutdown_exec ?evs (running cfg consumer) = Some s \<and> sh_phase s = ClosingProducer \<and> sh_lost s = [x] \<and>
     publish_to x (sh_producer s) = Inl (Errorf ''send on closed channel'' [])"
    by (cases x) (simp_all add: shutdown_run_simps guard_def producer_Publish_def producer_PublishBlacklistSync_def res_bind_def)
  then show ?thesis
    using shutdown_exec_run by blast
qed

lemma rpc_kept:
  assumes "shutdown_step ev s = Some s'" "shutdown_inv s" "sh_phase s = Draining" "0 < sh_rpc s"
    and "ev \<noteq> RPCEnds" "\<And>x. ev \<noteq> RPCPublishes x"
  shows "sh_phase s' = Draining \<and> sh_rpc s \<le> sh_rpc s'"
proof (cases "ev = ServersStopped")
  case True
  then show ?thesis using assms by (simp add: shutdown_inv_def)
next
  case False
  then show ?thesis using assms by (cases ev) (auto simp: handler_publishes_def split: sum.splits)
qed

lemma stuck_run:
  assumes "shutdown_run s evs s'" "shutdown_inv s" "sh_phase s = Draining" "0 < sh_rpc s"
  shows "list_all (\<lambda>ev. ev \<noteq> RPCEnds \<and> (\<forall>x. ev \<noteq> RPCPublishes x)) evs \<longrightarrow>
    sh_phase s' = Draining \<and> sh_rpc s \<le> sh_rpc s' \<and> shutdown_inv s'"
  using assms
proof (induction rule: shutdown_run.induct)
  case (shutdown_next s evs s1 ev s')
  then show ?case using rpc_kept [of ev s1 s'] shutdown_step_inv [of ev s1 s'] by auto
qed simp

text \<open>
  \<open>GracefulStop\<close> has no deadline: while one RPC stays in flight, every schedule, however
  long, leaves the shutdown in its first phase, with the producer open and the background
  goroutines running, whether or not the budget has expired.
\<close>

theorem stuck_rpc_blocks_shutdown:
  assumes "shutdown_run (running cfg consumer) evs s" "sh_phase s = Draining" "0 < sh_rpc s"
    and "shutdown_run s evs' s'" "list_all (\<lambda>ev. ev \<noteq> RPCEnds \<and> (\<forall>x. ev \<noteq> RPCPublishes x)) evs'"
  shows "sh_phase s' = Draining \<and> \<not> pd_closeOnce (sh_producer s')"
  using stuck_run [OF assms(4) shutdown_run_inv [OF assms(1) shutdown_inv_running] assms(2,3)] assms(5)
  by (auto simp: shutdown_inv_def)

theorem stuck_rpc_blocks_shutdown_witness:
  "case shutdown_exec [RPCStarts, SignalReceived] (running sample_kafka True) of
     Some s \<Rightarrow> (case shutdown_exec [DeadlineExpires, HTTPStopsListening, MainShutdownReturns, MetricsShutdownReturns] s of
        Some s' \<Rightarrow> sh_phase s' = Draining \<and> \<not> pd_closeOnce (sh_producer s')
      | None \<Rightarrow> False)
   | None \<Rightarrow> False"
proof -
  obtain s where s: "shutdown_exec [RPCStarts, SignalReceived] (running sample_kafka True) = Some s"
    and d: "sh_phase s = Draining" "sh_rpc s = 1" "sh_httpListening s"
    by (simp add: running_def guard_def)
  obtain s' where s': "shutdown_exec [DeadlineExpires, HTTPStopsListening, MainShutdownReturns, MetricsShutdownReturns] s = Some s'"
    using d by (simp add: guard_def)
  from stuck_rpc_blocks_shutdown [OF shutdown_exec_run [OF s] d(1) _ shutdown_exec_run [OF s']] d(2) show ?thesis
    by (simp only: s s' option.case) simp
qed

end
