(* ===== verification/Breaker_Concurrency.thy ===== *)
theory Breaker_Concurrency imports Circuit_Breaker begin

text \<open>
  \<open>internal/resilience/circuit_breaker.go\<close> once more, with its goroutines interleaved at the
  atomic operations: every load, store, compare-and-swap and counter increment on the
  fields of the breaker is one step (the backoff helpers hold a mutex and are one step). A
  goroutine calls \<open>Allow\<close>; when it is let through it is \<open>Admitted\<close>, works, and then calls
  \<open>RecordSuccess\<close> or \<open>RecordFailure\<close> once, which is what \<open>Breaker_Protocol\<close> proves of the
  callers.

  Proved: a method that runs undisturbed does what \<open>Circuit_Breaker\<close> defines; there is an
  interleaving after which no goroutine is working, the state is HALF-OPEN and the probe
  slot is taken; and from there no goroutine is ever let through again.
\<close>

section \<open>Goroutines\<close>

datatype pc =
    Idle | Admitted
  | AllowTime | AllowCas | AllowFire | AllowProbe
  | SuccProbe cb_state | SuccFailures cb_state | SuccState cb_state | SuccFire cb_state
  | FailProbe | FailExtend | FailNow | FailNext int | FailState | FailFire | FailCapture
  | FailAdd | TripCas | TripReset | TripNow | TripNext int | TripFire | TripCapture

text \<open>A step begins a call or goes on with one; the clock and the random source answer \<open>now\<close> and \<open>r\<close>.\<close>

datatype act = Begin cb_call | Go int int

definition jittered :: "cb_config \<Rightarrow> int \<Rightarrow> int \<Rightarrow> int" where
  "jittered cfg base r =
     (let jitterRange = go_div (i64 (base * JitterPct cfg)) 100 in
      if jitterRange = 0 then base else i64 (base + i64 (r - jitterRange)))"

definition fired :: "cb_event \<Rightarrow> bool \<Rightarrow> breaker \<Rightarrow> breaker" where
  "fired e on b = (if on then b\<lparr>cb_events := cb_events b @ [e]\<rparr> else b)"

fun begin_call :: "cb_call \<Rightarrow> pc \<Rightarrow> breaker \<Rightarrow> pc option" where
  "begin_call CallAllow Idle b =
     Some (case cb_state b of StateClosed \<Rightarrow> Admitted | StateOpen \<Rightarrow> AllowTime | StateHalfOpen \<Rightarrow> AllowProbe)"
| "begin_call CallSuccess Admitted b = Some (SuccProbe (cb_state b))"
| "begin_call CallFailure Admitted b =
     Some (case cb_state b of StateHalfOpen \<Rightarrow> FailProbe | StateClosed \<Rightarrow> FailAdd | StateOpen \<Rightarrow> Idle)"
| "begin_call _ _ _ = None"

fun go_on :: "cb_config \<Rightarrow> int \<Rightarrow> int \<Rightarrow> pc \<Rightarrow> breaker \<Rightarrow> (pc \<times> breaker) option" where
  "go_on cfg now r AllowTime b = Some (if now < cb_nextProbeAt b then Idle else AllowCas, b)"
| "go_on cfg now r AllowCas b =
     Some (if cb_state b = StateOpen then (AllowFire, b\<lparr>cb_state := StateHalfOpen\<rparr>) else (Idle, b))"
| "go_on cfg now r AllowFire b = Some (AllowProbe, fired (StateChange StateOpen StateHalfOpen) (cb_hasOnStateChange b) b)"
| "go_on cfg now r AllowProbe b =
     Some (if cb_probeInFlight b = 0 then (Admitted, b\<lparr>cb_probeInFlight := 1\<rparr>) else (Idle, b))"
| "go_on cfg now r (SuccProbe from) b = Some (SuccFailures from, b\<lparr>cb_probeInFlight := 0\<rparr>)"
| "go_on cfg now r (SuccFailures from) b = Some (SuccState from, b\<lparr>cb_failures := 0\<rparr>)"
| "go_on cfg now r (SuccState from) b = Some (if from \<noteq> StateClosed then SuccFire from else Idle, b\<lparr>cb_state := StateClosed\<rparr>)"
| "go_on cfg now r (SuccFire from) b = Some (Idle, fired (StateChange from StateClosed) (cb_hasOnStateChange b) b)"
| "go_on cfg now r FailProbe b = Some (FailExtend, b\<lparr>cb_probeInFlight := 0\<rparr>)"
| "go_on cfg now r FailExtend b =
     Some (FailNow, b\<lparr>cb_backoffNanos := jittered cfg
       (let doubled = i64 (cb_backoffNanos b * 2) in if doubled > ProbeMaxNanos cfg then ProbeMaxNanos cfg else doubled) r\<rparr>)"
| "go_on cfg now r FailNow b = Some (FailNext (i64 (now + cb_backoffNanos b)), b)"
| "go_on cfg now r (FailNext t) b = Some (FailState, b\<lparr>cb_nextProbeAt := t\<rparr>)"
| "go_on cfg now r FailState b = Some (FailFire, b\<lparr>cb_state := StateOpen\<rparr>)"
| "go_on cfg now r FailFire b = Some (FailCapture, fired (StateChange StateHalfOpen StateOpen) (cb_hasOnStateChange b) b)"
| "go_on cfg now r FailCapture b = Some (Idle, fired CaptureProbeFailed (cb_hasCapture b) b)"
| "go_on cfg now r FailAdd b =
     Some (if i32 (cb_failures b + 1) \<ge> FailureThreshold cfg then TripCas else Idle, b\<lparr>cb_failures := i32 (cb_failures b + 1)\<rparr>)"
| "go_on cfg now r TripCas b =
     Some (if cb_state b = StateClosed then (TripReset, b\<lparr>cb_state := StateOpen\<rparr>) else (Idle, b))"
| "go_on cfg now r TripReset b = Some (TripNow, b\<lparr>cb_backoffNanos := jittered cfg (ProbeBaseNanos cfg) r\<rparr>)"
| "go_on cfg now r TripNow b = Some (TripNext (i64 (now + cb_backoffNanos b)), b)"
| "go_on cfg now r (TripNext t) b = Some (TripFire, b\<lparr>cb_nextProbeAt := t\<rparr>)"
| "go_on cfg now r TripFire b = Some (TripCapture, fired (StateChange StateClosed StateOpen) (cb_hasOnStateChange b) b)"
| "go_on cfg now r TripCapture b = Some (Idle, fired CaptureTripped (cb_hasCapture b) b)"
| "go_on cfg now r Idle b = None"
| "go_on cfg now r Admitted b = None"

fun goroutine_step :: "cb_config \<Rightarrow> act \<Rightarrow> pc \<Rightarrow> breaker \<Rightarrow> (pc \<times> breaker) option" where
  "goroutine_step cfg (Begin c) p b = map_option (\<lambda>p'. (p', b)) (begin_call c p b)"
| "goroutine_step cfg (Go now r) p b = go_on cfg now r p b"

section \<open>Interleaving\<close>

type_synonym conc = "breaker \<times> (nat \<Rightarrow> pc)"

inductive conc_step :: "cb_config \<Rightarrow> conc \<Rightarrow> conc \<Rightarrow> bool" for cfg :: cb_config where
  conc_step: "goroutine_step cfg a (pcs i) b = Some (p', b') \<Longrightarrow> conc_step cfg (b, pcs) (b', pcs(i := p'))"

inductive_cases conc_stepE: "conc_step cfg (b, pcs) c"

text \<open>A schedule says which goroutine moves next.\<close>

fun conc_run :: "cb_config \<Rightarrow> (nat \<times> act) list \<Rightarrow> conc \<Rightarrow> conc option" where
  "conc_run cfg [] c = Some c"
| "conc_run cfg ((i, a) # sched) (b, pcs) =
     (case goroutine_step cfg a (pcs i) b of None \<Rightarrow> None | Some (p', b') \<Rightarrow> conc_run cfg sched (b', pcs(i := p')))"

lemma conc_run_steps: "conc_run cfg sched c = Some c' \<Longrightarrow> (conc_step cfg)\<^sup>*\<^sup>* c c'"
proof (induction cfg sched c rule: conc_run.induct)
  case (2 cfg i a sched b pcs)
  then obtain p' b' where s: "goroutine_step cfg a (pcs i) b = Some (p', b')" "conc_run cfg sched (b', pcs(i := p')) = Some c'"
    by (auto split: option.splits)
  with 2 have "(conc_step cfg)\<^sup>*\<^sup>* (b', pcs(i := p')) c'" by blast
  with s(1) show ?case by (meson conc_step converse_rtranclp_into_rtranclp)
qed simp

text \<open>\<open>Admitted\<close> and \<open>Idle\<close> goroutines are between calls.\<close>

definition all_idle :: "(nat \<Rightarrow> pc) \<Rightarrow> bool" where
  "all_idle pcs \<longleftrightarrow> (\<forall>i. pcs i = Idle)"

section \<open>A breaker that refuses forever\<close>

definition wedged :: "conc \<Rightarrow> bool" where
  "wedged c \<longleftrightarrow> cb_state (fst c) = StateHalfOpen \<and> cb_probeInFlight (fst c) \<noteq> 0 \<and> (\<forall>i. snd c i \<in> {Idle, AllowProbe})"

lemma wedged_step:
  assumes "conc_step cfg c c'" "wedged c"
  shows "wedged c'"
  using assms
proof (induction rule: conc_step.induct)
  case (conc_step a pcs i b p' b')
  then have "pcs i = Idle \<or> pcs i = AllowProbe" "cb_state b = StateHalfOpen" "cb_probeInFlight b \<noteq> 0"
    by (auto simp: wedged_def)
  with conc_step show ?case
    by (cases a; cases "pcs i") (auto simp: wedged_def elim!: begin_call.elims split: if_splits)
qed

text \<open>
  When the breaker is half open, its probe slot taken and nobody working, it stays so: no
  sequence of calls, whatever the clock shows, lets a goroutine through again. Redis is
  bypassed until the process is restarted.
\<close>

lemma wedged_forever:
  assumes "(conc_step cfg)\<^sup>*\<^sup>* c c'" "wedged c"
  shows "wedged c' \<and> (\<forall>i. snd c' i \<noteq> Admitted)"
proof -
  from assms have "wedged c'"
    by (induction rule: rtranclp_induct) (auto intro: wedged_step)
  moreover have "snd c' i \<noteq> Admitted" for i
    using \<open>wedged c'\<close> by (cases "snd c' i") (auto simp: wedged_def dest!: spec [of _ i])
  ultimately show ?thesis by blast
qed

text \<open>
  The schedule. Goroutine 0 fails until the breaker trips; once the backoff has passed,
  goroutine 1 is the probe and succeeds; between its store to the probe slot and its store
  to the state, goroutine 2 takes the slot, and later fails while the state is already
  CLOSED, where \<open>RecordFailure\<close> does not give the slot back. At the next outage the breaker
  opens again and goroutine 3, whose backoff has passed, finds the slot taken.
\<close>

definition go :: "nat \<Rightarrow> nat \<Rightarrow> int \<Rightarrow> (nat \<times> act) list" where
  "go i n now = replicate n (i, Go now 0)"

definition failed_call :: "nat \<Rightarrow> int \<Rightarrow> (nat \<times> act) list" where
  "failed_call i now = [(i, Begin CallAllow), (i, Begin CallFailure)] @ go i 1 now"

definition tripping_call :: "nat \<Rightarrow> int \<Rightarrow> (nat \<times> act) list" where
  "tripping_call i now = failed_call i now @ go i 6 now"

definition wedging_schedule :: "int \<Rightarrow> int \<Rightarrow> (nat \<times> act) list" where
  "wedging_schedule t1 t2 =
     failed_call 0 0 @ failed_call 0 0 @ failed_call 0 0 @ failed_call 0 0 @ tripping_call 0 0 @
     [(1, Begin CallAllow)] @ go 1 4 t1 @ [(1, Begin CallSuccess)] @ go 1 1 t1 @
     [(2, Begin CallAllow)] @ go 2 1 t1 @
     go 1 3 t1 @ [(2, Begin CallFailure)] @ go 2 1 t1 @
     failed_call 0 t1 @ failed_call 0 t1 @ failed_call 0 t1 @ tripping_call 0 t1 @
     [(3, Begin CallAllow)] @ go 3 4 t2"

definition default_cfg :: cb_config where
  "default_cfg = \<lparr>FailureThreshold = 5, ProbeBaseNanos = 60 * second, ProbeMaxNanos = 300 * second, JitterPct = 15\<rparr>"

text \<open>
  C13. With its default configuration the breaker can refuse forever. There is an interleaving of
  goroutines that keep to the protocol after which every call has returned, yet whatever
  happens later no goroutine is let through: Redis is bypassed until the process restarts.
\<close>

theorem breaker_can_wedge:
  "\<exists>c. (conc_step default_cfg)\<^sup>*\<^sup>* (new_circuit_breaker True False, \<lambda>_. Idle) c \<and> all_idle (snd c) \<and>
     {c'. (conc_step default_cfg)\<^sup>*\<^sup>* c c'} \<subseteq> {c'. \<forall>i. snd c' i \<noteq> Admitted}"
proof -
  let ?final = "\<lambda>c. wedged c \<and> all_idle (snd c)"
  have "case conc_run default_cfg (wedging_schedule (120 * second) (400 * second)) (new_circuit_breaker True False, \<lambda>_. Idle) of
      None \<Rightarrow> False | Some c \<Rightarrow> ?final c"
    by (simp add: wedging_schedule_def tripping_call_def failed_call_def go_def new_circuit_breaker_def default_cfg_def fired_def
        jittered_def go_div_def duration_defs i64_def i32_def Let_def wedged_def all_idle_def eval_nat_numeral)
  then obtain c where c: "conc_run default_cfg (wedging_schedule (120 * second) (400 * second)) (new_circuit_breaker True False, \<lambda>_. Idle) = Some c"
      "wedged c" "all_idle (snd c)"
    by (auto split: option.splits)
  then show ?thesis
    using conc_run_steps [OF c(1)] wedged_forever [where c = c] by blast
qed

section \<open>A method that runs undisturbed\<close>

definition ready :: "cb_call \<Rightarrow> pc \<Rightarrow> bool" where
  "ready call p \<longleftrightarrow> p = (if call = CallAllow then Idle else Admitted)"

definition solo_run :: "cb_config \<Rightarrow> act list \<Rightarrow> pc \<Rightarrow> breaker \<Rightarrow> (pc \<times> breaker) option" where
  "solo_run cfg as p b = foldl (\<lambda>r a. case r of None \<Rightarrow> None | Some (p, b) \<Rightarrow> goroutine_step cfg a p b) (Some (p, b)) as"

lemma solo_allow:
  assumes "run_state (cb_Allow E) p = (r, p')"
  shows "\<exists>as. solo_run cfg as Idle (pr_breaker p) = Some (if r then Admitted else Idle, pr_breaker p')"
proof (cases "cb_state (pr_breaker p)")
  case StateClosed
  with assms show ?thesis
    by (intro exI [of _ "[Begin CallAllow]"]) (auto simp: cb_Allow_def solo_run_def)
next
  case StateHalfOpen
  with assms show ?thesis
    by (intro exI [of _ "[Begin CallAllow, Go 0 0]"]) (auto simp: cb_Allow_def solo_run_def cas_probe_def split: if_splits)
next
  case StateOpen
  let ?now = "fst (run_state (env_now E) (pr_ext p))"
  show ?thesis
  proof (cases "?now < cb_nextProbeAt (pr_breaker p)")
    case True
    with StateOpen assms show ?thesis
      by (intro exI [of _ "[Begin CallAllow, Go ?now 0]"]) (auto simp: cb_Allow_def solo_run_def split: prod.splits)
  next
    case False
    with StateOpen assms show ?thesis
      by (intro exI [of _ "[Begin CallAllow, Go ?now 0, Go 0 0, Go 0 0, Go 0 0]"])
        (auto simp: cb_Allow_def solo_run_def cas_state_def cas_probe_def fireStateChange_def fired_def split: prod.splits if_splits)
  qed
qed

lemma solo_success:
  assumes "run_state cb_RecordSuccess p = (u, p')"
  shows "\<exists>as. solo_run cfg as Admitted (pr_breaker p) = Some (Idle, pr_breaker p')"
proof (cases "cb_state (pr_breaker p) = StateClosed")
  case True
  with assms show ?thesis
    by (intro exI [of _ "[Begin CallSuccess, Go 0 0, Go 0 0, Go 0 0]"]) (auto simp: cb_RecordSuccess_def solo_run_def Let_def)
next
  case False
  with assms show ?thesis
    by (intro exI [of _ "[Begin CallSuccess, Go 0 0, Go 0 0, Go 0 0, Go 0 0]"])
      (auto simp: cb_RecordSuccess_def solo_run_def fireStateChange_def fired_def Let_def split: if_splits)
qed

text \<open>The jitter of the backoff helpers is the one some random answer gives.\<close>

lemma applyJitter_jittered: "\<exists>r x. run_state (applyJitter E cfg base) p = (jittered cfg base r, p\<lparr>pr_ext := x\<rparr>)"
proof (cases "go_div (i64 (base * JitterPct cfg)) 100 = 0")
  case True
  then have "run_state (applyJitter E cfg base) p = (jittered cfg base 0, p\<lparr>pr_ext := pr_ext p\<rparr>)"
    by (simp add: applyJitter_def jittered_def Let_def)
  then show ?thesis by blast
next
  case False
  then show ?thesis
    by (auto simp: applyJitter_def jittered_def Let_def split: prod.splits)
qed

lemma resetBackoff_run:
  "\<exists>r x. run_state (resetBackoff E cfg) p = ((), p\<lparr>pr_ext := x, pr_breaker := (pr_breaker p)\<lparr>cb_backoffNanos := jittered cfg (ProbeBaseNanos cfg) r\<rparr>\<rparr>)"
  using applyJitter_jittered [of E cfg "ProbeBaseNanos cfg" p] by (elim exE, intro exI) (simp add: resetBackoff_def)

definition doubled_backoff :: "cb_config \<Rightarrow> breaker \<Rightarrow> int" where
  "doubled_backoff cfg b = (let doubled = i64 (cb_backoffNanos b * 2) in if doubled > ProbeMaxNanos cfg then ProbeMaxNanos cfg else doubled)"

lemma extendBackoff_run:
  "\<exists>r x. run_state (extendBackoff E cfg) p = ((), p\<lparr>pr_ext := x, pr_breaker := (pr_breaker p)\<lparr>cb_backoffNanos := jittered cfg (doubled_backoff cfg (pr_breaker p)) r\<rparr>\<rparr>)"
  using applyJitter_jittered [of E cfg "doubled_backoff cfg (pr_breaker p)" p]
  by (elim exE, intro exI) (simp add: extendBackoff_def doubled_backoff_def [symmetric, unfolded Let_def] Let_def)

lemma storeNextProbe_run:
  "\<exists>now x. run_state (storeNextProbe E) p = ((), p\<lparr>pr_ext := x, pr_breaker := (pr_breaker p)\<lparr>cb_nextProbeAt := i64 (now + cb_backoffNanos (pr_breaker p))\<rparr>\<rparr>)"
  by (auto simp: storeNextProbe_def loadBackoff_def split: prod.splits)

lemma solo_failure_half:
  assumes "run_state (cb_RecordFailure E cfg) p = (u, p')" "cb_state (pr_breaker p) = StateHalfOpen"
  shows "\<exists>as. solo_run cfg as Admitted (pr_breaker p) = Some (Idle, pr_breaker p')"
proof -
  let ?p1 = "p\<lparr>pr_breaker := (pr_breaker p)\<lparr>cb_probeInFlight := 0\<rparr>\<rparr>"
  obtain r x where ext: "run_state (extendBackoff E cfg) ?p1 = ((), ?p1\<lparr>pr_ext := x, pr_breaker :=
      (pr_breaker ?p1)\<lparr>cb_backoffNanos := jittered cfg (doubled_backoff cfg (pr_breaker ?p1)) r\<rparr>\<rparr>)"
    using extendBackoff_run [of E cfg ?p1] by blast
  let ?p2 = "?p1\<lparr>pr_ext := x, pr_breaker := (pr_breaker ?p1)\<lparr>cb_backoffNanos := jittered cfg (doubled_backoff cfg (pr_breaker ?p1)) r\<rparr>\<rparr>"
  obtain now y where nxt: "run_state (storeNextProbe E) ?p2 = ((), ?p2\<lparr>pr_ext := y, pr_breaker :=
      (pr_breaker ?p2)\<lparr>cb_nextProbeAt := i64 (now + cb_backoffNanos (pr_breaker ?p2))\<rparr>\<rparr>)"
    using storeNextProbe_run [of E ?p2] by blast
  show ?thesis
    using assms ext nxt
    by (intro exI [of _ "[Begin CallFailure, Go 0 0, Go 0 r, Go now 0, Go 0 0, Go 0 0, Go 0 0, Go 0 0]"])
      (auto simp: cb_RecordFailure_def solo_run_def fireStateChange_def capture_def fired_def doubled_backoff_def Let_def)
qed

lemma solo_failure_closed:
  assumes "run_state (cb_RecordFailure E cfg) p = (u, p')" "cb_state (pr_breaker p) = StateClosed"
  shows "\<exists>as. solo_run cfg as Admitted (pr_breaker p) = Some (Idle, pr_breaker p')"
proof (cases "i32 (cb_failures (pr_breaker p) + 1) \<ge> FailureThreshold cfg")
  case False
  with assms show ?thesis
    by (intro exI [of _ "[Begin CallFailure, Go 0 0]"]) (auto simp: cb_RecordFailure_def solo_run_def)
next
  case True
  let ?p1 = "p\<lparr>pr_breaker := (pr_breaker p)\<lparr>cb_failures := i32 (cb_failures (pr_breaker p) + 1), cb_state := StateOpen\<rparr>\<rparr>"
  obtain r x where res: "run_state (resetBackoff E cfg) ?p1 = ((), ?p1\<lparr>pr_ext := x, pr_breaker :=
      (pr_breaker ?p1)\<lparr>cb_backoffNanos := jittered cfg (ProbeBaseNanos cfg) r\<rparr>\<rparr>)"
    using resetBackoff_run [of E cfg ?p1] by blast
  let ?p2 = "?p1\<lparr>pr_ext := x, pr_breaker := (pr_breaker ?p1)\<lparr>cb_backoffNanos := jittered cfg (ProbeBaseNanos cfg) r\<rparr>\<rparr>"
  obtain now y where nxt: "run_state (storeNextProbe E) ?p2 = ((), ?p2\<lparr>pr_ext := y, pr_breaker :=
      (pr_breaker ?p2)\<lparr>cb_nextProbeAt := i64 (now + cb_backoffNanos (pr_breaker ?p2))\<rparr>\<rparr>)"
    using storeNextProbe_run [of E ?p2] by blast
  show ?thesis
    using assms True res nxt
    by (intro exI [of _ "[Begin CallFailure, Go 0 0, Go 0 0, Go 0 r, Go now 0, Go 0 0, Go 0 0, Go 0 0]"])
      (auto simp: cb_RecordFailure_def solo_run_def cas_state_def fireStateChange_def capture_def fired_def)
qed

lemma solo_failure:
  assumes "run_state (cb_RecordFailure E cfg) p = (u, p')"
  shows "\<exists>as. solo_run cfg as Admitted (pr_breaker p) = Some (Idle, pr_breaker p')"
proof (cases "cb_state (pr_breaker p)")
  case StateOpen
  with assms show ?thesis
    by (intro exI [of _ "[Begin CallFailure]"]) (auto simp: cb_RecordFailure_def solo_run_def)
qed (use assms solo_failure_half solo_failure_closed in blast)+

text \<open>The other goroutines do not notice.\<close>

lemma solo_run_Cons: "solo_run cfg (a # as) p b = (case goroutine_step cfg a p b of None \<Rightarrow> None | Some (p', b') \<Rightarrow> solo_run cfg as p' b')"
proof -
  have none: "foldl (\<lambda>r a. case r of None \<Rightarrow> None | Some (p, b) \<Rightarrow> goroutine_step cfg a p b) None xs = None" for xs
    by (induction xs) simp_all
  show ?thesis by (simp add: solo_run_def none split: option.split)
qed

lemma solo_conc: "solo_run cfg as (pcs i) b = Some (p', b') \<Longrightarrow> conc_run cfg (map (Pair i) as) (b, pcs) = Some (b', pcs(i := p'))"
proof (induction as arbitrary: pcs b)
  case Nil
  then show ?case by (simp add: solo_run_def fun_upd_idem)
next
  case (Cons a as)
  then obtain q c where s: "goroutine_step cfg a (pcs i) b = Some (q, c)" "solo_run cfg as q c = Some (p', b')"
    by (auto simp: solo_run_Cons split: option.splits)
  have "conc_run cfg (map (Pair i) as) (c, pcs(i := q)) = Some (b', (pcs(i := q))(i := p'))"
    by (rule Cons.IH) (simp add: s(2))
  then show ?case by (simp only: list.map conc_run.simps s(1) option.case prod.case fun_upd_upd)
qed



end
