(* ===== verification/Breaker_Protocol.thy ===== *)
theory Breaker_Protocol imports Grpc_Server Resilient_Sessions Blacklist Device_Repository begin

text \<open>
  The protocol between the circuit breaker and its clients, the four decorators of
  \<open>internal/resilience\<close>. An admitted caller owes the breaker one report: after
  \<open>Allow\<close> let a probe through, the breaker stays half open, refusing everybody, until that
  caller reports. The decorators are run over dictionaries that record the calls of the breaker and of
  the decorated component.
\<close>

section \<open>Recording\<close>

text \<open>\<open>Ran b\<close> is a call of the decorated component, \<open>b\<close> whether it ended in an infrastructure error.\<close>

datatype breaker_call = Asked bool | Ran bool | Reported bool

definition rec_breaker :: "'w circuit_breaker \<Rightarrow> ('w \<times> breaker_call list) circuit_breaker" where
  "rec_breaker cb = \<lparr>cbi_Allow = recorded Asked (cbi_Allow cb), cbi_RecordSuccess = recorded (\<lambda>_. Reported True) (cbi_RecordSuccess cb),
     cbi_RecordFailure = recorded (\<lambda>_. Reported False) (cbi_RecordFailure cb), cbi_State = silent (cbi_State cb)\<rparr>"

definition ran_err :: "error option \<Rightarrow> breaker_call" where
  "ran_err err = Ran (is_infra_error err)"

definition ran :: "'a result \<Rightarrow> breaker_call" where
  "ran r = Ran (case r of Inl err \<Rightarrow> is_infra_error (Some err) | Inr _ \<Rightarrow> False)"

definition run_store :: "'w session_store \<Rightarrow> ('w \<times> breaker_call list) session_store" where
  "run_store s = \<lparr>
     ss_Create = (\<lambda>x. recorded ran_err (ss_Create s x)),
     ss_Get = (\<lambda>i. recorded ran (ss_Get s i)),
     ss_Update = (\<lambda>x. recorded ran_err (ss_Update s x)),
     ss_Delete = (\<lambda>i. recorded ran_err (ss_Delete s i)),
     ss_GetAllForUser = (\<lambda>k. recorded ran (ss_GetAllForUser s k)),
     ss_DeleteAllForUser = (\<lambda>k. recorded ran (ss_DeleteAllForUser s k)),
     ss_AcquireRefreshLock = (\<lambda>i t. recorded ran (ss_AcquireRefreshLock s i t)),
     ss_ReleaseRefreshLock = (\<lambda>i. recorded ran_err (ss_ReleaseRefreshLock s i))\<rparr>"

definition run_blacklist :: "'w blacklist \<Rightarrow> ('w \<times> breaker_call list) blacklist" where
  "run_blacklist b = \<lparr>bl_Add = (\<lambda>i t. recorded ran_err (bl_Add b i t)),
     bl_IsBlacklisted = (\<lambda>i. recorded (\<lambda>r. ran_err (snd r)) (bl_IsBlacklisted b i)),
     bl_AddBatch = (\<lambda>is t. recorded ran_err (bl_AddBatch b is t))\<rparr>"

definition run_repo :: "'w redis_repo \<Rightarrow> ('w \<times> breaker_call list) redis_repo" where
  "run_repo r = \<lparr>
     rr_SaveLogin = (\<lambda>k d t n. recorded ran_err (rr_SaveLogin r k d t n)),
     rr_GetDeviceRefreshToken = (\<lambda>k d. recorded ran (rr_GetDeviceRefreshToken r k d)),
     rr_RotateRefreshToken = (\<lambda>k d t n. recorded ran_err (rr_RotateRefreshToken r k d t n)),
     rr_LogoutDevice = (\<lambda>k d. recorded ran_err (rr_LogoutDevice r k d)),
     rr_LogoutAll = (\<lambda>k. recorded ran_err (rr_LogoutAll r k))\<rparr>"

definition run_redis :: "('d, 'w) redis_client \<Rightarrow> ('d, 'w \<times> breaker_call list) redis_client" where
  "run_redis r = \<lparr>rc_do = (\<lambda>c. recorded (\<lambda>x. ran_err (cmd_err x)) (rc_do r c)), rc_tx = (\<lambda>cs. silent (rc_tx r cs)),
     rc_pipe = (\<lambda>cs. silent (rc_pipe r cs)), rc_call = rc_call r, rc_eval = (\<lambda>f. silent (rc_eval r f))\<rparr>"

definition silent_l1 :: "'w l1_cache \<Rightarrow> ('w \<times> 'e list) l1_cache" where
  "silent_l1 c = \<lparr>l1_Get = (\<lambda>k. silent (l1_Get c k)), l1_Set = (\<lambda>k v t. silent (l1_Set c k v t)), l1_Delete = (\<lambda>k. silent (l1_Delete c k))\<rparr>"

definition silent_pg :: "'w blacklist_pg \<Rightarrow> ('w \<times> 'e list) blacklist_pg" where
  "silent_pg c = \<lparr>bp_IsBlacklisted = (\<lambda>i. silent (bp_IsBlacklisted c i)), bp_Add = (\<lambda>i t. silent (bp_Add c i t)),
     bp_DeleteExpired = silent (bp_DeleteExpired c), bp_ListActive = silent (bp_ListActive c)\<rparr>"

lemmas run_defs = rec_breaker_def run_store_def run_blacklist_def run_repo_def run_redis_def silent_l1_def silent_pg_def silent_env_def
  circuit_breaker.simps session_store.simps blacklist.simps redis_repo.simps redis_client.simps l1_cache.simps blacklist_pg.simps go_env.simps

section \<open>The protocol\<close>

text \<open>Nothing at all (a cache hit, an empty batch), a refusal, or one attempt and its truthful report.\<close>

definition settled :: "breaker_call list \<Rightarrow> bool" where
  "settled l \<longleftrightarrow> l = [] \<or> l = [Asked False] \<or> (\<exists>infra. l = [Asked True, Ran infra, Reported (\<not> infra)])"

definition disciplined :: "('w \<times> breaker_call list, 'a) io \<Rightarrow> bool" where
  "disciplined m \<longleftrightarrow> (\<forall>w. wp m (\<lambda>_ wl. settled (snd wl)) (w, []))"

lemma settled_simps [simp]:
  "settled []" "settled [Asked b] \<longleftrightarrow> \<not> b" "settled [Asked True, Ran i, Reported b] \<longleftrightarrow> b = (\<not> i)"
  by (auto simp: settled_def)

lemmas attempt_wp = wp_steps recorded_wp silent_wp

lemma discipline_store:
  "disciplined (rss_Get (run_store d) (rec_breaker cb) (silent_l1 l1) i)"
  "disciplined (rss_Create (run_store d) (rec_breaker cb) (silent_l1 l1) s)"
  "disciplined (rss_Update (run_store d) (rec_breaker cb) (silent_l1 l1) s)"
  "disciplined (rss_Delete (run_store d) (rec_breaker cb) (silent_l1 l1) i)"
  "disciplined (rss_GetAllForUser (run_store d) (rec_breaker cb) k)"
  "disciplined (rss_AcquireRefreshLock (run_store d) (rec_breaker cb) i t)"
  "disciplined (rss_ReleaseRefreshLock (run_store d) (rec_breaker cb) i)"
  unfolding disciplined_def rss_Get_def rss_Create_def rss_Update_def rss_Delete_def rss_GetAllForUser_def
    rss_AcquireRefreshLock_def rss_ReleaseRefreshLock_def Let_def run_defs
  by (intro allI attempt_wp; auto simp: ran_def ran_err_def)+

lemma discipline_devices:
  "disciplined (rrr_save_login (run_repo d) (rec_breaker cb) (silent_l1 l1) k dev tok ttl)"
  "disciplined (rrr_get_token (run_repo d) (rec_breaker cb) (silent_l1 l1) k dev)"
  "disciplined (rrr_rotate (run_repo d) (rec_breaker cb) (silent_l1 l1) k dev tok ttl)"
  "disciplined (rrr_logout_device (run_repo d) (rec_breaker cb) (silent_l1 l1) k dev)"
  "disciplined (rrr_logout_all (run_repo d) (rec_breaker cb) k)"
  unfolding disciplined_def rrr_save_login_def rrr_get_token_def rrr_rotate_def rrr_logout_device_def rrr_logout_all_def Let_def run_defs
  by (intro allI attempt_wp; auto simp: ran_def ran_err_def)+

text \<open>The parts that reach neither the breaker nor the decorated component.\<close>

definition mute :: "('w \<times> 'e list, 'a) io \<Rightarrow> bool" where
  "mute m \<longleftrightarrow> (\<forall>w l. wp m (\<lambda>_ wl. snd wl = l) (w, l))"

lemma mute_wp: "mute m \<Longrightarrow> (\<And>a w'. Q a (w', snd wl)) \<Longrightarrow> wp m Q wl"
  by (cases wl) (fastforce simp: mute_def wp_def split: prod.splits)

lemma mute_silent: "mute (silent m)"
  by (auto simp: mute_def intro!: silent_wp)

lemma mute_return: "mute (State_Monad.return a)"
  by (auto simp: mute_def wp_return)

lemma mute_bind: "mute m \<Longrightarrow> (\<And>a. mute (f a)) \<Longrightarrow> mute (State_Monad.bind m f)"
  unfolding mute_def [of "State_Monad.bind m f"] by (intro allI wp_bindI, erule mute_wp) (simp add: mute_def)

lemma mute_option: "mute m \<Longrightarrow> (\<And>a. mute (f a)) \<Longrightarrow> mute (case x of None \<Rightarrow> m | Some a \<Rightarrow> f a)"
  by (cases x) simp_all

lemmas mutes = mute_silent mute_return mute_bind mute_option

lemma mute_loops:
  "mute (l1_delete_all (silent_l1 l1) ids)" "mute (l1_set_all (silent_l1 l1) ttl ids)"
  "mute (rbl_batch_loop (silent_l1 l1) (silent_pg pg) t ttl ids)"
  by (induction ids) (auto simp: run_defs intro!: mutes)

lemma mute_fallbacks:
  "mute (rbl_fallback (silent_l1 l1) (silent_pg pg) i)" "mute (rbl_add_fallback (silent_env E) (silent_l1 l1) (silent_pg pg) i ttl)"
  "mute (rbl_batch_fallback (silent_env E) (silent_l1 l1) (silent_pg pg) ids ttl)"
  unfolding rbl_fallback_def rbl_add_fallback_def rbl_batch_fallback_def Let_def
  by (intro mutes mute_loops; simp add: run_defs mutes)+

lemma discipline_delete_all: "disciplined (rss_DeleteAllForUser (run_store d) (rec_breaker cb) (silent_l1 l1) k)"
  unfolding disciplined_def rss_DeleteAllForUser_def
  by (simp only: run_store_def rec_breaker_def session_store.simps circuit_breaker.simps)
    (intro allI attempt_wp mute_wp [OF mute_loops(1)]; auto simp: ran_def ran_err_def)

lemma discipline_blacklist:
  "disciplined (rbl_IsBlacklisted (run_blacklist d) (rec_breaker cb) (silent_l1 l1) (silent_pg pg) i)"
  "disciplined (rbl_Add (silent_env E) (run_blacklist d) (rec_breaker cb) (silent_l1 l1) (silent_pg pg) i ttl)"
  "disciplined (rbl_AddBatch (silent_env E) (run_blacklist d) (rec_breaker cb) (silent_l1 l1) (silent_pg pg) ids ttl)"
  unfolding disciplined_def rbl_IsBlacklisted_def rbl_Add_def rbl_AddBatch_def
  by (simp only: run_blacklist_def rec_breaker_def blacklist.simps circuit_breaker.simps,
      intro allI attempt_wp mute_wp [OF mute_loops(2)] mute_wp [OF mute_fallbacks(1)] mute_wp [OF mute_fallbacks(2)] mute_wp [OF mute_fallbacks(3)]
        mute_wp [OF mute_silent]; auto simp: ran_def ran_err_def run_defs intro!: attempt_wp)+

lemma discipline_cache:
  "disciplined (ric_Get (run_redis rc) (rec_breaker cb) k)"
  "disciplined (ric_Set (run_redis rc) (rec_breaker cb) k v t)"
  unfolding disciplined_def ric_Get_def ric_Set_def run_defs
  by (intro allI attempt_wp; auto simp: ran_def ran_err_def is_infra_not_Nil)+

section \<open>Every decorator keeps to it\<close>

definition store_disciplined :: "('w \<times> breaker_call list) session_store \<Rightarrow> bool" where
  "store_disciplined s \<longleftrightarrow> (\<forall>x i k t. disciplined (ss_Create s x) \<and> disciplined (ss_Get s i) \<and> disciplined (ss_Update s x) \<and>
     disciplined (ss_Delete s i) \<and> disciplined (ss_GetAllForUser s k) \<and> disciplined (ss_DeleteAllForUser s k) \<and>
     disciplined (ss_AcquireRefreshLock s i t) \<and> disciplined (ss_ReleaseRefreshLock s i))"

definition blacklist_disciplined :: "('w \<times> breaker_call list) blacklist \<Rightarrow> bool" where
  "blacklist_disciplined b \<longleftrightarrow> (\<forall>i is t. disciplined (bl_Add b i t) \<and> disciplined (bl_IsBlacklisted b i) \<and> disciplined (bl_AddBatch b is t))"

definition repo_disciplined :: "('w \<times> breaker_call list) redis_repo \<Rightarrow> bool" where
  "repo_disciplined r \<longleftrightarrow> (\<forall>k d t n. disciplined (rr_SaveLogin r k d t n) \<and> disciplined (rr_GetDeviceRefreshToken r k d) \<and>
     disciplined (rr_RotateRefreshToken r k d t n) \<and> disciplined (rr_LogoutDevice r k d) \<and> disciplined (rr_LogoutAll r k))"

definition cache_disciplined :: "('w \<times> breaker_call list) idempotency_cache \<Rightarrow> bool" where
  "cache_disciplined c \<longleftrightarrow> (\<forall>k v t. disciplined (ic_Get c k) \<and> disciplined (ic_Set c k v t))"

text \<open>
  C8. Every method of the four decorators keeps the breaker's protocol, whatever the
  breaker, the decorated component, the cache and Postgres answer: it asks the breaker at
  most once; refused, it leaves Redis alone and reports nothing; admitted, it makes exactly
  one attempt and reports it exactly once, as a failure if and only if the attempt ended in
  an infrastructure error. So a probe is always resolved by the caller that holds it.
\<close>

theorem decorators_keep_protocol:
  "store_disciplined (NewResilientSessionStore (run_store s) (rec_breaker cb) (silent_l1 l1)) \<and>
   blacklist_disciplined (NewResilientBlacklist (silent_env E) (run_blacklist b) (rec_breaker cb) (silent_l1 l1) (silent_pg pg)) \<and>
   repo_disciplined (NewResilientRedisRepo (run_repo r) (rec_breaker cb) (silent_l1 l1)) \<and>
   cache_disciplined (NewResilientIdempotencyCache (run_redis rc) (rec_breaker cb))"
  by (simp add: store_disciplined_def blacklist_disciplined_def repo_disciplined_def cache_disciplined_def NewResilientSessionStore_def
      NewResilientBlacklist_def NewResilientRedisRepo_def NewResilientIdempotencyCache_def discipline_store discipline_delete_all
      discipline_blacklist discipline_devices discipline_cache)

end
