(* ===== verification/Shared_Cache.thy ===== *)
theory Shared_Cache imports Http_Middleware begin

text \<open>
  The three resilient decorators and the one in-process cache that \<open>main\<close> gives all of them
  (\<open>cmd/server/main.go\<close>, \<open>l1Cache\<close>). Every reader asserts the Go type of what it finds.

  Proved: any sequence of operations of the three decorators and of the background
  synchronisation leaves every entry with the type its readers assert, as long as the keys of
  the blacklist stay clear of the prefixes of the other two. Nothing enforces that condition:
  the bridge to the proxy passes the cookie on unchecked, and one request with a forged cookie
  makes the next lookup of a valid session panic.
\<close>

section \<open>Operations\<close>

datatype cache_op =
    StoreGet string | StoreCreate bff_session | StoreUpdate bff_session | StoreDelete string
  | StoreGetAll string | StoreDeleteAll string | StoreLock string int | StoreUnlock string
  | RevokedCheck string | Revoke string int | RevokeBatch "string list" int
  | TokenGet string string | TokenSave string string string int | TokenRotate string string string int
  | TokenLogout string string | TokenLogoutAll string

record 'w decorated =
  dc_sessions :: "'w session_store"
  dc_blacklist :: "'w blacklist"
  dc_devices :: "'w redis_repo"

definition forget :: "('w, 'a) io \<Rightarrow> ('w, unit) io" where
  "forget m = do { m; State_Monad.return () }"

fun perform :: "'w decorated \<Rightarrow> cache_op \<Rightarrow> ('w, unit) io" where
  "perform D (StoreGet i) = forget (ss_Get (dc_sessions D) i)"
| "perform D (StoreCreate s) = forget (ss_Create (dc_sessions D) s)"
| "perform D (StoreUpdate s) = forget (ss_Update (dc_sessions D) s)"
| "perform D (StoreDelete i) = forget (ss_Delete (dc_sessions D) i)"
| "perform D (StoreGetAll k) = forget (ss_GetAllForUser (dc_sessions D) k)"
| "perform D (StoreDeleteAll k) = forget (ss_DeleteAllForUser (dc_sessions D) k)"
| "perform D (StoreLock i t) = forget (ss_AcquireRefreshLock (dc_sessions D) i t)"
| "perform D (StoreUnlock i) = forget (ss_ReleaseRefreshLock (dc_sessions D) i)"
| "perform D (RevokedCheck i) = forget (bl_IsBlacklisted (dc_blacklist D) i)"
| "perform D (Revoke i t) = forget (bl_Add (dc_blacklist D) i t)"
| "perform D (RevokeBatch is t) = forget (bl_AddBatch (dc_blacklist D) is t)"
| "perform D (TokenGet k d) = forget (rr_GetDeviceRefreshToken (dc_devices D) k d)"
| "perform D (TokenSave k d t n) = forget (rr_SaveLogin (dc_devices D) k d t n)"
| "perform D (TokenRotate k d t n) = forget (rr_RotateRefreshToken (dc_devices D) k d t n)"
| "perform D (TokenLogout k d) = forget (rr_LogoutDevice (dc_devices D) k d)"
| "perform D (TokenLogoutAll k) = forget (rr_LogoutAll (dc_devices D) k)"

fun perform_all :: "'w decorated \<Rightarrow> cache_op list \<Rightarrow> ('w, unit) io" where
  "perform_all D [] = State_Monad.return ()"
| "perform_all D (op # ops) = do { perform D op; perform_all D ops }"

fun clear_keys :: "cache_op \<Rightarrow> bool" where
  "clear_keys (RevokedCheck i) = bare_key i"
| "clear_keys (Revoke i t) = bare_key i"
| "clear_keys (RevokeBatch is t) = list_all bare_key is"
| "clear_keys _ = True"

text \<open>What \<open>main\<close> builds, over any delegates.\<close>

definition decorate ::
    "'w go_env \<Rightarrow> 'w circuit_breaker \<Rightarrow> 'w l1_cache \<Rightarrow> 'w session_store \<Rightarrow> 'w blacklist \<Rightarrow> 'w blacklist_pg \<Rightarrow> 'w redis_repo \<Rightarrow> 'w decorated" where
  "decorate E cb l1 st bl pg d = \<lparr>dc_sessions = NewResilientSessionStore st cb l1,
     dc_blacklist = NewResilientBlacklist E bl cb l1 pg,
     dc_devices = NewResilientRedisRepo d cb l1\<rparr>"

section \<open>The type invariant\<close>

locale shared_cache =
  resilient_devices l1 content rest cb d
  for l1 :: "'w l1_cache" and content :: "'w \<Rightarrow> string \<Rightarrow> l1_val option" and rest :: "'w \<Rightarrow> 'v"
    and cb :: "'w circuit_breaker" and d :: "'w redis_repo" +
  fixes E :: "'w go_env" and st :: "'w session_store" and bl :: "'w blacklist" and pg :: "'w blacklist_pg"
  assumes store: "store_frame st content"
    and revoke: "same content (bl_IsBlacklisted bl i)" "same content (bl_Add bl i t)" "same content (bl_AddBatch bl is t)"
    and table: "same content (bp_IsBlacklisted pg i)" "same content (bp_Add pg i t)" "same content (bp_ListActive pg)"
    and clock: "same content (env_now E)"
begin

abbreviation typed :: "'w \<Rightarrow> bool" where "typed \<equiv> (\<lambda>w. l1_typed (content w))"

lemma same_typed: "same content m \<Longrightarrow> keeps typed m"
  by (simp add: same_def keeps_def)

lemma cb_state_typed: "keeps typed (cbi_State cb)"
  by (rule keepsI, rule breaker_keeps_wp(4) [OF breaker]) simp

lemma set_typed:
  "keeps typed (l1_Set l1 (sessionL1Prefix @ i) (VSession s) e)" "bare_key k \<Longrightarrow> keeps typed (l1_Set l1 k (VBool b) e)"
  by (rule keepsI, rule set_wp, simp add: l1_typed_intros)+

lemma delete_all_typed: "keeps typed (l1_delete_all l1 is)"
  by (induction "is") (auto intro: cache_typed)

lemma set_all_typed: "list_all bare_key is \<Longrightarrow> keeps typed (l1_set_all l1 t is)"
  by (induction "is") (auto intro: set_typed)

lemma batch_loop_typed: "list_all bare_key is \<Longrightarrow> keeps typed (rbl_batch_loop l1 pg x t is)"
  by (induction "is") (auto intro!: set_typed table [THEN same_typed] keeps_bind keeps_case_option)

lemma sync_loop_typed: "list_all (\<lambda>e. bare_key (en_SessionID e)) es \<Longrightarrow> keeps typed (sync_loop l1 now es)"
  by (induction es) (auto simp: Let_def intro!: set_typed keeps_bind keeps_if)

lemma delegate_store: "keeps typed (ss_Create st s)" "keeps typed (ss_Get st i)" "keeps typed (ss_Update st s)" "keeps typed (ss_Delete st i)"
  "keeps typed (ss_GetAllForUser st k)" "keeps typed (ss_DeleteAllForUser st k)" "keeps typed (ss_AcquireRefreshLock st i t)"
  "keeps typed (ss_ReleaseRefreshLock st i)"
  using store by (auto simp: store_frame_def intro: same_typed)

lemmas parts_typed = content_keeps cache_typed set_typed delegate_store delete_all_typed cb_state_typed
  revoke [THEN same_typed] table [THEN same_typed] clock [THEN same_typed]

lemma sessions_typed:
  "keeps typed (rss_Get st cb l1 i)" "keeps typed (rss_Create st cb l1 s)" "keeps typed (rss_Update st cb l1 s)"
  "keeps typed (rss_Delete st cb l1 i)" "keeps typed (rss_GetAllForUser st cb k)" "keeps typed (rss_DeleteAllForUser st cb l1 k)"
  "keeps typed (rss_AcquireRefreshLock st cb i t)" "keeps typed (rss_ReleaseRefreshLock st cb i)"
  unfolding rss_Get_def rss_Create_def rss_Update_def rss_Delete_def rss_GetAllForUser_def rss_DeleteAllForUser_def
    rss_AcquireRefreshLock_def rss_ReleaseRefreshLock_def Let_def
  by (auto intro!: keeps_bind keeps_if keeps_case_option keeps_case_sum parts_typed)

lemma fallback_typed: "bare_key i \<Longrightarrow> keeps typed (rbl_fallback l1 pg i)"
  "bare_key i \<Longrightarrow> keeps typed (rbl_add_fallback E l1 pg i t)"
  "list_all bare_key is \<Longrightarrow> keeps typed (rbl_batch_fallback E l1 pg is t)"
  unfolding rbl_fallback_def rbl_add_fallback_def rbl_batch_fallback_def Let_def
  by (auto intro!: keeps_bind keeps_if keeps_case_option keeps_case_sum parts_typed batch_loop_typed)

lemma blacklist_typed:
  "bare_key i \<Longrightarrow> keeps typed (rbl_IsBlacklisted bl cb l1 pg i)" "bare_key i \<Longrightarrow> keeps typed (rbl_Add E bl cb l1 pg i t)"
  "list_all bare_key is \<Longrightarrow> keeps typed (rbl_AddBatch E bl cb l1 pg is t)"
  unfolding rbl_IsBlacklisted_def rbl_Add_def rbl_AddBatch_def
  by (auto intro!: keeps_bind keeps_if keeps_case_option keeps_case_sum parts_typed fallback_typed set_all_typed)

text \<open>The background synchronisation, when every identifier in the table is clear of the prefixes.\<close>

lemma sync_typed:
  assumes "\<And>w'. content w' = content w \<Longrightarrow>
      wp (bp_ListActive pg) (\<lambda>r _. \<forall>es. r = Inr es \<longrightarrow> list_all (\<lambda>e. bare_key (en_SessionID e)) es) w'"
    and "typed w"
  shows "wp (background_sync_tick E cb l1 pg) (\<lambda>_. typed) w"
proof -
  have loop: "wp (do { now \<leftarrow> env_now E; sync_loop l1 now es }) (\<lambda>_. typed) w2"
    if "list_all (\<lambda>e. bare_key (en_SessionID e)) es" "typed w2" for es w2
    by (rule keepsD [OF keeps_bind [OF same_typed [OF clock] sync_loop_typed [OF that(1)]] that(2)])
  have list: "wp (bp_ListActive pg) (\<lambda>r w2. typed w2 \<and> (\<forall>es. r = Inr es \<longrightarrow> list_all (\<lambda>e. bare_key (en_SessionID e)) es)) w1"
    if "content w1 = content w" for w1
    using assms(1) [OF that] keepsD [OF same_typed [OF table(3)], of w1] assms(2) that by (intro wp_conj) simp_all
  show ?thesis
    unfolding background_sync_tick_def syncFromPG_def
    by (rule wp_bindI, rule breaker_keeps_wp(4) [OF breaker])
      (auto intro!: wp_bindI wp_mono [OF list] loop [unfolded wp_bind] simp: wp_rules assms(2) split: sum.splits)
qed

lemma perform_typed: "clear_keys op \<Longrightarrow> keeps typed (perform (decorate E cb l1 st bl pg d) op)"
  by (cases op) (auto simp: forget_def decorate_def NewResilientSessionStore_def NewResilientBlacklist_def NewResilientRedisRepo_def
      intro!: keeps_bind sessions_typed blacklist_typed keeps_typed)

lemma perform_all_typed: "list_all clear_keys ops \<Longrightarrow> keeps typed (perform_all (decorate E cb l1 st bl pg d) ops)"
  by (induction ops) (auto intro!: keeps_bind perform_typed)

end

abbreviation "sim_decorated \<equiv> decorate (ext_env sim_env) (NewCircuitBreaker sim_env sample_cfg) sim_l1 sim_store (NewRedisBlacklist sim_redis)
  (NewPostgresBlacklistRepository sim_pool) (NewRedisRepository (ext_env sim_env) sim_redis)"

interpretation sim_shared: shared_cache sim_l1 sim_content sim_rest "NewCircuitBreaker sim_env sample_cfg"
    "NewRedisRepository (ext_env sim_env) sim_redis" "ext_env sim_env" sim_store "NewRedisBlacklist sim_redis"
    "NewPostgresBlacklistRepository sim_pool"
proof unfold_locales
  show "store_frame sim_store sim_content"
    by (intro redis_store_frame sim_client_frame) (auto simp: sim_content_def env_keeps_def ext_env_def sim_env_def)
qed (auto simp: NewRedisBlacklist_def rb_IsBlacklisted_def rb_Add_def rb_AddBatch_def NewPostgresBlacklistRepository_def Let_def
    same_def sim_redis_def sim_exec_def sim_content_def sim_pool_def sim_env_simps split: prod.splits)

section \<open>Properties\<close>

text \<open>
  C20. The shared cache is well typed: whatever operations of the session store, the blacklist
  and the device repository run on it, in any order, an entry under a session's key is a
  session, one under a device's key a token and any other a boolean, so no reader's type
  assertion fails, provided the identifiers given to the blacklist do not start with the
  prefix of another store.
\<close>

theorem shared_cache_typed:
  assumes "shared_cache l1 content rest cb d E st bl pg" and "l1_typed (content w)" and "list_all clear_keys ops"
  shows "wp (perform_all (decorate E cb l1 st bl pg d) ops) (\<lambda>_ w'. l1_typed (content w') \<and>
     (\<forall>i v. content w' (sessionL1Prefix @ i) = Some v \<longrightarrow> (\<exists>s. v = VSession s)) \<and>
     (\<forall>k dev v. content w' (deviceTokenL1Key k dev) = Some v \<longrightarrow> (\<exists>t. v = VString t)) \<and>
     (\<forall>i v. bare_key i \<and> content w' i = Some v \<longrightarrow> (\<exists>b. v = VBool b))) w"
  by (rule wp_mono [OF keepsD [OF shared_cache.perform_all_typed [OF assms(1,3)] assms(2)]])
    (auto dest: l1_typed_session l1_typed_device l1_typed_bare)

definition sample_ops :: "cache_op list" where
  "sample_ops = [StoreCreate (sample_session ''1'' 0), RevokedCheck ''1'', StoreGet ''1'', Revoke ''user:u'' 60, TokenGet ''u'' ''d'']"

theorem shared_cache_typed_witness:
  "wp (perform_all sim_decorated sample_ops) (\<lambda>_ w'. l1_typed (sim_content w')) sim_start"
  by (rule wp_mono [OF shared_cache_typed [OF sim_shared.shared_cache_axioms]])
    (auto simp: l1_typed_def sim_content_def sim_start_def sim0_def sample_ops_def bare_key_def has_prefix_def)

text \<open>
  The service of \<open>main\<close> on the test world, with the two decorators around one cache.
\<close>

definition shared_bff :: "sim_proc bff_service" where
  "shared_bff = sim_bff\<lparr>bf_sessionStore := dc_sessions sim_decorated, bf_blacklist := dc_blacklist sim_decorated\<rparr>"

lemma prefixed_differs: "''sess:'' @ sid \<noteq> sid" "CHR ''s'' # CHR ''e'' # CHR ''s'' # CHR ''s'' # CHR '':'' # sid \<noteq> sid"
  by (auto dest: arg_cong [of _ _ length])


end
