(* ===== verification/Logout_Effect.thy ===== *)
theory Logout_Effect imports Shared_Cache begin

text \<open>
  What a logout achieves: \<open>BFFService.Logout\<close> and the revocation check of \<open>WhoAmI\<close> and
  \<open>ResolveSession\<close>, composed over the contract of the blacklist between them.

  The contract \<open>revocation\<close> is what \<open>Logout\<close> relies on when it goes on after
  \<open>blacklist.Add\<close> and what the check gives back; both the Redis blacklist and the Postgres
  fallback of an outage fulfil it. Proved: a logout that found its session and reports success
  ends the session. A logout that is served by the resilient store during an outage does not
  find the session, and is the counterexample: it reports success and revokes nothing.
\<close>

section \<open>The contract between Logout and the check\<close>

definition add_acknowledged :: "error option \<Rightarrow> bool" where
  "add_acknowledged err \<longleftrightarrow> (case err of None \<Rightarrow> True | Some e \<Rightarrow> errors_Is e ErrRedisUnavailable)"

text \<open>
  \<open>marked i d w\<close>: a revocation of \<open>i\<close> is stored in \<open>w\<close> that lasts at least until \<open>d\<close>;
  \<open>covers w ttl d\<close>: \<open>d\<close> is late enough for a revocation of length \<open>ttl\<close> requested in \<open>w\<close>.
\<close>

locale revocation =
  fixes bl :: "'w blacklist" and marked :: "string \<Rightarrow> int \<Rightarrow> 'w \<Rightarrow> bool"
    and covers :: "'w \<Rightarrow> int \<Rightarrow> int \<Rightarrow> bool" and now :: "'w \<Rightarrow> int"
  assumes stored: "wp (bl_Add bl i ttl) (\<lambda>err w'. add_acknowledged err \<longrightarrow> (\<exists>d. marked i d w' \<and> covers w ttl d)) w"
    and refused: "marked i d w \<Longrightarrow> wp (bl_IsBlacklisted bl i) (\<lambda>r w'. fst r \<or> snd r \<noteq> None \<or> d \<le> now w') w"

lemma wp_run: "run_state m w = (a, w') \<Longrightarrow> wp m Q w = Q a w'"
  by (simp add: wp_def)

text \<open>The calls of \<open>Logout\<close> after the revocation keep \<open>I\<close>.\<close>

definition undisturbed :: "('w \<Rightarrow> bool) \<Rightarrow> 'w bff_service \<Rightarrow> bool" where
  "undisturbed I s \<longleftrightarrow>
     (\<forall>t. keeps I (hy_RevokeToken (bf_hydra s) t)) \<and> (\<forall>i. keeps I (kr_DeleteSession (bf_kratosClient s) i)) \<and>
     (\<forall>k. keeps I (kr_DeleteSessions (bf_kratosClient s) k)) \<and> (\<forall>i. keeps I (ss_Delete (bf_sessionStore s) i)) \<and>
     (\<forall>k d. keeps I (rr_LogoutDevice (bf_redisRepo s) k d)) \<and> (\<forall>k d. keeps I (dr_RevokeDevice (bf_deviceSessionRepo s) k d))"

context revocation begin

lemma logout_marks:
  assumes "bf_blacklist s = bl" and get: "run_state (ss_Get (bf_sessionStore s) i) w = (Inr sess, w0)"
    and clock: "run_state (env_now E) w0 = (t, w1)" and quiet: "\<And>d. undisturbed (marked i d) s"
  shows "wp (bff_Logout E s i) (\<lambda>err w'. err = None \<longrightarrow> (\<exists>d. marked i d w' \<and> covers w1 (time_sub (bs_ExpiresAt sess) t) d)) w"
proof -
  let ?ttl = "time_sub (bs_ExpiresAt sess) t"
  let ?rest = "do {
     hy_RevokeToken (bf_hydra s) (bs_HydraRefreshToken sess);
     (if bs_KratosSessionID sess \<noteq> [] then kr_DeleteSession (bf_kratosClient s) (bs_KratosSessionID sess)
      else kr_DeleteSessions (bf_kratosClient s) (bs_KratosID sess));
     ss_Delete (bf_sessionStore s) i;
     rr_LogoutDevice (bf_redisRepo s) (bs_KratosID sess) (bs_DeviceID sess);
     dr_RevokeDevice (bf_deviceSessionRepo s) (bs_KratosID sess) (bs_DeviceID sess);
     State_Monad.return None
   }"
  have rest: "wp ?rest (\<lambda>err w'. err = None \<longrightarrow> (\<exists>d. marked i d w' \<and> covers w1 ?ttl d)) w2"
    if "marked i d w2" "covers w1 ?ttl d" for d w2
  proof (rule keeps_wp [of "marked i d"])
    show "keeps (marked i d) ?rest"
      using quiet [of d] by (auto simp: undisturbed_def intro!: keeps_bind keeps_if)
  qed (use that in auto)
  have rest': "wp (case (case b of None \<Rightarrow> None | Some err \<Rightarrow> if \<not> errors_Is err ErrRedisUnavailable then Some err else None) of
        Some err \<Rightarrow> State_Monad.return (Some (Errorf ''bff logout: blacklist session'' [err]))
      | None \<Rightarrow> ?rest) (\<lambda>err w'. err = None \<longrightarrow> (\<exists>d. marked i d w' \<and> covers w1 ?ttl d)) w2"
    if "add_acknowledged b \<longrightarrow> (\<exists>d. marked i d w2 \<and> covers w1 ?ttl d)" for b w2
    using that rest by (cases b) (auto simp: add_acknowledged_def wp_return)
  show ?thesis
    unfolding bff_Logout_def
    by (rule wp_bindI, subst wp_run [OF get], unfold sum.case, rule wp_bindI, subst wp_time_until, subst wp_run [OF clock],
        rule wp_bindI, unfold assms(1), rule wp_mono [OF stored], rule rest')
qed

lemma marked_session_refused:
  assumes "bf_blacklist s = bl" and "marked i d w" and later: "\<And>w'. wp (ss_Get (bf_sessionStore s) i) (\<lambda>_ w2. now w' \<le> now w2) w'"
  shows "wp (check_session s tag i) (\<lambda>r w'. (\<exists>e. r = Inl e) \<or> d \<le> now w') w"
proof -
  have "wp (ss_Get (bf_sessionStore s) i) (\<lambda>_ w2. d \<le> now w2) w'" if "d \<le> now w'" for w'
    by (rule wp_mono [OF later]) (use that in auto)
  then show ?thesis
    unfolding check_session_def assms(1)
    by (intro wp_bindI wp_mono [OF refused [OF assms(2)]]) (auto simp: wp_return wp_bind split: option.split intro: wp_mono)
qed

text \<open>Logout, then anything that leaves the revocation alone, then the check.\<close>

lemma logout_then_check:
  assumes "bf_blacklist s = bl" "run_state (ss_Get (bf_sessionStore s) i) w = (Inr sess, w0)" "run_state (env_now E) w0 = (t, w1)"
    and "\<And>d. undisturbed (marked i d) s" "\<And>d. keeps (marked i d) between" "\<And>w'. wp (ss_Get (bf_sessionStore s) i) (\<lambda>_ w2. now w' \<le> now w2) w'"
  shows "wp (do { err \<leftarrow> bff_Logout E s i; between; r \<leftarrow> check_session s tag i; State_Monad.return (err, r) })
     (\<lambda>(err, r) w'. err = None \<longrightarrow> (\<exists>e. r = Inl e) \<or> (\<exists>d. covers w1 (time_sub (bs_ExpiresAt sess) t) d \<and> d \<le> now w')) w"
proof (rule wp_bindI, rule wp_mono [OF logout_marks [OF assms(1-4)]])
  fix err w2
  assume marked: "err = None \<longrightarrow> (\<exists>d. marked i d w2 \<and> covers w1 (time_sub (bs_ExpiresAt sess) t) d)"
  show "wp (do { between; r \<leftarrow> check_session s tag i; State_Monad.return (err, r) })
     (\<lambda>(err, r) w'. err = None \<longrightarrow> (\<exists>e. r = Inl e) \<or> (\<exists>d. covers w1 (time_sub (bs_ExpiresAt sess) t) d \<and> d \<le> now w')) w2"
  proof (cases "err = None")
    case True
    with marked obtain d where d: "marked i d w2" "covers w1 (time_sub (bs_ExpiresAt sess) t) d"
      by blast
    show ?thesis
      by (rule wp_bindI, rule keeps_wp [OF assms(5), of d, OF d(1)], rule wp_bindI,
          rule wp_mono [OF marked_session_refused [OF assms(1) _ assms(6)]], assumption)
        (use d(2) in \<open>auto simp: wp_return\<close>)
  next
    case False
    then show ?thesis
      by (auto simp: wp_bind wp_return intro!: wp_any)
  qed
qed

end

section \<open>Over Redis\<close>

definition redis_marked :: "('w \<Rightarrow> redis_db) \<Rightarrow> string \<Rightarrow> int \<Rightarrow> 'w \<Rightarrow> bool" where
  "redis_marked rdb i d w \<longleftrightarrow> (\<exists>d'. rdb w (blacklistKey i) = Some (VStr ''1'', Some d') \<and> d \<le> d')"

lemma same_wpI: "(\<And>w. wp m (\<lambda>_ w'. view w' = view w) w) \<Longrightarrow> same view m"
  by (simp add: same_def wp_def case_prod_unfold)

lemma marked_frame: "same (\<lambda>w. rdb w (blacklistKey i)) m \<Longrightarrow> keeps (redis_marked rdb i d) m"
  by (simp add: same_def keeps_def redis_marked_def)

lemma revocation_keys_apart:
  "blacklistKey i \<noteq> sessionKey j" "blacklistKey i \<noteq> userSessionsKey k" "blacklistKey i \<noteq> devicesKey k" "blacklistKey i \<noteq> refreshKey k d"
  by (simp_all add: blacklistKey_def key_defs devicesKey_def refreshKey_def)

context redis begin

lemma rb_Add_acknowledged:
  "wp (rb_Add rc i ttl) (\<lambda>err w'. add_acknowledged err \<longrightarrow> (\<exists>d. redis_marked rdb i d w' \<and> rnow w + ttl - millisecond < d)) w"
proof -
  have refusal: "wp (rb_Add rc i ttl) (\<lambda>err _. add_acknowledged err \<longrightarrow> err = None) w"
    unfolding rb_Add_def Let_def wp_rules
    by (rule do_wp) (auto simp: redis_step_def lost_def add_acknowledged_def)
  show ?thesis
    by (rule wp_mono [OF wp_conj [OF refusal rb_Add_spec]])
      (auto simp: redis_marked_def effective_ttl_def minBlacklistTTL_def duration_defs split: if_splits)
qed

lemma redis_revocation: "revocation (NewRedisBlacklist rc) (redis_marked rdb) (\<lambda>w ttl d. rnow w + ttl - millisecond < d) rnow"
proof unfold_locales
  show "wp (bl_Add (NewRedisBlacklist rc) i ttl) (\<lambda>err w'. add_acknowledged err \<longrightarrow>
      (\<exists>d. redis_marked rdb i d w' \<and> rnow w + ttl - millisecond < d)) w" for i ttl w
    unfolding NewRedisBlacklist_def blacklist.simps by (rule rb_Add_acknowledged)
  show "wp (bl_IsBlacklisted (NewRedisBlacklist rc) i) (\<lambda>r w'. fst r \<or> snd r \<noteq> None \<or> d \<le> rnow w') w"
    if "redis_marked rdb i d w" for i d w
    unfolding NewRedisBlacklist_def blacklist.simps
    by (rule wp_mono [OF rb_IsBlacklisted_spec]) (use that in \<open>auto simp: redis_marked_def db_get_def live_def split: if_splits\<close>)
qed

lemma do_same: "k \<notin> cmd_writes c \<Longrightarrow> same (\<lambda>w. rdb w k) (rc_do rc c)"
  by (rule same_wpI, rule wp_mono [OF do_law]) (auto dest: redis_step_frame)

lemma tx_same: "k \<notin> \<Union> (cmd_writes ` set cs) \<Longrightarrow> same (\<lambda>w. rdb w k) (rc_tx rc cs)"
  by (rule same_wpI, rule wp_mono [OF tx_law]) (auto dest: redis_tx_step_frame)

lemma store_delete_same: "same (\<lambda>w. rdb w (blacklistKey i)) (ss_Delete (NewRedisStore E J rc ttl) j)"
  unfolding NewRedisStore_def session_store.simps rs_Delete_def rs_Get_def
  by (auto intro!: same_bind same_case_sum do_same tx_same simp: revocation_keys_apart)

lemma logout_device_same: "same (\<lambda>w. rdb w (blacklistKey i)) (rr_LogoutDevice (NewRedisRepository E rc) k d)"
proof -
  let ?body = "logoutDeviceScript (rc_call rc) (devicesKey k) (refreshKey k d) d"
  have body: "snd (snd (run_state ?body (t, db))) (blacklistKey i) = db (blacklistKey i)" for t db
    by (simp add: call_law logoutDeviceScript_def lua_def redis_exec_frame revocation_keys_apart
        del: redis_exec.simps split: sum.split)
  have "wp (rc_eval rc ?body) (\<lambda>_ w'. rdb w' (blacklistKey i) = rdb w (blacklistKey i)) w" for w
    by (rule wp_mono [OF eval_law]) (use body [of "rnow w" "rdb w"] in auto)
  from same_wpI [of _ "\<lambda>w. rdb w (blacklistKey i)", OF this] show ?thesis
    unfolding NewRedisRepository_def redis_repo.simps rr_logout_device_def by (intro same_bind) simp_all
qed

end

interpretation sim_revocation: revocation "NewRedisBlacklist sim_redis" "redis_marked sim_db"
    "\<lambda>w ttl d. sim_clock w + ttl - millisecond < d" sim_clock
  by (rule sim_redis.redis_revocation)

text \<open>The servers that are not Redis do not write to Redis.\<close>

definition others_keep :: "('w \<Rightarrow> 'v) \<Rightarrow> 'w bff_service \<Rightarrow> bool" where
  "others_keep view s \<longleftrightarrow>
     (\<forall>t. same view (hy_RevokeToken (bf_hydra s) t)) \<and> (\<forall>i. same view (kr_DeleteSession (bf_kratosClient s) i)) \<and>
     (\<forall>k. same view (kr_DeleteSessions (bf_kratosClient s) k)) \<and> (\<forall>k d. same view (dr_RevokeDevice (bf_deviceSessionRepo s) k d))"

text \<open>What is left of a lifetime covers it, although \<open>time.Until\<close> saturates.\<close>

lemma covered_expiry: "0 \<le> t \<Longrightarrow> t \<le> now \<Longrightarrow> e < 2 ^ 63 \<Longrightarrow> now + time_sub e t - millisecond < d \<Longrightarrow> e - millisecond < d"
  by (auto simp: time_sub_def split: if_splits)

text \<open>
  C4. A logout ends the session. Over one Redis that holds the sessions, the revocations and
  the devices, whatever calls fail and whatever Redis loses: when \<open>Logout\<close> found its session
  and reports success, \<open>WhoAmI\<close> with that session fails from then on, after anything that
  leaves the revocation key alone, until the session would have expired by itself.
\<close>

theorem logout_ends_session:
  assumes "redis rc rdb rnow" and "bf_sessionStore s = NewRedisStore E J rc ttl" and "bf_blacklist s = NewRedisBlacklist rc"
    and "bf_redisRepo s = NewRedisRepository E rc" and "others_keep (\<lambda>w. rdb w (blacklistKey i)) s" and "same (\<lambda>w. rdb w (blacklistKey i)) between"
    and "run_state (ss_Get (bf_sessionStore s) i) w = (Inr sess, w0)" and "bs_ExpiresAt sess < 2 ^ 63"
    and "run_state (env_now E) w0 = (t, w1)" and "0 \<le> t" and "t \<le> rnow w1"
  shows "wp (do { err \<leftarrow> bff_Logout E s i; between; r \<leftarrow> bff_WhoAmI s i; State_Monad.return (err, r) })
     (\<lambda>(err, r) w'. err = None \<longrightarrow> (\<exists>e. r = Inl e) \<or> bs_ExpiresAt sess - millisecond < rnow w') w"
proof -
  note R = redis.redis_revocation [OF assms(1)]
  have quiet: "undisturbed (redis_marked rdb i d) s" for d
    using assms(5) redis.store_delete_same [OF assms(1)] redis.logout_device_same [OF assms(1)]
    unfolding undisturbed_def others_keep_def assms(2,4) by (blast intro: marked_frame)
  have between: "keeps (redis_marked rdb i d) between" for d
    by (rule marked_frame) (rule assms(6))
  have later: "wp (ss_Get (bf_sessionStore s) i) (\<lambda>_ w2. rnow w' \<le> rnow w2) w'" for w'
    unfolding assms(2) NewRedisStore_def session_store.simps rs_Get_def
    by (rule wp_bindI, rule redis.do_wp [OF assms(1)]) (simp add: wp_return)
  have "wp (do { err \<leftarrow> bff_Logout E s i; between; r \<leftarrow> check_session s ''bff whoami'' i; State_Monad.return (err, r) })
     (\<lambda>(err, r) w'. err = None \<longrightarrow> (\<exists>e. r = Inl e) \<or>
       (\<exists>d. rnow w1 + time_sub (bs_ExpiresAt sess) t - millisecond < d \<and> d \<le> rnow w')) w"
    by (rule revocation.logout_then_check [OF R assms(3,7,9) quiet between later])
  then have "wp (do { err \<leftarrow> bff_Logout E s i; between; r \<leftarrow> check_session s ''bff whoami'' i; State_Monad.return (err, r) })
     (\<lambda>(err, r) w'. err = None \<longrightarrow> (\<exists>e. r = Inl e) \<or> bs_ExpiresAt sess - millisecond < rnow w') w"
    by (rule wp_mono) (use covered_expiry [OF assms(10,11,8)] in \<open>fastforce split: prod.splits\<close>)
  then show ?thesis
    unfolding bff_WhoAmI_def by (simp add: wp_bind wp_return split: sum.split) (erule wp_mono, erule wp_mono, erule wp_mono, auto split: sum.split)
qed

text \<open>A session that was just created on the test world.\<close>

definition logged_in :: sim_proc where
  "logged_in = snd (run_state (ss_Create sim_store (sample_session ''1'' 86400000000000)) sim_start)"

lemma sample_fields:
  "bs_SessionID (sample_session i t) = i" "bs_KratosID (sample_session i t) = ''u''" "bs_DeviceID (sample_session i t) = i"
  "bs_ExpiresAt (sample_session i t) = t"
  by (simp_all add: sample_session_def)

lemma logged_in_session: "run_state (ss_Get sim_store ''1'') logged_in = (Inr (sample_session ''1'' 86400000000000), logged_in)"
  and logged_in_clock: "run_state (env_now (ext_env sim_env)) logged_in = (1000, logged_in)" "sim_clock logged_in = 1000"
proof -
  obtain b where b: "session_text (ext_env sim_env) text_codec (sample_session ''1'' 86400000000000) = Inr b"
      "session_of_text (ext_env sim_env) text_codec b = Inr (sample_session ''1'' 86400000000000)"
    by (rule sample_session_text [of 86400000000000]) (simp_all add: duration_defs)
  have run: "logged_in = sim_start\<lparr>pr_ext := (pr_ext sim_start)\<lparr>sm_redis := sm_redis (pr_ext logged_in)\<rparr>\<rparr>"
    and get: "db_get 1000 (sm_redis (pr_ext logged_in)) (sessionKey ''1'') = Some (VStr b)"
    unfolding logged_in_def NewRedisStore_def session_store.simps rs_Create_def time_until_def
    by (simp_all add: b sample_fields sim_redis_def sim_exec_def time_sub_def sim_start_def sim0_def sim_env_simps duration_defs
      set_deadline_def set_ttl_def expire_ttl_def go_div_def key_defs db_deadline_def live_def db_get_def Let_def)
  have start: "sm_redis_up (pr_ext logged_in)" "sm_now (pr_ext logged_in) = 1000"
    by (subst run, simp add: sim_start_def sim0_def)+
  show "run_state (ss_Get sim_store ''1'') logged_in = (Inr (sample_session ''1'' 86400000000000), logged_in)"
    unfolding NewRedisStore_def session_store.simps rs_Get_def
    by (simp add: sim_redis_def sim_exec_def start get b reply_defs ext_def)
  show "run_state (env_now (ext_env sim_env)) logged_in = (1000, logged_in)"
    by (simp add: sim_env_simps ext_def start)
  show "sim_clock logged_in = 1000"
    by (simp add: sim_clock_def start)
qed

lemma sim_others: "others_keep (\<lambda>w. sim_db w k) sim_bff"
  by (simp add: others_keep_def sim_bff_def refusing_hydra_def idle_kratos_def NewPostgresDeviceSessionRepository_def sim_pool_def
      same_def sim_db_def split: prod.splits)

theorem logout_ends_session_witness:
  "wp (do { err \<leftarrow> bff_Logout (ext_env sim_env) sim_bff ''1''; State_Monad.return (); r \<leftarrow> bff_WhoAmI sim_bff ''1''; State_Monad.return (err, r) })
     (\<lambda>(err, r) w'. if err = None then (\<exists>e. r = Inl e) \<or> 86400000000000 - millisecond < sim_clock w' else True) logged_in"
proof -
  have "wp (do { err \<leftarrow> bff_Logout (ext_env sim_env) sim_bff ''1''; State_Monad.return (); r \<leftarrow> bff_WhoAmI sim_bff ''1''; State_Monad.return (err, r) })
     (\<lambda>(err, r) w'. err = None \<longrightarrow> (\<exists>e. r = Inl e) \<or> bs_ExpiresAt (sample_session ''1'' 86400000000000) - millisecond < sim_clock w') logged_in"
    by (rule logout_ends_session [OF sim_redis.redis_axioms _ _ _ sim_others _ _ _ logged_in_clock(1)])
      (use logged_in_session in \<open>simp_all add: sim_bff_def logged_in_clock(2) sample_fields\<close>)
  then show ?thesis
    by (rule wp_mono) (auto simp: sample_fields)
qed

section \<open>During an outage\<close>

text \<open>
  The resilient blacklist while the breaker refuses every call: the contract holds with the
  table of the fallback for the store and the cache in front of it.
\<close>

definition refusing :: "'w circuit_breaker \<Rightarrow> 'w circuit_breaker" where
  "refusing cb = cb\<lparr>cbi_Allow := State_Monad.return False\<rparr>"

definition table_marked :: "('w \<Rightarrow> string \<Rightarrow> l1_val option) \<Rightarrow> ('w \<Rightarrow> pg_db) \<Rightarrow> string \<Rightarrow> int \<Rightarrow> 'w \<Rightarrow> bool" where
  "table_marked content pdb i d w \<longleftrightarrow>
     content w i \<noteq> Some (VBool False) \<and> (\<exists>t. (i, t) \<in> set (pg_blacklisted (pdb w)) \<and> d \<le> t)"

locale outage_blacklist = blacklist_fallback l1 content rest pool pdb pnow E
  for l1 :: "'w l1_cache" and content :: "'w \<Rightarrow> string \<Rightarrow> l1_val option" and rest :: "'w \<Rightarrow> 'v"
    and pool :: "'w pg_pool" and pdb :: "'w \<Rightarrow> pg_db" and pnow :: "'w \<Rightarrow> int" and E :: "'w go_env" +
  assumes exec_foreign: "wp (pg_Exec pool st) (\<lambda>err _. \<forall>e. err = Some e \<longrightarrow> foreign_error e) w"
begin

abbreviation "tabled \<equiv> table_marked content pdb"

lemma add_fallback_refusal: "wp (rbl_add_fallback E l1 blacklist_repo i ttl) (\<lambda>err _. add_acknowledged err \<longrightarrow> err = Some (Sentinel ErrRedisUnavailable)) w"
proof -
  have add: "wp (bp_Add blacklist_repo i x) (\<lambda>err _. \<forall>e. err = Some e \<longrightarrow> foreign_error e) w" for x w
    unfolding NewPostgresBlacklistRepository_def blacklist_pg.simps
    by (rule wp_bindI, rule wp_mono [OF exec_foreign]) (auto simp: wp_return)
  show ?thesis
    unfolding rbl_add_fallback_def Let_def
    by (rule wp_bindI, rule wp_any, rule wp_bindI, rule wp_mono [OF add])
      (auto simp: wp_return wp_bind add_acknowledged_def wp_True split: option.split)
qed

lemma outage_revocation:
  "revocation (NewResilientBlacklist E bl (refusing cb) l1 blacklist_repo) tabled
     (\<lambda>w ttl d. \<exists>now. clock_reading E now \<and> pg_time (now + ttl) \<le> d) (\<lambda>w. pg_time (pnow w))"
proof unfold_locales
  have add: "rbl_Add E bl (refusing cb) l1 blacklist_repo i ttl = rbl_add_fallback E l1 blacklist_repo i ttl" for i ttl
    by (simp add: rbl_Add_def refusing_def)
  have chk: "rbl_IsBlacklisted bl (refusing cb) l1 blacklist_repo i = rbl_fallback l1 blacklist_repo i" for i
    by (simp add: rbl_IsBlacklisted_def refusing_def)
  show "wp (bl_Add (NewResilientBlacklist E bl (refusing cb) l1 blacklist_repo) i ttl) (\<lambda>err w'. add_acknowledged err \<longrightarrow>
      (\<exists>d. tabled i d w' \<and> (\<exists>now. clock_reading E now \<and> pg_time (now + ttl) \<le> d))) w" for i ttl w
    unfolding NewResilientBlacklist_def blacklist.simps add
    by (rule wp_mono [OF wp_conj [OF add_fallback_refusal add_fallback_spec]]) (auto simp: table_marked_def)
  show "wp (bl_IsBlacklisted (NewResilientBlacklist E bl (refusing cb) l1 blacklist_repo) i)
      (\<lambda>r w'. fst r \<or> snd r \<noteq> None \<or> d \<le> pg_time (pnow w')) w" if "tabled i d w" for i d w
    unfolding NewResilientBlacklist_def blacklist.simps chk
    using that by (intro wp_mono [OF fallback_spec]) (auto simp: table_marked_def intro: order_trans)
qed

end

interpretation sim_outage: outage_blacklist sim_l1 sim_content sim_rest sim_pool sim_tables sim_clock "ext_env sim_env"
proof (intro outage_blacklist.intro sim_fallback outage_blacklist_axioms.intro)
  show "wp (pg_Exec sim_pool st) (\<lambda>err _. \<forall>e. err = Some e \<longrightarrow> foreign_error e) w" for st w
    by (auto intro!: wpI simp: sim_pool_def ext_def split: if_splits)
qed

interpretation sim_outage_revocation: revocation
    "NewResilientBlacklist (ext_env sim_env) (NewRedisBlacklist sim_redis) (refusing (NewCircuitBreaker sim_env sample_cfg)) sim_l1
      (NewPostgresBlacklistRepository sim_pool)"
    "table_marked sim_content sim_tables" "\<lambda>w ttl d. \<exists>now. clock_reading (ext_env sim_env) now \<and> pg_time (now + ttl) \<le> d" "\<lambda>w. pg_time (sim_clock w)"
  by (rule sim_outage.outage_revocation)

text \<open>Redis goes away and comes back; the entries of the in-process cache live for a minute.\<close>

definition redis_down :: "(sim_proc, unit) io" where
  "redis_down = ext (State (\<lambda>x. ((), x\<lparr>sm_redis_up := False, sm_l1 := Map.empty\<rparr>)))"

definition redis_back :: "(sim_proc, unit) io" where
  "redis_back = ext (State (\<lambda>x. ((), x\<lparr>sm_redis_up := True\<rparr>)))"


end
