(* ===== verification/Observers.thy ===== *)
theory Observers imports Server_Main begin

text \<open>
  What the metrics and the log of the two servers say, and that they change nothing else: the
  chains of \<open>main\<close> with a telemetry that is written down, compared with the same chains
  without observers.

  A clock that only is read leaves the world alone; that is the one hypothesis on \<open>env_now\<close>.
\<close>

section \<open>The gRPC chain\<close>

text \<open>The chain as it would be without \<open>Prometheus\<close> and \<open>Logging\<close>.\<close>

definition unobserved_interceptors ::
    "'w go_env \<Rightarrow> string \<Rightarrow> 'w event_publisher \<Rightarrow> int \<Rightarrow> ('w, bool) io \<Rightarrow> (string \<Rightarrow> ('w, bool) io) \<Rightarrow> json_codec \<Rightarrow>
      (string \<Rightarrow> bool) \<Rightarrow> 'w idempotency_cache \<Rightarrow> 'w interceptor list" where
  "unobserved_interceptors E key publisher rpm allow allow_method J is_base64 cache =
     [Recovery, RequestID E, ServiceAuth key, KafkaAccessLog E publisher, RateLimit rpm allow,
      RateLimitMethods [(''/auth.v1.AuthService/Logout'', 10), (''/auth.v1.AuthService/LogoutAll'', 5)] allow_method,
      Idempotency J is_base64 cache]"

definition silent_cache :: "'w idempotency_cache \<Rightarrow> ('w \<times> 'e list) idempotency_cache" where
  "silent_cache r = \<lparr>ic_Get = (\<lambda>k. silent (ic_Get r k)), ic_Set = (\<lambda>k v t. silent (ic_Set r k v t))\<rparr>"

lemma silent_outcome:
  "silent (case r of Returned x \<Rightarrow> f x | Panicked p \<Rightarrow> g p) = (case r of Returned x \<Rightarrow> silent (f x) | Panicked p \<Rightarrow> silent (g p))"
  by (cases r) simp_all

lemma silent_let: "silent (let x = a in f x) = (let x = a in silent (f x))"
  by (simp add: Let_def)

lemma silent_prod: "silent (case x of (a, b) \<Rightarrow> f a b) = (case x of (a, b) \<Rightarrow> silent (f a b))"
  by (cases x) simp

lemmas silent_unfold = silent_steps silent_outcome silent_let silent_prod

lemmas inside_cases = outcome.case_cong option.case_cong sum.case_cong list.case_cong if_cong

lemma silent_fields [simp]:
  "env_now (silent_env E) = silent (env_now E)" "env_rand (silent_env E) n = silent (env_rand E n)" "env_format (silent_env E) = env_format E"
  "pub_Publish (silent_publisher p) e = silent (pub_Publish p e)"
  "ic_Get (silent_cache r) k = silent (ic_Get r k)" "ic_Set (silent_cache r) k v t = silent (ic_Set r k v t)"
  by (simp_all add: silent_env_def silent_publisher_def silent_cache_def)

lemma silent_interceptors:
  "RequestID (silent_env E) (\<lambda>c. silent (h c)) = (\<lambda>c. silent (RequestID E h c))"
  "ServiceAuth key (\<lambda>c. silent (h c)) = (\<lambda>c. silent (ServiceAuth key h c))"
  "KafkaAccessLog (silent_env E) (silent_publisher p) (\<lambda>c. silent (h c)) = (\<lambda>c. silent (KafkaAccessLog E p h c))"
  "RateLimit rpm (silent allow) (\<lambda>c. silent (h c)) = (\<lambda>c. silent (RateLimit rpm allow h c))"
  "RateLimitMethods ms (\<lambda>m. silent (allow_method m)) (\<lambda>c. silent (h c)) = (\<lambda>c. silent (RateLimitMethods ms allow_method h c))"
  by (simp_all add: fun_eq_iff RequestID_def newRequestID_def ServiceAuth_def KafkaAccessLog_def RateLimit_def RateLimitMethods_def
      fails_def silent_unfold cong: inside_cases)

lemma silent_run_and_cache: "run_and_cache J (silent_cache r) k (silent m) = silent (run_and_cache J r k m)"
  by (simp add: run_and_cache_def silent_unfold cong: inside_cases)

lemma silent_Idempotency: "Idempotency J valid (silent_cache r) (\<lambda>c. silent (h c)) = (\<lambda>c. silent (Idempotency J valid r h c))"
  by (simp add: fun_eq_iff Idempotency_def silent_unfold silent_run_and_cache Let_def cong: inside_cases)

text \<open>What an observer adds to the record of a call.\<close>

lemma run_Logging:
  assumes "\<And>w. run_state (env_now E) w = (now w, w)"
  shows "run_state (Logging (silent_env E) (rec_telemetry code) (\<lambda>c. silent (h c)) c) (w, l) =
    (case run_state (h c) w of (r, w') \<Rightarrow> (r, (w', l @ (case r of Panicked p \<Rightarrow> []
       | Returned res \<Rightarrow> [Logged [gc_FullMethod c, gc_RequestID c, code (status_Code res)] (time_sub (now w') (now w))]))))"
  by (simp add: Logging_def rec_telemetry_def run_silent run_recorded assms split: prod.splits outcome.splits)

lemma run_Prometheus:
  assumes "\<And>w. run_state (env_now E) w = (now w, w)"
  shows "run_state (Prometheus (silent_env E) (rec_telemetry code) h c) (w, l) =
    (case run_state (h c) (w, l) of (r, (w', l')) \<Rightarrow> (r, (w', l' @ (case r of Panicked p \<Rightarrow> []
       | Returned res \<Rightarrow> [Counted grpcRequestsTotal [gc_FullMethod c, code (status_Code res)],
           Observed grpcRequestDuration [gc_FullMethod c] (time_sub (now w') (now w))]))))"
  by (simp add: Prometheus_def rec_telemetry_def run_silent run_recorded assms split: prod.splits outcome.splits)

text \<open>The record of one call: a line of the log, a count and a latency, or nothing when the handler panicked.\<close>

definition reported :: "(int \<Rightarrow> string) \<Rightarrow> grpc_call \<Rightarrow> outcome \<Rightarrow> observation list \<Rightarrow> bool" where
  "reported code c r report \<longleftrightarrow>
     (case r of
        Panicked p \<Rightarrow> report = []
      | Returned res \<Rightarrow> \<exists>rid d1 d2.
          (md_first c ''x-request-id'' \<noteq> [] \<longrightarrow> rid = md_first c ''x-request-id'') \<and>
          report = [Logged [gc_FullMethod c, rid, code (status_Code res)] d1,
            Counted grpcRequestsTotal [gc_FullMethod c, code (status_Code res)],
            Observed grpcRequestDuration [gc_FullMethod c] d2])"

lemma run_RequestID:
  obtains rid w0 where "md_first c ''x-request-id'' \<noteq> [] \<longrightarrow> rid = md_first c ''x-request-id''"
    and "\<And>h. run_state (RequestID E h c) w = run_state (h (WithRequestID rid c)) w0"
    and "\<And>h l. run_state (RequestID (silent_env E) h c) (w, l) = run_state (h (WithRequestID rid c)) (w0, l)"
proof (cases "md_first c ''x-request-id'' = []")
  case True
  obtain b w0 where b: "run_state (env_rand E 8) w = (b, w0)"
    by fastforce
  show ?thesis
    by (rule that [of "hex_bytes (case b of Inl _ \<Rightarrow> replicate 8 0 | Inr b \<Rightarrow> b)" w0])
      (use True b in \<open>simp_all add: RequestID_def newRequestID_def run_silent\<close>)
next
  case False
  show ?thesis
    by (rule that [of "md_first c ''x-request-id''" w]) (use False in \<open>simp_all add: RequestID_def\<close>)
qed

lemma run_Recovery:
  "run_state (Recovery h c) w = (case run_state (h c) w of (r, w') \<Rightarrow>
     (case r of Panicked _ \<Rightarrow> Returned (Inl (status_Error Internal ''internal server error'')) | _ \<Rightarrow> r, w'))"
  by (simp add: Recovery_def split: prod.splits)

lemma observed_core:
  assumes clock: "\<And>w. run_state (env_now E) w = (now w, w)"
  shows "\<exists>report. run_state (Prometheus (silent_env E) (rec_telemetry code) (RequestID (silent_env E)
       (Logging (silent_env E) (rec_telemetry code) (\<lambda>c. silent (k c)))) c) (w, l) =
     (case run_state (RequestID E k c) w of (r, w') \<Rightarrow> (r, (w', l @ report))) \<and> reported code c (fst (run_state (RequestID E k c) w)) report"
proof (rule run_RequestID [of c E w])
  fix rid w0
  assume rid: "md_first c ''x-request-id'' \<noteq> [] \<longrightarrow> rid = md_first c ''x-request-id''"
    and run: "\<And>h. run_state (RequestID E h c) w = run_state (h (WithRequestID rid c)) w0"
    and run': "\<And>h l. run_state (RequestID (silent_env E) h c) (w, l) = run_state (h (WithRequestID rid c)) (w0, l :: observation list)"
  obtain r w' where k: "run_state (k (WithRequestID rid c)) w0 = (r, w')"
    by fastforce
  have c: "gc_RequestID (WithRequestID rid c) = rid" "gc_FullMethod (WithRequestID rid c) = gc_FullMethod c"
    by (simp_all add: WithRequestID_def)
  show ?thesis
    unfolding run_Prometheus [OF clock] run run' run_Logging [OF clock] k c
    using rid by (cases r) (auto simp: reported_def)
qed

text \<open>What the caller sees of an outcome once \<open>Recovery\<close> is past.\<close>

definition report_of_call :: "(int \<Rightarrow> string) \<Rightarrow> grpc_call \<Rightarrow> outcome \<Rightarrow> observation list \<Rightarrow> bool" where
  "report_of_call code c r report \<longleftrightarrow>
     reported code c r report \<and> list_all (well_labelled package_collectors) report \<or>
     report = [] \<and> r = Returned (Inl (status_Error Internal ''internal server error''))"

lemma reported_well_labelled: "reported code c r report \<Longrightarrow> list_all (well_labelled package_collectors) report"
  by (auto simp: reported_def package_collectors_def interceptor_collectors_def grpcRequestsTotal_def grpcRequestDuration_def collector_news split: outcome.splits)


section \<open>The HTTP router\<close>

definition silent_handlers :: "'w http_handlers \<Rightarrow> ('w \<times> 'e list) http_handlers" where
  "silent_handlers H = \<lparr>
     hh_Health = (\<lambda>c. silent (hh_Health H c)), hh_Refresh = (\<lambda>c. silent (hh_Refresh H c)),
     hh_Logout = (\<lambda>c. silent (hh_Logout H c)), hh_LogoutAll = (\<lambda>c. silent (hh_LogoutAll H c)),
     hh_Verify = (\<lambda>c. silent (hh_Verify H c)), hh_GoogleLogin = (\<lambda>c. silent (hh_GoogleLogin H c)),
     hh_Signup = (\<lambda>c. silent (hh_Signup H c)), hh_BFFLogin = (\<lambda>c. silent (hh_BFFLogin H c)),
     hh_BFFLogout = (\<lambda>c. silent (hh_BFFLogout H c)), hh_BFFLogoutAll = (\<lambda>c. silent (hh_BFFLogoutAll H c)),
     hh_WhoAmI = (\<lambda>c. silent (hh_WhoAmI H c)), hh_GetMe = (\<lambda>c. silent (hh_GetMe H c)),
     hh_GetSessions = (\<lambda>c. silent (hh_GetSessions H c)), hh_LogoutDevices = (\<lambda>c. silent (hh_LogoutDevices H c)),
     hh_LogoutOtherDevices = (\<lambda>c. silent (hh_LogoutOtherDevices H c)), hh_Proxy = (\<lambda>c. silent (hh_Proxy H c)),
     hh_RefreshJWKS = (\<lambda>c. silent (hh_RefreshJWKS H c)), hh_Block = (\<lambda>c. silent (hh_Block H c)),
     hh_Unblock = (\<lambda>c. silent (hh_Unblock H c))\<rparr>"

definition observed_deps :: "(int \<Rightarrow> string) \<Rightarrow> 'w http_deps \<Rightarrow> ('w \<times> observation list) http_deps" where
  "observed_deps code D = silent_deps D\<lparr>hd_telemetry := rec_telemetry code\<rparr>"

definition unobserved_deps :: "(int \<Rightarrow> string) \<Rightarrow> 'w http_deps \<Rightarrow> 'w http_deps" where
  "unobserved_deps code D = D\<lparr>hd_telemetry := no_telemetry code\<rparr>"

lemma deps_fields:
  "hd_env (unobserved_deps code D) = hd_env D" "hd_telemetry (unobserved_deps code D) = no_telemetry code"
  "hd_gin (unobserved_deps code D) = hd_gin D" "hd_configs (unobserved_deps code D) = hd_configs D"
  "hd_publisher (unobserved_deps code D) = hd_publisher D" "hd_allow (unobserved_deps code D) = hd_allow D"
  "hd_bff (unobserved_deps code D) = hd_bff D"
  "hd_env (observed_deps code D) = silent_env (hd_env D)" "hd_telemetry (observed_deps code D) = rec_telemetry code"
  "hd_gin (observed_deps code D) = hd_gin D" "hd_configs (observed_deps code D) = hd_configs D"
  "hd_publisher (observed_deps code D) = silent_publisher (hd_publisher D)" "hd_allow (observed_deps code D) = (\<lambda>ip. silent (hd_allow D ip))"
  "hd_bff (observed_deps code D) = silent_bff (hd_bff D)"
  by (simp_all add: unobserved_deps_def observed_deps_def silent_deps_def)

lemma silent_middleware:
  "CORSMiddleware origins (\<lambda>c. silent (h c)) = (\<lambda>c. silent (CORSMiddleware origins h c))"
  "ServiceAuthMiddleware key (\<lambda>c. silent (h c)) = (\<lambda>c. silent (ServiceAuthMiddleware key h c))"
  "RateLimitMiddleware (\<lambda>ip. silent (allow ip)) (\<lambda>c. silent (h c)) = (\<lambda>c. silent (RateLimitMiddleware allow h c))"
  "BFFSessionMiddleware (\<lambda>c. silent (h c)) = (\<lambda>c. silent (BFFSessionMiddleware h c))"
  by (simp_all add: fun_eq_iff CORSMiddleware_def ServiceAuthMiddleware_def RateLimitMiddleware_def BFFSessionMiddleware_def
      silent_unfold Let_def cong: inside_cases)

lemma silent_token: "NewCSRFToken (silent_env E) G secret sid = silent (NewCSRFToken E G secret sid)"
  by (simp add: NewCSRFToken_def try_io_def silent_unfold Let_def cong: inside_cases)

lemma silent_CSRF: "CSRFMiddleware (silent_env E) G secret sec (\<lambda>c. silent (h c)) = (\<lambda>c. silent (CSRFMiddleware E G secret sec h c))"
  by (simp add: fun_eq_iff CSRFMiddleware_def silent_token silent_unfold Let_def cong: inside_cases)

lemma silent_bridge: "BFFAPIBridgeMiddleware (silent_bff b) (\<lambda>c. silent (h c)) = (\<lambda>c. silent (BFFAPIBridgeMiddleware b h c))"
  by (simp add: fun_eq_iff BFFAPIBridgeMiddleware_def silent_bff_def silent_unfold Let_def cong: inside_cases prod.case_cong)

text \<open>The record of one request: its method, the pattern of its route and its status, and a latency.\<close>

definition http_report :: "string \<Rightarrow> gin_ctx \<Rightarrow> int \<Rightarrow> observation list" where
  "http_report p c1 d =
     [Counted HTTPRequests [gx_Method c1, p, show_int (gx_Status c1)], Observed HTTPDuration [gx_Method c1, p] d]"

definition route_label :: "gin_ctx \<Rightarrow> string" where
  "route_label c = (if gx_FullPath c = [] then ''unmatched'' else gx_FullPath c)"

definition watched :: "('w \<times> observation list) handler \<Rightarrow> 'w handler \<Rightarrow> bool" where
  "watched f' f \<longleftrightarrow> (\<forall>c w l. \<exists>d. run_state (f' c) (w, l) =
     (case run_state (f c) w of (c1, w1) \<Rightarrow> (c1, (w1, l @ http_report (route_label c) c1 d))))"

lemma watched_metrics:
  assumes "\<And>w. run_state (env_now E) w = (now w, w)"
  shows "watched (PrometheusMiddleware (silent_env E) (rec_telemetry code) (\<lambda>c. silent (h c))) (PrometheusMiddleware E (no_telemetry code) h)"
  by (auto simp: watched_def PrometheusMiddleware_def rec_telemetry_def no_telemetry_def run_silent run_recorded assms
      http_report_def route_label_def Let_def split: prod.splits)

lemma watched_log:
  assumes "\<And>w. run_state (env_now E) w = (now w, w)" "watched f' f"
  shows "watched (KafkaAccessLogMiddleware (silent_env E) (silent_publisher p) f') (KafkaAccessLogMiddleware E p f)"
  unfolding watched_def
proof (intro allI)
  fix c w and l :: "observation list"
  obtain d where "run_state (f' c) (w, l) = (case run_state (f c) w of (c1, w1) \<Rightarrow> (c1, (w1, l @ http_report (route_label c) c1 d)))"
    using assms(2) unfolding watched_def by blast
  then show "\<exists>d. run_state (KafkaAccessLogMiddleware (silent_env E) (silent_publisher p) f' c) (w, l) =
      (case run_state (KafkaAccessLogMiddleware E p f c) w of (c1, w1) \<Rightarrow> (c1, (w1, l @ http_report (route_label c) c1 d)))"
    by (intro exI [of _ d])
      (simp add: KafkaAccessLogMiddleware_def run_silent assms(1) split: prod.splits)
qed

text \<open>The same route in both tables.\<close>

definition mirrors :: "('w \<times> observation list) route \<Rightarrow> 'w route \<Rightarrow> bool" where
  "mirrors rt' rt \<longleftrightarrow> rt_Method rt' = rt_Method rt \<and> rt_Path rt' = rt_Path rt \<and> rt_Path rt \<noteq> [] \<and>
     (if rt_Path rt = ''/health'' then \<forall>c. gin_chain (rt_Chain rt') (rt_Handler rt') c = silent (gin_chain (rt_Chain rt) (rt_Handler rt) c)
      else watched (gin_chain (rt_Chain rt') (rt_Handler rt')) (gin_chain (rt_Chain rt) (rt_Handler rt)))"

lemma mirrorsI: "watched (gin_chain ms' h') (gin_chain ms h) \<Longrightarrow> p \<noteq> [] \<Longrightarrow> p \<noteq> ''/health'' \<Longrightarrow> mirrors (route_of m p ms' h') (route_of m p ms h)"
  by (simp add: mirrors_def)

lemma find_mirror: "list_all2 mirrors rs' rs \<Longrightarrow> rel_option mirrors (List.find (route_matches c) rs') (List.find (route_matches c) rs)"
proof (induction rule: list_all2_induct)
  case (Cons rt' rs' rt rs)
  then have "route_matches c rt' = route_matches c rt"
    by (simp add: mirrors_def route_matches_def)
  with Cons show ?case
    by simp
qed simp

lemma watched_chains:
  fixes code :: "int \<Rightarrow> string" and h :: "'w handler"
  assumes "\<And>w. run_state (env_now (hd_env D)) w = (now w, w)"
  defines "D1 \<equiv> observed_deps code D" and "D0 \<equiv> unobserved_deps code D"
  shows "watched (gin_chain (engine_chain D1) (\<lambda>c. silent (h c))) (gin_chain (engine_chain D0) h)"
    and "watched (gin_chain (s2s_chain D1) (\<lambda>c. silent (h c))) (gin_chain (s2s_chain D0) h)"
    and "watched (gin_chain (s2s_chain D1 @ [RateLimitMiddleware (hd_allow D1)]) (\<lambda>c. silent (h c)))
      (gin_chain (s2s_chain D0 @ [RateLimitMiddleware (hd_allow D0)]) h)"
    and "watched (gin_chain (engine_chain D1 @ [RateLimitMiddleware (hd_allow D1)]) (\<lambda>c. silent (h c)))
      (gin_chain (engine_chain D0 @ [RateLimitMiddleware (hd_allow D0)]) h)"
    and "watched (gin_chain (bff_chain D1 @ [RateLimitMiddleware (hd_allow D1)]) (\<lambda>c. silent (h c)))
      (gin_chain (bff_chain D0 @ [RateLimitMiddleware (hd_allow D0)]) h)"
    and "watched (gin_chain (protected_chain D1) (\<lambda>c. silent (h c))) (gin_chain (protected_chain D0) h)"
    and "watched (gin_chain (api_chain D1) (\<lambda>c. silent (h c))) (gin_chain (api_chain D0) h)"
  unfolding D1_def D0_def chain_defs deps_fields gin_chain_append gin_chain_simps
    silent_middleware silent_CSRF silent_bridge
  by (rule watched_log [OF assms(1) watched_metrics [OF assms(1)]])+

lemma mirrored_routes:
  assumes "\<And>w. run_state (env_now (hd_env D)) w = (now w, w)"
  shows "list_all2 mirrors (http_routes (observed_deps code D) (silent_handlers H)) (http_routes (unobserved_deps code D) H)"
proof -
  note ws = watched_chains [OF assms, THEN mirrorsI]
  have health: "mirrors (route_of m ''/health'' [] (\<lambda>c. silent (h c))) (route_of m ''/health'' [] h)" for m and h :: "'a handler"
    by (simp add: mirrors_def)
  have api: "list_all2 mirrors (map (\<lambda>m. route_of m ''/api/*path'' (api_chain (observed_deps code D)) (\<lambda>c. silent (hh_Proxy H c))) any_methods)
      (map (\<lambda>m. route_of m ''/api/*path'' (api_chain (unobserved_deps code D)) (hh_Proxy H)) any_methods)"
    by (simp add: list_all2_map1 list_all2_map2 list_all2_same ws(7))
  show ?thesis
    unfolding http_routes_def silent_handlers_def http_handlers.simps
    by (intro list_all2_appendI api list.rel_intros health ws; simp)
qed

text \<open>The patterns of the route table: the only path labels there are, with one for everything else.\<close>

definition path_labels :: "string list" where
  "path_labels = ''unmatched'' # [''/auth/refresh'', ''/auth/logout'', ''/auth/logout-all'', ''/auth/verify'', ''/auth/google/login'',
     ''/auth/signup'', ''/bff/login'', ''/bff/logout'', ''/bff/logout-all'', ''/bff/whoami'', ''/bff/account/me'', ''/bff/account/sessions'',
     ''/bff/logout-devices'', ''/bff/logout-other-devices'', ''/api/*path'', ''/admin/jwks/refresh'', ''/admin/blacklist/block'']"

lemma path_labels: "rt \<in> set (http_routes D H) \<Longrightarrow> rt_Path rt \<noteq> ''/health'' \<Longrightarrow> rt_Path rt \<in> set path_labels"
  by (auto simp: http_routes_def path_labels_def)

definition matched_pattern :: "'w http_deps \<Rightarrow> 'w http_handlers \<Rightarrow> gin_ctx \<Rightarrow> string" where
  "matched_pattern D H c = (case List.find (route_matches c) (http_routes D H) of Some rt \<Rightarrow> rt_Path rt | None \<Rightarrow> ''unmatched'')"

lemma find_member: "List.find P xs = Some x \<Longrightarrow> x \<in> set xs"
  by (metis find_Some_iff nth_mem)

lemma unmatched_chain:
  assumes "\<And>w. run_state (env_now (hd_env D)) w = (now w, w)"
  shows "\<exists>d. run_state (gin_chain (engine_chain (observed_deps code D)) (\<lambda>c. silent (h c)) (c\<lparr>gx_FullPath := []\<rparr>)) (w, l) =
    (case run_state (gin_chain (engine_chain (unobserved_deps code D)) h (c\<lparr>gx_FullPath := []\<rparr>)) w of
       (c1, w1) \<Rightarrow> (c1, (w1, l @ http_report ''unmatched'' c1 d)))"
proof -
  have label: "route_label (c\<lparr>gx_FullPath := []\<rparr>) = ''unmatched''"
    by (simp add: route_label_def)
  have "watched (gin_chain (engine_chain (observed_deps code D)) (\<lambda>c. silent (h c))) (gin_chain (engine_chain (unobserved_deps code D)) h)"
    by (rule watched_chains(1) [OF assms])
  then have "\<exists>d. run_state (gin_chain (engine_chain (observed_deps code D)) (\<lambda>c. silent (h c)) (c\<lparr>gx_FullPath := []\<rparr>)) (w, l) =
      (case run_state (gin_chain (engine_chain (unobserved_deps code D)) h (c\<lparr>gx_FullPath := []\<rparr>)) w of
         (c1, w1) \<Rightarrow> (c1, (w1, l @ http_report (route_label (c\<lparr>gx_FullPath := []\<rparr>)) c1 d)))"
    unfolding watched_def by blast
  then show ?thesis
    by (simp only: label)
qed

lemma mirrored_chain:
  assumes "mirrors rt' rt"
  shows "\<exists>d. run_state (gin_chain (rt_Chain rt') (rt_Handler rt') (c\<lparr>gx_FullPath := rt_Path rt\<rparr>)) (w, l) =
    (case run_state (gin_chain (rt_Chain rt) (rt_Handler rt) (c\<lparr>gx_FullPath := rt_Path rt\<rparr>)) w of
       (c1, w1) \<Rightarrow> (c1, (w1, l @ (if rt_Path rt = ''/health'' then [] else http_report (rt_Path rt) c1 d))))"
proof (cases "rt_Path rt = ''/health''")
  case True
  then have "\<forall>c. gin_chain (rt_Chain rt') (rt_Handler rt') c = silent (gin_chain (rt_Chain rt) (rt_Handler rt) c)"
    using assms unfolding mirrors_def by simp
  with True show ?thesis
    by (simp add: run_silent)
next
  case False
  then have w: "watched (gin_chain (rt_Chain rt') (rt_Handler rt')) (gin_chain (rt_Chain rt) (rt_Handler rt))"
    and label: "route_label (c\<lparr>gx_FullPath := rt_Path rt\<rparr>) = rt_Path rt"
    using assms unfolding mirrors_def by (simp_all add: route_label_def)
  have "\<exists>d. run_state (gin_chain (rt_Chain rt') (rt_Handler rt') (c\<lparr>gx_FullPath := rt_Path rt\<rparr>)) (w, l) =
      (case run_state (gin_chain (rt_Chain rt) (rt_Handler rt) (c\<lparr>gx_FullPath := rt_Path rt\<rparr>)) w of
         (c1, w1) \<Rightarrow> (c1, (w1, l @ http_report (route_label (c\<lparr>gx_FullPath := rt_Path rt\<rparr>)) c1 d)))"
    using w unfolding watched_def by blast
  with False show ?thesis
    by (simp only: label if_False)
qed


section \<open>Labels a client chooses\<close>

lemma http_report_labelled: "list_all (well_labelled package_collectors) (http_report p c1 d)"
  by (simp add: http_report_def package_collectors_def metrics_collectors_def HTTPRequests_def HTTPDuration_def collector_news)

lemma engine_404:
  fixes w :: 'w
  assumes "gx_Method c \<noteq> ''OPTIONS''"
  shows "wp (gin_chain (engine_chain D) (\<lambda>c. State_Monad.return (c_AbortWithStatus 404 c)) c) (\<lambda>c1 _. gx_Method c1 = gx_Method c \<and> gx_Status c1 = 404) w"
proof -
  have "wp (CORSMiddleware origins (\<lambda>c. State_Monad.return (c_AbortWithStatus 404 c)) c) (\<lambda>c1 _. gx_Method c1 = gx_Method c \<and> gx_Status c1 = 404) w"
    for origins and w :: 'w
    using assms by (auto simp: CORSMiddleware_def wp_return cors_headers_def c_Header_def c_AbortWithStatus_def Let_def split: option.split)
  note cors = this
  show ?thesis
    unfolding engine_chain_def gin_chain_simps KafkaAccessLogMiddleware_def PrometheusMiddleware_def Let_def
    by (rule wp_bindI, rule wp_any, rule wp_bindI, rule wp_bindI, rule wp_any, rule wp_bindI, rule wp_mono [OF cors])
      (simp add: wp_bind wp_return wp_True)
qed

text \<open>
  The comment of \<open>PrometheusMiddleware\<close> bounds the series by giving unknown paths one label.
  The method is a label too, and it is the client's: whatever method a request without a route
  names, there is a series for it.
\<close>

lemma method_label_of_client:
  assumes "\<And>w. run_state (env_now (hd_env D)) w = (now w, w)" "gx_Method c \<noteq> ''OPTIONS''"
    and "List.find (route_matches c) (http_routes (unobserved_deps code D) H) = None"
  shows "Counted HTTPRequests [gx_Method c, ''unmatched'', ''404''] \<in> set (snd (snd (run_state (serve (observed_deps code D) (silent_handlers H) c) (w, []))))"
proof -
  let ?c = "c\<lparr>gx_FullPath := []\<rparr>" and ?h = "\<lambda>c. State_Monad.return (c_AbortWithStatus 404 c)"
  obtain c1 w1 where c1: "run_state (gin_chain (engine_chain (unobserved_deps code D)) ?h ?c) w = (c1, w1)"
    by fastforce
  have facts: "gx_Method c1 = gx_Method c" "gx_Status c1 = 404"
    using wpD [OF engine_404 c1] assms(2) by simp_all
  have none: "List.find (route_matches c) (http_routes (observed_deps code D) (silent_handlers H)) = None"
    using find_mirror [OF mirrored_routes [OF assms(1)]] assms(3) by (metis option.rel_sel option.discI)
  have "\<exists>d. run_state (gin_chain (engine_chain (observed_deps code D)) (\<lambda>c. silent (?h c)) ?c) (w, []) =
      (case run_state (gin_chain (engine_chain (unobserved_deps code D)) ?h ?c) w of (c1, w1) \<Rightarrow> (c1, (w1, [] @ http_report (route_label ?c) c1 d)))"
    using watched_chains(1) [OF assms(1), where h = ?h] unfolding watched_def by blast
  then obtain d where "run_state (gin_chain (engine_chain (observed_deps code D)) (\<lambda>c. silent (?h c)) ?c) (w, []) = (c1, (w1, http_report (route_label ?c) c1 d))"
    unfolding c1 by auto
  moreover have "show_int 404 = ''404''"
    by code_simp
  ultimately show ?thesis
    using none facts by (simp add: serve_def http_report_def route_label_def)
qed

definition sample_call :: grpc_call where
  "sample_call = \<lparr>gc_FullMethod = ''/auth.v1.AuthService/Verify'', gc_Metadata = None, gc_RequestID = [], gc_Req = VerifyRequest ''t''\<rparr>"

definition empty_cache :: "'w idempotency_cache" where
  "empty_cache = \<lparr>ic_Get = (\<lambda>_. State_Monad.return (Inl (Sentinel RedisNil))), ic_Set = (\<lambda>_ _ _. State_Monad.return None)\<rparr>"



end
