(* ===== verification/Startup.thy ===== *)
theory Startup imports Server_Main begin

text \<open>
  The start of the process: \<open>main\<close> of \<open>cmd/server/main.go\<close> up to the servers, with
  \<open>RunMigrations\<close> of \<open>internal/database/migrate.go\<close>, and the goroutine that refreshes the keys
  on \<open>SIGHUP\<close>.

  Every load, dial and check of \<open>main\<close> either goes on or ends the process; \<open>stop\<close> says how. The
  calls that reach outside (\<open>boot\<close>) are parameters: the Kafka and Redis connections, the
  Postgres pool, the migration library, gin's check of the proxy list, the gRPC listener.
  Sentry, whose failure is only logged, is left out.
\<close>

section \<open>Migrations\<close>

text \<open>\<open>strings.Replace\<close> with a limit of one.\<close>

fun replace_first :: "string \<Rightarrow> string \<Rightarrow> string \<Rightarrow> string" where
  "replace_first old new s =
     (if has_prefix s old then new @ drop (length old) s else case s of [] \<Rightarrow> [] | c # cs \<Rightarrow> c # replace_first old new cs)"

declare replace_first.simps [simp del]

record 'w boot =
  bo_Dial :: "string \<Rightarrow> ('w, error option) io"
  bo_Ping :: "('w, error option) io"
  bo_ParseConfig :: "string \<Rightarrow> error option"
  bo_OpenPool :: "pool_options \<Rightarrow> ('w, error option) io"
  bo_Migrations :: "error option"
  bo_NewMigrator :: "string \<Rightarrow> ('w, error option) io"
  bo_Up :: "('w, error option) io"
  bo_NoChange :: "error \<Rightarrow> bool"
  bo_TrustProxies :: "string list \<Rightarrow> error option"
  bo_Listen :: "string \<Rightarrow> ('w, error option) io"

definition RunMigrations :: "'w boot \<Rightarrow> string \<Rightarrow> ('w, error option) io" where
  "RunMigrations B dsn =
     (case bo_Migrations B of
        Some err \<Rightarrow> State_Monad.return (Some (Errorf ''load migrations'' [err]))
      | None \<Rightarrow> do {
          made \<leftarrow> bo_NewMigrator B (replace_first ''postgres://'' ''pgx5://'' dsn);
          case made of
            Some err \<Rightarrow> State_Monad.return (Some (Errorf ''create migrator: connection failed (credentials redacted)'' []))
          | None \<Rightarrow> do {
              ran \<leftarrow> bo_Up B;
              State_Monad.return (case ran of
                Some err \<Rightarrow> if bo_NoChange B err then None else Some (Errorf ''run migrations'' [err])
              | None \<Rightarrow> None)
            }
        })"

section \<open>The start\<close>

datatype stop = Fatal error | Panic error | ExitProcess

definition or_stop :: "('w, stop + 'a) io \<Rightarrow> ('a \<Rightarrow> ('w, stop + 'b) io) \<Rightarrow> ('w, stop + 'b) io" where
  "or_stop m f = do {
     r \<leftarrow> m;
     case r of Inl s \<Rightarrow> State_Monad.return (Inl s) | Inr a \<Rightarrow> f a
   }"

text \<open>A value that was loaded, and a call that may fail, with what \<open>main\<close> does on the error.\<close>

definition loaded :: "(error \<Rightarrow> stop) \<Rightarrow> 'a result \<Rightarrow> ('w, stop + 'a) io" where
  "loaded how r = State_Monad.return (case r of Inl err \<Rightarrow> Inl (how err) | Inr a \<Rightarrow> Inr a)"

definition called :: "(error \<Rightarrow> stop) \<Rightarrow> ('w, error option) io \<Rightarrow> ('w, stop + unit) io" where
  "called how m = do {
     err \<leftarrow> m;
     State_Monad.return (case err of Some e \<Rightarrow> Inl (how e) | None \<Rightarrow> Inr ())
   }"

definition prefixed :: "(error \<Rightarrow> stop) \<Rightarrow> string \<Rightarrow> error \<Rightarrow> stop" where
  "prefixed how msg err = how (Errorf msg [err])"

text \<open>\<open>kafka.NewProducer\<close> dials the first broker; a production process ends there when it cannot.\<close>

definition main_producer :: "'w boot \<Rightarrow> kafka_config \<Rightarrow> ('w, stop + new_producer) io" where
  "main_producer B kc = do {
     dialed \<leftarrow> (case kf_Brokers kc of [] \<Rightarrow> State_Monad.return None | broker # _ \<Rightarrow> bo_Dial B broker);
     State_Monad.return (case NewProducer kc (\<lambda>_. dialed) of
       Inl err \<Rightarrow> Inl (Panic err)
     | Inr ExitsProcess \<Rightarrow> Inl ExitProcess
     | Inr (NoopAndError err) \<Rightarrow>
         if kf_IsProduction kc then Inl (Fatal (Errorf ''[FATAL] Kafka broker unreachable in production'' [err])) else Inr (NoopAndError err)
     | Inr (RunningProducer p) \<Rightarrow> Inr (RunningProducer p))
   }"

record started =
  su_configs :: configs
  su_producer :: new_producer
  su_consumer :: bool
  su_registry :: "collector list"
  su_proxy :: proxy_handler
  su_metrics :: "string \<Rightarrow> string \<Rightarrow> metrics_answer"

text \<open>
  \<open>main\<close>, in its order and in three parts: the configuration and the connections, the way out
  to the backend and in from the browsers, the listeners. Between the checks it builds the
  components of \<open>Server_Main\<close>, which asks nothing of the outside.
\<close>

definition main_connect ::
    "os_env \<Rightarrow> 'w boot \<Rightarrow> ('w, stop + (server_config \<times> new_producer \<times> ory_config \<times> bff_config \<times> collector list)) io" where
  "main_connect os B =
     or_stop (loaded Fatal (LoadServerConfig os)) (\<lambda>server.
     or_stop (main_producer B (LoadKafkaConfig os)) (\<lambda>producer.
     or_stop (loaded Fatal (LoadOryConfig os)) (\<lambda>ory.
     or_stop (loaded Fatal (LoadBFFConfig os)) (\<lambda>bff.
     or_stop (called (prefixed Panic ''Redis ping failed'') (bo_Ping B)) (\<lambda>_.
     or_stop (loaded (prefixed Panic ''Postgres connect failed'') (NewPostgresConn_options os (bo_ParseConfig B))) (\<lambda>pool.
     or_stop (called (prefixed Panic ''Postgres connect failed'') (bo_OpenPool B pool)) (\<lambda>_.
     or_stop (loaded Panic (case started_registry [''central_auth''] of
         None \<Rightarrow> Inl (Errorf ''duplicate metrics collector registration attempted'' []) | Some reg \<Rightarrow> Inr reg)) (\<lambda>registry.
     or_stop (called (prefixed Fatal ''[FATAL] database migration failed'') (RunMigrations B (PostgresDSN os))) (\<lambda>_.
       State_Monad.return (Inr (server, producer, ory, bff, registry)))))))))))"

definition main_edge ::
    "os_env \<Rightarrow> 'w net \<Rightarrow> 'w boot \<Rightarrow> server_config \<Rightarrow> ('w, stop + (proxy_config \<times> proxy_handler \<times> string list option)) io" where
  "main_edge os N B server =
     or_stop (loaded (prefixed Fatal ''[FATAL] proxy config'') (LoadProxyConfig os)) (\<lambda>proxy.
     or_stop (loaded (prefixed Fatal ''[FATAL] proxy handler init'')
         (NewProxyHandler N (px_KotlinURL proxy) (px_DialTimeout proxy) (px_KotlinServiceKey proxy))) (\<lambda>handler.
     or_stop (loaded Fatal (LoadCORSOrigins os (sc_AppEnv server))) (\<lambda>origins.
     or_stop (called (prefixed Fatal ''[FATAL] invalid trusted proxy config'')
         (State_Monad.return (bo_TrustProxies B (sc_TrustedProxyCIDRs server)))) (\<lambda>_.
       State_Monad.return (Inr (proxy, handler, origins))))))"

definition main_listen ::
    "os_env \<Rightarrow> 'n net_lib \<Rightarrow> 'w boot \<Rightarrow> server_config \<Rightarrow> ('w, stop + (string \<Rightarrow> string \<Rightarrow> metrics_answer)) io" where
  "main_listen os L B server =
     or_stop (called (prefixed Fatal ''[FATAL] gRPC listen :50051'') (bo_Listen B '':50051'')) (\<lambda>_.
       loaded Panic (MetricsAllowlistHandler L os (sc_MetricsBasicAuthUser server) (sc_MetricsBasicAuthPassword server)))"

definition main_start :: "os_env \<Rightarrow> 'n net_lib \<Rightarrow> 'w net \<Rightarrow> 'w boot \<Rightarrow> ('w, stop + started) io" where
  "main_start os L N B =
     or_stop (main_connect os B) (\<lambda>(server, producer, ory, bff, registry).
     or_stop (main_edge os N B server) (\<lambda>(proxy, handler, origins).
     or_stop (main_listen os L B server) (\<lambda>metrics.
       State_Monad.return (Inr \<lparr>
         su_configs = \<lparr>cf_server = server, cf_bff = bff, cf_resilience = LoadResilienceConfig os, cf_ory = ory, cf_proxy = proxy,
           cf_origins = origins\<rparr>,
         su_producer = producer, su_consumer = ShouldStartConsumer producer, su_registry = registry, su_proxy = handler,
         su_metrics = metrics\<rparr>))))"

lemma or_stop_assoc: "or_stop (or_stop m f) g = or_stop m (\<lambda>a. or_stop (f a) g)"
proof -
  have "(case r of Inl s \<Rightarrow> State_Monad.return (Inl s) | Inr a \<Rightarrow> f a) \<bind> (\<lambda>r. case r of Inl s \<Rightarrow> State_Monad.return (Inl s) | Inr a \<Rightarrow> g a) =
      (case r of Inl s \<Rightarrow> State_Monad.return (Inl s) | Inr a \<Rightarrow> f a \<bind> (\<lambda>r. case r of Inl s \<Rightarrow> State_Monad.return (Inl s) | Inr a \<Rightarrow> g a))" for r
    by (cases r) simp_all
  then show ?thesis
    by (simp add: or_stop_def)
qed

lemma or_stop_return: "or_stop (State_Monad.return (Inr a)) f = f a"
  by (simp add: or_stop_def)

lemmas main_parts = main_start_def main_connect_def main_edge_def main_listen_def or_stop_assoc or_stop_return prod.case

section \<open>The order of the start\<close>

text \<open>What the start asks of the outside, in a record.\<close>

datatype boot_event =
    Dialed "error option"
  | Pinged "error option"
  | PoolOpened "error option"
  | MigratorMade "error option"
  | MigrationsRan "error option"
  | Listened "error option"

definition rec_boot :: "'w boot \<Rightarrow> ('w \<times> boot_event list) boot" where
  "rec_boot B = \<lparr>bo_Dial = (\<lambda>a. recorded Dialed (bo_Dial B a)), bo_Ping = recorded Pinged (bo_Ping B),
     bo_ParseConfig = bo_ParseConfig B, bo_OpenPool = (\<lambda>p. recorded PoolOpened (bo_OpenPool B p)),
     bo_Migrations = bo_Migrations B, bo_NewMigrator = (\<lambda>d. recorded MigratorMade (bo_NewMigrator B d)),
     bo_Up = recorded MigrationsRan (bo_Up B), bo_NoChange = bo_NoChange B, bo_TrustProxies = bo_TrustProxies B,
     bo_Listen = (\<lambda>a. recorded Listened (bo_Listen B a))\<rparr>"

text \<open>The place of a call in the order, and whether the start may go on after it.\<close>

fun stage :: "boot_event \<Rightarrow> nat" where
  "stage (Dialed _) = 0" | "stage (Pinged _) = 1" | "stage (PoolOpened _) = 2" | "stage (MigratorMade _) = 3"
| "stage (MigrationsRan _) = 4" | "stage (Listened _) = 5"

fun passed :: "bool \<Rightarrow> (error \<Rightarrow> bool) \<Rightarrow> boot_event \<Rightarrow> bool" where
  "passed production no_change (Dialed e) = (e = None \<or> \<not> production)"
| "passed production no_change (MigrationsRan e) = (case e of None \<Rightarrow> True | Some err \<Rightarrow> no_change err)"
| "passed production no_change (Pinged e) = (e = None)"
| "passed production no_change (PoolOpened e) = (e = None)"
| "passed production no_change (MigratorMade e) = (e = None)"
| "passed production no_change (Listened e) = (e = None)"

text \<open>
  The record of a start: the calls in their order, each after the success of those before it,
  and all of them when the process serves.
\<close>

definition orderly :: "bool \<Rightarrow> (error \<Rightarrow> bool) \<Rightarrow> bool \<Rightarrow> boot_event list \<Rightarrow> bool" where
  "orderly production no_change serves l \<longleftrightarrow>
     map stage l = [0..<length l] \<and> list_all (passed production no_change) (butlast l) \<and>
     (if serves then length l = 6 \<and> list_all (passed production no_change) l else True)"

lemma or_stop_loaded:
  assumes "\<And>err. r = Inl err \<Longrightarrow> Q (Inl (how err)) w" "\<And>a. r = Inr a \<Longrightarrow> wp (f a) Q w"
  shows "wp (or_stop (loaded how r) f) Q w"
  using assms by (cases r) (simp_all add: or_stop_def loaded_def wp_bind wp_return)

lemma or_stop_called:
  assumes "\<And>err w'. Q (Inl (how err)) (w', l @ [ev (Some err)])" "\<And>w'. wp (f ()) Q (w', l @ [ev None])"
  shows "wp (or_stop (called how (recorded ev m)) f) Q (w, l)"
  unfolding or_stop_def called_def
proof (rule wp_bindI, rule wp_bindI, rule recorded_wp)
  fix e w'
  show "wp (State_Monad.return (case e of Some e \<Rightarrow> Inl (how e) | None \<Rightarrow> Inr ()))
      (\<lambda>a. wp (case a of Inl s \<Rightarrow> State_Monad.return (Inl s) | Inr a \<Rightarrow> f a) Q) (w', snd (w, l) @ [ev e])"
    using assms by (cases e) (simp_all add: wp_return)
qed

lemma or_stop_checked:
  assumes "\<And>err. e = Some err \<Longrightarrow> Q (Inl (how err)) w" "e = None \<Longrightarrow> wp (f ()) Q w"
  shows "wp (or_stop (called how (State_Monad.return e)) f) Q w"
  using assms by (cases e) (simp_all add: or_stop_def called_def wp_bind wp_return)

lemma or_stop_producer:
  assumes "kf_Brokers kc = [] \<Longrightarrow> Q (Inl (Panic (Errorf ''index out of range [0] with length 0'' []))) (w, l)"
    and "\<And>err w'. kf_IsProduction kc \<Longrightarrow> Q (Inl ExitProcess) (w', l @ [Dialed (Some err)])"
    and "\<And>err w'. \<not> kf_IsProduction kc \<Longrightarrow> wp (f (NoopAndError err)) Q (w', l @ [Dialed (Some err)])"
    and "\<And>w'. wp (f (RunningProducer (start_producer kc))) Q (w', l @ [Dialed None])"
  shows "wp (or_stop (main_producer (rec_boot B) kc) f) Q (w, l)"
proof (cases "kf_Brokers kc")
  case Nil
  with assms(1) show ?thesis
    by (simp add: or_stop_def main_producer_def NewProducer_def wp_bind wp_return)
next
  case (Cons b bs)
  have "wp (recorded Dialed (bo_Dial B b)) (\<lambda>dialed. wp (State_Monad.return (case NewProducer kc (\<lambda>_. dialed) of
       Inl err \<Rightarrow> Inl (Panic err)
     | Inr ExitsProcess \<Rightarrow> Inl ExitProcess
     | Inr (NoopAndError err) \<Rightarrow>
         if kf_IsProduction kc then Inl (Fatal (Errorf ''[FATAL] Kafka broker unreachable in production'' [err])) else Inr (NoopAndError err)
     | Inr (RunningProducer p) \<Rightarrow> Inr (RunningProducer p))) (\<lambda>r. wp (case r of Inl s \<Rightarrow> State_Monad.return (Inl s) | Inr a \<Rightarrow> f a) Q)) (w, l)"
  proof (rule recorded_wp)
    show "wp (State_Monad.return (case NewProducer kc (\<lambda>_. d) of
       Inl err \<Rightarrow> Inl (Panic err)
     | Inr ExitsProcess \<Rightarrow> Inl ExitProcess
     | Inr (NoopAndError err) \<Rightarrow>
         if kf_IsProduction kc then Inl (Fatal (Errorf ''[FATAL] Kafka broker unreachable in production'' [err])) else Inr (NoopAndError err)
     | Inr (RunningProducer p) \<Rightarrow> Inr (RunningProducer p))) (\<lambda>r. wp (case r of Inl s \<Rightarrow> State_Monad.return (Inl s) | Inr a \<Rightarrow> f a) Q)
       (w', snd (w, l) @ [Dialed d])" for d w'
      using Cons assms(2-4) by (cases d) (simp_all add: NewProducer_def wp_return)
  qed
  with Cons show ?thesis
    by (simp add: or_stop_def main_producer_def wp_bind wp_return rec_boot_def)
qed

lemma or_stop_migrations:
  assumes "\<And>err. bo_Migrations B = Some err \<Longrightarrow> Q (Inl (how (Errorf ''load migrations'' [err]))) (w, l)"
    and "\<And>err w'. Q (Inl (how (Errorf ''create migrator: connection failed (credentials redacted)'' []))) (w', l @ [MigratorMade (Some err)])"
    and "\<And>err w'. \<not> bo_NoChange B err \<Longrightarrow> Q (Inl (how (Errorf ''run migrations'' [err]))) (w', l @ [MigratorMade None, MigrationsRan (Some err)])"
    and "\<And>e w'. passed p (bo_NoChange B) (MigrationsRan e) \<Longrightarrow> wp (f ()) Q (w', l @ [MigratorMade None, MigrationsRan e])"
  shows "wp (or_stop (called how (RunMigrations (rec_boot B) dsn)) f) Q (w, l)"
proof (cases "bo_Migrations B")
  case None
  have ran: "wp (State_Monad.return (case e of None \<Rightarrow> None | Some err \<Rightarrow> if bo_NoChange B err then None else Some (Errorf ''run migrations'' [err])))
      (\<lambda>err. wp (State_Monad.return (case err of None \<Rightarrow> Inr () | Some e \<Rightarrow> Inl (how e)))
        (\<lambda>a. wp (case a of Inl s \<Rightarrow> State_Monad.return (Inl s) | Inr a \<Rightarrow> f a) Q)) (w', l @ [MigratorMade None, MigrationsRan e])" for e w'
    using assms(3,4) by (cases e) (simp_all add: wp_return)
  have made: "wp (case made of
          Some err \<Rightarrow> State_Monad.return (Some (Errorf ''create migrator: connection failed (credentials redacted)'' []))
        | None \<Rightarrow> do {
            ran \<leftarrow> recorded MigrationsRan (bo_Up B);
            State_Monad.return (case ran of None \<Rightarrow> None | Some err \<Rightarrow> if bo_NoChange B err then None else Some (Errorf ''run migrations'' [err]))
          })
      (\<lambda>err. wp (State_Monad.return (case err of None \<Rightarrow> Inr () | Some e \<Rightarrow> Inl (how e)))
        (\<lambda>a. wp (case a of Inl s \<Rightarrow> State_Monad.return (Inl s) | Inr a \<Rightarrow> f a) Q)) (w', l @ [MigratorMade made])" for made w'
    using assms(2) ran by (cases made) (simp_all add: wp_return wp_bind recorded_wp)
  show ?thesis
    unfolding or_stop_def called_def RunMigrations_def rec_boot_def boot.simps None option.case
    by (rule wp_bindI, rule wp_bindI, rule wp_bindI, rule recorded_wp, simp only: snd_conv, rule made)
next
  case (Some err)
  with assms(1) show ?thesis
    by (simp add: or_stop_def called_def RunMigrations_def rec_boot_def wp_bind wp_return)
qed

lemmas start_rules = or_stop_loaded or_stop_called or_stop_checked or_stop_producer or_stop_migrations

text \<open>
  C15. The process starts in order and fails fast. Whatever the environment and the outside
  answer, \<open>main\<close> dials Kafka, pings Redis, opens the pool, prepares and runs the migrations and
  takes the gRPC port in this order, each only after the success of those before it (Kafka may
  be missing outside production, and migrations without change count as done). A process that
  gets to serve has done all six; one that stops has done a first part of them.
\<close>

theorem main_start_in_order:
  "wp (main_start os L N (rec_boot B))
     (\<lambda>r wl. orderly (kf_IsProduction (LoadKafkaConfig os)) (bo_NoChange B) (case r of Inr _ \<Rightarrow> True | Inl _ \<Rightarrow> False) (snd wl)) (w, [])"
  unfolding main_parts rec_boot_def [THEN arg_cong, of bo_Ping] rec_boot_def [THEN arg_cong, of bo_OpenPool]
    rec_boot_def [THEN arg_cong, of bo_Listen] boot.simps
  by (intro start_rules wp_returnI; simp add: orderly_def upt_rec)

section \<open>What a serving process runs with\<close>

lemma or_stop_any:
  assumes "\<And>err w'. Q (Inl (how err)) w'" "\<And>w'. wp (f ()) Q w'"
  shows "wp (or_stop (called how m) f) Q w"
  unfolding or_stop_def called_def
  by (rule wp_bindI, rule wp_bindI, rule wp_any) (auto simp: wp_return assms split: option.split)

lemma or_stop_some_producer:
  assumes "\<And>s w'. Q (Inl s) w'" "\<And>p w'. wp (f p) Q w'"
  shows "wp (or_stop (main_producer B kc) f) Q w"
  unfolding or_stop_def
  by (rule wp_bindI, rule wp_any) (auto simp: wp_return assms split: sum.split)

text \<open>The configuration of the process is what the loaders answered, and it is complete.\<close>

definition configured :: "os_env \<Rightarrow> started \<Rightarrow> bool" where
  "configured os s \<longleftrightarrow>
     (let C = su_configs s in
      LoadServerConfig os = Inr (cf_server C) \<and> LoadOryConfig os = Inr (cf_ory C) \<and> LoadBFFConfig os = Inr (cf_bff C) \<and>
      LoadProxyConfig os = Inr (cf_proxy C) \<and> cf_resilience C = LoadResilienceConfig os \<and>
      LoadCORSOrigins os (sc_AppEnv (cf_server C)) = Inr (cf_origins C) \<and> su_consumer s = ShouldStartConsumer (su_producer s) \<and>
      ph_serviceKey (su_proxy s) = os_Getenv os ''KOTLIN_SERVICE_KEY'' \<and>
      su_registry s = package_collectors @ pgx_gauges ''central_auth'')"

lemma main_start_configured:
  "wp (main_start os L N B) (\<lambda>r _. case r of Inl _ \<Rightarrow> True | Inr s \<Rightarrow> configured os s) w"
  unfolding main_parts metrics_register
  by (intro or_stop_some_producer or_stop_loaded or_stop_any wp_returnI)
    (auto simp: configured_def LoadProxyConfig_def NewProxyHandler_def split: if_splits option.splits)

text \<open>What production asks of a process that serves.\<close>

definition hardened :: "os_env \<Rightarrow> started \<Rightarrow> bool" where
  "hardened os s \<longleftrightarrow>
     (let C = su_configs s in
      32 \<le> length (sc_ServiceAPIKey (cf_server C)) \<and> 12 \<le> length (os_Getenv os ''POSTGRES_PASSWORD'') \<and>
      sc_MetricsBasicAuthUser (cf_server C) \<noteq> [] \<and> sc_MetricsBasicAuthPassword (cf_server C) \<noteq> [] \<and>
      (\<exists>allowed. cf_origins C = Some allowed \<and> ''*'' \<notin> set allowed))"

lemma production_origins: "LoadCORSOrigins os ''production'' = Inr origins \<Longrightarrow> \<exists>allowed. origins = Some allowed \<and> ''*'' \<notin> set allowed"
  by (force simp: LoadCORSOrigins_def fatal_def Let_def list_ex_iff split: if_splits)

lemma configured_hardened:
  assumes "configured os s" and p: "sc_AppEnv (cf_server (su_configs s)) = ''production''"
  shows "hardened os s"
proof -
  have server: "LoadServerConfig os = Inr (cf_server (su_configs s))" and origins: "LoadCORSOrigins os ''production'' = Inr (cf_origins (su_configs s))"
    using assms by (simp_all add: configured_def Let_def)
  show ?thesis
    using production_secrets_present [of os] production_origins [OF origins]
    unfolding server sum.case p hardened_def Let_def by simp
qed

lemma production_start_hardened:
  "wp (main_start os L N B) (\<lambda>r _. case r of Inl _ \<Rightarrow> True
     | Inr s \<Rightarrow> sc_AppEnv (cf_server (su_configs s)) = ''production'' \<longrightarrow> hardened os s) w"
  by (rule wp_mono [OF main_start_configured]) (auto intro: configured_hardened split: sum.splits)

section \<open>The connection string of the migrations\<close>

lemma replace_first_prefix: "replace_first old new (old @ s) = new @ s"
  by (subst replace_first.simps) (simp add: has_prefix_def)

text \<open>The migration library gets the string of the pool with the scheme of its own driver.\<close>

lemma migrations_dsn:
  "\<exists>rest. PostgresDSN os = ''postgres://'' @ rest \<and> replace_first ''postgres://'' ''pgx5://'' (PostgresDSN os) = ''pgx5://'' @ rest"
  unfolding PostgresDSN_def using replace_first_prefix by blast

text \<open>No error of the migrator reaches the message, so no password does.\<close>

lemma migrator_error_redacted:
  assumes "bo_Migrations B = None"
  shows "wp (RunMigrations B dsn) (\<lambda>err _. err = None \<or> err = Some (Errorf ''create migrator: connection failed (credentials redacted)'' []) \<or>
     (\<exists>e. err = Some (Errorf ''run migrations'' [e]) \<and> \<not> bo_NoChange B e)) w"
    (is "wp _ ?Q w")
proof -
  have ran: "wp (State_Monad.return (case ran of None \<Rightarrow> None
      | Some err \<Rightarrow> if bo_NoChange B err then None else Some (Errorf ''run migrations'' [err]))) ?Q w" for ran w
    by (cases ran) (simp_all add: wp_return)
  show ?thesis
    unfolding RunMigrations_def assms option.case
  proof (rule wp_bindI, rule wp_any)
    fix made w1
    show "wp (case made of
          Some err \<Rightarrow> State_Monad.return (Some (Errorf ''create migrator: connection failed (credentials redacted)'' []))
        | None \<Rightarrow> do {
            ran \<leftarrow> bo_Up B;
            State_Monad.return (case ran of None \<Rightarrow> None | Some err \<Rightarrow> if bo_NoChange B err then None else Some (Errorf ''run migrations'' [err]))
          }) ?Q w1"
    proof (cases made)
      case None
      then show ?thesis
        by (simp only: option.case) (rule wp_bindI, rule wp_any, rule ran)
    next
      case (Some e)
      then show ?thesis
        by (simp add: wp_return)
    qed
  qed
qed

section \<open>Two meanings of production\<close>

text \<open>An environment with the secrets of production, and an outside without a Kafka broker.\<close>

definition sample_vars :: "(string \<times> string) list" where
  "sample_vars =
     [(''APP_ENV'', ''production''), (''CENTRAL_AUTH_SERVICE_KEY'', replicate 32 CHR ''k''), (''POSTGRES_PASSWORD'', replicate 12 CHR ''p''),
      (''METRICS_BASIC_AUTH_USER'', ''m''), (''METRICS_BASIC_AUTH_PASSWORD'', ''m''), (''METRICS_ALLOWED_CIDR'', ''n''),
      (''KRATOS_PUBLIC_URL'', ''u''), (''KRATOS_ADMIN_URL'', ''u''), (''HYDRA_PUBLIC_URL'', ''u''), (''HYDRA_ADMIN_URL'', ''u''),
      (''HYDRA_CLIENT_ID'', ''c''), (''HYDRA_CLIENT_SECRET'', ''s''), (''BFF_CSRF_SECRET'', ''s''), (''BFF_COOKIE_DOMAIN'', ''d''),
      (''KOTLIN_URL'', ''u''), (''KOTLIN_SERVICE_KEY'', ''k''), (''CORS_ALLOWED_ORIGINS'', ''o'')]"

definition sample_os :: os_env where
  "sample_os = \<lparr>os_Getenv = (\<lambda>k. case map_of sample_vars k of Some v \<Rightarrow> v | None \<Rightarrow> []), os_ParseDuration = (\<lambda>_. None)\<rparr>"

definition sample_nets :: "unit net_lib" where
  "sample_nets = \<lparr>nl_ParseCIDR = (\<lambda>_. Some ()), nl_SplitHostPort = (\<lambda>_. None), nl_ParseIP = (\<lambda>_. None), nl_Contains = (\<lambda>_ _. False),
     nl_StdDecode = (\<lambda>_. None)\<rparr>"

definition brokerless :: "'w boot" where
  "brokerless = \<lparr>bo_Dial = (\<lambda>_. State_Monad.return (Some refused)), bo_Ping = State_Monad.return None, bo_ParseConfig = (\<lambda>_. None),
     bo_OpenPool = (\<lambda>_. State_Monad.return None), bo_Migrations = None, bo_NewMigrator = (\<lambda>_. State_Monad.return None),
     bo_Up = State_Monad.return None, bo_NoChange = (\<lambda>_. False), bo_TrustProxies = (\<lambda>_. None),
     bo_Listen = (\<lambda>_. State_Monad.return None)\<rparr>"

lemma sample_getenv: "os_Getenv sample_os k = (case map_of sample_vars k of Some v \<Rightarrow> v | None \<Rightarrow> [])"
  by (simp add: sample_os_def)

lemma sample_loads:
  "\<exists>c. LoadServerConfig sample_os = Inr c \<and> sc_AppEnv c = ''production''" "\<exists>c. LoadOryConfig sample_os = Inr c"
  "\<exists>c. LoadBFFConfig sample_os = Inr c" "LoadProxyConfig sample_os = Inr \<lparr>px_KotlinURL = ''u'', px_DialTimeout = 3 * second, px_KotlinServiceKey = ''k''\<rparr>"
  "\<exists>c. LoadCORSOrigins sample_os ''production'' = Inr c" "\<exists>c. NewPostgresConn_options sample_os (\<lambda>_. None) = Inr c"
  "\<exists>c. MetricsAllowlistHandler sample_nets sample_os u p = Inr c" "kf_Brokers (LoadKafkaConfig sample_os) = [''kafka:9092'']"
  "\<not> kf_IsProduction (LoadKafkaConfig sample_os)"
  by (simp_all add: LoadServerConfig_def LoadOryConfig_def ory_required_def LoadBFFConfig_def LoadProxyConfig_def LoadCORSOrigins_def
      NewPostgresConn_options_def MetricsAllowlistHandler_def metrics_nets_def LoadKafkaConfig_def env_default_def env_duration_def
      sample_getenv sample_vars_def sample_nets_def trim_space_def is_space_def equal_fold_def maxGracePeriod_def duration_defs Let_def
      eval_nat_numeral)

text \<open>
  \<open>APP_ENV\<close> decides what production means for the secrets and for CORS, \<open>IS_PRODUCTION\<close> what
  it means for Kafka: with the first alone the process serves without a broker, its publisher
  drops every event and no consumer runs.
\<close>

theorem production_without_broker:
  assumes "nt_ParseURL N ''u'' = None"
  shows "\<exists>s. fst (run_state (main_start sample_os sample_nets N brokerless) w) = Inr s \<and>
    sc_AppEnv (cf_server (su_configs s)) = ''production'' \<and> su_producer s = NoopAndError refused \<and> \<not> su_consumer s"
proof -
  obtain server ory bff origins pool metrics where loads: "LoadServerConfig sample_os = Inr server" "sc_AppEnv server = ''production''"
      "LoadOryConfig sample_os = Inr ory" "LoadBFFConfig sample_os = Inr bff" "LoadCORSOrigins sample_os ''production'' = Inr origins"
      "NewPostgresConn_options sample_os (\<lambda>_. None) = Inr pool"
      "MetricsAllowlistHandler sample_nets sample_os (sc_MetricsBasicAuthUser server) (sc_MetricsBasicAuthPassword server) = Inr metrics"
    using sample_loads(1,2,3,5,6) sample_loads(7) by metis
  show ?thesis
    unfolding main_parts metrics_register brokerless_def main_producer_def RunMigrations_def or_stop_def loaded_def called_def boot.simps
    by (simp add: loads sample_loads(4,8,9) NewProducer_def NewProxyHandler_def ShouldStartConsumer_def assms)
qed

section \<open>SIGHUP\<close>

text \<open>
  The goroutine that refreshes the keys: what its \<open>select\<close> sees, in order. A failed refresh is
  only logged, and nothing is read any more once \<open>sighupStop\<close> is closed.
\<close>

datatype hup_event = HupSignal | HupStop

fun sighup_loop :: "'w hydra_client \<Rightarrow> hup_event list \<Rightarrow> ('w, unit) io" where
  "sighup_loop hydra [] = State_Monad.return ()"
| "sighup_loop hydra (HupSignal # evs) = do { hy_ForceRefreshJWKS hydra; sighup_loop hydra evs }"
| "sighup_loop hydra (HupStop # evs) = State_Monad.return ()"

lemma sighup_refreshes:
  "wp (sighup_loop (rec_hydra h) evs) (\<lambda>_ wl. \<exists>rs. snd wl = snd wl0 @ map ForceRefreshJWKS rs \<and>
     length rs = length (takeWhile (\<lambda>e. e = HupSignal) evs)) wl0"
proof (induction evs arbitrary: wl0)
  case (Cons e evs)
  show ?case
  proof (cases e)
    case HupSignal
    have "wp (sighup_loop (rec_hydra h) evs) (\<lambda>_ wl. \<exists>rs. snd wl = snd wl0 @ map ForceRefreshJWKS rs \<and>
        length rs = Suc (length (takeWhile (\<lambda>e. e = HupSignal) evs))) (w', snd wl0 @ [ForceRefreshJWKS r])" for r w'
      by (rule wp_mono [OF Cons.IH]) (auto intro: exI [of _ "r # rs" for rs])
    then show ?thesis
      by (auto simp: HupSignal rec_hydra_def [THEN arg_cong, of hy_ForceRefreshJWKS] intro!: wp_bindI recorded_wp)
  next
    case HupStop
    then show ?thesis
      by (simp add: wp_return)
  qed
qed (simp add: wp_return)

end
