(* ===== verification/Spec2Isabelle.thy ===== *)
theory Spec2Isabelle imports Test_World L1_Cache Server_Main Breaker_Concurrency Breaker_Protocol Kafka_Consumer Logout_Effect Observers Startup begin

text \<open>
  Central-Auth, the authentication server of the repository (Go, \<open>cmd/server\<close> and \<open>internal/\<close>): a
  model of its code and what makes it correct.

  \<^bold>\<open>The program.\<close> Browsers hold an opaque \<open>__session\<close> cookie; the Hydra tokens behind it stay in a
  Redis session store (\<open>service/bff_service.go\<close>, the BFF). Other services talk to \<open>/auth\<close> or
  gRPC and hold their tokens themselves (\<open>service/auth_service.go\<close>). Everything that uses Redis goes
  through a decorator with one circuit breaker and one in-process cache
  (\<open>resilience/\<close>); the blacklist falls back to Postgres. Logins and requests are published to
  Kafka, from where a consumer fills the table of device sessions. \<open>cmd/server/main.go\<close> builds
  all of it, registers the routes, and shuts it down.

  \<^bold>\<open>How code becomes definitions.\<close> A method that touches state is a value of the state monad
  (\<open>('w, 'a) io\<close>); an interface is a record of its methods and a decorator a function from
  records to records, so that \<open>main_bff_service\<close> in \<open>Server_Main\<close> reads like \<open>main\<close>. Go errors are
  trees (\<open>Go_Errors\<close>), a call that may fail returns \<open>error + 'a\<close> or \<open>error option\<close>, a panic that
  the code can run into (a type assertion, a send on a closed channel, an index out of range)
  is an error value too, and for gRPC handlers the outcome \<open>Panicked\<close>. \<open>int\<close> and \<open>int64\<close> wrap where the code
  computes with them (\<open>i64\<close>, \<open>i32\<close>, \<open>go_div\<close>, \<open>time_sub\<close>). Goroutines are interleaved steps: the
  breaker at its atomic operations, the producer at its channel operations, the shutdown at
  its waits.

  \<^bold>\<open>Theories\<close>, in the order of their imports:

  \<^item> \<open>Auth_Prelude\<close>, \<open>Go_Errors\<close>, \<open>Process_State\<close>, \<open>Interfaces\<close>: the monad with its weakest
    preconditions (\<open>wp\<close>, \<open>keeps\<close>, \<open>same\<close>), Go's arithmetic and errors, the state of a process, the data and
    interfaces that cross component boundaries.
  \<^item> \<open>Redis_Model\<close>, \<open>Postgres_Repositories\<close>, \<open>L1_Cache\<close>: the contracts (locales \<open>redis\<close>, \<open>postgres\<close>,
    \<open>l1_cache\<close>) of the stores, and \<open>internal/repository\<close> for Postgres.
  \<^item> \<open>Test_World\<close>: an in-memory outside. It shows that the contracts can hold and carries the
    concrete runs; no definition of the model uses it.
  \<^item> \<open>Go_Encoding\<close>, \<open>Http_Client\<close>, \<open>Http_Context\<close>, \<open>Call_Trace\<close>: hex, base64url and query escaping with their
    round trips, HTTP requests as clients send them and as gin handlers see them, and \<open>recorded\<close>,
    which makes the calls of a component observable.
  \<^item> \<open>Telemetry\<close>: \<open>metrics/\<close> and \<open>resilience/metrics.go\<close>, the collectors and their registration, and what code
    that counts, times or logs calls.
  \<^item> \<open>Circuit_Breaker\<close>, \<open>Breaker_Concurrency\<close>, \<open>Breaker_Protocol\<close>: \<open>resilience/circuit_breaker.go\<close> refines
    a three-state specification; interleaved at its atomics it contains the sequential one but can
    end in a state that refuses for ever; its callers keep to the ask-try-report protocol.
  \<^item> \<open>Session_Store\<close>, \<open>Resilient_Sessions\<close>, \<open>Blacklist\<close>, \<open>Device_Repository\<close>, \<open>Shared_Cache\<close>: \<open>session/\<close>,
    \<open>blacklist/\<close>, \<open>repository/redis_repository.go\<close> and their decorators. The session store refines
    a map, the blacklist is fail-closed, a user has at most five devices, the shared cache is well typed.
  \<^item> \<open>Logout_Effect\<close>: \<open>Logout\<close> and the check of \<open>WhoAmI\<close> composed over the contract of the blacklist between
    them. A logout that found its session ends it; one during an outage of Redis does nothing and says it did.
  \<^item> \<open>Hydra_Client\<close>, \<open>Kratos_Client\<close>: \<open>hydra/client.go\<close> and \<open>kratos/client.go\<close>. The order and the
    checks of the authorization-code flow, soundness of token validation, the key rotation.
  \<^item> \<open>Auth_Service\<close>, \<open>BFF_Service\<close>, \<open>Account_Service\<close>: the services, by the sequences of calls they make
    for every behaviour of their dependencies; one refresh at a time; termination of the waiting loop.
  \<^item> \<open>Config\<close>, \<open>Kafka_Producer\<close>, \<open>Kafka_Consumer\<close>: bounds and refusals of the configuration, the
    producer's channels (nothing invented, reordered or lost without being counted), its draining, the consumer
    and the round trip of an event through the topic.
  \<^item> \<open>Rate_Limiter\<close>, \<open>Http_Middleware\<close>, \<open>Http_Handlers\<close>, \<open>Grpc_Server\<close>: \<open>http/\<close> and \<open>grpc/\<close>: limits per
    window, the guards of the routes, CSRF, CORS, the proxy, every handler with its answers, the interceptor chain.
  \<^item> \<open>Server_Main\<close>: the wiring, the route table as a whole (who reaches which handler), what \<open>main\<close> leaves
    out, and the shutdown as a step relation over ordered phases.
  \<^item> \<open>Startup\<close>: the checks of \<open>main\<close> in their order, \<open>database/migrate.go\<close> and the goroutine of \<open>SIGHUP\<close>. A
    process that serves has passed every check, one that does not has stopped at the first that failed.
  \<^item> \<open>Observers\<close>: the metrics and the log of both servers change neither answers nor state; what they record of
    a call or a request.

  \<^bold>\<open>Interfaces as locales.\<close> \<open>identified_store\<close> (a session comes back under its own identifier) is
  proved of \<open>RedisStore\<close> and carried by a \<open>sublocale\<close> over to its decorator; \<open>fail_closed\<close> likewise for the
  blacklists; \<open>resilient_devices\<close> and \<open>shared_cache\<close> extend \<open>l1_cache\<close>; \<open>revocation\<close> is what a logout
  asks of a blacklist, and both the one in Redis and the fallback in Postgres (\<open>outage_blacklist\<close>) fulfil it. Every locale is interpreted on
  the code's own definitions over the in-memory outside.

  \<^bold>\<open>Parameters.\<close> Redis, Postgres, Hydra, Kratos, Kafka, go-cache, gin's body reader and validator,
  the JWT and hash functions, the JSON text codec, URL and CIDR parsing, the Prometheus and migration libraries,
  and the runtime (clock, random source) are not under \<open>src/\<close>. They are arguments; a property that relies on one says so (\<open>rand_ok\<close>,
  \<open>hmac_ok\<close>, \<open>time_codec_ok\<close>, a locale). Services are mostly verified over recorded dependencies, which may
  answer anything.

  \<^bold>\<open>Bounds and fuel.\<close> The poll of a concurrent refresh runs on \<open>pollFuel\<close> = 11: it waits a quarter of a second
  at a time, for at most two and a half seconds, and \<open>resolve_session_terminates\<close> proves that it returns. The consumer loop ends only by
  cancellation; its fuel bounds the number of iterations looked at, and its statements hold for every
  fuel. The breaker's configuration is bounded as \<open>LoadResilienceConfig\<close> bounds it. Clock readings lie below
  \<open>2 ^ 62\<close> nanoseconds after 1970.

  \<^bold>\<open>Simplifications.\<close> JSON keys are matched exactly (Go also matches case-insensitively) and numbers are
  integers; white space is the ASCII one; the token bucket computes with rationals instead of \<open>float64\<close>; a mutex-protected
  method is one step; gin's redirects for trailing slashes are left out, as are contexts (a cancelled call is one that fails).

  \<^bold>\<open>Not modelled.\<close> Sentry and the log lines outside the gRPC log, whose values nothing reads; the counters that the
  BFF service, the Kafka workers, the breaker and the CSRF check increment in passing (their collectors are in
  \<open>Telemetry\<close>, their calls are not, since they would put a telemetry argument on every component for a value that never
  comes back); the SQL files of the migrations, which are data; the generated gRPC code, of which \<open>AuthServer\<close> states the
  dispatch; \<open>domain/device_info.go\<close>, which nothing uses.
\<close>

end
